(* ===== verification/Go_Prelude.thy ===== *)
theory Go_Prelude
  imports Main "HOL-Library.Word" "HOL-Library.Multiset" "HOL-Library.Signed_Division"
begin

text \<open>
  Shared vocabulary of the development: Go's fixed-width integers, byte slices and
  instants, the arithmetic of the standard library the programs use on them, and the
  generic lemmas on lists, maps and finite sets the components share.

  \<^item> \<open>uint64\<close> and \<open>int64\<close> (and Go's \<open>int\<close>, 64 bits wide on the platforms the
    programs are built for) are \<open>64 word\<close>; a signed reading goes through \<open>sint\<close>.
  \<^item> \<open>time.Time\<close> is an integer number of nanoseconds on the monotonic clock, and
    \<open>time.Duration\<close> is the integer it holds.
\<close>

type_synonym u64 = "64 word"
type_synonym i64 = "64 word"
type_synonym byte = "8 word"
type_synonym bytes = "byte list"
type_synonym instant = int
type_synonym duration = int

named_theorems wire_defs
  \<open>definitions of the message accessors, unfolded by the structural lemmas\<close>

named_theorems bench_defs
  \<open>definitions of a benchmark's handlers, unfolded by its refinement lemmas\<close>

section \<open>Signed 64-bit arithmetic\<close>

text \<open>\<open>a < b\<close> on \<open>int64\<close>.\<close>

abbreviation i64_less :: "i64 \<Rightarrow> i64 \<Rightarrow> bool" where
  "i64_less a b \<equiv> sint a < sint b"

text \<open>
  \<open>a / b\<close> on \<open>int64\<close>, for \<open>b \<noteq> 0\<close> (the only divisor in the programs is a length that
  was tested): truncation towards zero, wrapped to 64 bits.
\<close>

definition i64_div :: "i64 \<Rightarrow> i64 \<Rightarrow> i64" where
  "i64_div a b = word_of_int (sint a sdiv sint b)"

text \<open>The range of \<open>int64\<close> and the reading of a value inside it.\<close>

definition fits_i64 :: "int \<Rightarrow> bool" where
  "fits_i64 x \<longleftrightarrow> - (2 ^ 63) \<le> x \<and> x < 2 ^ 63"

lemma sint_i64_of_int [simp]: "fits_i64 x \<Longrightarrow> sint (word_of_int x :: i64) = x"
  by (simp add: fits_i64_def signed_of_int signed_take_bit_int_eq_self)

lemma fits_i64_sint [simp]: "fits_i64 (sint (a :: i64))"
  using sint_ge [of a] sint_lt [of a] by (simp add: fits_i64_def)

lemma sint_i64_add: "fits_i64 (sint a + sint b) \<Longrightarrow> sint (a + b :: i64) = sint a + sint b"
  using sint_i64_of_int [of "sint a + sint b"] by (simp add: of_int_add)

lemma sint_i64_sub: "fits_i64 (sint a - sint b) \<Longrightarrow> sint (a - b :: i64) = sint a - sint b"
  using sint_i64_of_int [of "sint a - sint b"] by (simp add: of_int_diff)

lemma sint_i64_of_nat [simp]: "n < 2 ^ 63 \<Longrightarrow> sint (of_nat n :: i64) = int n"
  using sint_i64_of_int [of "int n"] by (simp add: fits_i64_def)

lemma i64_eq_iff_sint: "a = b \<longleftrightarrow> sint (a :: i64) = sint b"
  by (metis signed_word_eqI)

section \<open>Instants\<close>

text \<open>
  \<open>t.Sub(u)\<close>: the difference of two instants, saturated at the ends of \<open>Duration\<close>.
\<close>

definition time_Sub :: "instant \<Rightarrow> instant \<Rightarrow> duration" where
  "time_Sub t u = max (- (2 ^ 63)) (min (2 ^ 63 - 1) (t - u))"

lemma time_Sub_less_iff:
  "- (2 ^ 63) \<le> d \<Longrightarrow> d < 2 ^ 63 - 1 \<Longrightarrow> d < time_Sub t u \<longleftrightarrow> u + d < t"
  by (auto simp: time_Sub_def max_def min_def)

definition time_Second :: duration where
  "time_Second = 1000000000"

section \<open>Lists and maps\<close>

lemma list_all2_refl_on: "(\<And>x. x \<in> set xs \<Longrightarrow> P x x) \<Longrightarrow> list_all2 P xs xs"
  by (induction xs) auto

lemma sum_list_const_one: "(\<Sum>x\<leftarrow>xs. 1) = length xs"
  by (induction xs) auto

lemma dom_if_None: "dom (\<lambda>k. if P k then None else m k) = dom m - {k. P k}"
  by (auto split: if_splits)

lemma finite_dom_upd [simp]: "finite (dom m) \<Longrightarrow> finite (dom (m(k := v)))"
  by (rule finite_subset [of _ "insert k (dom m)"]) (auto split: if_splits)

lemma card_dom_insert:
  "finite (dom m) \<Longrightarrow> card (dom (m(k \<mapsto> v))) = (if k \<in> dom m then card (dom m) else Suc (card (dom m)))"
  by (simp add: insert_absorb)

lemma card_dom_remove:
  "finite (dom m) \<Longrightarrow> k \<in> dom m \<Longrightarrow> Suc (card (dom (m(k := None)))) = card (dom m)"
  by (metis card_Suc_Diff1 dom_fun_upd)

end
