(* ===== verification/Go_Strings.thy ===== *)
theory Go_Strings
  imports Go_Prelude "HOL-Library.Char_ord"
begin

text \<open>
  The string operations of Go's standard library the programs call: the number verbs of
  \<open>fmt\<close> (\<open>%d\<close>, \<open>%x\<close>, \<open>%v\<close> on a boolean), \<open>strconv.FormatUint\<close> and
  \<open>strconv.ParseUint\<close> with base 0, \<open>encoding/hex.EncodeToString\<close>, and
  \<open>strings.TrimLeft\<close>, \<open>CutPrefix\<close> and \<open>ToLower\<close>.

  A Go string is its sequence of bytes, a \<open>string\<close> here. \<open>ToLower\<close> is given on bytes
  below 128, where it is the ASCII mapping; the programs only apply it to hex strings.
\<close>

section \<open>Digits\<close>

definition hex_digit :: "nat \<Rightarrow> char" where
  "hex_digit n = (if n < 10 then char_of (48 + n) else char_of (87 + n))"

text \<open>The value of a digit character: decimal, lower case, upper case.\<close>

definition digit_val :: "char \<Rightarrow> nat option" where
  "digit_val c =
    (let n = of_char c :: nat in
     if 48 \<le> n \<and> n \<le> 57 then Some (n - 48)
     else if 97 \<le> n \<and> n \<le> 122 then Some (n - 87)
     else if 65 \<le> n \<and> n \<le> 90 then Some (n - 55)
     else None)"

lemma of_char_hex_digit: "n < 36 \<Longrightarrow> of_char (hex_digit n) = (if n < 10 then 48 + n else 87 + n :: nat)"
  by (simp add: hex_digit_def)

lemma digit_val_hex_digit [simp]: "n < 36 \<Longrightarrow> digit_val (hex_digit n) = Some n"
  by (simp add: digit_val_def of_char_hex_digit Let_def)

lemma hex_digit_inj: "m < 36 \<Longrightarrow> n < 36 \<Longrightarrow> hex_digit m = hex_digit n \<longleftrightarrow> m = n"
  by (metis digit_val_hex_digit option.inject)

lemma hex_digit_0 [simp]: "hex_digit 0 = CHR ''0''"
proof -
  have "(of_char (hex_digit 0) :: nat) = of_char (CHR ''0'')"
    by (simp add: of_char_hex_digit)
  then show ?thesis by (rule of_char_eqI)
qed

lemma hex_digit_eq_0 [simp]: "n < 36 \<Longrightarrow> hex_digit n = CHR ''0'' \<longleftrightarrow> n = 0"
  using hex_digit_inj [of n 0] by simp

section \<open>Positional notation\<close>

text \<open>The value of a digit list in a base, most significant digit first.\<close>

definition digits_value :: "nat \<Rightarrow> nat list \<Rightarrow> nat" where
  "digits_value b ds = foldl (\<lambda>n d. n * b + d) 0 ds"

lemma foldl_digits_shift: "foldl (\<lambda>n d. n * b + d) a ds = a * b ^ length ds + digits_value b ds"
proof (induction ds arbitrary: a)
  case (Cons d ds)
  have "foldl (\<lambda>n d. n * b + d) a (d # ds) = (a * b + d) * b ^ length ds + digits_value b ds"
    using Cons [of "a * b + d"] by simp
  moreover have "digits_value b (d # ds) = d * b ^ length ds + digits_value b ds"
    using Cons [of d] by (simp add: digits_value_def)
  ultimately show ?case by (simp add: algebra_simps)
qed (simp add: digits_value_def)

lemma digits_value_Nil [simp]: "digits_value b [] = 0"
  by (simp add: digits_value_def)

lemma digits_value_Cons: "digits_value b (d # ds) = d * b ^ length ds + digits_value b ds"
  using foldl_digits_shift [of b d ds] by (simp add: digits_value_def)

lemma digits_value_append:
  "digits_value b (ds @ es) = digits_value b ds * b ^ length es + digits_value b es"
  using foldl_digits_shift [of b "digits_value b ds" es] by (simp add: digits_value_def)

lemma digits_value_snoc [simp]: "digits_value b (ds @ [d]) = digits_value b ds * b + d"
  by (simp add: digits_value_append digits_value_Cons)

text \<open>The digits \<open>strconv\<close> writes: no leading zero, a single zero for 0.\<close>

fun base_digits :: "nat \<Rightarrow> nat \<Rightarrow> nat list" where
  "base_digits b n = (if b \<le> 1 \<or> n < b then [n] else base_digits b (n div b) @ [n mod b])"

declare base_digits.simps [simp del]

lemma digits_value_base_digits [simp]: "digits_value b (base_digits b n) = n"
proof (induction b n rule: base_digits.induct)
  case (1 b n)
  then show ?case
    by (cases "b \<le> 1 \<or> n < b") (auto simp: base_digits.simps [of b n] digits_value_Cons)
qed

lemma base_digits_bound: "1 < b \<Longrightarrow> \<forall>d \<in> set (base_digits b n). d < b"
proof (induction b n rule: base_digits.induct)
  case (1 b n)
  then show ?case
    by (cases "n < b") (auto simp: base_digits.simps [of b n])
qed

lemma base_digits_not_Nil [simp]: "base_digits b n \<noteq> []"
  by (simp add: base_digits.simps [of b n])

lemma hd_base_digits: "1 < b \<Longrightarrow> 0 < n \<Longrightarrow> hd (base_digits b n) \<noteq> 0"
proof (induction b n rule: base_digits.induct)
  case (1 b n)
  show ?case
  proof (cases "n < b")
    case True
    with 1 show ?thesis by (simp add: base_digits.simps [of b n])
  next
    case False
    with 1 have "hd (base_digits b (n div b)) \<noteq> 0" by (simp add: div_greater_zero_iff)
    with False 1 show ?thesis by (simp add: base_digits.simps [of b n])
  qed
qed

lemma base_digits_unique:
  assumes "1 < b" "ds \<noteq> []" "hd ds \<noteq> 0" "\<forall>d \<in> set ds. d < b"
  shows "base_digits b (digits_value b ds) = ds"
  using assms(2,3,4)
proof (induction ds rule: rev_induct)
  case (snoc d ds)
  show ?case
  proof (cases "ds = []")
    case True
    with snoc assms(1) show ?thesis by (simp add: digits_value_Cons base_digits.simps)
  next
    case False
    with snoc have IH: "base_digits b (digits_value b ds) = ds" by simp
    have "digits_value b ds \<noteq> 0"
    proof
      assume "digits_value b ds = 0"
      with IH assms(1) have "ds = [0]" by (simp add: base_digits.simps)
      with snoc.prems False show False by simp
    qed
    then have "b \<le> digits_value b ds * b + d" by (cases "digits_value b ds") auto
    with IH snoc.prems assms(1) show ?thesis
      by (simp add: base_digits.simps [of b "digits_value b ds * b + d"])
  qed
qed simp

section \<open>Number formatting\<close>

definition fmt_nat :: "nat \<Rightarrow> string" where
  "fmt_nat n = map hex_digit (base_digits 10 n)"

lemma fmt_nat_inj: "fmt_nat m = fmt_nat n \<longleftrightarrow> m = n"
proof
  assume e: "fmt_nat m = fmt_nat n"
  have b: "\<forall>d \<in> set (base_digits 10 k). d < 36" for k
    using base_digits_bound [of 10 k] by auto
  have "map (\<lambda>c. the (digit_val c)) (fmt_nat k) = base_digits 10 k" for k
    unfolding fmt_nat_def using b [of k] by (simp add: map_idI)
  with e have "base_digits 10 m = base_digits 10 n" by metis
  then show "m = n" by (metis digits_value_base_digits)
qed simp

lemma fmt_nat_chars: "digit_val c = None \<Longrightarrow> c \<notin> set (fmt_nat n)"
proof
  assume c: "digit_val c = None" "c \<in> set (fmt_nat n)"
  then obtain d where "d \<in> set (base_digits 10 n)" "c = hex_digit d" by (auto simp: fmt_nat_def)
  with base_digits_bound [of 10 n] have "digit_val c = Some d" by fastforce
  with c(1) show False by simp
qed

text \<open>\<open>%d\<close> of an unsigned and of a signed 64-bit integer.\<close>

definition fmt_u64 :: "u64 \<Rightarrow> string" where
  "fmt_u64 w = fmt_nat (unat w)"

definition fmt_i64 :: "i64 \<Rightarrow> string" where
  "fmt_i64 w = (if sint w < 0 then ''-'' @ fmt_nat (nat (- sint w)) else fmt_nat (nat (sint w)))"

text \<open>\<open>%d\<close> of an integer that is not tied to a width, such as an HTTP status.\<close>

definition fmt_int :: "int \<Rightarrow> string" where
  "fmt_int x = (if x < 0 then ''-'' @ fmt_nat (nat (- x)) else fmt_nat (nat x))"

text \<open>\<open>%x\<close> of an unsigned integer, which is also \<open>strconv.FormatUint(n, 16)\<close>.\<close>

definition fmt_hex :: "u64 \<Rightarrow> string" where
  "fmt_hex w = map hex_digit (base_digits 16 (unat w))"

text \<open>\<open>%v\<close> of a boolean.\<close>

definition fmt_bool :: "bool \<Rightarrow> string" where
  "fmt_bool b = (if b then ''true'' else ''false'')"

section \<open>hex.EncodeToString\<close>

definition hex_byte :: "byte \<Rightarrow> string" where
  "hex_byte b = [hex_digit (unat b div 16), hex_digit (unat b mod 16)]"

definition hex_EncodeToString :: "bytes \<Rightarrow> string" where
  "hex_EncodeToString bs = concat (map hex_byte bs)"

lemma byte_nibbles [simp]: "unat (b :: byte) div 16 < 16" "unat b mod 16 < 16"
  using unsigned_less [of b, where 'a = nat] by (simp_all add: less_mult_imp_div_less)

lemma hex_EncodeToString_Nil [simp]: "hex_EncodeToString [] = []"
  by (simp add: hex_EncodeToString_def)

lemma hex_EncodeToString_Cons [simp]:
  "hex_EncodeToString (b # bs) = hex_digit (unat b div 16) # hex_digit (unat b mod 16) # hex_EncodeToString bs"
  by (simp add: hex_EncodeToString_def hex_byte_def)

lemma length_hex_EncodeToString [simp]: "length (hex_EncodeToString bs) = 2 * length bs"
  by (induction bs) auto

lemma hex_EncodeToString_eq_Nil [simp]: "hex_EncodeToString bs = [] \<longleftrightarrow> bs = []"
  by (cases bs) auto

section \<open>strings.TrimLeft, CutPrefix, ToLower\<close>

text \<open>\<open>strings.TrimLeft(s, "0")\<close>.\<close>

definition trim_zeros :: "string \<Rightarrow> string" where
  "trim_zeros s = dropWhile (\<lambda>c. c = CHR ''0'') s"

text \<open>\<open>strings.CutPrefix(s, p)\<close>: the rest and whether the prefix was there.\<close>

fun strings_CutPrefix :: "string \<Rightarrow> string \<Rightarrow> string \<times> bool" where
  "strings_CutPrefix s p = (if take (length p) s = p then (drop (length p) s, True) else (s, False))"

declare strings_CutPrefix.simps [simp del]

definition char_lower :: "char \<Rightarrow> char" where
  "char_lower c = (let n = of_char c :: nat in if 65 \<le> n \<and> n \<le> 90 then char_of (n + 32) else c)"

definition strings_ToLower :: "string \<Rightarrow> string" where
  "strings_ToLower s = map char_lower s"

end
