(* ===== verification/Go_Hex.thy ===== *)
theory Go_Hex
  imports Go_Strings
begin

text \<open>
  What a hex string denotes: reading a string back into bytes or into a number. These are
  the reference meanings against which the trace verifier's normalisers are judged; the
  round trips with \<open>hex.EncodeToString\<close> and with the number formatters are proved here.
\<close>

section \<open>Hex digits of a byte string\<close>

definition nibbles :: "bytes \<Rightarrow> nat list" where
  "nibbles bs = concat (map (\<lambda>b. [unat b div 16, unat b mod 16]) bs)"

lemma nibbles_Nil [simp]: "nibbles [] = []"
  by (simp add: nibbles_def)

lemma nibbles_Cons [simp]: "nibbles (b # bs) = unat b div 16 # unat b mod 16 # nibbles bs"
  by (simp add: nibbles_def)

lemma nibbles_bound: "\<forall>d \<in> set (nibbles bs). d < 16"
  by (induction bs) auto

lemma nibbles_eq_Nil [simp]: "nibbles bs = [] \<longleftrightarrow> bs = []"
  by (cases bs) auto

lemma length_nibbles [simp]: "length (nibbles bs) = 2 * length bs"
  by (induction bs) auto

lemma hex_EncodeToString_nibbles: "hex_EncodeToString bs = map hex_digit (nibbles bs)"
  by (induction bs) auto

text \<open>The number a big-endian byte string stands for.\<close>

definition be_value :: "bytes \<Rightarrow> nat" where
  "be_value bs = digits_value 256 (map unat bs)"

lemma digits_value_nibbles: "digits_value 16 (nibbles bs) = be_value bs"
proof (induction bs)
  case (Cons b bs)
  have p: "(16 :: nat) ^ (length bs * 2) = 256 ^ length bs"
    by (simp add: power_mult mult.commute [of _ 2])
  have "unat b mod 16 * 256 ^ length bs + 16 * (unat b div 16 * 256 ^ length bs) = unat b * 256 ^ length bs"
    by (metis add_mult_distrib mod_mult_div_eq mult.assoc)
  with Cons p show ?case
    by (simp add: be_value_def digits_value_Cons algebra_simps)
qed (simp add: be_value_def)

section \<open>Reading hex strings\<close>

text \<open>A hex digit of either case.\<close>

definition hex_val :: "char \<Rightarrow> nat option" where
  "hex_val c = (case digit_val c of Some v \<Rightarrow> if v < 16 then Some v else None | None \<Rightarrow> None)"

text \<open>The bytes a string of hex digit pairs stands for, in either case.\<close>

fun unhex :: "string \<Rightarrow> bytes option" where
  "unhex [] = Some []"
| "unhex [c] = None"
| "unhex (c # d # s) =
    (case (hex_val c, hex_val d, unhex s) of
       (Some h, Some l, Some bs) \<Rightarrow> Some ((16 * of_nat h + of_nat l) # bs)
     | _ \<Rightarrow> None)"

lemma char_lower_eq_hex_digit:
  assumes "v < 16"
  shows "char_lower c = hex_digit v \<longleftrightarrow> hex_val c = Some v"
proof -
  have n: "of_char c < (256 :: nat)" by simp
  have "char_lower c = hex_digit v \<longleftrightarrow>
    (of_char (char_lower c) :: nat) = of_char (hex_digit v)"
    by simp
  also have "\<dots> \<longleftrightarrow> hex_val c = Some v"
    using n assms
    by (auto simp: char_lower_def Let_def of_char_hex_digit hex_val_def digit_val_def)
  finally show ?thesis .
qed

lemma hex_val_bound: "hex_val c = Some v \<Longrightarrow> v < 16"
  by (auto simp: hex_val_def split: option.splits if_splits)

lemma byte_of_nibbles:
  "h < 16 \<Longrightarrow> l < 16 \<Longrightarrow> unat (16 * of_nat h + of_nat l :: byte) = 16 * h + l"
  using unat_of_nat [of "16 * h + l", where 'a = 8] by simp

lemma nibbles_eq_byte_iff:
  assumes "h < 16" "l < 16"
  shows "16 * of_nat h + of_nat l = (b :: byte) \<longleftrightarrow> h = unat b div 16 \<and> l = unat b mod 16"
proof -
  have "16 * of_nat h + of_nat l = b \<longleftrightarrow> 16 * h + l = unat b"
    using byte_of_nibbles [OF assms] by (simp add: word_unat_eq_iff)
  also have "\<dots> \<longleftrightarrow> h = unat b div 16 \<and> l = unat b mod 16"
  proof
    assume "16 * h + l = unat b"
    from this [symmetric] assms show "h = unat b div 16 \<and> l = unat b mod 16" by simp
  qed simp
  finally show ?thesis .
qed

text \<open>
  Lower-casing a string gives the encoding of \<open>bs\<close> exactly when the string reads as
  \<open>bs\<close>.
\<close>

lemma ToLower_eq_hex_iff: "strings_ToLower s = hex_EncodeToString bs \<longleftrightarrow> unhex s = Some bs"
proof (induction s arbitrary: bs rule: unhex.induct)
  case 1
  then show ?case by (auto simp: strings_ToLower_def eq_commute [of "[]"])
next
  case (2 c)
  have "length (strings_ToLower [c]) \<noteq> length (hex_EncodeToString bs)"
    by (simp add: strings_ToLower_def)
  then show ?case by auto
next
  case (3 c d s)
  show ?case
  proof (cases bs)
    case Nil
    then show ?thesis by (auto simp: strings_ToLower_def split: option.splits)
  next
    case (Cons b bs')
    have "strings_ToLower (c # d # s) = hex_EncodeToString bs \<longleftrightarrow>
      hex_val c = Some (unat b div 16) \<and> hex_val d = Some (unat b mod 16) \<and> unhex s = Some bs'"
      using 3 [of bs'] by (simp add: Cons strings_ToLower_def char_lower_eq_hex_digit)
    also have "\<dots> \<longleftrightarrow> unhex (c # d # s) = Some bs"
      using hex_val_bound [of c] hex_val_bound [of d]
      by (auto simp: Cons nibbles_eq_byte_iff split: option.split)
    finally show ?thesis .
  qed
qed

lemma unhex_hex_EncodeToString [simp]: "unhex (hex_EncodeToString bs) = Some bs"
proof -
  have "char_lower (hex_digit v) = hex_digit v" if "v < 16" for v
    using that by (simp add: char_lower_eq_hex_digit hex_val_def)
  then have "strings_ToLower (hex_EncodeToString bs) = hex_EncodeToString bs"
    using nibbles_bound [of bs] by (simp add: strings_ToLower_def hex_EncodeToString_nibbles)
  then show ?thesis by (simp add: ToLower_eq_hex_iff)
qed

section \<open>Quantities\<close>

text \<open>
  The number a \<open>0x\<close>-prefixed string of lower-case hex digits stands for, leading zeros
  allowed; the bare prefix stands for 0.
\<close>

definition lower_hex_val :: "char \<Rightarrow> nat option" where
  "lower_hex_val c = (if char_lower c = c then hex_val c else None)"

definition quantity_val :: "string \<Rightarrow> nat option" where
  "quantity_val s =
    (if take 2 s = ''0x'' \<and> list_all (\<lambda>c. lower_hex_val c \<noteq> None) (drop 2 s)
     then Some (digits_value 16 (map (\<lambda>c. the (lower_hex_val c)) (drop 2 s)))
     else None)"

text \<open>The canonical spelling of a number: \<open>0x\<close> and its digits without leading zeros.\<close>

definition quantity :: "nat \<Rightarrow> string" where
  "quantity n = ''0x'' @ map hex_digit (base_digits 16 n)"

lemma lower_hex_val_hex_digit [simp]: "v < 16 \<Longrightarrow> lower_hex_val (hex_digit v) = Some v"
  by (simp add: lower_hex_val_def char_lower_eq_hex_digit hex_val_def)

lemma lower_hex_val_SomeD: "lower_hex_val c = Some v \<Longrightarrow> v < 16 \<and> c = hex_digit v"
  by (metis char_lower_eq_hex_digit hex_val_bound lower_hex_val_def option.discI)

lemma lower_hex_digits_iff:
  "list_all (\<lambda>c. lower_hex_val c \<noteq> None) s \<longleftrightarrow> (\<exists>ds. (\<forall>d \<in> set ds. d < 16) \<and> s = map hex_digit ds)"
proof
  assume "list_all (\<lambda>c. lower_hex_val c \<noteq> None) s"
  then show "\<exists>ds. (\<forall>d \<in> set ds. d < 16) \<and> s = map hex_digit ds"
  proof (induction s)
    case (Cons c s)
    then obtain ds v where "\<forall>d \<in> set ds. d < 16" "s = map hex_digit ds" "lower_hex_val c = Some v"
      by auto
    then show ?case
      by (intro exI [of _ "v # ds"]) (auto dest: lower_hex_val_SomeD)
  qed simp
qed (auto simp: list_all_iff)

lemma quantity_val_Some_iff:
  "quantity_val s = Some n \<longleftrightarrow>
   (\<exists>ds. (\<forall>d \<in> set ds. d < 16) \<and> s = ''0x'' @ map hex_digit ds \<and> digits_value 16 ds = n)"
proof
  assume "quantity_val s = Some n"
  then have p: "take 2 s = ''0x''" and l: "list_all (\<lambda>c. lower_hex_val c \<noteq> None) (drop 2 s)"
    and n: "digits_value 16 (map (\<lambda>c. the (lower_hex_val c)) (drop 2 s)) = n"
    by (auto simp: quantity_val_def split: if_splits)
  from l obtain ds where ds: "\<forall>d \<in> set ds. d < 16" "drop 2 s = map hex_digit ds"
    unfolding lower_hex_digits_iff by blast
  from ds(1) have "map (\<lambda>c. the (lower_hex_val c)) (map hex_digit ds) = ds"
    by (simp add: map_idI)
  with ds n p show "\<exists>ds. (\<forall>d \<in> set ds. d < 16) \<and> s = ''0x'' @ map hex_digit ds \<and> digits_value 16 ds = n"
    by (metis append_take_drop_id)
next
  assume "\<exists>ds. (\<forall>d \<in> set ds. d < 16) \<and> s = ''0x'' @ map hex_digit ds \<and> digits_value 16 ds = n"
  then obtain ds where "\<forall>d \<in> set ds. d < 16" "s = ''0x'' @ map hex_digit ds" "digits_value 16 ds = n"
    by blast
  then show "quantity_val s = Some n"
    by (simp add: quantity_val_def list_all_iff comp_def map_idI)
qed

lemma quantity_val_quantity [simp]: "quantity_val (quantity n) = Some n"
  using base_digits_bound [of 16 n]
  by (auto simp: quantity_val_Some_iff quantity_def intro!: exI [of _ "base_digits 16 n"])

lemma quantity_inj: "quantity m = quantity n \<longleftrightarrow> m = n"
  by (metis option.inject quantity_val_quantity)

text \<open>Trimming the leading zeros of a digit string leaves the canonical digits.\<close>

lemma digits_value_dropWhile: "digits_value b (dropWhile (\<lambda>d. d = 0) ds) = digits_value b ds"
  by (induction ds) (auto simp: digits_value_Cons)

lemma trim_zeros_digits:
  "\<forall>d \<in> set ds. d < 16 \<Longrightarrow> trim_zeros (map hex_digit ds) = map hex_digit (dropWhile (\<lambda>d. d = 0) ds)"
proof -
  assume b: "\<forall>d \<in> set ds. d < 16"
  then have "(hex_digit d = CHR ''0'') = (d = 0)" if "d \<in> set ds" for d
    using that by auto
  then show ?thesis
    by (simp add: trim_zeros_def dropWhile_map comp_def cong: dropWhile_cong)
qed

lemma trimmed_quantity:
  assumes "\<forall>d \<in> set ds. d < 16"
  shows "(if trim_zeros (map hex_digit ds) = '''' then ''0x0'' else ''0x'' @ trim_zeros (map hex_digit ds))
    = quantity (digits_value 16 ds)"
proof -
  let ?t = "dropWhile (\<lambda>d. d = 0) ds"
  have t: "trim_zeros (map hex_digit ds) = map hex_digit ?t"
    using assms by (rule trim_zeros_digits)
  show ?thesis
  proof (cases "?t = []")
    case True
    then have "digits_value 16 ds = 0"
      using digits_value_dropWhile [of 16 ds] by (simp only: digits_value_Nil)
    with True t show ?thesis
      by (simp add: quantity_def base_digits.simps)
  next
    case False
    then have "hd ?t \<noteq> 0" by (rule hd_dropWhile)
    moreover have "\<forall>d \<in> set ?t. d < 16" using assms by (auto dest: set_dropWhileD)
    ultimately have "base_digits 16 (digits_value 16 ?t) = ?t"
      using False by (intro base_digits_unique) auto
    moreover from False t have "trim_zeros (map hex_digit ds) \<noteq> ''''" by (simp only: map_is_Nil_conv) simp
    ultimately show ?thesis
      unfolding quantity_def by (simp only: digits_value_dropWhile t if_False)
  qed
qed

end
