(* ===== verification/Exex_Pb.thy ===== *)
theory Exex_Pb
  imports Go_Strings
begin

text \<open>
  The protobuf message types of \<open>proto/gen/exex.pb.go\<close>, identical in the six Go modules
  (the lines mapped are those of \<open>examples/go-consumer\<close>): one record per message with its
  fields in order, the two oneofs as datatypes, the nil-safe getters and \<open>Reset\<close>.

  \<^item> A pointer field \<open>*T\<close> is \<open>T option\<close>, with \<open>None\<close> for nil; a getter takes the
    pointer it is called on.
  \<^item> The elements of a repeated field \<open>[]*T\<close> and the payload of a oneof wrapper are
    plain values: the protobuf runtime allocates each of them when it decodes a message,
    and the programs only read messages the runtime decoded.
  \<^item> A nil and an empty slice are both \<open>[]\<close>; the programs only test lengths.
  \<^item> The bookkeeping fields (\<open>state\<close>, \<open>unknownFields\<close>, \<open>sizeCache\<close>) and the methods that
    only call the protobuf runtime (\<open>ProtoReflect\<close>, \<open>Descriptor\<close>, the message \<open>String\<close>)
    belong to that runtime and are left out.
\<close>

section \<open>Enumerations\<close>

text \<open>
  Go enumerations are open \<open>int32\<close> types: a value outside the named constants is legal
  and is printed as its number.
\<close>

type_synonym AccountStatus = "32 word"

definition AccountStatus_name :: "AccountStatus \<rightharpoonup> string" where
  "AccountStatus_name = map_of
     [(0, ''LOADED_NOT_EXISTING''), (1, ''LOADED''), (2, ''LOADED_EMPTY_EIP161''),
      (3, ''IN_MEMORY_CHANGE''), (4, ''CHANGED''), (5, ''DESTROYED''),
      (6, ''DESTROYED_CHANGED''), (7, ''DESTROYED_AGAIN'')]"

definition AccountStatus_value :: "string \<rightharpoonup> AccountStatus" where
  "AccountStatus_value = map_of
     [(''LOADED_NOT_EXISTING'', 0), (''LOADED'', 1), (''LOADED_EMPTY_EIP161'', 2),
      (''IN_MEMORY_CHANGE'', 3), (''CHANGED'', 4), (''DESTROYED'', 5),
      (''DESTROYED_CHANGED'', 6), (''DESTROYED_AGAIN'', 7)]"

text \<open>
  \<open>protoimpl.X.EnumStringOf\<close>: the name the enum's descriptor gives the number, else the
  number in decimal.
\<close>

definition EnumStringOf :: "(32 word \<rightharpoonup> string) \<Rightarrow> 32 word \<Rightarrow> string" where
  "EnumStringOf names x = (case names x of Some s \<Rightarrow> s
     | None \<Rightarrow> if sint x < 0 then ''-'' @ fmt_nat (nat (- sint x)) else fmt_nat (nat (sint x)))"

definition AccountStatus_String :: "AccountStatus \<Rightarrow> string" where
  "AccountStatus_String x = EnumStringOf AccountStatus_name x"

type_synonym AccountRevertKind = "32 word"

definition AccountRevertKind_name :: "AccountRevertKind \<rightharpoonup> string" where
  "AccountRevertKind_name = map_of [(0, ''DO_NOTHING''), (1, ''DELETE_IT''), (2, ''REVERT_TO'')]"

definition AccountRevertKind_value :: "string \<rightharpoonup> AccountRevertKind" where
  "AccountRevertKind_value = map_of [(''DO_NOTHING'', 0), (''DELETE_IT'', 1), (''REVERT_TO'', 2)]"

definition AccountRevertKind_String :: "AccountRevertKind \<Rightarrow> string" where
  "AccountRevertKind_String x = EnumStringOf AccountRevertKind_name x"

section \<open>Messages\<close>

record SubscribeRequest =
  SubscribeRequest_IncludeHeaders :: "bool"
  SubscribeRequest_IncludeTransactions :: "bool"
  SubscribeRequest_IncludeReceipts :: "bool"
  SubscribeRequest_IncludeWithdrawals :: "bool"
  SubscribeRequest_IncludeStateDiff :: "bool"
  SubscribeRequest_IncludeCallTraces :: "bool"

definition SubscribeRequest_Reset :: "SubscribeRequest \<Rightarrow> SubscribeRequest" where [wire_defs]:
  "SubscribeRequest_Reset x =
     \<lparr>SubscribeRequest_IncludeHeaders = False, SubscribeRequest_IncludeTransactions =
     False, SubscribeRequest_IncludeReceipts = False, SubscribeRequest_IncludeWithdrawals =
     False, SubscribeRequest_IncludeStateDiff = False, SubscribeRequest_IncludeCallTraces =
     False\<rparr>"

definition SubscribeRequest_GetIncludeHeaders :: "SubscribeRequest option \<Rightarrow> bool" where [wire_defs]:
  "SubscribeRequest_GetIncludeHeaders x = (case x of Some m \<Rightarrow> SubscribeRequest_IncludeHeaders m | None \<Rightarrow> False)"

definition SubscribeRequest_GetIncludeTransactions :: "SubscribeRequest option \<Rightarrow> bool" where [wire_defs]:
  "SubscribeRequest_GetIncludeTransactions x = (case x of Some m \<Rightarrow> SubscribeRequest_IncludeTransactions m | None \<Rightarrow> False)"

definition SubscribeRequest_GetIncludeReceipts :: "SubscribeRequest option \<Rightarrow> bool" where [wire_defs]:
  "SubscribeRequest_GetIncludeReceipts x = (case x of Some m \<Rightarrow> SubscribeRequest_IncludeReceipts m | None \<Rightarrow> False)"

definition SubscribeRequest_GetIncludeWithdrawals :: "SubscribeRequest option \<Rightarrow> bool" where [wire_defs]:
  "SubscribeRequest_GetIncludeWithdrawals x = (case x of Some m \<Rightarrow> SubscribeRequest_IncludeWithdrawals m | None \<Rightarrow> False)"

definition SubscribeRequest_GetIncludeStateDiff :: "SubscribeRequest option \<Rightarrow> bool" where [wire_defs]:
  "SubscribeRequest_GetIncludeStateDiff x = (case x of Some m \<Rightarrow> SubscribeRequest_IncludeStateDiff m | None \<Rightarrow> False)"

definition SubscribeRequest_GetIncludeCallTraces :: "SubscribeRequest option \<Rightarrow> bool" where [wire_defs]:
  "SubscribeRequest_GetIncludeCallTraces x = (case x of Some m \<Rightarrow> SubscribeRequest_IncludeCallTraces m | None \<Rightarrow> False)"

record BlockHeader =
  BlockHeader_ParentHash :: "bytes"
  BlockHeader_OmmersHash :: "bytes"
  BlockHeader_Beneficiary :: "bytes"
  BlockHeader_StateRoot :: "bytes"
  BlockHeader_TransactionsRoot :: "bytes"
  BlockHeader_ReceiptsRoot :: "bytes"
  BlockHeader_LogsBloom :: "bytes"
  BlockHeader_Difficulty :: "bytes"
  BlockHeader_Number :: "u64"
  BlockHeader_GasLimit :: "u64"
  BlockHeader_GasUsed :: "u64"
  BlockHeader_Timestamp :: "u64"
  BlockHeader_ExtraData :: "bytes"
  BlockHeader_MixHash :: "bytes"
  BlockHeader_Nonce :: "bytes"
  BlockHeader_HasBaseFeePerGas :: "bool"
  BlockHeader_BaseFeePerGas :: "u64"
  BlockHeader_HasWithdrawalsRoot :: "bool"
  BlockHeader_WithdrawalsRoot :: "bytes"
  BlockHeader_HasBlobGasUsed :: "bool"
  BlockHeader_BlobGasUsed :: "u64"
  BlockHeader_HasExcessBlobGas :: "bool"
  BlockHeader_ExcessBlobGas :: "u64"
  BlockHeader_HasParentBeaconBlockRoot :: "bool"
  BlockHeader_ParentBeaconBlockRoot :: "bytes"
  BlockHeader_HasRequestsHash :: "bool"
  BlockHeader_RequestsHash :: "bytes"

definition BlockHeader_Reset :: "BlockHeader \<Rightarrow> BlockHeader" where [wire_defs]:
  "BlockHeader_Reset x =
     \<lparr>BlockHeader_ParentHash = [], BlockHeader_OmmersHash = [],
     BlockHeader_Beneficiary = [], BlockHeader_StateRoot = [], BlockHeader_TransactionsRoot =
     [], BlockHeader_ReceiptsRoot = [], BlockHeader_LogsBloom = [], BlockHeader_Difficulty =
     [], BlockHeader_Number = 0, BlockHeader_GasLimit = 0, BlockHeader_GasUsed = 0,
     BlockHeader_Timestamp = 0, BlockHeader_ExtraData = [], BlockHeader_MixHash = [],
     BlockHeader_Nonce = [], BlockHeader_HasBaseFeePerGas = False, BlockHeader_BaseFeePerGas
     = 0, BlockHeader_HasWithdrawalsRoot = False, BlockHeader_WithdrawalsRoot = [],
     BlockHeader_HasBlobGasUsed = False, BlockHeader_BlobGasUsed = 0,
     BlockHeader_HasExcessBlobGas = False, BlockHeader_ExcessBlobGas = 0,
     BlockHeader_HasParentBeaconBlockRoot = False, BlockHeader_ParentBeaconBlockRoot = [],
     BlockHeader_HasRequestsHash = False, BlockHeader_RequestsHash = []\<rparr>"

definition BlockHeader_GetParentHash :: "BlockHeader option \<Rightarrow> bytes" where [wire_defs]:
  "BlockHeader_GetParentHash x = (case x of Some m \<Rightarrow> BlockHeader_ParentHash m | None \<Rightarrow> [])"

definition BlockHeader_GetOmmersHash :: "BlockHeader option \<Rightarrow> bytes" where [wire_defs]:
  "BlockHeader_GetOmmersHash x = (case x of Some m \<Rightarrow> BlockHeader_OmmersHash m | None \<Rightarrow> [])"

definition BlockHeader_GetBeneficiary :: "BlockHeader option \<Rightarrow> bytes" where [wire_defs]:
  "BlockHeader_GetBeneficiary x = (case x of Some m \<Rightarrow> BlockHeader_Beneficiary m | None \<Rightarrow> [])"

definition BlockHeader_GetStateRoot :: "BlockHeader option \<Rightarrow> bytes" where [wire_defs]:
  "BlockHeader_GetStateRoot x = (case x of Some m \<Rightarrow> BlockHeader_StateRoot m | None \<Rightarrow> [])"

definition BlockHeader_GetTransactionsRoot :: "BlockHeader option \<Rightarrow> bytes" where [wire_defs]:
  "BlockHeader_GetTransactionsRoot x = (case x of Some m \<Rightarrow> BlockHeader_TransactionsRoot m | None \<Rightarrow> [])"

definition BlockHeader_GetReceiptsRoot :: "BlockHeader option \<Rightarrow> bytes" where [wire_defs]:
  "BlockHeader_GetReceiptsRoot x = (case x of Some m \<Rightarrow> BlockHeader_ReceiptsRoot m | None \<Rightarrow> [])"

definition BlockHeader_GetLogsBloom :: "BlockHeader option \<Rightarrow> bytes" where [wire_defs]:
  "BlockHeader_GetLogsBloom x = (case x of Some m \<Rightarrow> BlockHeader_LogsBloom m | None \<Rightarrow> [])"

definition BlockHeader_GetDifficulty :: "BlockHeader option \<Rightarrow> bytes" where [wire_defs]:
  "BlockHeader_GetDifficulty x = (case x of Some m \<Rightarrow> BlockHeader_Difficulty m | None \<Rightarrow> [])"

definition BlockHeader_GetNumber :: "BlockHeader option \<Rightarrow> u64" where [wire_defs]:
  "BlockHeader_GetNumber x = (case x of Some m \<Rightarrow> BlockHeader_Number m | None \<Rightarrow> 0)"

definition BlockHeader_GetGasLimit :: "BlockHeader option \<Rightarrow> u64" where [wire_defs]:
  "BlockHeader_GetGasLimit x = (case x of Some m \<Rightarrow> BlockHeader_GasLimit m | None \<Rightarrow> 0)"

definition BlockHeader_GetGasUsed :: "BlockHeader option \<Rightarrow> u64" where [wire_defs]:
  "BlockHeader_GetGasUsed x = (case x of Some m \<Rightarrow> BlockHeader_GasUsed m | None \<Rightarrow> 0)"

definition BlockHeader_GetTimestamp :: "BlockHeader option \<Rightarrow> u64" where [wire_defs]:
  "BlockHeader_GetTimestamp x = (case x of Some m \<Rightarrow> BlockHeader_Timestamp m | None \<Rightarrow> 0)"

definition BlockHeader_GetExtraData :: "BlockHeader option \<Rightarrow> bytes" where [wire_defs]:
  "BlockHeader_GetExtraData x = (case x of Some m \<Rightarrow> BlockHeader_ExtraData m | None \<Rightarrow> [])"

definition BlockHeader_GetMixHash :: "BlockHeader option \<Rightarrow> bytes" where [wire_defs]:
  "BlockHeader_GetMixHash x = (case x of Some m \<Rightarrow> BlockHeader_MixHash m | None \<Rightarrow> [])"

definition BlockHeader_GetNonce :: "BlockHeader option \<Rightarrow> bytes" where [wire_defs]:
  "BlockHeader_GetNonce x = (case x of Some m \<Rightarrow> BlockHeader_Nonce m | None \<Rightarrow> [])"

definition BlockHeader_GetHasBaseFeePerGas :: "BlockHeader option \<Rightarrow> bool" where [wire_defs]:
  "BlockHeader_GetHasBaseFeePerGas x = (case x of Some m \<Rightarrow> BlockHeader_HasBaseFeePerGas m | None \<Rightarrow> False)"

definition BlockHeader_GetBaseFeePerGas :: "BlockHeader option \<Rightarrow> u64" where [wire_defs]:
  "BlockHeader_GetBaseFeePerGas x = (case x of Some m \<Rightarrow> BlockHeader_BaseFeePerGas m | None \<Rightarrow> 0)"

definition BlockHeader_GetHasWithdrawalsRoot :: "BlockHeader option \<Rightarrow> bool" where [wire_defs]:
  "BlockHeader_GetHasWithdrawalsRoot x = (case x of Some m \<Rightarrow> BlockHeader_HasWithdrawalsRoot m | None \<Rightarrow> False)"

definition BlockHeader_GetWithdrawalsRoot :: "BlockHeader option \<Rightarrow> bytes" where [wire_defs]:
  "BlockHeader_GetWithdrawalsRoot x = (case x of Some m \<Rightarrow> BlockHeader_WithdrawalsRoot m | None \<Rightarrow> [])"

definition BlockHeader_GetHasBlobGasUsed :: "BlockHeader option \<Rightarrow> bool" where [wire_defs]:
  "BlockHeader_GetHasBlobGasUsed x = (case x of Some m \<Rightarrow> BlockHeader_HasBlobGasUsed m | None \<Rightarrow> False)"

definition BlockHeader_GetBlobGasUsed :: "BlockHeader option \<Rightarrow> u64" where [wire_defs]:
  "BlockHeader_GetBlobGasUsed x = (case x of Some m \<Rightarrow> BlockHeader_BlobGasUsed m | None \<Rightarrow> 0)"

definition BlockHeader_GetHasExcessBlobGas :: "BlockHeader option \<Rightarrow> bool" where [wire_defs]:
  "BlockHeader_GetHasExcessBlobGas x = (case x of Some m \<Rightarrow> BlockHeader_HasExcessBlobGas m | None \<Rightarrow> False)"

definition BlockHeader_GetExcessBlobGas :: "BlockHeader option \<Rightarrow> u64" where [wire_defs]:
  "BlockHeader_GetExcessBlobGas x = (case x of Some m \<Rightarrow> BlockHeader_ExcessBlobGas m | None \<Rightarrow> 0)"

definition BlockHeader_GetHasParentBeaconBlockRoot :: "BlockHeader option \<Rightarrow> bool" where [wire_defs]:
  "BlockHeader_GetHasParentBeaconBlockRoot x = (case x of Some m \<Rightarrow> BlockHeader_HasParentBeaconBlockRoot m | None \<Rightarrow> False)"

definition BlockHeader_GetParentBeaconBlockRoot :: "BlockHeader option \<Rightarrow> bytes" where [wire_defs]:
  "BlockHeader_GetParentBeaconBlockRoot x = (case x of Some m \<Rightarrow> BlockHeader_ParentBeaconBlockRoot m | None \<Rightarrow> [])"

definition BlockHeader_GetHasRequestsHash :: "BlockHeader option \<Rightarrow> bool" where [wire_defs]:
  "BlockHeader_GetHasRequestsHash x = (case x of Some m \<Rightarrow> BlockHeader_HasRequestsHash m | None \<Rightarrow> False)"

definition BlockHeader_GetRequestsHash :: "BlockHeader option \<Rightarrow> bytes" where [wire_defs]:
  "BlockHeader_GetRequestsHash x = (case x of Some m \<Rightarrow> BlockHeader_RequestsHash m | None \<Rightarrow> [])"

record Withdrawal =
  Withdrawal_Index :: "u64"
  Withdrawal_ValidatorIndex :: "u64"
  Withdrawal_Address :: "bytes"
  Withdrawal_Amount :: "u64"

definition Withdrawal_Reset :: "Withdrawal \<Rightarrow> Withdrawal" where [wire_defs]:
  "Withdrawal_Reset x =
     \<lparr>Withdrawal_Index = 0, Withdrawal_ValidatorIndex = 0, Withdrawal_Address = [],
     Withdrawal_Amount = 0\<rparr>"

definition Withdrawal_GetIndex :: "Withdrawal option \<Rightarrow> u64" where [wire_defs]:
  "Withdrawal_GetIndex x = (case x of Some m \<Rightarrow> Withdrawal_Index m | None \<Rightarrow> 0)"

definition Withdrawal_GetValidatorIndex :: "Withdrawal option \<Rightarrow> u64" where [wire_defs]:
  "Withdrawal_GetValidatorIndex x = (case x of Some m \<Rightarrow> Withdrawal_ValidatorIndex m | None \<Rightarrow> 0)"

definition Withdrawal_GetAddress :: "Withdrawal option \<Rightarrow> bytes" where [wire_defs]:
  "Withdrawal_GetAddress x = (case x of Some m \<Rightarrow> Withdrawal_Address m | None \<Rightarrow> [])"

definition Withdrawal_GetAmount :: "Withdrawal option \<Rightarrow> u64" where [wire_defs]:
  "Withdrawal_GetAmount x = (case x of Some m \<Rightarrow> Withdrawal_Amount m | None \<Rightarrow> 0)"

record Signature =
  Signature_YParity :: "bool"
  Signature_R :: "bytes"
  Signature_S :: "bytes"

definition Signature_Reset :: "Signature \<Rightarrow> Signature" where [wire_defs]:
  "Signature_Reset x =
     \<lparr>Signature_YParity = False, Signature_R = [], Signature_S = []\<rparr>"

definition Signature_GetYParity :: "Signature option \<Rightarrow> bool" where [wire_defs]:
  "Signature_GetYParity x = (case x of Some m \<Rightarrow> Signature_YParity m | None \<Rightarrow> False)"

definition Signature_GetR :: "Signature option \<Rightarrow> bytes" where [wire_defs]:
  "Signature_GetR x = (case x of Some m \<Rightarrow> Signature_R m | None \<Rightarrow> [])"

definition Signature_GetS :: "Signature option \<Rightarrow> bytes" where [wire_defs]:
  "Signature_GetS x = (case x of Some m \<Rightarrow> Signature_S m | None \<Rightarrow> [])"

record AccessListItem =
  AccessListItem_Address :: "bytes"
  AccessListItem_StorageKeys :: "bytes list"

definition AccessListItem_Reset :: "AccessListItem \<Rightarrow> AccessListItem" where [wire_defs]:
  "AccessListItem_Reset x =
     \<lparr>AccessListItem_Address = [], AccessListItem_StorageKeys = []\<rparr>"

definition AccessListItem_GetAddress :: "AccessListItem option \<Rightarrow> bytes" where [wire_defs]:
  "AccessListItem_GetAddress x = (case x of Some m \<Rightarrow> AccessListItem_Address m | None \<Rightarrow> [])"

definition AccessListItem_GetStorageKeys :: "AccessListItem option \<Rightarrow> bytes list" where [wire_defs]:
  "AccessListItem_GetStorageKeys x = (case x of Some m \<Rightarrow> AccessListItem_StorageKeys m | None \<Rightarrow> [])"

record SignedAuthorization =
  SignedAuthorization_ChainId :: "bytes"
  SignedAuthorization_Address :: "bytes"
  SignedAuthorization_Nonce :: "u64"
  SignedAuthorization_YParity :: "bool"
  SignedAuthorization_R :: "bytes"
  SignedAuthorization_S :: "bytes"

definition SignedAuthorization_Reset :: "SignedAuthorization \<Rightarrow> SignedAuthorization" where [wire_defs]:
  "SignedAuthorization_Reset x =
     \<lparr>SignedAuthorization_ChainId = [], SignedAuthorization_Address = [],
     SignedAuthorization_Nonce = 0, SignedAuthorization_YParity = False,
     SignedAuthorization_R = [], SignedAuthorization_S = []\<rparr>"

definition SignedAuthorization_GetChainId :: "SignedAuthorization option \<Rightarrow> bytes" where [wire_defs]:
  "SignedAuthorization_GetChainId x = (case x of Some m \<Rightarrow> SignedAuthorization_ChainId m | None \<Rightarrow> [])"

definition SignedAuthorization_GetAddress :: "SignedAuthorization option \<Rightarrow> bytes" where [wire_defs]:
  "SignedAuthorization_GetAddress x = (case x of Some m \<Rightarrow> SignedAuthorization_Address m | None \<Rightarrow> [])"

definition SignedAuthorization_GetNonce :: "SignedAuthorization option \<Rightarrow> u64" where [wire_defs]:
  "SignedAuthorization_GetNonce x = (case x of Some m \<Rightarrow> SignedAuthorization_Nonce m | None \<Rightarrow> 0)"

definition SignedAuthorization_GetYParity :: "SignedAuthorization option \<Rightarrow> bool" where [wire_defs]:
  "SignedAuthorization_GetYParity x = (case x of Some m \<Rightarrow> SignedAuthorization_YParity m | None \<Rightarrow> False)"

definition SignedAuthorization_GetR :: "SignedAuthorization option \<Rightarrow> bytes" where [wire_defs]:
  "SignedAuthorization_GetR x = (case x of Some m \<Rightarrow> SignedAuthorization_R m | None \<Rightarrow> [])"

definition SignedAuthorization_GetS :: "SignedAuthorization option \<Rightarrow> bytes" where [wire_defs]:
  "SignedAuthorization_GetS x = (case x of Some m \<Rightarrow> SignedAuthorization_S m | None \<Rightarrow> [])"

record Transaction =
  Transaction_Hash :: "bytes"
  Transaction_TxType :: "32 word"
  Transaction_Signature :: "Signature option"
  Transaction_Nonce :: "u64"
  Transaction_GasLimit :: "u64"
  Transaction_Value :: "bytes"
  Transaction_Input :: "bytes"
  Transaction_To :: "bytes"
  Transaction_ChainId :: "bytes"
  Transaction_GasPrice :: "bytes"
  Transaction_MaxFeePerGas :: "bytes"
  Transaction_MaxPriorityFeePerGas :: "bytes"
  Transaction_AccessList :: "AccessListItem list"
  Transaction_BlobVersionedHashes :: "bytes list"
  Transaction_MaxFeePerBlobGas :: "bytes"
  Transaction_AuthorizationList :: "SignedAuthorization list"

definition Transaction_Reset :: "Transaction \<Rightarrow> Transaction" where [wire_defs]:
  "Transaction_Reset x =
     \<lparr>Transaction_Hash = [], Transaction_TxType = 0, Transaction_Signature = None,
     Transaction_Nonce = 0, Transaction_GasLimit = 0, Transaction_Value = [],
     Transaction_Input = [], Transaction_To = [], Transaction_ChainId = [],
     Transaction_GasPrice = [], Transaction_MaxFeePerGas = [],
     Transaction_MaxPriorityFeePerGas = [], Transaction_AccessList = [],
     Transaction_BlobVersionedHashes = [], Transaction_MaxFeePerBlobGas = [],
     Transaction_AuthorizationList = []\<rparr>"

definition Transaction_GetHash :: "Transaction option \<Rightarrow> bytes" where [wire_defs]:
  "Transaction_GetHash x = (case x of Some m \<Rightarrow> Transaction_Hash m | None \<Rightarrow> [])"

definition Transaction_GetTxType :: "Transaction option \<Rightarrow> 32 word" where [wire_defs]:
  "Transaction_GetTxType x = (case x of Some m \<Rightarrow> Transaction_TxType m | None \<Rightarrow> 0)"

definition Transaction_GetSignature :: "Transaction option \<Rightarrow> Signature option" where [wire_defs]:
  "Transaction_GetSignature x = (case x of Some m \<Rightarrow> Transaction_Signature m | None \<Rightarrow> None)"

definition Transaction_GetNonce :: "Transaction option \<Rightarrow> u64" where [wire_defs]:
  "Transaction_GetNonce x = (case x of Some m \<Rightarrow> Transaction_Nonce m | None \<Rightarrow> 0)"

definition Transaction_GetGasLimit :: "Transaction option \<Rightarrow> u64" where [wire_defs]:
  "Transaction_GetGasLimit x = (case x of Some m \<Rightarrow> Transaction_GasLimit m | None \<Rightarrow> 0)"

definition Transaction_GetValue :: "Transaction option \<Rightarrow> bytes" where [wire_defs]:
  "Transaction_GetValue x = (case x of Some m \<Rightarrow> Transaction_Value m | None \<Rightarrow> [])"

definition Transaction_GetInput :: "Transaction option \<Rightarrow> bytes" where [wire_defs]:
  "Transaction_GetInput x = (case x of Some m \<Rightarrow> Transaction_Input m | None \<Rightarrow> [])"

definition Transaction_GetTo :: "Transaction option \<Rightarrow> bytes" where [wire_defs]:
  "Transaction_GetTo x = (case x of Some m \<Rightarrow> Transaction_To m | None \<Rightarrow> [])"

definition Transaction_GetChainId :: "Transaction option \<Rightarrow> bytes" where [wire_defs]:
  "Transaction_GetChainId x = (case x of Some m \<Rightarrow> Transaction_ChainId m | None \<Rightarrow> [])"

definition Transaction_GetGasPrice :: "Transaction option \<Rightarrow> bytes" where [wire_defs]:
  "Transaction_GetGasPrice x = (case x of Some m \<Rightarrow> Transaction_GasPrice m | None \<Rightarrow> [])"

definition Transaction_GetMaxFeePerGas :: "Transaction option \<Rightarrow> bytes" where [wire_defs]:
  "Transaction_GetMaxFeePerGas x = (case x of Some m \<Rightarrow> Transaction_MaxFeePerGas m | None \<Rightarrow> [])"

definition Transaction_GetMaxPriorityFeePerGas :: "Transaction option \<Rightarrow> bytes" where [wire_defs]:
  "Transaction_GetMaxPriorityFeePerGas x = (case x of Some m \<Rightarrow> Transaction_MaxPriorityFeePerGas m | None \<Rightarrow> [])"

definition Transaction_GetAccessList :: "Transaction option \<Rightarrow> AccessListItem list" where [wire_defs]:
  "Transaction_GetAccessList x = (case x of Some m \<Rightarrow> Transaction_AccessList m | None \<Rightarrow> [])"

definition Transaction_GetBlobVersionedHashes :: "Transaction option \<Rightarrow> bytes list" where [wire_defs]:
  "Transaction_GetBlobVersionedHashes x = (case x of Some m \<Rightarrow> Transaction_BlobVersionedHashes m | None \<Rightarrow> [])"

definition Transaction_GetMaxFeePerBlobGas :: "Transaction option \<Rightarrow> bytes" where [wire_defs]:
  "Transaction_GetMaxFeePerBlobGas x = (case x of Some m \<Rightarrow> Transaction_MaxFeePerBlobGas m | None \<Rightarrow> [])"

definition Transaction_GetAuthorizationList :: "Transaction option \<Rightarrow> SignedAuthorization list" where [wire_defs]:
  "Transaction_GetAuthorizationList x = (case x of Some m \<Rightarrow> Transaction_AuthorizationList m | None \<Rightarrow> [])"

record EventLog =
  EventLog_Address :: "bytes"
  EventLog_Topics :: "bytes list"
  EventLog_Data :: "bytes"

definition EventLog_Reset :: "EventLog \<Rightarrow> EventLog" where [wire_defs]:
  "EventLog_Reset x =
     \<lparr>EventLog_Address = [], EventLog_Topics = [], EventLog_Data = []\<rparr>"

definition EventLog_GetAddress :: "EventLog option \<Rightarrow> bytes" where [wire_defs]:
  "EventLog_GetAddress x = (case x of Some m \<Rightarrow> EventLog_Address m | None \<Rightarrow> [])"

definition EventLog_GetTopics :: "EventLog option \<Rightarrow> bytes list" where [wire_defs]:
  "EventLog_GetTopics x = (case x of Some m \<Rightarrow> EventLog_Topics m | None \<Rightarrow> [])"

definition EventLog_GetData :: "EventLog option \<Rightarrow> bytes" where [wire_defs]:
  "EventLog_GetData x = (case x of Some m \<Rightarrow> EventLog_Data m | None \<Rightarrow> [])"

record Receipt =
  Receipt_TxType :: "32 word"
  Receipt_Success :: "bool"
  Receipt_CumulativeGasUsed :: "u64"
  Receipt_Logs :: "EventLog list"

definition Receipt_Reset :: "Receipt \<Rightarrow> Receipt" where [wire_defs]:
  "Receipt_Reset x =
     \<lparr>Receipt_TxType = 0, Receipt_Success = False, Receipt_CumulativeGasUsed = 0,
     Receipt_Logs = []\<rparr>"

definition Receipt_GetTxType :: "Receipt option \<Rightarrow> 32 word" where [wire_defs]:
  "Receipt_GetTxType x = (case x of Some m \<Rightarrow> Receipt_TxType m | None \<Rightarrow> 0)"

definition Receipt_GetSuccess :: "Receipt option \<Rightarrow> bool" where [wire_defs]:
  "Receipt_GetSuccess x = (case x of Some m \<Rightarrow> Receipt_Success m | None \<Rightarrow> False)"

definition Receipt_GetCumulativeGasUsed :: "Receipt option \<Rightarrow> u64" where [wire_defs]:
  "Receipt_GetCumulativeGasUsed x = (case x of Some m \<Rightarrow> Receipt_CumulativeGasUsed m | None \<Rightarrow> 0)"

definition Receipt_GetLogs :: "Receipt option \<Rightarrow> EventLog list" where [wire_defs]:
  "Receipt_GetLogs x = (case x of Some m \<Rightarrow> Receipt_Logs m | None \<Rightarrow> [])"

record BlockWithReceipts =
  BlockWithReceipts_Header :: "BlockHeader option"
  BlockWithReceipts_Txs :: "Transaction list"
  BlockWithReceipts_Senders :: "bytes list"
  BlockWithReceipts_Receipts :: "Receipt list"
  BlockWithReceipts_Withdrawals :: "Withdrawal list"

definition BlockWithReceipts_Reset :: "BlockWithReceipts \<Rightarrow> BlockWithReceipts" where [wire_defs]:
  "BlockWithReceipts_Reset x =
     \<lparr>BlockWithReceipts_Header = None, BlockWithReceipts_Txs = [],
     BlockWithReceipts_Senders = [], BlockWithReceipts_Receipts = [],
     BlockWithReceipts_Withdrawals = []\<rparr>"

definition BlockWithReceipts_GetHeader :: "BlockWithReceipts option \<Rightarrow> BlockHeader option" where [wire_defs]:
  "BlockWithReceipts_GetHeader x = (case x of Some m \<Rightarrow> BlockWithReceipts_Header m | None \<Rightarrow> None)"

definition BlockWithReceipts_GetTxs :: "BlockWithReceipts option \<Rightarrow> Transaction list" where [wire_defs]:
  "BlockWithReceipts_GetTxs x = (case x of Some m \<Rightarrow> BlockWithReceipts_Txs m | None \<Rightarrow> [])"

definition BlockWithReceipts_GetSenders :: "BlockWithReceipts option \<Rightarrow> bytes list" where [wire_defs]:
  "BlockWithReceipts_GetSenders x = (case x of Some m \<Rightarrow> BlockWithReceipts_Senders m | None \<Rightarrow> [])"

definition BlockWithReceipts_GetReceipts :: "BlockWithReceipts option \<Rightarrow> Receipt list" where [wire_defs]:
  "BlockWithReceipts_GetReceipts x = (case x of Some m \<Rightarrow> BlockWithReceipts_Receipts m | None \<Rightarrow> [])"

definition BlockWithReceipts_GetWithdrawals :: "BlockWithReceipts option \<Rightarrow> Withdrawal list" where [wire_defs]:
  "BlockWithReceipts_GetWithdrawals x = (case x of Some m \<Rightarrow> BlockWithReceipts_Withdrawals m | None \<Rightarrow> [])"

record AccountInfo =
  AccountInfo_Balance :: "bytes"
  AccountInfo_Nonce :: "u64"
  AccountInfo_CodeHash :: "bytes"

definition AccountInfo_Reset :: "AccountInfo \<Rightarrow> AccountInfo" where [wire_defs]:
  "AccountInfo_Reset x =
     \<lparr>AccountInfo_Balance = [], AccountInfo_Nonce = 0, AccountInfo_CodeHash =
     []\<rparr>"

definition AccountInfo_GetBalance :: "AccountInfo option \<Rightarrow> bytes" where [wire_defs]:
  "AccountInfo_GetBalance x = (case x of Some m \<Rightarrow> AccountInfo_Balance m | None \<Rightarrow> [])"

definition AccountInfo_GetNonce :: "AccountInfo option \<Rightarrow> u64" where [wire_defs]:
  "AccountInfo_GetNonce x = (case x of Some m \<Rightarrow> AccountInfo_Nonce m | None \<Rightarrow> 0)"

definition AccountInfo_GetCodeHash :: "AccountInfo option \<Rightarrow> bytes" where [wire_defs]:
  "AccountInfo_GetCodeHash x = (case x of Some m \<Rightarrow> AccountInfo_CodeHash m | None \<Rightarrow> [])"

record StorageSlotDiff =
  StorageSlotDiff_Key :: "bytes"
  StorageSlotDiff_Previous :: "bytes"
  StorageSlotDiff_Current :: "bytes"

definition StorageSlotDiff_Reset :: "StorageSlotDiff \<Rightarrow> StorageSlotDiff" where [wire_defs]:
  "StorageSlotDiff_Reset x =
     \<lparr>StorageSlotDiff_Key = [], StorageSlotDiff_Previous = [], StorageSlotDiff_Current
     = []\<rparr>"

definition StorageSlotDiff_GetKey :: "StorageSlotDiff option \<Rightarrow> bytes" where [wire_defs]:
  "StorageSlotDiff_GetKey x = (case x of Some m \<Rightarrow> StorageSlotDiff_Key m | None \<Rightarrow> [])"

definition StorageSlotDiff_GetPrevious :: "StorageSlotDiff option \<Rightarrow> bytes" where [wire_defs]:
  "StorageSlotDiff_GetPrevious x = (case x of Some m \<Rightarrow> StorageSlotDiff_Previous m | None \<Rightarrow> [])"

definition StorageSlotDiff_GetCurrent :: "StorageSlotDiff option \<Rightarrow> bytes" where [wire_defs]:
  "StorageSlotDiff_GetCurrent x = (case x of Some m \<Rightarrow> StorageSlotDiff_Current m | None \<Rightarrow> [])"

record AccountDiff =
  AccountDiff_Address :: "bytes"
  AccountDiff_Status :: "AccountStatus"
  AccountDiff_Info :: "AccountInfo option"
  AccountDiff_OriginalInfo :: "AccountInfo option"
  AccountDiff_Storage :: "StorageSlotDiff list"

definition AccountDiff_Reset :: "AccountDiff \<Rightarrow> AccountDiff" where [wire_defs]:
  "AccountDiff_Reset x =
     \<lparr>AccountDiff_Address = [], AccountDiff_Status = 0, AccountDiff_Info = None,
     AccountDiff_OriginalInfo = None, AccountDiff_Storage = []\<rparr>"

definition AccountDiff_GetAddress :: "AccountDiff option \<Rightarrow> bytes" where [wire_defs]:
  "AccountDiff_GetAddress x = (case x of Some m \<Rightarrow> AccountDiff_Address m | None \<Rightarrow> [])"

definition AccountDiff_GetStatus :: "AccountDiff option \<Rightarrow> AccountStatus" where [wire_defs]:
  "AccountDiff_GetStatus x = (case x of Some m \<Rightarrow> AccountDiff_Status m | None \<Rightarrow> 0)"

definition AccountDiff_GetInfo :: "AccountDiff option \<Rightarrow> AccountInfo option" where [wire_defs]:
  "AccountDiff_GetInfo x = (case x of Some m \<Rightarrow> AccountDiff_Info m | None \<Rightarrow> None)"

definition AccountDiff_GetOriginalInfo :: "AccountDiff option \<Rightarrow> AccountInfo option" where [wire_defs]:
  "AccountDiff_GetOriginalInfo x = (case x of Some m \<Rightarrow> AccountDiff_OriginalInfo m | None \<Rightarrow> None)"

definition AccountDiff_GetStorage :: "AccountDiff option \<Rightarrow> StorageSlotDiff list" where [wire_defs]:
  "AccountDiff_GetStorage x = (case x of Some m \<Rightarrow> AccountDiff_Storage m | None \<Rightarrow> [])"

record ContractDiff =
  ContractDiff_CodeHash :: "bytes"
  ContractDiff_Bytecode :: "bytes"

definition ContractDiff_Reset :: "ContractDiff \<Rightarrow> ContractDiff" where [wire_defs]:
  "ContractDiff_Reset x =
     \<lparr>ContractDiff_CodeHash = [], ContractDiff_Bytecode = []\<rparr>"

definition ContractDiff_GetCodeHash :: "ContractDiff option \<Rightarrow> bytes" where [wire_defs]:
  "ContractDiff_GetCodeHash x = (case x of Some m \<Rightarrow> ContractDiff_CodeHash m | None \<Rightarrow> [])"

definition ContractDiff_GetBytecode :: "ContractDiff option \<Rightarrow> bytes" where [wire_defs]:
  "ContractDiff_GetBytecode x = (case x of Some m \<Rightarrow> ContractDiff_Bytecode m | None \<Rightarrow> [])"

datatype isStorageRevert_RevertTo =
    StorageRevert_Value bytes
  | StorageRevert_Destroyed bool

record StorageRevert =
  StorageRevert_Key :: "bytes"
  StorageRevert_RevertTo :: "isStorageRevert_RevertTo option"

definition StorageRevert_Reset :: "StorageRevert \<Rightarrow> StorageRevert" where [wire_defs]:
  "StorageRevert_Reset x =
     \<lparr>StorageRevert_Key = [], StorageRevert_RevertTo = None\<rparr>"

definition StorageRevert_GetKey :: "StorageRevert option \<Rightarrow> bytes" where [wire_defs]:
  "StorageRevert_GetKey x = (case x of Some m \<Rightarrow> StorageRevert_Key m | None \<Rightarrow> [])"

definition StorageRevert_GetRevertTo :: "StorageRevert option \<Rightarrow> isStorageRevert_RevertTo option" where [wire_defs]:
  "StorageRevert_GetRevertTo x = (case x of Some m \<Rightarrow> StorageRevert_RevertTo m | None \<Rightarrow> None)"

definition StorageRevert_GetValue :: "StorageRevert option \<Rightarrow> bytes" where [wire_defs]:
  "StorageRevert_GetValue x = 
     (case x of Some m \<Rightarrow> (case StorageRevert_RevertTo m of Some (StorageRevert_Value v) \<Rightarrow> v | _ \<Rightarrow> [])
      | None \<Rightarrow> [])"

definition StorageRevert_GetDestroyed :: "StorageRevert option \<Rightarrow> bool" where [wire_defs]:
  "StorageRevert_GetDestroyed x = 
     (case x of Some m \<Rightarrow> (case StorageRevert_RevertTo m of Some (StorageRevert_Destroyed v) \<Rightarrow> v | _ \<Rightarrow> False)
      | None \<Rightarrow> False)"

record AccountRevert =
  AccountRevert_Address :: "bytes"
  AccountRevert_Kind :: "AccountRevertKind"
  AccountRevert_RevertToInfo :: "AccountInfo option"
  AccountRevert_Storage :: "StorageRevert list"
  AccountRevert_PreviousStatus :: "AccountStatus"
  AccountRevert_WipeStorage :: "bool"

definition AccountRevert_Reset :: "AccountRevert \<Rightarrow> AccountRevert" where [wire_defs]:
  "AccountRevert_Reset x =
     \<lparr>AccountRevert_Address = [], AccountRevert_Kind = 0, AccountRevert_RevertToInfo =
     None, AccountRevert_Storage = [], AccountRevert_PreviousStatus = 0,
     AccountRevert_WipeStorage = False\<rparr>"

definition AccountRevert_GetAddress :: "AccountRevert option \<Rightarrow> bytes" where [wire_defs]:
  "AccountRevert_GetAddress x = (case x of Some m \<Rightarrow> AccountRevert_Address m | None \<Rightarrow> [])"

definition AccountRevert_GetKind :: "AccountRevert option \<Rightarrow> AccountRevertKind" where [wire_defs]:
  "AccountRevert_GetKind x = (case x of Some m \<Rightarrow> AccountRevert_Kind m | None \<Rightarrow> 0)"

definition AccountRevert_GetRevertToInfo :: "AccountRevert option \<Rightarrow> AccountInfo option" where [wire_defs]:
  "AccountRevert_GetRevertToInfo x = (case x of Some m \<Rightarrow> AccountRevert_RevertToInfo m | None \<Rightarrow> None)"

definition AccountRevert_GetStorage :: "AccountRevert option \<Rightarrow> StorageRevert list" where [wire_defs]:
  "AccountRevert_GetStorage x = (case x of Some m \<Rightarrow> AccountRevert_Storage m | None \<Rightarrow> [])"

definition AccountRevert_GetPreviousStatus :: "AccountRevert option \<Rightarrow> AccountStatus" where [wire_defs]:
  "AccountRevert_GetPreviousStatus x = (case x of Some m \<Rightarrow> AccountRevert_PreviousStatus m | None \<Rightarrow> 0)"

definition AccountRevert_GetWipeStorage :: "AccountRevert option \<Rightarrow> bool" where [wire_defs]:
  "AccountRevert_GetWipeStorage x = (case x of Some m \<Rightarrow> AccountRevert_WipeStorage m | None \<Rightarrow> False)"

record BlockReverts =
  BlockReverts_Accounts :: "AccountRevert list"

definition BlockReverts_Reset :: "BlockReverts \<Rightarrow> BlockReverts" where [wire_defs]:
  "BlockReverts_Reset x =
     \<lparr>BlockReverts_Accounts = []\<rparr>"

definition BlockReverts_GetAccounts :: "BlockReverts option \<Rightarrow> AccountRevert list" where [wire_defs]:
  "BlockReverts_GetAccounts x = (case x of Some m \<Rightarrow> BlockReverts_Accounts m | None \<Rightarrow> [])"

record StateDiff =
  StateDiff_Accounts :: "AccountDiff list"
  StateDiff_Contracts :: "ContractDiff list"
  StateDiff_Reverts :: "BlockReverts list"

definition StateDiff_Reset :: "StateDiff \<Rightarrow> StateDiff" where [wire_defs]:
  "StateDiff_Reset x =
     \<lparr>StateDiff_Accounts = [], StateDiff_Contracts = [], StateDiff_Reverts =
     []\<rparr>"

definition StateDiff_GetAccounts :: "StateDiff option \<Rightarrow> AccountDiff list" where [wire_defs]:
  "StateDiff_GetAccounts x = (case x of Some m \<Rightarrow> StateDiff_Accounts m | None \<Rightarrow> [])"

definition StateDiff_GetContracts :: "StateDiff option \<Rightarrow> ContractDiff list" where [wire_defs]:
  "StateDiff_GetContracts x = (case x of Some m \<Rightarrow> StateDiff_Contracts m | None \<Rightarrow> [])"

definition StateDiff_GetReverts :: "StateDiff option \<Rightarrow> BlockReverts list" where [wire_defs]:
  "StateDiff_GetReverts x = (case x of Some m \<Rightarrow> StateDiff_Reverts m | None \<Rightarrow> [])"

record CallLogFrame =
  CallLogFrame_Address :: "bytes"
  CallLogFrame_Topics :: "bytes list"
  CallLogFrame_Data :: "bytes"
  CallLogFrame_HasPosition :: "bool"
  CallLogFrame_Position :: "u64"
  CallLogFrame_HasIndex :: "bool"
  CallLogFrame_Index :: "u64"

definition CallLogFrame_Reset :: "CallLogFrame \<Rightarrow> CallLogFrame" where [wire_defs]:
  "CallLogFrame_Reset x =
     \<lparr>CallLogFrame_Address = [], CallLogFrame_Topics = [], CallLogFrame_Data = [],
     CallLogFrame_HasPosition = False, CallLogFrame_Position = 0, CallLogFrame_HasIndex =
     False, CallLogFrame_Index = 0\<rparr>"

definition CallLogFrame_GetAddress :: "CallLogFrame option \<Rightarrow> bytes" where [wire_defs]:
  "CallLogFrame_GetAddress x = (case x of Some m \<Rightarrow> CallLogFrame_Address m | None \<Rightarrow> [])"

definition CallLogFrame_GetTopics :: "CallLogFrame option \<Rightarrow> bytes list" where [wire_defs]:
  "CallLogFrame_GetTopics x = (case x of Some m \<Rightarrow> CallLogFrame_Topics m | None \<Rightarrow> [])"

definition CallLogFrame_GetData :: "CallLogFrame option \<Rightarrow> bytes" where [wire_defs]:
  "CallLogFrame_GetData x = (case x of Some m \<Rightarrow> CallLogFrame_Data m | None \<Rightarrow> [])"

definition CallLogFrame_GetHasPosition :: "CallLogFrame option \<Rightarrow> bool" where [wire_defs]:
  "CallLogFrame_GetHasPosition x = (case x of Some m \<Rightarrow> CallLogFrame_HasPosition m | None \<Rightarrow> False)"

definition CallLogFrame_GetPosition :: "CallLogFrame option \<Rightarrow> u64" where [wire_defs]:
  "CallLogFrame_GetPosition x = (case x of Some m \<Rightarrow> CallLogFrame_Position m | None \<Rightarrow> 0)"

definition CallLogFrame_GetHasIndex :: "CallLogFrame option \<Rightarrow> bool" where [wire_defs]:
  "CallLogFrame_GetHasIndex x = (case x of Some m \<Rightarrow> CallLogFrame_HasIndex m | None \<Rightarrow> False)"

definition CallLogFrame_GetIndex :: "CallLogFrame option \<Rightarrow> u64" where [wire_defs]:
  "CallLogFrame_GetIndex x = (case x of Some m \<Rightarrow> CallLogFrame_Index m | None \<Rightarrow> 0)"

datatype CallFrame = CallFrame
  (CallFrame_Typ: "string")
  (CallFrame_From: "bytes")
  (CallFrame_To: "bytes")
  (CallFrame_Value: "bytes")
  (CallFrame_Gas: "bytes")
  (CallFrame_GasUsed: "bytes")
  (CallFrame_Input: "bytes")
  (CallFrame_Output: "bytes")
  (CallFrame_Error: "string")
  (CallFrame_RevertReason: "string")
  (CallFrame_Calls: "CallFrame list")
  (CallFrame_Logs: "CallLogFrame list")

definition CallFrame_Reset :: "CallFrame \<Rightarrow> CallFrame" where [wire_defs]:
  "CallFrame_Reset x =
     CallFrame '''' [] [] [] [] [] [] [] '''' '''' [] []"

definition CallFrame_GetTyp :: "CallFrame option \<Rightarrow> string" where [wire_defs]:
  "CallFrame_GetTyp x = (case x of Some m \<Rightarrow> CallFrame_Typ m | None \<Rightarrow> '''')"

definition CallFrame_GetFrom :: "CallFrame option \<Rightarrow> bytes" where [wire_defs]:
  "CallFrame_GetFrom x = (case x of Some m \<Rightarrow> CallFrame_From m | None \<Rightarrow> [])"

definition CallFrame_GetTo :: "CallFrame option \<Rightarrow> bytes" where [wire_defs]:
  "CallFrame_GetTo x = (case x of Some m \<Rightarrow> CallFrame_To m | None \<Rightarrow> [])"

definition CallFrame_GetValue :: "CallFrame option \<Rightarrow> bytes" where [wire_defs]:
  "CallFrame_GetValue x = (case x of Some m \<Rightarrow> CallFrame_Value m | None \<Rightarrow> [])"

definition CallFrame_GetGas :: "CallFrame option \<Rightarrow> bytes" where [wire_defs]:
  "CallFrame_GetGas x = (case x of Some m \<Rightarrow> CallFrame_Gas m | None \<Rightarrow> [])"

definition CallFrame_GetGasUsed :: "CallFrame option \<Rightarrow> bytes" where [wire_defs]:
  "CallFrame_GetGasUsed x = (case x of Some m \<Rightarrow> CallFrame_GasUsed m | None \<Rightarrow> [])"

definition CallFrame_GetInput :: "CallFrame option \<Rightarrow> bytes" where [wire_defs]:
  "CallFrame_GetInput x = (case x of Some m \<Rightarrow> CallFrame_Input m | None \<Rightarrow> [])"

definition CallFrame_GetOutput :: "CallFrame option \<Rightarrow> bytes" where [wire_defs]:
  "CallFrame_GetOutput x = (case x of Some m \<Rightarrow> CallFrame_Output m | None \<Rightarrow> [])"

definition CallFrame_GetError :: "CallFrame option \<Rightarrow> string" where [wire_defs]:
  "CallFrame_GetError x = (case x of Some m \<Rightarrow> CallFrame_Error m | None \<Rightarrow> '''')"

definition CallFrame_GetRevertReason :: "CallFrame option \<Rightarrow> string" where [wire_defs]:
  "CallFrame_GetRevertReason x = (case x of Some m \<Rightarrow> CallFrame_RevertReason m | None \<Rightarrow> '''')"

definition CallFrame_GetCalls :: "CallFrame option \<Rightarrow> CallFrame list" where [wire_defs]:
  "CallFrame_GetCalls x = (case x of Some m \<Rightarrow> CallFrame_Calls m | None \<Rightarrow> [])"

definition CallFrame_GetLogs :: "CallFrame option \<Rightarrow> CallLogFrame list" where [wire_defs]:
  "CallFrame_GetLogs x = (case x of Some m \<Rightarrow> CallFrame_Logs m | None \<Rightarrow> [])"

record BlockCallTraces =
  BlockCallTraces_BlockNumber :: "u64"
  BlockCallTraces_Txs :: "CallFrame list"

definition BlockCallTraces_Reset :: "BlockCallTraces \<Rightarrow> BlockCallTraces" where [wire_defs]:
  "BlockCallTraces_Reset x =
     \<lparr>BlockCallTraces_BlockNumber = 0, BlockCallTraces_Txs = []\<rparr>"

definition BlockCallTraces_GetBlockNumber :: "BlockCallTraces option \<Rightarrow> u64" where [wire_defs]:
  "BlockCallTraces_GetBlockNumber x = (case x of Some m \<Rightarrow> BlockCallTraces_BlockNumber m | None \<Rightarrow> 0)"

definition BlockCallTraces_GetTxs :: "BlockCallTraces option \<Rightarrow> CallFrame list" where [wire_defs]:
  "BlockCallTraces_GetTxs x = (case x of Some m \<Rightarrow> BlockCallTraces_Txs m | None \<Rightarrow> [])"

record Chain =
  Chain_Blocks :: "BlockWithReceipts list"
  Chain_StateDiff :: "StateDiff option"
  Chain_CallTraces :: "BlockCallTraces list"

definition Chain_Reset :: "Chain \<Rightarrow> Chain" where [wire_defs]:
  "Chain_Reset x =
     \<lparr>Chain_Blocks = [], Chain_StateDiff = None, Chain_CallTraces = []\<rparr>"

definition Chain_GetBlocks :: "Chain option \<Rightarrow> BlockWithReceipts list" where [wire_defs]:
  "Chain_GetBlocks x = (case x of Some m \<Rightarrow> Chain_Blocks m | None \<Rightarrow> [])"

definition Chain_GetStateDiff :: "Chain option \<Rightarrow> StateDiff option" where [wire_defs]:
  "Chain_GetStateDiff x = (case x of Some m \<Rightarrow> Chain_StateDiff m | None \<Rightarrow> None)"

definition Chain_GetCallTraces :: "Chain option \<Rightarrow> BlockCallTraces list" where [wire_defs]:
  "Chain_GetCallTraces x = (case x of Some m \<Rightarrow> Chain_CallTraces m | None \<Rightarrow> [])"

record ChainCommitted =
  ChainCommitted_New :: "Chain option"

definition ChainCommitted_Reset :: "ChainCommitted \<Rightarrow> ChainCommitted" where [wire_defs]:
  "ChainCommitted_Reset x =
     \<lparr>ChainCommitted_New = None\<rparr>"

definition ChainCommitted_GetNew :: "ChainCommitted option \<Rightarrow> Chain option" where [wire_defs]:
  "ChainCommitted_GetNew x = (case x of Some m \<Rightarrow> ChainCommitted_New m | None \<Rightarrow> None)"

record ChainReorged =
  ChainReorged_Old :: "Chain option"
  ChainReorged_New :: "Chain option"

definition ChainReorged_Reset :: "ChainReorged \<Rightarrow> ChainReorged" where [wire_defs]:
  "ChainReorged_Reset x =
     \<lparr>ChainReorged_Old = None, ChainReorged_New = None\<rparr>"

definition ChainReorged_GetOld :: "ChainReorged option \<Rightarrow> Chain option" where [wire_defs]:
  "ChainReorged_GetOld x = (case x of Some m \<Rightarrow> ChainReorged_Old m | None \<Rightarrow> None)"

definition ChainReorged_GetNew :: "ChainReorged option \<Rightarrow> Chain option" where [wire_defs]:
  "ChainReorged_GetNew x = (case x of Some m \<Rightarrow> ChainReorged_New m | None \<Rightarrow> None)"

record ChainReverted =
  ChainReverted_Old :: "Chain option"

definition ChainReverted_Reset :: "ChainReverted \<Rightarrow> ChainReverted" where [wire_defs]:
  "ChainReverted_Reset x =
     \<lparr>ChainReverted_Old = None\<rparr>"

definition ChainReverted_GetOld :: "ChainReverted option \<Rightarrow> Chain option" where [wire_defs]:
  "ChainReverted_GetOld x = (case x of Some m \<Rightarrow> ChainReverted_Old m | None \<Rightarrow> None)"

datatype isNotification_Event =
    Notification_ChainCommitted ChainCommitted
  | Notification_ChainReorged ChainReorged
  | Notification_ChainReverted ChainReverted

record Notification =
  Notification_Event :: "isNotification_Event option"

definition Notification_Reset :: "Notification \<Rightarrow> Notification" where [wire_defs]:
  "Notification_Reset x =
     \<lparr>Notification_Event = None\<rparr>"

definition Notification_GetEvent :: "Notification option \<Rightarrow> isNotification_Event option" where [wire_defs]:
  "Notification_GetEvent x = (case x of Some m \<Rightarrow> Notification_Event m | None \<Rightarrow> None)"

definition Notification_GetChainCommitted :: "Notification option \<Rightarrow> ChainCommitted option" where [wire_defs]:
  "Notification_GetChainCommitted x = 
     (case x of Some m \<Rightarrow> (case Notification_Event m of Some (Notification_ChainCommitted ev) \<Rightarrow> Some ev | _ \<Rightarrow> None)
      | None \<Rightarrow> None)"

definition Notification_GetChainReorged :: "Notification option \<Rightarrow> ChainReorged option" where [wire_defs]:
  "Notification_GetChainReorged x = 
     (case x of Some m \<Rightarrow> (case Notification_Event m of Some (Notification_ChainReorged ev) \<Rightarrow> Some ev | _ \<Rightarrow> None)
      | None \<Rightarrow> None)"

definition Notification_GetChainReverted :: "Notification option \<Rightarrow> ChainReverted option" where [wire_defs]:
  "Notification_GetChainReverted x = 
     (case x of Some m \<Rightarrow> (case Notification_Event m of Some (Notification_ChainReverted ev) \<Rightarrow> Some ev | _ \<Rightarrow> None)
      | None \<Rightarrow> None)"


end
