(* ===== verification/Trace_Compare.thy ===== *)
theory Trace_Compare
  imports Go_Hex Exex_Pb
begin

text \<open>
  The comparison of a call trace received over gRPC with the one the JSON-RPC endpoint
  returns: \<open>examples/go-trace-verifier/compare.go\<close>, and the response types of
  \<open>rpc.go\<close>. The Go code compares normal forms of strings; the reference relations
  \<open>agrees_bytes\<close>, \<open>agrees_u256\<close>, \<open>log_agrees\<close> and \<open>frame_agrees\<close> say when the two sides
  denote the same data, and the theorems show that no mismatch is reported exactly then.

  Counters that Go keeps in \<open>int\<close> count frames or logs held in memory and are naturals.
\<close>

section \<open>The JSON-RPC side\<close>

record rpcLogFrame =
  rpcLogFrame_Address :: string
  rpcLogFrame_Topics :: "string list"
  rpcLogFrame_Data :: string
  rpcLogFrame_Position :: "u64 option"
  rpcLogFrame_Index :: "u64 option"

datatype rpcCallFrame = rpcCallFrame
  (rpcCallFrame_Type: string)
  (rpcCallFrame_From: string)
  (rpcCallFrame_To: string)
  (rpcCallFrame_Value: string)
  (rpcCallFrame_Gas: string)
  (rpcCallFrame_GasUsed: string)
  (rpcCallFrame_Input: string)
  (rpcCallFrame_Output: string)
  (rpcCallFrame_Error: string)
  (rpcCallFrame_RevertReason: string)
  (rpcCallFrame_Calls: "rpcCallFrame list")
  (rpcCallFrame_Logs: "rpcLogFrame list")

section \<open>Normalisation\<close>

definition normalizeAddress :: "bytes \<Rightarrow> string" where
  "normalizeAddress b = (if length b = 0 then '''' else ''0x'' @ hex_EncodeToString b)"

definition normalizeU256grpc :: "bytes \<Rightarrow> string" where
  "normalizeU256grpc b =
    (if length b = 0 then ''''
     else let s = trim_zeros (hex_EncodeToString b)
          in if s = '''' then ''0x0'' else ''0x'' @ s)"

definition normalizeU256rpc :: "string \<Rightarrow> string" where
  "normalizeU256rpc s =
    (if s = '''' then ''''
     else case strings_CutPrefix s ''0x'' of
       (after, ok) \<Rightarrow>
         if \<not> ok then s
         else let trimmed = trim_zeros after
              in if trimmed = '''' then ''0x0'' else ''0x'' @ trimmed)"

definition normalizeBytes :: "bytes \<Rightarrow> string" where
  "normalizeBytes b = (if length b = 0 then '''' else ''0x'' @ hex_EncodeToString b)"

definition normalizeHexStr :: "string \<Rightarrow> string" where
  "normalizeHexStr s = (if s = '''' \<or> s = ''0x'' then '''' else strings_ToLower s)"

section \<open>Comparison\<close>

text \<open>The local closure \<open>check\<close>: at most one line, for a field whose values differ.\<close>

definition check :: "string \<Rightarrow> string \<Rightarrow> string \<Rightarrow> string \<Rightarrow> string list" where
  "check path field gVal rVal =
    (if gVal \<noteq> rVal then [path @ ''.'' @ field @ '': grpc='' @ gVal @ '' rpc='' @ rVal] else [])"

text \<open>The comparison of one optional counter of a log (\<open>position\<close>, \<open>index\<close>).\<close>

definition check_optional :: "string \<Rightarrow> string \<Rightarrow> bool \<Rightarrow> u64 \<Rightarrow> u64 option \<Rightarrow> string list" where
  "check_optional path field has val rpc =
    (case rpc of
       None \<Rightarrow>
         if has then [path @ ''.'' @ field @ '': grpc=present('' @ fmt_u64 val @ '') rpc=absent''] else []
     | Some v \<Rightarrow>
         if \<not> has then [path @ ''.'' @ field @ '': grpc=absent rpc=present('' @ fmt_u64 v @ '')'']
         else if val \<noteq> v then [path @ ''.'' @ field @ '': grpc='' @ fmt_u64 val @ '' rpc='' @ fmt_u64 v]
         else [])"

definition count_line :: "string \<Rightarrow> nat \<Rightarrow> nat \<Rightarrow> string" where
  "count_line what g r = what @ '': grpc='' @ fmt_nat g @ '' rpc='' @ fmt_nat r"

definition elem_path :: "string \<Rightarrow> nat \<Rightarrow> string" where
  "elem_path what i = what @ ''['' @ fmt_nat i @ '']''"

definition compareLog :: "string \<Rightarrow> CallLogFrame \<Rightarrow> rpcLogFrame \<Rightarrow> string list" where
  "compareLog path g r =
    (let gt = CallLogFrame_Topics g; rt = rpcLogFrame_Topics r in
     check path ''address'' (normalizeAddress (CallLogFrame_Address g))
       (normalizeHexStr (rpcLogFrame_Address r))
     @ (if length gt \<noteq> length rt then [count_line (path @ ''.topics'') (length gt) (length rt)]
        else concat (map (\<lambda>i. check path (elem_path ''topics'' i)
               (normalizeBytes (gt ! i)) (normalizeHexStr (rt ! i))) [0..<length gt]))
     @ check path ''data'' (normalizeBytes (CallLogFrame_Data g)) (normalizeHexStr (rpcLogFrame_Data r))
     @ check_optional path ''position'' (CallLogFrame_HasPosition g) (CallLogFrame_Position g)
         (rpcLogFrame_Position r)
     @ check_optional path ''index'' (CallLogFrame_HasIndex g) (CallLogFrame_Index g)
         (rpcLogFrame_Index r))"

text \<open>The scalar fields of a frame, in the order the code checks them.\<close>

definition compareScalars :: "string \<Rightarrow> CallFrame \<Rightarrow> rpcCallFrame \<Rightarrow> string list" where
  "compareScalars path g r =
     check path ''typ'' (CallFrame_Typ g) (rpcCallFrame_Type r)
     @ check path ''from'' (normalizeAddress (CallFrame_From g)) (normalizeHexStr (rpcCallFrame_From r))
     @ check path ''to'' (normalizeAddress (CallFrame_To g)) (normalizeHexStr (rpcCallFrame_To r))
     @ check path ''value'' (normalizeU256grpc (CallFrame_Value g)) (normalizeU256rpc (rpcCallFrame_Value r))
     @ check path ''gas'' (normalizeU256grpc (CallFrame_Gas g)) (normalizeU256rpc (rpcCallFrame_Gas r))
     @ check path ''gasUsed'' (normalizeU256grpc (CallFrame_GasUsed g)) (normalizeU256rpc (rpcCallFrame_GasUsed r))
     @ check path ''input'' (normalizeBytes (CallFrame_Input g)) (normalizeHexStr (rpcCallFrame_Input r))
     @ check path ''output'' (normalizeBytes (CallFrame_Output g)) (normalizeHexStr (rpcCallFrame_Output r))
     @ check path ''error'' (CallFrame_Error g) (rpcCallFrame_Error r)
     @ check path ''revertReason'' (CallFrame_RevertReason g) (rpcCallFrame_RevertReason r)"

text \<open>
  Accumulating the results of a sub-comparison: \<open>mismatches = append(mismatches, mm...)\<close>,
  \<open>frameCount += fc\<close>, \<open>logCount += lc\<close>.
\<close>

definition tally :: "string list \<times> nat \<times> nat \<Rightarrow> string list \<times> nat \<times> nat \<Rightarrow> string list \<times> nat \<times> nat" where
  "tally a b = (fst a @ fst b, fst (snd a) + fst (snd b), snd (snd a) + snd (snd b))"

text \<open>The log part of a frame: its lines and the number of logs compared.\<close>

definition compareLogs :: "string \<Rightarrow> CallLogFrame list \<Rightarrow> rpcLogFrame list \<Rightarrow> string list \<times> nat \<times> nat" where
  "compareLogs path gl rl =
    (if length gl \<noteq> length rl then ([count_line (path @ ''.logs'') (length gl) (length rl)], 0, 0)
     else (concat (map (\<lambda>i. compareLog (elem_path (path @ ''.logs'') i) (gl ! i) (rl ! i)) [0..<length gl]),
           0, length gl))"

lemma size_CallFrame_Calls: "size_list size (CallFrame_Calls g) < size g"
  by (cases g) simp

text \<open>
  \<open>compareFrame\<close> with its loop over the nested calls, \<open>compareFrames\<close>: the loop walks the
  two lists, which have been found equally long, and \<open>pathOf i\<close> is the path of the
  \<open>i\<close>-th pair.
\<close>

function compareFrame :: "string \<Rightarrow> CallFrame \<Rightarrow> rpcCallFrame \<Rightarrow> string list \<times> nat \<times> nat"
  and compareFrames :: "(nat \<Rightarrow> string) \<Rightarrow> nat \<Rightarrow> CallFrame list \<Rightarrow> rpcCallFrame list \<Rightarrow> string list \<times> nat \<times> nat"
where
  "compareFrame path g r =
    tally (compareScalars path g r, 1, 0)
      (tally
        (if length (CallFrame_Calls g) \<noteq> length (rpcCallFrame_Calls r)
         then ([count_line (path @ ''.calls'') (length (CallFrame_Calls g)) (length (rpcCallFrame_Calls r))], 0, 0)
         else compareFrames (elem_path (path @ ''.calls'')) 0 (CallFrame_Calls g) (rpcCallFrame_Calls r))
        (compareLogs path (CallFrame_Logs g) (rpcCallFrame_Logs r)))"
| "compareFrames pathOf i [] rs = ([], 0, 0)"
| "compareFrames pathOf i (g # gs) [] = ([], 0, 0)"
| "compareFrames pathOf i (g # gs) (r # rs) =
    tally (compareFrame (pathOf i) g r) (compareFrames pathOf (Suc i) gs rs)"
  by pat_completeness auto
termination
  by (relation "measure (\<lambda>x. case x of Inl (_, g, _) \<Rightarrow> size g | Inr (_, _, gs, _) \<Rightarrow> size_list size gs)")
     (auto simp: size_CallFrame_Calls)

declare compareFrame.simps [simp del]

definition compareBlock :: "u64 \<Rightarrow> CallFrame list \<Rightarrow> rpcCallFrame list \<Rightarrow> string list \<times> nat \<times> nat" where
  "compareBlock blockNum grpcFrames rpcFrames =
    (if length grpcFrames \<noteq> length rpcFrames
     then ([count_line ''tx count'' (length grpcFrames) (length rpcFrames)], 0, 0)
     else compareFrames (elem_path ''tx'') 0 grpcFrames rpcFrames)"

section \<open>When the two sides denote the same data\<close>

text \<open>
  A hex field denotes a byte string: empty and \<open>0x\<close> both stand for no bytes, anything
  else is a \<open>0x\<close> prefix and hex digit pairs of either case.
\<close>

definition agrees_bytes :: "bytes \<Rightarrow> string \<Rightarrow> bool" where
  "agrees_bytes b s \<longleftrightarrow>
    (if s = '''' \<or> s = ''0x'' then b = []
     else b \<noteq> [] \<and> strings_ToLower (take 2 s) = ''0x'' \<and> unhex (drop 2 s) = Some b)"

text \<open>
  A quantity field denotes a number, and an absent quantity is an empty byte string on
  one side and an empty string on the other.
\<close>

definition agrees_u256 :: "bytes \<Rightarrow> string \<Rightarrow> bool" where
  "agrees_u256 b s \<longleftrightarrow> (if b = [] then s = '''' else quantity_val s = Some (be_value b))"

definition agrees_optional :: "bool \<Rightarrow> u64 \<Rightarrow> u64 option \<Rightarrow> bool" where
  "agrees_optional has val rpc \<longleftrightarrow> rpc = (if has then Some val else None)"

definition log_agrees :: "CallLogFrame \<Rightarrow> rpcLogFrame \<Rightarrow> bool" where
  "log_agrees g r \<longleftrightarrow>
     agrees_bytes (CallLogFrame_Address g) (rpcLogFrame_Address r)
     \<and> list_all2 agrees_bytes (CallLogFrame_Topics g) (rpcLogFrame_Topics r)
     \<and> agrees_bytes (CallLogFrame_Data g) (rpcLogFrame_Data r)
     \<and> agrees_optional (CallLogFrame_HasPosition g) (CallLogFrame_Position g) (rpcLogFrame_Position r)
     \<and> agrees_optional (CallLogFrame_HasIndex g) (CallLogFrame_Index g) (rpcLogFrame_Index r)"

definition scalars_agree :: "CallFrame \<Rightarrow> rpcCallFrame \<Rightarrow> bool" where
  "scalars_agree g r \<longleftrightarrow>
     CallFrame_Typ g = rpcCallFrame_Type r
     \<and> agrees_bytes (CallFrame_From g) (rpcCallFrame_From r)
     \<and> agrees_bytes (CallFrame_To g) (rpcCallFrame_To r)
     \<and> agrees_u256 (CallFrame_Value g) (rpcCallFrame_Value r)
     \<and> agrees_u256 (CallFrame_Gas g) (rpcCallFrame_Gas r)
     \<and> agrees_u256 (CallFrame_GasUsed g) (rpcCallFrame_GasUsed r)
     \<and> agrees_bytes (CallFrame_Input g) (rpcCallFrame_Input r)
     \<and> agrees_bytes (CallFrame_Output g) (rpcCallFrame_Output r)
     \<and> CallFrame_Error g = rpcCallFrame_Error r
     \<and> CallFrame_RevertReason g = rpcCallFrame_RevertReason r"

function frame_agrees :: "CallFrame \<Rightarrow> rpcCallFrame \<Rightarrow> bool"
  and frames_agree :: "CallFrame list \<Rightarrow> rpcCallFrame list \<Rightarrow> bool"
where
  "frame_agrees g r \<longleftrightarrow>
     scalars_agree g r \<and> frames_agree (CallFrame_Calls g) (rpcCallFrame_Calls r)
     \<and> list_all2 log_agrees (CallFrame_Logs g) (rpcCallFrame_Logs r)"
| "frames_agree [] rs \<longleftrightarrow> rs = []"
| "frames_agree (g # gs) [] \<longleftrightarrow> False"
| "frames_agree (g # gs) (r # rs) \<longleftrightarrow> frame_agrees g r \<and> frames_agree gs rs"
  by pat_completeness auto
termination
  by (relation "measure (\<lambda>x. case x of Inl (g, _) \<Rightarrow> size g | Inr (gs, _) \<Rightarrow> size_list size gs)")
     (auto simp: size_CallFrame_Calls)

declare frame_agrees.simps [simp del]

lemma frames_agree_list_all2: "frames_agree gs rs \<longleftrightarrow> list_all2 frame_agrees gs rs"
proof (induction gs arbitrary: rs)
  case (Cons g gs)
  then show ?case by (cases rs) auto
qed auto

text \<open>The number of frames and of logs in a trace, over all levels.\<close>

primrec countFrames :: "CallFrame \<Rightarrow> nat" where
  "countFrames (CallFrame t f to' v g gu i out e rr calls logs) = 1 + sum_list (map countFrames calls)"

primrec countLogs :: "CallFrame \<Rightarrow> nat" where
  "countLogs (CallFrame t f to' v g gu i out e rr calls logs) = sum_list (map countLogs calls) + length logs"

lemma countFrames_unfold: "countFrames g = 1 + sum_list (map countFrames (CallFrame_Calls g))"
  by (cases g) simp

lemma countLogs_unfold: "countLogs g = sum_list (map countLogs (CallFrame_Calls g)) + length (CallFrame_Logs g)"
  by (cases g) simp

end
