(* ===== verification/Trace_Compare_Correct.thy ===== *)
theory Trace_Compare_Correct
  imports Trace_Compare
begin

text \<open>
  Correctness of the trace comparison: each pair of normalisers decides whether its two
  arguments denote the same data; a comparison reports nothing exactly when the traces
  agree; the counters of a passing comparison are those of the whole trace; every line
  reported names a position under the path it was started with.
\<close>

section \<open>Normalisers\<close>

text \<open>
  The contract between a normaliser of the gRPC bytes and one of the JSON-RPC string:
  equal normal forms mean equal data.
\<close>

locale field_normaliser =
  fixes gnorm :: "'g \<Rightarrow> string"
    and rnorm :: "'r \<Rightarrow> string"
    and agrees :: "'g \<Rightarrow> 'r \<Rightarrow> bool"
  assumes norm_eq_iff: "gnorm b = rnorm s \<longleftrightarrow> agrees b s"
begin

lemma check_silent_iff: "check path field (gnorm b) (rnorm s) = [] \<longleftrightarrow> agrees b s"
  by (simp add: check_def norm_eq_iff)

lemma check_reports:
  "\<not> agrees b s \<Longrightarrow>
   check path field (gnorm b) (rnorm s) = [path @ ''.'' @ field @ '': grpc='' @ gnorm b @ '' rpc='' @ rnorm s]"
  by (simp add: check_def norm_eq_iff)

lemma same_data_same_norm: "agrees b s \<Longrightarrow> agrees b t \<Longrightarrow> rnorm s = rnorm t"
  by (simp flip: norm_eq_iff)

lemma check_each_silent_iff:
  assumes "length bs = length ss"
  shows "concat (map (\<lambda>i. check path (f i) (gnorm (bs ! i)) (rnorm (ss ! i))) [0..<length bs]) = []
    \<longleftrightarrow> list_all2 agrees bs ss"
  using assms by (auto simp: list_all2_conv_all_nth check_silent_iff)

end

lemma normalizeAddress_eq_normalizeBytes: "normalizeAddress = normalizeBytes"
  by (simp add: fun_eq_iff normalizeAddress_def normalizeBytes_def)

lemma ToLower_append: "strings_ToLower (s @ t) = strings_ToLower s @ strings_ToLower t"
  by (simp add: strings_ToLower_def)

lemma length_ToLower [simp]: "length (strings_ToLower s) = length s"
  by (simp add: strings_ToLower_def)

lemma ToLower_eq_Nil [simp]: "strings_ToLower s = [] \<longleftrightarrow> s = []"
  by (simp add: strings_ToLower_def)

lemma ToLower_prefixed_iff:
  "strings_ToLower s = ''0x'' @ hex_EncodeToString b \<longleftrightarrow>
   strings_ToLower (take 2 s) = ''0x'' \<and> unhex (drop 2 s) = Some b"
proof (cases s)
  case Nil
  then show ?thesis by (simp add: strings_ToLower_def)
next
  case (Cons c s')
  note c = this
  show ?thesis
  proof (cases s')
    case Nil
    with c show ?thesis by (simp add: strings_ToLower_def)
  next
    case (Cons d t)
    with c show ?thesis
      by (simp add: ToLower_eq_hex_iff [symmetric]) (simp add: strings_ToLower_def)
  qed
qed

lemma normalizeBytes_eq_iff: "normalizeBytes b = normalizeHexStr s \<longleftrightarrow> agrees_bytes b s"
proof (cases "s = '''' \<or> s = ''0x''")
  case True
  then show ?thesis by (auto simp: normalizeBytes_def normalizeHexStr_def agrees_bytes_def)
next
  case False
  then show ?thesis
    using ToLower_prefixed_iff [of s b]
    by (auto simp: normalizeBytes_def normalizeHexStr_def agrees_bytes_def
        eq_commute [of _ "strings_ToLower s"])
qed

text \<open>\<open>normalizeU256grpc\<close> writes the canonical quantity of the big-endian number.\<close>

lemma normalizeU256grpc_quantity:
  "normalizeU256grpc b = (if b = [] then '''' else quantity (be_value b))"
  using trimmed_quantity [OF nibbles_bound [of b]]
  by (simp add: normalizeU256grpc_def hex_EncodeToString_nibbles digits_value_nibbles Let_def)

lemma CutPrefix_0x:
  "strings_CutPrefix s ''0x'' = (if take 2 s = ''0x'' then (drop 2 s, True) else (s, False))"
  by (simp add: strings_CutPrefix.simps numeral_2_eq_2)

lemma zeros_trim_zeros: "\<exists>k. s = replicate k (CHR ''0'') @ trim_zeros s"
proof (induction s)
  case (Cons c s)
  then obtain k where "s = replicate k (CHR ''0'') @ trim_zeros s" by blast
  then show ?case
    by (cases "c = CHR ''0''")
       (auto simp: trim_zeros_def intro: exI [of _ "Suc k"] exI [of _ "0 :: nat"])
qed (simp add: trim_zeros_def)

lemma normalizeU256rpc_prefixed:
  "normalizeU256rpc (''0x'' @ t) = (if trim_zeros t = '''' then ''0x0'' else ''0x'' @ trim_zeros t)"
  by (simp add: normalizeU256rpc_def CutPrefix_0x Let_def)

lemma normalizeU256rpc_eq_quantity_iff:
  assumes "take 2 s = ''0x''"
  shows "normalizeU256rpc s = quantity n \<longleftrightarrow> quantity_val s = Some n"
proof -
  obtain t where s: "s = ''0x'' @ t" by (metis append_take_drop_id assms)
  show ?thesis
  proof
    assume "quantity_val s = Some n"
    then obtain ds where "\<forall>d \<in> set ds. d < 16" "t = map hex_digit ds" "digits_value 16 ds = n"
      by (auto simp: quantity_val_Some_iff s)
    with trimmed_quantity [of ds] show "normalizeU256rpc s = quantity n"
      by (simp only: s normalizeU256rpc_prefixed)
  next
    assume q: "normalizeU256rpc s = quantity n"
    obtain k where k: "t = replicate k (CHR ''0'') @ trim_zeros t"
      using zeros_trim_zeros by blast
    have "\<exists>ds. (\<forall>d \<in> set ds. d < 16) \<and> trim_zeros t = map hex_digit ds"
    proof (cases "trim_zeros t = ''''")
      case True
      then show ?thesis by (intro exI [of _ "[]"]) simp
    next
      case False
      with q have "trim_zeros t = map hex_digit (base_digits 16 n)"
        by (simp only: s normalizeU256rpc_prefixed if_False quantity_def append_same_eq same_append_eq)
      then show ?thesis using base_digits_bound [of 16 n] by auto
    qed
    then obtain ds where ds: "\<forall>d \<in> set ds. d < 16" "trim_zeros t = map hex_digit ds" by blast
    let ?ds = "replicate k 0 @ ds"
    have b: "\<forall>d \<in> set ?ds. d < 16" using ds(1) by auto
    have t: "t = map hex_digit ?ds" using k ds(2) by simp
    from trimmed_quantity [OF b] q have "quantity (digits_value 16 ?ds) = quantity n"
      by (simp only: s normalizeU256rpc_prefixed t)
    with b t show "quantity_val s = Some n"
      unfolding quantity_val_Some_iff s quantity_inj by blast
  qed
qed

lemma take_quantity [simp]: "take 2 (quantity n) = ''0x''"
  by (simp add: quantity_def numeral_2_eq_2)

lemma quantity_not_Nil [simp]: "quantity n \<noteq> ''''"
  by (simp add: quantity_def)

lemma normalizeU256_eq_iff: "normalizeU256grpc b = normalizeU256rpc s \<longleftrightarrow> agrees_u256 b s"
proof (cases "take 2 s = ''0x''")
  case True
  then have "s \<noteq> ''''" by auto
  moreover from this have "normalizeU256rpc s \<noteq> ''''"
    by (simp add: normalizeU256rpc_def CutPrefix_0x Let_def split: prod.split)
  ultimately show ?thesis
    using normalizeU256rpc_eq_quantity_iff [OF True, of "be_value b"]
    by (auto simp: normalizeU256grpc_quantity agrees_u256_def)
next
  case False
  then have "normalizeU256rpc s = s" by (simp add: normalizeU256rpc_def CutPrefix_0x)
  moreover have "s \<noteq> quantity (be_value b)" using False take_quantity by metis
  moreover have "quantity_val s = None" using False by (simp add: quantity_val_def)
  ultimately show ?thesis by (auto simp: normalizeU256grpc_quantity agrees_u256_def)
qed

interpretation hex_field: field_normaliser normalizeBytes normalizeHexStr agrees_bytes
  by unfold_locales (rule normalizeBytes_eq_iff)

interpretation address_field: field_normaliser normalizeAddress normalizeHexStr agrees_bytes
  by unfold_locales (simp add: normalizeAddress_eq_normalizeBytes normalizeBytes_eq_iff)

interpretation u256_field: field_normaliser normalizeU256grpc normalizeU256rpc agrees_u256
  by unfold_locales (rule normalizeU256_eq_iff)

interpretation text_field: field_normaliser "\<lambda>s. s" "\<lambda>s. s" "(=)"
  by unfold_locales simp

lemmas silent_iffs =
  text_field.check_silent_iff hex_field.norm_eq_iff address_field.norm_eq_iff u256_field.norm_eq_iff

section \<open>Logs\<close>

lemma check_optional_silent_iff: "check_optional path field has v rpc = [] \<longleftrightarrow> agrees_optional has v rpc"
  by (auto simp: check_optional_def agrees_optional_def split: option.split)

lemma compareLog_Nil_iff: "compareLog path g r = [] \<longleftrightarrow> log_agrees g r"
proof -
  have "(if length gt \<noteq> length rt then [count_line (path @ ''.topics'') (length gt) (length rt)]
     else concat (map (\<lambda>i. check path (elem_path ''topics'' i)
            (normalizeBytes (gt ! i)) (normalizeHexStr (rt ! i))) [0..<length gt])) = []
    \<longleftrightarrow> list_all2 agrees_bytes gt rt" for gt rt
    using hex_field.check_each_silent_iff [of gt rt path "elem_path ''topics''"]
    by (cases "length gt = length rt") (auto dest: list_all2_lengthD)
  then show ?thesis
    by (simp only: compareLog_def Let_def append_is_Nil_conv silent_iffs check_optional_silent_iff log_agrees_def)
qed

lemma compareLogs_Nil_iff: "fst (compareLogs path gl rl) = [] \<longleftrightarrow> list_all2 log_agrees gl rl"
  by (auto simp: compareLogs_def compareLog_Nil_iff list_all2_conv_all_nth)

lemma compareLogs_count:
  "snd (compareLogs path gl rl) = (0, if length gl = length rl then length gl else 0)"
  by (simp add: compareLogs_def)

section \<open>Frames\<close>

lemma compareScalars_Nil_iff: "compareScalars path g r = [] \<longleftrightarrow> scalars_agree g r"
  by (simp only: compareScalars_def scalars_agree_def append_is_Nil_conv silent_iffs)

lemma tally_simps [simp]:
  "fst (tally a b) = fst a @ fst b"
  "fst (snd (tally a b)) = fst (snd a) + fst (snd b)"
  "snd (snd (tally a b)) = snd (snd a) + snd (snd b)"
  by (simp_all add: tally_def)

text \<open>The comparison of the nested calls of a frame.\<close>

definition callPart :: "string \<Rightarrow> CallFrame \<Rightarrow> rpcCallFrame \<Rightarrow> string list \<times> nat \<times> nat" where
  "callPart path g r =
    (if length (CallFrame_Calls g) \<noteq> length (rpcCallFrame_Calls r)
     then ([count_line (path @ ''.calls'') (length (CallFrame_Calls g)) (length (rpcCallFrame_Calls r))], 0, 0)
     else compareFrames (elem_path (path @ ''.calls'')) 0 (CallFrame_Calls g) (rpcCallFrame_Calls r))"

lemma compareFrame_parts:
  "compareFrame path g r =
     tally (compareScalars path g r, 1, 0)
       (tally (callPart path g r) (compareLogs path (CallFrame_Logs g) (rpcCallFrame_Logs r)))"
  by (simp add: compareFrame.simps [of path g r] callPart_def)

lemma compareFrame_Nil_iff_mutual:
  "fst (compareFrame path g r) = [] \<longleftrightarrow> frame_agrees g r"
  "length gs = length rs \<Longrightarrow> fst (compareFrames p i gs rs) = [] \<longleftrightarrow> frames_agree gs rs"
proof (induction path g r and p i gs rs rule: compareFrame_compareFrames.induct)
  case (1 path g r)
  have "fst (callPart path g r) = [] \<longleftrightarrow> frames_agree (CallFrame_Calls g) (rpcCallFrame_Calls r)"
    using 1 by (auto simp: callPart_def frames_agree_list_all2 dest: list_all2_lengthD)
  then show ?case
    by (simp add: compareFrame_parts [of path g r] compareScalars_Nil_iff compareLogs_Nil_iff frame_agrees.simps [of g r])
qed simp_all

lemmas compareFrame_Nil_iff = compareFrame_Nil_iff_mutual(1)
lemmas compareFrames_Nil_iff = compareFrame_Nil_iff_mutual(2)

lemma compareFrame_counts_mutual:
  "frame_agrees g r \<Longrightarrow> snd (compareFrame path g r) = (countFrames g, countLogs g)"
  "frames_agree gs rs \<Longrightarrow> snd (compareFrames p i gs rs) =
     (sum_list (map countFrames gs), sum_list (map countLogs gs))"
proof (induction path g r and p i gs rs rule: compareFrame_compareFrames.induct)
  case (1 path g r)
  from "1.prems" have f: "frames_agree (CallFrame_Calls g) (rpcCallFrame_Calls r)"
    and l: "length (CallFrame_Logs g) = length (rpcCallFrame_Logs r)"
    by (auto simp: frame_agrees.simps [of g r] dest: list_all2_lengthD)
  from f have len: "length (CallFrame_Calls g) = length (rpcCallFrame_Calls r)"
    by (simp add: frames_agree_list_all2 list_all2_lengthD)
  with 1 f have "snd (callPart path g r) =
      (sum_list (map countFrames (CallFrame_Calls g)), sum_list (map countLogs (CallFrame_Calls g)))"
    by (simp add: callPart_def)
  with l show ?case
    by (simp add: prod_eq_iff compareFrame_parts [of path g r] compareLogs_count countFrames_unfold [of g] countLogs_unfold [of g])
qed (simp_all add: prod_eq_iff)

lemma compareFrame_bounds_mutual:
  "1 \<le> fst (snd (compareFrame path g r)) \<and> fst (snd (compareFrame path g r)) \<le> countFrames g
     \<and> snd (snd (compareFrame path g r)) \<le> countLogs g"
  "fst (snd (compareFrames p i gs rs)) \<le> sum_list (map countFrames gs)
     \<and> snd (snd (compareFrames p i gs rs)) \<le> sum_list (map countLogs gs)"
proof (induction path g r and p i gs rs rule: compareFrame_compareFrames.induct)
  case (1 path g r)
  have "fst (snd (callPart path g r)) \<le> sum_list (map countFrames (CallFrame_Calls g))
    \<and> snd (snd (callPart path g r)) \<le> sum_list (map countLogs (CallFrame_Calls g))"
    using 1 by (auto simp: callPart_def)
  then show ?case
    by (simp add: compareFrame_parts [of path g r] compareLogs_count countFrames_unfold [of g] countLogs_unfold [of g])
qed auto

section \<open>Paths\<close>

text \<open>A line is below a path when it continues the path with a dot.\<close>

definition below :: "string \<Rightarrow> string \<Rightarrow> bool" where
  "below path line \<longleftrightarrow> (\<exists>rest. line = path @ ''.'' @ rest)"

lemma belowI: "below path (path @ ''.'' @ rest)"
  by (auto simp: below_def)

lemma below_trans: "below (path @ ''.'' @ x) line \<Longrightarrow> below path line"
  by (auto simp: below_def)

lemma check_below: "line \<in> set (check path field a b) \<Longrightarrow> below path line"
  by (auto simp: check_def below_def split: if_splits)

lemma check_optional_below: "line \<in> set (check_optional path field has v rpc) \<Longrightarrow> below path line"
  by (auto simp: check_optional_def below_def split: if_splits option.splits)

lemma count_line_below: "below path (count_line (path @ ''.'' @ x) a b)"
  by (simp add: count_line_def below_def)

lemma elem_path_dot: "elem_path (path @ ''.'' @ x) i = path @ ''.'' @ elem_path x i"
  by (simp add: elem_path_def)

lemma below_elem: "below (elem_path (path @ ''.'' @ x) j) line \<Longrightarrow> below path line"
  by (simp only: elem_path_dot) (rule below_trans)

lemma compareLog_below: "line \<in> set (compareLog path g r) \<Longrightarrow> below path line"
  using count_line_below [of path "''topics''"]
  by (auto simp: compareLog_def Let_def dest: check_below check_optional_below split: if_splits)

lemma compareLogs_below: "line \<in> set (fst (compareLogs path gl rl)) \<Longrightarrow> below path line"
  using count_line_below [of path "''logs''"]
  by (auto simp: compareLogs_def elem_path_dot [of path "''logs''", simplified]
      dest: compareLog_below below_trans [of path, simplified] split: if_splits)

lemma compareScalars_below: "line \<in> set (compareScalars path g r) \<Longrightarrow> below path line"
  by (auto simp: compareScalars_def dest: check_below)

lemma compareFrame_below_mutual:
  "line \<in> set (fst (compareFrame path g r)) \<Longrightarrow> below path line"
  "line \<in> set (fst (compareFrames p i gs rs)) \<Longrightarrow> \<exists>j. i \<le> j \<and> j < i + length gs \<and> below (p j) line"
proof (induction path g r and p i gs rs rule: compareFrame_compareFrames.induct)
  case (1 path g r)
  have "line \<in> set (fst (callPart path g r)) \<Longrightarrow> below path line"
    using "1.IH" count_line_below [of path "''calls''"] below_elem [of path "''calls''"]
    by (auto simp: callPart_def split: if_splits)
  with "1.prems" show ?case
    by (auto simp: compareFrame_parts [of path g r] dest: compareScalars_below compareLogs_below)
next
  case (4 p i g gs r rs)
  then consider "below (p i) line" | j where "Suc i \<le> j" "j < Suc i + length gs" "below (p j) line"
    by auto
  then show ?case
  proof cases
    case 1
    then show ?thesis by (intro exI [of _ i]) simp
  next
    case (2 j)
    then show ?thesis by (intro exI [of _ j]) simp
  qed
qed simp_all

lemmas compareFrame_below = compareFrame_below_mutual(1)
lemmas compareFrames_below = compareFrame_below_mutual(2)

lemma compareFrames_segment:
  assumes "length gs = length rs" "k < length gs" "line \<in> set (fst (compareFrame (p (i + k)) (gs ! k) (rs ! k)))"
  shows "line \<in> set (fst (compareFrames p i gs rs))"
  using assms
proof (induction gs arbitrary: rs i k)
  case (Cons g gs)
  from Cons.prems obtain r rs' where rs: "rs = r # rs'" by (cases rs) auto
  show ?case
  proof (cases k)
    case 0
    with Cons.prems rs show ?thesis by simp
  next
    case (Suc k')
    with Cons.prems rs Cons.IH [of rs' k' "Suc i"] show ?thesis by simp
  qed
qed simp

lemma compareFrames_member:
  assumes "length gs = length rs" "line \<in> set (fst (compareFrames p i gs rs))"
  shows "\<exists>k < length gs. line \<in> set (fst (compareFrame (p (i + k)) (gs ! k) (rs ! k)))"
  using assms
proof (induction gs arbitrary: rs i)
  case (Cons g gs)
  from Cons.prems obtain r rs' where rs: "rs = r # rs'" by (cases rs) auto
  with Cons.prems consider "line \<in> set (fst (compareFrame (p i) g r))"
    | "line \<in> set (fst (compareFrames p (Suc i) gs rs'))" by auto
  then show ?case
  proof cases
    case 1
    with rs show ?thesis by (intro exI [of _ 0]) simp
  next
    case 2
    with Cons.IH [of rs' "Suc i"] Cons.prems rs obtain k where
      "k < length gs" "line \<in> set (fst (compareFrame (p (Suc i + k)) (gs ! k) (rs' ! k)))" by auto
    with rs show ?thesis by (intro exI [of _ "Suc k"]) simp
  qed
qed simp

text \<open>Different indices give paths that no common line is below.\<close>

lemma bracket_not_in_fmt_nat: "CHR '']'' \<notin> set (fmt_nat n)"
  by (rule fmt_nat_chars) (simp add: digit_val_def)

lemma append_bracket_inj:
  "c \<notin> set xs \<Longrightarrow> c \<notin> set ys \<Longrightarrow> xs @ c # us = ys @ c # vs \<Longrightarrow> xs = ys"
proof -
  have t: "takeWhile (\<lambda>x. x \<noteq> c) (zs @ c # ws) = zs" if "c \<notin> set zs" for zs ws
    using that by (induction zs) auto
  assume "c \<notin> set xs" "c \<notin> set ys" "xs @ c # us = ys @ c # vs"
  then show "xs = ys" using t by metis
qed

lemma below_elem_path_unique:
  assumes "below (elem_path p i) line" "below (elem_path p j) line"
  shows "i = j"
proof -
  from assms obtain u v where
    "fmt_nat i @ CHR '']'' # u = fmt_nat j @ CHR '']'' # v"
    by (auto simp: below_def elem_path_def)
  then have "fmt_nat i = fmt_nat j"
    by (rule append_bracket_inj [OF bracket_not_in_fmt_nat bracket_not_in_fmt_nat])
  then show ?thesis by (simp add: fmt_nat_inj)
qed

lemma compareBlock_Nil_iff: "fst (compareBlock n gs rs) = [] \<longleftrightarrow> list_all2 frame_agrees gs rs"
  using compareFrames_Nil_iff [of gs rs "elem_path ''tx''" 0]
  by (auto simp: compareBlock_def frames_agree_list_all2 dest: list_all2_lengthD)

lemma compareBlock_localises:
  assumes len: "length gs = length rs" and i: "i < length gs"
  shows "(\<exists>line \<in> set (fst (compareBlock n gs rs)). below (elem_path ''tx'' i) line)
    \<longleftrightarrow> \<not> frame_agrees (gs ! i) (rs ! i)"
proof
  assume "\<exists>line \<in> set (fst (compareBlock n gs rs)). below (elem_path ''tx'' i) line"
  then obtain line where l: "line \<in> set (fst (compareFrames (elem_path ''tx'') 0 gs rs))"
    and b: "below (elem_path ''tx'' i) line"
    using len by (auto simp: compareBlock_def)
  from compareFrames_member [OF len l] obtain k where
    k: "line \<in> set (fst (compareFrame (elem_path ''tx'' k) (gs ! k) (rs ! k)))" by auto
  with b have "k = i" using compareFrame_below below_elem_path_unique by blast
  with k show "\<not> frame_agrees (gs ! i) (rs ! i)"
    using compareFrame_Nil_iff [of "elem_path ''tx'' i" "gs ! i" "rs ! i"] by auto
next
  assume "\<not> frame_agrees (gs ! i) (rs ! i)"
  then obtain line where "line \<in> set (fst (compareFrame (elem_path ''tx'' i) (gs ! i) (rs ! i)))"
    using compareFrame_Nil_iff [of "elem_path ''tx'' i" "gs ! i" "rs ! i"]
    by (metis list.set_intros(1) neq_Nil_conv)
  with len i show "\<exists>line \<in> set (fst (compareBlock n gs rs)). below (elem_path ''tx'' i) line"
    using compareFrames_segment [of gs rs i line "elem_path ''tx''" 0]
    by (auto simp: compareBlock_def intro: compareFrame_below)
qed

end
