(* ===== verification/Go_Json_Text.thy ===== *)
theory Go_Json_Text
  imports Go_Strings "HOL-Library.Monad_Syntax"
begin

text \<open>
  JSON texts, as \<open>encoding/json\<close> reads them: the grammar of its scanner with its limit of
  10000 levels of nesting, and the unquoting of strings, where an unpaired surrogate becomes
  U+FFFD. Bytes from 128 on are taken over, which is what Go does with valid UTF-8.

  The recursion carries fuel; the input's length is enough (\<open>parse_value_fuel\<close>). The printer
  \<open>json_text\<close> writes a value without white space; parsing its output gives the value back.
\<close>

datatype json =
    JNull
  | JBool bool
  | JNumber string
  | JString string
  | JArray "json list"
  | JObject "(string \<times> json) list"

section \<open>Characters and white space\<close>

definition is_ws :: "char \<Rightarrow> bool" where
  "is_ws c \<longleftrightarrow> of_char c \<in> {32, 9, 10, 13 :: nat}"

definition skip_ws :: "string \<Rightarrow> string" where
  "skip_ws s = dropWhile is_ws s"

definition is_dec :: "char \<Rightarrow> bool" where
  "is_dec c \<longleftrightarrow> (of_char c :: nat) \<in> {48..57}"

text \<open>The next character after white space, when it is the given one.\<close>

definition expect :: "char \<Rightarrow> string \<Rightarrow> string option" where
  "expect c s = (case skip_ws s of d # r \<Rightarrow> if d = c then Some r else None | [] \<Rightarrow> None)"

section \<open>Strings\<close>

definition hex4 :: "string \<Rightarrow> nat option" where
  "hex4 s =
    (if length s < 4 then None
     else do {
       a \<leftarrow> digit_val (s ! 0); b \<leftarrow> digit_val (s ! 1); c \<leftarrow> digit_val (s ! 2); d \<leftarrow> digit_val (s ! 3);
       if a < 16 \<and> b < 16 \<and> c < 16 \<and> d < 16 then Some (((a * 16 + b) * 16 + c) * 16 + d) else None })"

text \<open>The code of an escape \<open>\u....\<close> at the head of a text.\<close>

definition getu4 :: "string \<Rightarrow> nat option" where
  "getu4 s =
    (if 2 \<le> length s \<and> s ! 0 = CHR 0x5C \<and> s ! 1 = CHR ''u'' then hex4 (drop 2 s) else None)"

definition utf8 :: "nat \<Rightarrow> string" where
  "utf8 n =
    (if n < 128 then [char_of n]
     else if n < 2048 then [char_of (192 + n div 64), char_of (128 + n mod 64)]
     else if n < 65536 then [char_of (224 + n div 4096), char_of (128 + n div 64 mod 64), char_of (128 + n mod 64)]
     else [char_of (240 + n div 262144), char_of (128 + n div 4096 mod 64), char_of (128 + n div 64 mod 64),
           char_of (128 + n mod 64)])"

definition unescape :: "char \<Rightarrow> char option" where
  "unescape c =
    (if c = CHR 0x22 \<or> c = CHR 0x5C \<or> c = CHR ''/'' then Some c
     else if c = CHR ''b'' then Some (char_of (8 :: nat))
     else if c = CHR ''f'' then Some (char_of (12 :: nat))
     else if c = CHR ''n'' then Some (char_of (10 :: nat))
     else if c = CHR ''r'' then Some (char_of (13 :: nat))
     else if c = CHR ''t'' then Some (char_of (9 :: nat))
     else None)"

text \<open>
  The characters one item of a string body stands for and the rest: an escape, a pair of
  surrogate escapes, or a plain character. \<open>None\<close> when the item is not allowed.
\<close>

definition string_item :: "string \<Rightarrow> (string \<times> string) option" where
  "string_item s =
    (case s of
       [] \<Rightarrow> None
     | c # r \<Rightarrow>
         if c = CHR 0x5C then
           (case getu4 s of
              Some code \<Rightarrow>
                if 55296 \<le> code \<and> code < 57344 then
                  (case getu4 (drop 6 s) of
                     Some low \<Rightarrow>
                       if code < 56320 \<and> 56320 \<le> low \<and> low < 57344
                       then Some (utf8 (65536 + (code - 55296) * 1024 + (low - 56320)), drop 12 s)
                       else Some (utf8 65533, drop 6 s)
                   | None \<Rightarrow> Some (utf8 65533, drop 6 s))
                else Some (utf8 code, drop 6 s)
            | None \<Rightarrow>
                (case r of
                   [] \<Rightarrow> None
                 | e # r' \<Rightarrow> map_option (\<lambda>d. ([d], r')) (unescape e)))
         else if (of_char c :: nat) < 32 then None
         else Some ([c], r))"

lemma string_item_shorter: "string_item s = Some (x, r) \<Longrightarrow> length r < length s"
proof -
  assume a: "string_item s = Some (x, r)"
  have g: "6 \<le> length t" if "getu4 t = Some n" for t n
    using that by (auto simp: getu4_def hex4_def split: if_splits)
  show ?thesis using a
    by (auto simp: string_item_def dest!: g split: list.splits if_splits option.splits)
qed

text \<open>The body of a string up to its closing quote.\<close>

function parse_chars :: "string \<Rightarrow> (string \<times> string) option" where
  "parse_chars s =
    (if s \<noteq> [] \<and> hd s = CHR 0x22 then Some ([], tl s)
     else (case string_item s of
         None \<Rightarrow> None
       | Some (x, r) \<Rightarrow> map_option (\<lambda>(xs, r'). (x @ xs, r')) (parse_chars r)))"
  by pat_completeness auto
termination
  by (relation "measure length") (auto dest: string_item_shorter)

declare parse_chars.simps [simp del]

section \<open>Numbers and literals\<close>

text \<open>An optional character out of the given ones, and a non-empty run of digits.\<close>

definition take_one :: "string \<Rightarrow> string \<Rightarrow> string \<times> string" where
  "take_one cs s = (if s \<noteq> [] \<and> hd s \<in> set cs then ([hd s], tl s) else ([], s))"

definition parse_run :: "string \<Rightarrow> (string \<times> string) option" where
  "parse_run s = (if takeWhile is_dec s = [] then None else Some (takeWhile is_dec s, dropWhile is_dec s))"

definition parse_integer :: "string \<Rightarrow> (string \<times> string) option" where
  "parse_integer s = (if s \<noteq> [] \<and> hd s = CHR ''0'' then Some ([hd s], tl s) else parse_run s)"

definition parse_fraction :: "string \<Rightarrow> (string \<times> string) option" where
  "parse_fraction s =
    (if s \<noteq> [] \<and> hd s = CHR ''.'' then do { (ds, r) \<leftarrow> parse_run (tl s); Some (hd s # ds, r) }
     else Some ([], s))"

definition parse_exponent :: "string \<Rightarrow> (string \<times> string) option" where
  "parse_exponent s =
    (if s \<noteq> [] \<and> hd s \<in> set ''eE'' then
       (let (sg, t) = take_one ''+-'' (tl s) in do { (ds, r) \<leftarrow> parse_run t; Some (hd s # sg @ ds, r) })
     else Some ([], s))"

definition parse_number :: "string \<Rightarrow> (string \<times> string) option" where
  "parse_number s =
    (let (sg, s1) = take_one ''-'' s
     in do {
       (i, s2) \<leftarrow> parse_integer s1;
       (f, s3) \<leftarrow> parse_fraction s2;
       (e, s4) \<leftarrow> parse_exponent s3;
       Some (sg @ i @ f @ e, s4) })"

definition parse_literal :: "string \<Rightarrow> string \<Rightarrow> string option" where
  "parse_literal lit s = (if take (length lit) s = lit then Some (drop (length lit) s) else None)"

section \<open>Values\<close>

text \<open>\<open>d\<close> is the number of levels that may still be opened.\<close>

fun parse_value :: "nat \<Rightarrow> nat \<Rightarrow> string \<Rightarrow> (json \<times> string) option"
  and parse_members :: "nat \<Rightarrow> nat \<Rightarrow> string \<Rightarrow> ((string \<times> json) list \<times> string) option"
  and parse_elements :: "nat \<Rightarrow> nat \<Rightarrow> string \<Rightarrow> (json list \<times> string) option" where
  "parse_value 0 d s = None"
| "parse_value (Suc n) d s =
    (case skip_ws s of
       [] \<Rightarrow> None
     | c # r \<Rightarrow>
         if c = CHR ''{'' then
           if d = 0 then None
           else (case expect CHR ''}'' r of
               Some r' \<Rightarrow> Some (JObject [], r')
             | None \<Rightarrow> do { (kvs, r') \<leftarrow> parse_members n (d - 1) r; Some (JObject kvs, r') })
         else if c = CHR ''['' then
           if d = 0 then None
           else (case expect CHR '']'' r of
               Some r' \<Rightarrow> Some (JArray [], r')
             | None \<Rightarrow> do { (vs, r') \<leftarrow> parse_elements n (d - 1) r; Some (JArray vs, r') })
         else if c = CHR 0x22 then do { (x, r') \<leftarrow> parse_chars r; Some (JString x, r') }
         else if c = CHR ''t'' then do { r' \<leftarrow> parse_literal ''rue'' r; Some (JBool True, r') }
         else if c = CHR ''f'' then do { r' \<leftarrow> parse_literal ''alse'' r; Some (JBool False, r') }
         else if c = CHR ''n'' then do { r' \<leftarrow> parse_literal ''ull'' r; Some (JNull, r') }
         else do { (x, r') \<leftarrow> parse_number (c # r); Some (JNumber x, r') })"
| "parse_members 0 d s = None"
| "parse_members (Suc n) d s =
     do { r0 \<leftarrow> expect CHR 0x22 s;
          (key, r1) \<leftarrow> parse_chars r0;
          r2 \<leftarrow> expect CHR '':'' r1;
          (v, r3) \<leftarrow> parse_value n d r2;
          (case expect CHR '','' r3 of
             Some r4 \<Rightarrow> do { (kvs, r5) \<leftarrow> parse_members n d r4; Some ((key, v) # kvs, r5) }
           | None \<Rightarrow> do { r4 \<leftarrow> expect CHR ''}'' r3; Some ([(key, v)], r4) }) }"
| "parse_elements 0 d s = None"
| "parse_elements (Suc n) d s =
     do { (v, r1) \<leftarrow> parse_value n d s;
          (case expect CHR '','' r1 of
             Some r2 \<Rightarrow> do { (vs, r3) \<leftarrow> parse_elements n d r2; Some (v # vs, r3) }
           | None \<Rightarrow> do { r2 \<leftarrow> expect CHR '']'' r1; Some ([v], r2) }) }"

definition max_nesting_depth :: nat where
  "max_nesting_depth = 10000"

definition json_parse :: "string \<Rightarrow> json option" where
  "json_parse s =
    do { (v, r) \<leftarrow> parse_value (Suc (length s)) max_nesting_depth s;
         if skip_ws r = [] then Some v else None }"

section \<open>The fuel is enough\<close>

lemma length_skip_ws: "length (skip_ws s) \<le> length s"
  by (simp add: skip_ws_def length_dropWhile_le)

lemma expect_shorter: "expect c s = Some r \<Longrightarrow> length r < length s"
  using length_skip_ws [of s] by (auto simp: expect_def split: list.splits if_splits)

lemma parse_chars_shorter: "parse_chars s = Some (x, r) \<Longrightarrow> length r < length s"
proof (induction s arbitrary: x rule: parse_chars.induct)
  case (1 s)
  show ?case
  proof (cases "s \<noteq> [] \<and> hd s = CHR 0x22")
    case True
    then have "parse_chars s = Some ([], tl s)" by (subst parse_chars.simps) simp
    with 1 True show ?thesis by (cases s) auto
  next
    case False
    with 1 obtain y t x' where t: "string_item s = Some (y, t)" "parse_chars t = Some (x', r)"
      by (auto simp: parse_chars.simps [of s] split: option.splits)
    with 1(1) [OF False t(1) refl t(2)] string_item_shorter [OF t(1)] show ?thesis by simp
  qed
qed

lemma parse_run_shorter: "parse_run s = Some (x, r) \<Longrightarrow> length r < length s"
  using length_dropWhile_le [of is_dec "tl s"]
  by (cases s) (auto simp: parse_run_def le_imp_less_Suc split: if_splits)

lemma take_one_shorter: "take_one cs s = (x, r) \<Longrightarrow> length r \<le> length s"
  by (auto simp: take_one_def split: if_splits)

lemma parse_number_shorter: "parse_number s = Some (x, r) \<Longrightarrow> length r < length s"
proof -
  assume a: "parse_number s = Some (x, r)"
  have i: "length v < length t" if "parse_integer t = Some (u, v)" for t u v
    using that by (cases t) (auto simp: parse_integer_def dest: parse_run_shorter split: if_splits)
  have f: "length v \<le> length t" if "parse_fraction t = Some (u, v)" for t u v
    using that by (cases t) (auto simp: parse_fraction_def dest!: parse_run_shorter split: if_splits Option.bind_splits)
  have e: "length v \<le> length t" if "parse_exponent t = Some (u, v)" for t u v
    using that
    by (cases t) (auto simp: parse_exponent_def dest!: parse_run_shorter take_one_shorter
        split: if_splits Option.bind_splits prod.splits)
  show ?thesis using a
    by (auto simp: parse_number_def split: prod.splits Option.bind_splits dest!: i f e take_one_shorter)
qed

lemma parse_literal_shorter: "parse_literal lit s = Some r \<Longrightarrow> length r \<le> length s"
  by (auto simp: parse_literal_def split: if_splits)

lemma skip_ws_length_Cons: "skip_ws s = c # r \<Longrightarrow> length r < length s"
  using length_skip_ws [of s] by simp

text \<open>
  A value, a list of members and a list of elements take at least one character, and the
  number of characters taken is fuel enough.
\<close>

definition takes :: "(nat \<Rightarrow> 'a) \<Rightarrow> 'a \<Rightarrow> string \<Rightarrow> string \<Rightarrow> bool" where
  "takes p x s r \<longleftrightarrow> length r < length s \<and> (\<forall>n. length s - length r \<le> n \<longrightarrow> p n = x)"

lemma takesI:
  assumes "length r < length s" "\<And>n. length s - length r \<le> Suc n \<Longrightarrow> p (Suc n) = x"
  shows "takes p x s r"
  unfolding takes_def
proof (intro conjI allI impI)
  fix n assume "length s - length r \<le> n"
  with assms show "p n = x" by (cases n) auto
qed (rule assms(1))

lemma parse_fuel:
  "(\<forall>v r. parse_value m d s = Some (v, r) \<longrightarrow> takes (\<lambda>n. parse_value n d s) (Some (v, r)) s r)"
  "(\<forall>kvs r. parse_members m d s = Some (kvs, r) \<longrightarrow> takes (\<lambda>n. parse_members n d s) (Some (kvs, r)) s r)"
  "(\<forall>vs r. parse_elements m d s = Some (vs, r) \<longrightarrow> takes (\<lambda>n. parse_elements n d s) (Some (vs, r)) s r)"
proof (induction m d s and m d s and m d s rule: parse_value_parse_members_parse_elements.induct)
  case (2 n d s)
  show ?case
  proof (intro allI impI)
    fix v r assume a: "parse_value (Suc n) d s = Some (v, r)"
    then obtain c t where c: "skip_ws s = c # t" by (auto split: list.splits)
    note l = skip_ws_length_Cons [OF c]
    consider (obj) kvs where "c = CHR ''{''" "d \<noteq> 0" "expect CHR ''}'' t = None"
        "parse_members n (d - 1) t = Some (kvs, r)" "v = JObject kvs"
      | (arr) vs where "c = CHR ''[''" "d \<noteq> 0" "expect CHR '']'' t = None"
        "parse_elements n (d - 1) t = Some (vs, r)" "v = JArray vs"
      | (other) "length r < length s" "\<And>k. parse_value (Suc k) d s = Some (v, r)"
      using a c l
      by (auto split: if_splits option.splits Option.bind_splits
          dest: expect_shorter parse_chars_shorter parse_number_shorter parse_literal_shorter)
    then show "takes (\<lambda>n. parse_value n d s) (Some (v, r)) s r"
    proof cases
      case obj
      then have "takes (\<lambda>n. parse_members n (d - 1) t) (Some (kvs, r)) t r" using 2 c by simp
      then show ?thesis using obj c l by (intro takesI) (auto simp: takes_def)
    next
      case arr
      then have "takes (\<lambda>n. parse_elements n (d - 1) t) (Some (vs, r)) t r" using 2 c by simp
      then show ?thesis using arr c l by (intro takesI) (auto simp: takes_def)
    next
      case other
      then show ?thesis by (intro takesI)
    qed
  qed
next
  case (4 n d s)
  show ?case
  proof (intro allI impI)
    fix kvs r assume a: "parse_members (Suc n) d s = Some (kvs, r)"
    then obtain s0 key s1 s2 v s3 where e: "expect CHR 0x22 s = Some s0" "parse_chars s0 = Some (key, s1)"
        "expect CHR '':'' s1 = Some s2" and v: "parse_value n d s2 = Some (v, s3)"
      by (auto split: Option.bind_splits)
    note l = expect_shorter [OF e(1)] parse_chars_shorter [OF e(2)] expect_shorter [OF e(3)]
    have tv: "takes (\<lambda>n. parse_value n d s2) (Some (v, s3)) s2 s3" using 4(1) e v by simp
    show "takes (\<lambda>n. parse_members n d s) (Some (kvs, r)) s r"
    proof (cases "expect CHR '','' s3")
      case None
      with a e v have c: "expect CHR ''}'' s3 = Some r" "kvs = [(key, v)]" by (auto split: Option.bind_splits)
      with None e tv l expect_shorter [OF c(1)] show ?thesis by (intro takesI) (auto simp: takes_def)
    next
      case (Some s4)
      with a e v obtain kvs' where c: "parse_members n d s4 = Some (kvs', r)" "kvs = (key, v) # kvs'"
        by (auto split: Option.bind_splits)
      have "takes (\<lambda>n. parse_members n d s4) (Some (kvs', r)) s4 r" using 4(2) e v c Some by simp
      with Some e tv l c expect_shorter [OF Some] show ?thesis by (intro takesI) (auto simp: takes_def)
    qed
  qed
next
  case (6 n d s)
  show ?case
  proof (intro allI impI)
    fix vs r assume a: "parse_elements (Suc n) d s = Some (vs, r)"
    then obtain v s1 where v: "parse_value n d s = Some (v, s1)" by (auto split: Option.bind_splits)
    have tv: "takes (\<lambda>n. parse_value n d s) (Some (v, s1)) s s1" using 6(1) v by simp
    show "takes (\<lambda>n. parse_elements n d s) (Some (vs, r)) s r"
    proof (cases "expect CHR '','' s1")
      case None
      with a v have c: "expect CHR '']'' s1 = Some r" "vs = [v]" by (auto split: Option.bind_splits)
      with None tv expect_shorter [OF c(1)] show ?thesis by (intro takesI) (auto simp: takes_def)
    next
      case (Some s2)
      with a v obtain vs' where c: "parse_elements n d s2 = Some (vs', r)" "vs = v # vs'"
        by (auto split: Option.bind_splits)
      have "takes (\<lambda>n. parse_elements n d s2) (Some (vs', r)) s2 r" using 6(2) v c Some by simp
      with Some tv c expect_shorter [OF Some] show ?thesis by (intro takesI) (auto simp: takes_def)
    qed
  qed
qed simp_all

text \<open>What some fuel parses, the fuel of \<open>json_parse\<close> parses.\<close>

lemma parse_value_fuel:
  assumes "parse_value m d s = Some (v, r)"
  shows "parse_value (Suc (length s)) d s = Some (v, r)"
  using parse_fuel(1) [of m d s] assms by (auto simp: takes_def simp del: parse_value.simps)

section \<open>Writing\<close>

text \<open>
  \<open>json.Marshal\<close>: the quotation of \<open>encoding/json\<close> with its HTML escapes, and values
  without white space between their tokens. Numbers are written as they are.
\<close>

definition escape_char :: "char \<Rightarrow> string" where
  "escape_char c =
    (let n = of_char c :: nat in
     if c = CHR 0x22 \<or> c = CHR 0x5C then [CHR 0x5C, c]
     else if n = 8 then [CHR 0x5C, CHR ''b'']
     else if n = 9 then [CHR 0x5C, CHR ''t'']
     else if n = 10 then [CHR 0x5C, CHR ''n'']
     else if n = 12 then [CHR 0x5C, CHR ''f'']
     else if n = 13 then [CHR 0x5C, CHR ''r'']
     else if n < 32 \<or> n \<in> {38, 60, 62} then
       [CHR 0x5C, CHR ''u'', CHR ''0'', CHR ''0'', hex_digit (n div 16), hex_digit (n mod 16)]
     else [c])"

definition quote_text :: "string \<Rightarrow> string" where
  "quote_text s = CHR 0x22 # concat (map escape_char s) @ [CHR 0x22]"

fun commas :: "string list \<Rightarrow> string" where
  "commas [] = []"
| "commas [s] = s"
| "commas (s # ss) = s @ CHR '','' # commas ss"

fun json_Marshal :: "json \<Rightarrow> string" where
  "json_Marshal JNull = ''null''"
| "json_Marshal (JBool b) = fmt_bool b"
| "json_Marshal (JNumber s) = s"
| "json_Marshal (JString s) = quote_text s"
| "json_Marshal (JArray vs) = CHR ''['' # commas (map json_Marshal vs) @ [CHR '']'']"
| "json_Marshal (JObject kvs) =
     CHR ''{'' # commas (map (\<lambda>(key, v). quote_text key @ CHR '':'' # json_Marshal v) kvs) @ [CHR ''}'']"

text \<open>Values the scanner accepts once written: numbers are literals, and at most \<open>d\<close> levels.\<close>

definition is_number :: "string \<Rightarrow> bool" where
  "is_number s \<longleftrightarrow> parse_number s = Some (s, [])"

fun json_fits :: "nat \<Rightarrow> json \<Rightarrow> bool" where
  "json_fits d (JNumber s) = is_number s"
| "json_fits d (JArray vs) = (0 < d \<and> list_all (json_fits (d - 1)) vs)"
| "json_fits d (JObject kvs) = (0 < d \<and> list_all (\<lambda>(_, v). json_fits (d - 1) v) kvs)"
| "json_fits d _ = True"

text \<open>What may follow a value: nothing, or a character that continues no number.\<close>

definition stops :: "string \<Rightarrow> bool" where
  "stops s \<longleftrightarrow> (case s of [] \<Rightarrow> True | c # _ \<Rightarrow> c = CHR '','' \<or> c = CHR ''}'' \<or> c = CHR '']'')"

lemma stops_simps [simp]:
  "stops []" "stops (CHR '','' # s)" "stops (CHR ''}'' # s)" "stops (CHR '']'' # s)"
  by (simp_all add: stops_def)

subsection \<open>Strings\<close>

lemma string_item_u:
  assumes "n < 128"
  shows "string_item (CHR 0x5C # CHR ''u'' # CHR ''0'' # CHR ''0'' # hex_digit (n div 16) # hex_digit (n mod 16) # s)
    = Some ([char_of n], s)"
proof -
  have "n div 16 < 36" "n div 16 < 16" "n mod 16 < 36" "n mod 16 < 16" using assms by auto
  moreover have "digit_val CHR ''0'' = Some 0" by (simp add: digit_val_def)
  ultimately have "getu4 (CHR 0x5C # CHR ''u'' # CHR ''0'' # CHR ''0'' # hex_digit (n div 16) # hex_digit (n mod 16) # s)
      = Some n"
    by (simp add: getu4_def hex4_def)
  with assms show ?thesis by (simp add: string_item_def utf8_def)
qed

lemma string_item_short:
  "unescape e = Some c \<Longrightarrow> e \<noteq> CHR ''u'' \<Longrightarrow> string_item (CHR 0x5C # e # s) = Some ([c], s)"
  by (simp add: string_item_def getu4_def)

lemma string_item_escape: "string_item (escape_char c @ s) = Some ([c], s)"
proof -
  let ?n = "of_char c :: nat"
  have c: "\<And>m. ?n = m \<Longrightarrow> c = char_of m" by auto
  consider "c = CHR 0x22 \<or> c = CHR 0x5C" | "?n \<in> {8, 9, 10, 12, 13}"
    | "?n < 32 \<or> ?n \<in> {38, 60, 62}" "?n \<notin> {8, 9, 10, 12, 13}"
    | "c \<noteq> CHR 0x22" "c \<noteq> CHR 0x5C" "\<not> ?n < 32" "?n \<notin> {38, 60, 62}"
    by auto
  then show ?thesis
  proof cases
    case 1
    then have "unescape c = Some c" "c \<noteq> CHR ''u''" by (auto simp: unescape_def)
    with 1 show ?thesis by (auto simp: escape_char_def string_item_short)
  next
    case 2
    then have "c \<noteq> CHR 0x22" "c \<noteq> CHR 0x5C" by auto
    with 2 show ?thesis
      by (auto simp: escape_char_def Let_def string_item_short unescape_def dest: c)
  next
    case 3
    then have "c \<noteq> CHR 0x22" "c \<noteq> CHR 0x5C" "?n < 128" by auto
    with 3 string_item_u [of ?n s] show ?thesis by (auto simp: escape_char_def Let_def)
  next
    case 4
    then show ?thesis by (auto simp: escape_char_def Let_def string_item_def)
  qed
qed

lemma escape_char_hd: "escape_char c \<noteq> [] \<and> hd (escape_char c) \<noteq> CHR 0x22"
  by (auto simp: escape_char_def Let_def)

lemma parse_chars_escape: "parse_chars (concat (map escape_char s) @ CHR 0x22 # r) = Some (s, r)"
proof (induction s)
  case Nil
  show ?case by (subst parse_chars.simps) simp
next
  case (Cons c s)
  let ?t = "concat (map escape_char s) @ CHR 0x22 # r"
  have "\<not> (escape_char c @ ?t \<noteq> [] \<and> hd (escape_char c @ ?t) = CHR 0x22)"
    using escape_char_hd [of c] by (cases "escape_char c") auto
  then have "parse_chars (escape_char c @ ?t) = map_option (\<lambda>(xs, r'). ([c] @ xs, r')) (parse_chars ?t)"
    by (subst parse_chars.simps) (simp add: string_item_escape del: append_assoc)
  with Cons show ?case by simp
qed

subsection \<open>Numbers\<close>

text \<open>What a number takes does not depend on what follows it, when that continues no number.\<close>

lemma stops_not_dec: "stops r \<Longrightarrow> takeWhile is_dec r = [] \<and> dropWhile is_dec r = r"
  by (cases r) (auto simp: stops_def is_dec_def)

lemma takeWhile_dec_append: "stops r \<Longrightarrow> takeWhile is_dec (s @ r) = takeWhile is_dec s"
  by (induction s) (auto simp: stops_not_dec)

lemma dropWhile_dec_append: "stops r \<Longrightarrow> dropWhile is_dec (s @ r) = dropWhile is_dec s @ r"
  by (induction s) (auto simp: stops_not_dec)

lemma take_one_append:
  "stops r \<Longrightarrow> set cs \<subseteq> {CHR ''+'', CHR ''-''} \<Longrightarrow> take_one cs s = (x, t) \<Longrightarrow> take_one cs (s @ r) = (x, t @ r)"
  by (cases s; cases r) (auto simp: take_one_def stops_def split: if_splits)

lemma parse_run_append: "stops r \<Longrightarrow> parse_run s = Some (x, t) \<Longrightarrow> parse_run (s @ r) = Some (x, t @ r)"
  by (auto simp: parse_run_def takeWhile_dec_append dropWhile_dec_append split: if_splits)

lemma parse_integer_append:
  assumes "stops r" "parse_integer s = Some (x, t)"
  shows "parse_integer (s @ r) = Some (x, t @ r)"
proof -
  have "s \<noteq> []" using assms(2) by (auto simp: parse_integer_def parse_run_def)
  with assms parse_run_append [OF assms(1)] show ?thesis by (auto simp: parse_integer_def split: if_splits)
qed

lemma parse_fraction_append:
  assumes r: "stops r" and s: "parse_fraction s = Some (x, t)"
  shows "parse_fraction (s @ r) = Some (x, t @ r)"
proof (cases "s \<noteq> [] \<and> hd s = CHR ''.''")
  case True
  with s obtain ds where "parse_run (tl s) = Some (ds, t)" "x = hd s # ds"
    by (auto simp: parse_fraction_def split: Option.bind_splits)
  with True parse_run_append [OF r] show ?thesis by (simp add: parse_fraction_def)
next
  case False
  with r have "\<not> (s @ r \<noteq> [] \<and> hd (s @ r) = CHR ''.'')" by (cases s; cases r) (auto simp: stops_def)
  with False s show ?thesis by (auto simp: parse_fraction_def simp del: append_is_Nil_conv)
qed

lemma parse_exponent_append:
  assumes r: "stops r" and s: "parse_exponent s = Some (x, t)"
  shows "parse_exponent (s @ r) = Some (x, t @ r)"
proof (cases "s \<noteq> [] \<and> hd s \<in> set ''eE''")
  case True
  obtain sg u where u: "take_one ''+-'' (tl s) = (sg, u)" by fastforce
  with True s obtain ds where ds: "parse_run u = Some (ds, t)" "x = hd s # sg @ ds"
    by (auto simp: parse_exponent_def split: Option.bind_splits)
  have "take_one ''+-'' (tl s @ r) = (sg, u @ r)" by (rule take_one_append [OF r _ u]) auto
  with True ds parse_run_append [OF r ds(1)] show ?thesis by (simp add: parse_exponent_def)
next
  case False
  with r have "\<not> (s @ r \<noteq> [] \<and> hd (s @ r) \<in> set ''eE'')" by (cases s; cases r) (auto simp: stops_def)
  with False s show ?thesis by (auto simp: parse_exponent_def simp del: append_is_Nil_conv)
qed

lemma parse_number_append:
  assumes r: "stops r" and s: "parse_number s = Some (x, t)"
  shows "parse_number (s @ r) = Some (x, t @ r)"
proof -
  obtain sg s1 where sg: "take_one ''-'' s = (sg, s1)" by fastforce
  with s obtain i s2 f s3 e where
    p: "parse_integer s1 = Some (i, s2)" "parse_fraction s2 = Some (f, s3)" "parse_exponent s3 = Some (e, t)"
    and x: "x = sg @ i @ f @ e"
    by (auto simp: parse_number_def split: Option.bind_splits)
  have "take_one ''-'' (s @ r) = (sg, s1 @ r)" by (rule take_one_append [OF r _ sg]) auto
  with x parse_integer_append [OF r p(1)] parse_fraction_append [OF r p(2)] parse_exponent_append [OF r p(3)]
  show ?thesis by (simp add: parse_number_def)
qed

lemma is_number_hd: "is_number s \<Longrightarrow> \<exists>c u. s = c # u \<and> (c = CHR ''-'' \<or> is_dec c)"
proof (cases s)
  case (Cons c u)
  assume "is_number s"
  with Cons have "c = CHR ''-'' \<or> c = CHR ''0'' \<or> parse_run s \<noteq> None"
    by (auto simp: is_number_def parse_number_def parse_integer_def take_one_def split: Option.bind_splits if_splits)
  moreover have "is_dec CHR ''0''" by (simp add: is_dec_def)
  ultimately show ?thesis using Cons by (auto simp: parse_run_def split: if_splits)
qed (simp add: is_number_def parse_number_def parse_integer_def parse_run_def take_one_def)

text \<open>The decimal numerals \<open>%d\<close> writes are numbers.\<close>

lemma is_dec_hex_digit: "n < 10 \<Longrightarrow> is_dec (hex_digit n)"
  by (simp add: is_dec_def of_char_hex_digit)

lemma is_number_fmt_nat: "is_number (fmt_nat n)"
proof (cases "n = 0")
  case True
  have "fmt_nat 0 = ''0''" by (simp add: fmt_nat_def base_digits.simps)
  with True show ?thesis by (simp add: is_number_def parse_number_def parse_integer_def parse_fraction_def
        parse_exponent_def take_one_def)
next
  case False
  have dec: "\<forall>c \<in> set (fmt_nat n). is_dec c"
    using base_digits_bound [of 10 n] by (auto simp: fmt_nat_def is_dec_hex_digit)
  then have all: "takeWhile is_dec (fmt_nat n) = fmt_nat n" "dropWhile is_dec (fmt_nat n) = []" by (simp_all add: takeWhile_eq_all_conv)
  obtain d ds where ds: "base_digits 10 n = d # ds" by (cases "base_digits 10 n") auto
  with False hd_base_digits [of 10 n] base_digits_bound [of 10 n] have d: "d \<noteq> 0" "d < 36" by auto
  have hd: "fmt_nat n = hex_digit d # map hex_digit ds" by (simp add: fmt_nat_def ds)
  have "is_dec (hex_digit d)" using dec hd by simp
  then have "hex_digit d \<noteq> CHR ''-''" by (auto simp: is_dec_def)
  moreover have "hex_digit d \<noteq> CHR ''0''" using d by simp
  ultimately show ?thesis
    using all hd by (simp add: is_number_def parse_number_def parse_integer_def parse_fraction_def
        parse_exponent_def parse_run_def take_one_def)
qed

lemma is_number_1: "is_number ''1''"
  by code_simp

subsection \<open>Values\<close>

lemma skip_ws_Cons [simp]: "\<not> is_ws c \<Longrightarrow> skip_ws (c # s) = c # s"
  by (simp add: skip_ws_def)

lemma skip_ws_Nil [simp]: "skip_ws [] = []"
  by (simp add: skip_ws_def)

lemma not_is_ws [simp]:
  "\<not> is_ws (CHR 0x22)" "\<not> is_ws (CHR '','')" "\<not> is_ws (CHR '':'')" "\<not> is_ws (CHR ''{'')" "\<not> is_ws (CHR ''}'')"
  "\<not> is_ws (CHR ''['')" "\<not> is_ws (CHR '']'')" "\<not> is_ws (CHR ''n'')" "\<not> is_ws (CHR ''t'')" "\<not> is_ws (CHR ''f'')"
  by (simp_all add: is_ws_def)

lemma expect_Cons: "\<not> is_ws d \<Longrightarrow> expect c (d # r) = (if d = c then Some r else None)"
  by (simp add: expect_def)

text \<open>The first character of a written value: never white space, a comma or a closing bracket.\<close>

lemma json_Marshal_hd:
  "json_fits d v \<Longrightarrow>
    \<exists>c t. json_Marshal v = c # t \<and> \<not> is_ws c \<and> c \<notin> {CHR '','', CHR '']'', CHR ''}''}"
proof (cases v)
  case (JNumber s)
  assume "json_fits d v"
  with JNumber obtain c u where "s = c # u" "c = CHR ''-'' \<or> is_dec c" by (auto dest: is_number_hd)
  with JNumber show ?thesis by (auto simp: is_dec_def is_ws_def)
qed (simp_all add: quote_text_def fmt_bool_def)

lemma parse_literal_append [simp]: "parse_literal lit (lit @ s) = Some s"
  by (simp add: parse_literal_def)

lemma commas_Cons: "commas (s # ss) = s @ (if ss = [] then [] else CHR '','' # commas ss)"
  by (cases ss) auto

text \<open>A written list, element by element, for the parsers of elements and of members.\<close>

lemma parse_elements_written:
  assumes "\<And>v n r. v \<in> set vs \<Longrightarrow> stops r \<Longrightarrow> length (json_Marshal v) \<le> n \<Longrightarrow>
      parse_value n d (json_Marshal v @ r) = Some (v, r)"
    and "vs \<noteq> []" and "length (commas (map json_Marshal vs)) < n"
  shows "parse_elements n d (commas (map json_Marshal vs) @ CHR '']'' # r) = Some (vs, r)"
  using assms
proof (induction vs arbitrary: n)
  case (Cons v vs)
  then obtain m where n: "n = Suc m" by (cases n) auto
  show ?case
  proof (cases "vs = []")
    case True
    have "parse_value m d (json_Marshal v @ CHR '']'' # r) = Some (v, CHR '']'' # r)"
      using Cons.prems n True by simp
    with True n show ?thesis by (simp add: expect_Cons)
  next
    case False
    have "parse_value m d (json_Marshal v @ CHR '','' # commas (map json_Marshal vs) @ CHR '']'' # r)
        = Some (v, CHR '','' # commas (map json_Marshal vs) @ CHR '']'' # r)"
      using Cons.prems n False by (simp add: commas_Cons)
    moreover have "parse_elements m d (commas (map json_Marshal vs) @ CHR '']'' # r) = Some (vs, r)"
      using Cons.prems n False by (intro Cons.IH) (auto simp: commas_Cons)
    ultimately show ?thesis using False n by (simp add: commas_Cons expect_Cons)
  qed
qed simp

fun json_member :: "string \<times> json \<Rightarrow> string" where
  "json_member (key, v) = quote_text key @ CHR '':'' # json_Marshal v"

lemma parse_members_written:
  assumes "\<And>k v n r. (k, v) \<in> set kvs \<Longrightarrow> stops r \<Longrightarrow> length (json_Marshal v) \<le> n \<Longrightarrow>
      parse_value n d (json_Marshal v @ r) = Some (v, r)"
    and "kvs \<noteq> []" and "length (commas (map json_member kvs)) < n"
  shows "parse_members n d (commas (map json_member kvs) @ CHR ''}'' # r) = Some (kvs, r)"
  using assms
proof (induction kvs arbitrary: n)
  case (Cons kv kvs)
  then obtain m where n: "n = Suc m" by (cases n) auto
  obtain k v where kv [simp]: "kv = (k, v)" by fastforce
  have key: "expect CHR 0x22 (quote_text k @ t) = Some (concat (map escape_char k) @ CHR 0x22 # t)" for t
    by (simp add: quote_text_def expect_Cons)
  have v: "parse_value m d (json_Marshal v @ t) = Some (v, t)" if "stops t" for t
    using Cons.prems(1) [of k v t m] Cons.prems(3) that n by (auto simp: commas_Cons split: if_splits)
  show ?case
  proof (cases "kvs = []")
    case True
    have "parse_value m d (json_Marshal v @ CHR ''}'' # r) = Some (v, CHR ''}'' # r)"
      by (simp add: v)
    with True n show ?thesis by (simp add: key parse_chars_escape expect_Cons)
  next
    case False
    have "parse_value m d (json_Marshal v @ CHR '','' # commas (map json_member kvs) @ CHR ''}'' # r)
        = Some (v, CHR '','' # commas (map json_member kvs) @ CHR ''}'' # r)"
      by (simp add: v)
    moreover have "parse_members m d (commas (map json_member kvs) @ CHR ''}'' # r) = Some (kvs, r)"
      using Cons.prems n False by (intro Cons.IH) (auto simp: commas_Cons)
    ultimately show ?thesis using False n
      by (simp add: commas_Cons key parse_chars_escape expect_Cons)
  qed
qed simp

lemma commas_hd: "ss \<noteq> [] \<Longrightarrow> hd ss = c # t \<Longrightarrow> \<exists>u. commas ss = c # u"
  by (cases ss) (auto simp: commas_Cons)

lemma parse_value_written:
  "json_fits d v \<Longrightarrow> stops r \<Longrightarrow> length (json_Marshal v) \<le> n \<Longrightarrow> parse_value n d (json_Marshal v @ r) = Some (v, r)"
proof (induction v arbitrary: d n r)
  case JNull
  then show ?case using parse_literal_append [of "''ull''" r] by (cases n) auto
next
  case (JBool b)
  then show ?case using parse_literal_append [of "''rue''" r] parse_literal_append [of "''alse''" r]
    by (cases n; cases b) (auto simp: fmt_bool_def)
next
  case (JNumber s)
  then obtain c u where s: "s = c # u" "c = CHR ''-'' \<or> is_dec c" by (auto dest: is_number_hd)
  from JNumber have "parse_number (s @ r) = Some (s, r)"
    using parse_number_append [of r s s "[]"] by (simp add: is_number_def)
  moreover have "\<not> is_ws c" "c \<noteq> CHR ''{''" "c \<noteq> CHR ''[''" "c \<noteq> CHR 0x22" "c \<noteq> CHR ''t''"
    "c \<noteq> CHR ''f''" "c \<noteq> CHR ''n''"
    using s(2) by (auto simp: is_dec_def is_ws_def)
  moreover have "n \<noteq> 0" using JNumber s by auto
  ultimately show ?case using s(1) by (cases n) simp_all
next
  case (JString s)
  then show ?case by (cases n) (auto simp: quote_text_def parse_chars_escape)
next
  case (JArray vs)
  then obtain m where n: "n = Suc m" by (cases n) auto
  show ?case
  proof (cases "vs = []")
    case True
    with JArray n show ?thesis by (simp add: expect_Cons)
  next
    case False
    from JArray.prems False have "json_fits (d - 1) (hd vs)" by (cases vs) auto
    from json_Marshal_hd [OF this] obtain c t where c: "json_Marshal (hd vs) = c # t" "\<not> is_ws c" "c \<noteq> CHR '']''"
      by auto
    with False obtain u where u: "commas (map json_Marshal vs) = c # u"
      using commas_hd [of "map json_Marshal vs" c t] by (auto simp: hd_map)
    have "parse_elements m (d - 1) (commas (map json_Marshal vs) @ CHR '']'' # r) = Some (vs, r)"
      using JArray n False by (intro parse_elements_written) (auto simp: list_all_iff)
    with JArray.prems n c u show ?thesis by (simp add: expect_Cons)
  qed
next
  case (JObject kvs)
  then obtain m where n: "n = Suc m" by (cases n) auto
  have w: "json_Marshal (JObject kvs) = CHR ''{'' # commas (map json_member kvs) @ [CHR ''}'']"
    by (auto intro!: arg_cong [where f = commas])
  show ?case
  proof (cases "kvs = []")
    case True
    with JObject n show ?thesis by (simp add: expect_Cons)
  next
    case False
    then obtain u where u: "commas (map json_member kvs) = CHR 0x22 # u"
      using commas_hd [of "map json_member kvs" "CHR 0x22"] by (cases "hd kvs") (auto simp: hd_map quote_text_def)
    have "parse_members m (d - 1) (commas (map json_member kvs) @ CHR ''}'' # r) = Some (kvs, r)"
      using JObject n False w
      by (intro parse_members_written) (fastforce simp: list_all_iff)+
    with JObject.prems n u w show ?thesis by (simp add: expect_Cons del: json_Marshal.simps)
  qed
qed

text \<open>Parsing what \<open>Marshal\<close> wrote gives the value back.\<close>

lemma json_parse_Marshal: "json_fits max_nesting_depth v \<Longrightarrow> json_parse (json_Marshal v) = Some v"
  using parse_value_written [of max_nesting_depth v "[]" "Suc (length (json_Marshal v))"]
  by (simp add: json_parse_def del: parse_value.simps)

lemma json_fits_mono: "json_fits d v \<Longrightarrow> d \<le> e \<Longrightarrow> json_fits e v"
proof (induction v arbitrary: d e)
  case (JArray vs)
  then show ?case by (force simp: list_all_iff)
next
  case (JObject kvs)
  then show ?case by (fastforce simp: list_all_iff)
qed auto

text \<open>Texts that need no escapes.\<close>

definition plain_char :: "char \<Rightarrow> bool" where
  "plain_char c \<longleftrightarrow> escape_char c = [c]"

lemma quote_plain: "list_all plain_char s \<Longrightarrow> quote_text s = CHR 0x22 # s @ [CHR 0x22]"
proof -
  assume "list_all plain_char s"
  then have "concat (map escape_char s) = s" by (induction s) (auto simp: plain_char_def)
  then show ?thesis by (simp add: quote_text_def)
qed

lemma plain_hex_digit: "n < 36 \<Longrightarrow> plain_char (hex_digit n)"
proof -
  assume n: "n < 36"
  have "hex_digit n \<noteq> CHR 0x22" "hex_digit n \<noteq> CHR 0x5C"
    using digit_val_hex_digit [OF n] by (auto simp: digit_val_def)
  with of_char_hex_digit [OF n] show ?thesis by (auto simp: plain_char_def escape_char_def Let_def split: if_splits)
qed

lemma plain_fmt_hex: "list_all plain_char (fmt_hex n)"
  using base_digits_bound [of 16 "unat n"] plain_hex_digit by (fastforce simp: fmt_hex_def list_all_iff)


end
