(* ===== verification/Go_Json.thy ===== *)
theory Go_Json
  imports Go_Json_Text
begin

text \<open>
  \<open>json.Unmarshal\<close> into a struct: the text is parsed as a whole first, and a malformed one
  leaves the target alone. Decoding goes on after a type mismatch and reports an error at the
  end, so a decoder returns the new value together with an error flag.
\<close>

type_synonym 'a decoder = "json \<Rightarrow> 'a \<Rightarrow> 'a \<times> bool"

definition json_Unmarshal :: "'a decoder \<Rightarrow> string \<Rightarrow> 'a \<Rightarrow> 'a \<times> bool" where
  "json_Unmarshal dec text old = (case json_parse text of None \<Rightarrow> (old, True) | Some v \<Rightarrow> dec v old)"

text \<open>Keys match a field name up to case (of the letters of ASCII).\<close>

definition key_is :: "string \<Rightarrow> string \<Rightarrow> bool" where
  "key_is key name \<longleftrightarrow> strings_ToLower key = name"

fun dec_string :: "string decoder" where
  "dec_string (JString s) old = (s, False)"
| "dec_string JNull old = (old, False)"
| "dec_string _ old = (old, True)"

text \<open>An object member by member; the argument decodes the value of a known key.\<close>

fun dec_members :: "(string \<Rightarrow> json \<Rightarrow> 'a \<Rightarrow> 'a \<times> bool) \<Rightarrow> (string \<times> json) list \<Rightarrow> 'a \<Rightarrow> 'a \<times> bool" where
  "dec_members f [] old = (old, False)"
| "dec_members f ((key, v) # kvs) old =
    (let (x, e) = f key v old; (y, e') = dec_members f kvs x in (y, e \<or> e'))"

fun dec_struct :: "(string \<Rightarrow> json \<Rightarrow> 'a \<Rightarrow> 'a \<times> bool) \<Rightarrow> 'a decoder" where
  "dec_struct f (JObject kvs) old = dec_members f kvs old"
| "dec_struct f JNull old = (old, False)"
| "dec_struct f _ old = (old, True)"

text \<open>A member whose key is not a field of the struct is ignored.\<close>

definition dec_field :: "string \<Rightarrow> 'b decoder \<Rightarrow> ('a \<Rightarrow> 'b) \<Rightarrow> ('b \<Rightarrow> 'a \<Rightarrow> 'a) \<Rightarrow>
    string \<Rightarrow> json \<Rightarrow> 'a \<Rightarrow> 'a \<times> bool" where
  "dec_field name dec getf setf key v old =
    (if key_is key name then let (x, e) = dec v (getf old) in (setf x old, e) else (old, False))"

text \<open>A pointer field: \<open>null\<close> clears it, any other value goes into a fresh or the present target.\<close>

definition dec_pointer :: "'a \<Rightarrow> 'a decoder \<Rightarrow> 'a option decoder" where
  "dec_pointer zero dec v old =
    (if v = JNull then (None, False)
     else let (x, e) = dec v (case old of None \<Rightarrow> zero | Some y \<Rightarrow> y) in (Some x, e))"

lemma dec_members_ignored:
  "(\<And>key v old. (key, v) \<in> set kvs \<Longrightarrow> f key v old = (old, False)) \<Longrightarrow> dec_members f kvs old = (old, False)"
  by (induction kvs) auto

lemma dec_members_append:
  "dec_members f (kvs @ kvs') old =
    (case dec_members f kvs old of (x, e) \<Rightarrow> case dec_members f kvs' x of (y, e') \<Rightarrow> (y, e \<or> e'))"
  by (induction kvs arbitrary: old) (auto split: prod.splits)

end
