(* ===== verification/Go_Strconv.thy ===== *)
theory Go_Strconv
  imports Go_Hex
begin

text \<open>
  \<open>strconv.ParseUint(s, 0, 64)\<close>, the way every program reads a block number or a quantity
  from JSON: the base comes from the prefix, underscores may separate digits, values beyond
  64 bits are a range error. The section ends with the round trip through \<open>0x%x\<close>.
\<close>

datatype num_error = ErrSyntax | ErrRange

section \<open>The digit loop\<close>

text \<open>
  The loop over the bytes: \<open>n\<close> is the value so far, the flag records an underscore. A digit
  that would push the value past \<open>2 ^ 64 - 1\<close> ends the loop with a range error.
\<close>

fun parse_digits :: "nat \<Rightarrow> string \<Rightarrow> nat \<Rightarrow> bool \<Rightarrow> num_error + nat \<times> bool" where
  "parse_digits base [] n us = Inr (n, us)"
| "parse_digits base (c # s) n us =
    (if c = CHR ''_'' then parse_digits base s n True
     else case digit_val c of
         None \<Rightarrow> Inl ErrSyntax
       | Some d \<Rightarrow>
           if base \<le> d then Inl ErrSyntax
           else if 2 ^ 64 \<le> n * base + d then Inl ErrRange
           else parse_digits base s (n * base + d) us)"

text \<open>
  \<open>underscoreOK\<close>: an underscore stands between digits, or between the base prefix and a
  digit. The classes of the previous character are those of the Go function.
\<close>

datatype char_class = Beginning | Digit | Underscore | Other

fun underscore_scan :: "bool \<Rightarrow> string \<Rightarrow> char_class \<Rightarrow> bool" where
  "underscore_scan hex [] prev = (prev \<noteq> Underscore)"
| "underscore_scan hex (c # s) prev =
    (case digit_val c of
       Some d \<Rightarrow>
         if d < 10 \<or> (hex \<and> d < 16) then underscore_scan hex s Digit
         else prev \<noteq> Underscore \<and> underscore_scan hex s Other
     | None \<Rightarrow>
         if c = CHR ''_'' then prev = Digit \<and> underscore_scan hex s Underscore
         else prev \<noteq> Underscore \<and> underscore_scan hex s Other)"

definition base_of_prefix :: "char \<Rightarrow> nat option" where
  "base_of_prefix c =
    (if char_lower c = CHR ''b'' then Some 2
     else if char_lower c = CHR ''o'' then Some 8
     else if char_lower c = CHR ''x'' then Some 16
     else None)"

fun underscoreOK :: "string \<Rightarrow> bool" where
  "underscoreOK s =
    (let s = (case s of c # r \<Rightarrow> if c = CHR ''-'' \<or> c = CHR ''+'' then r else s | [] \<Rightarrow> [])
     in case s of
          z # c # r \<Rightarrow>
            if z = CHR ''0'' \<and> base_of_prefix c \<noteq> None
            then underscore_scan (base_of_prefix c = Some 16) r Digit
            else underscore_scan False s Beginning
        | _ \<Rightarrow> underscore_scan False s Beginning)"

text \<open>The base and the digits that follow its prefix.\<close>

fun split_base :: "string \<Rightarrow> nat \<times> string" where
  "split_base (z # s) =
    (if z = CHR ''0'' then
       (case s of
          c # d # r \<Rightarrow>
            (case base_of_prefix c of Some b \<Rightarrow> (b, d # r) | None \<Rightarrow> (8, s))
        | _ \<Rightarrow> (8, s))
     else (10, z # s))"
| "split_base [] = (10, [])"

definition strconv_ParseUint :: "string \<Rightarrow> num_error + u64" where
  "strconv_ParseUint s =
    (if s = [] then Inl ErrSyntax
     else case split_base s of
       (base, ds) \<Rightarrow>
         (case parse_digits base ds 0 False of
            Inl e \<Rightarrow> Inl e
          | Inr (n, us) \<Rightarrow> if us \<and> \<not> underscoreOK s then Inl ErrSyntax else Inr (of_nat n)))"

declare split_base.simps [simp del] underscoreOK.simps [simp del]

section \<open>Round trip\<close>

lemma digit_val_underscore [simp]: "digit_val CHR ''_'' = None"
  by (simp add: digit_val_def)

lemma hex_digit_not_underscore [simp]: "n < 36 \<Longrightarrow> hex_digit n \<noteq> CHR ''_''"
  by (metis digit_val_hex_digit digit_val_underscore option.distinct(1))

lemma parse_digits_map:
  "base \<le> 36 \<Longrightarrow> \<forall>d \<in> set ds. d < base \<Longrightarrow> n * base ^ length ds + digits_value base ds < 2 ^ 64 \<Longrightarrow>
   parse_digits base (map hex_digit ds) n u = Inr (n * base ^ length ds + digits_value base ds, u)"
proof (induction ds arbitrary: n)
  case (Cons d ds)
  let ?m = "n * base + d"
  have e: "n * base ^ length (d # ds) + digits_value base (d # ds)
      = ?m * base ^ length ds + digits_value base ds"
    by (simp add: digits_value_Cons algebra_simps)
  have b: "?m * base ^ length ds + digits_value base ds < 2 ^ 64" using Cons.prems(3) e by simp
  have p: "0 < base" using Cons.prems(2) by auto
  then have "?m \<le> ?m * base ^ length ds" by simp
  then have "?m < 2 ^ 64" using b by linarith
  with Cons.prems Cons.IH [of ?m] b show ?case
    unfolding e by (simp add: not_le)
qed simp

lemma split_base_hex: "split_base (''0x'' @ c # s) = (16, c # s)"
  by (simp add: split_base.simps base_of_prefix_def char_lower_def Let_def)

lemma ParseUint_hex:
  assumes "ds \<noteq> []" "\<forall>d \<in> set ds. d < 16" "digits_value 16 ds < 2 ^ 64"
  shows "strconv_ParseUint (''0x'' @ map hex_digit ds) = Inr (of_nat (digits_value 16 ds))"
proof -
  obtain d r where ds: "ds = d # r" using assms(1) by (cases ds) auto
  have "split_base (''0x'' @ map hex_digit ds) = (16, map hex_digit ds)"
    using split_base_hex [of "hex_digit d" "map hex_digit r"] by (simp add: ds)
  moreover have "parse_digits 16 (map hex_digit ds) 0 False = Inr (digits_value 16 ds, False)"
    using parse_digits_map [of 16 ds 0 False] assms by simp
  ultimately show ?thesis by (simp add: strconv_ParseUint_def)
qed

lemma ParseUint_fmt_hex: "strconv_ParseUint (''0x'' @ fmt_hex n) = Inr n"
proof -
  have "strconv_ParseUint (''0x'' @ map hex_digit (base_digits 16 (unat n)))
      = Inr (of_nat (digits_value 16 (base_digits 16 (unat n))))"
    using unsigned_less [of n, where 'a = nat] base_digits_bound [of 16 "unat n"]
    by (intro ParseUint_hex) simp_all
  then show ?thesis by (simp add: fmt_hex_def)
qed

lemma parse_digits_bound:
  "parse_digits base s n u = Inr (m, u') \<Longrightarrow> n < 2 ^ 64 \<Longrightarrow> m < 2 ^ 64"
  by (induction base s n u rule: parse_digits.induct) (auto split: if_splits option.splits)

end
