(* ===== verification/Trace_Rpc.thy ===== *)
theory Trace_Rpc
  imports Trace_Compare Go_Json Go_Strconv
begin

text \<open>
  \<open>src/examples/go-trace-verifier/rpc.go\<close>: fetching the JSON-RPC traces of a block, with one
  retry, and decoding them. The HTTP client is an argument; the decoders
  follow \<open>encoding/json\<close> on the struct types of the file. \<open>frame_json\<close> writes a frame the way
  the struct tags say; decoding it gives the frame back.

  A decoder that meets an existing slice starts it afresh, which is what \<open>encoding/json\<close> does
  on the zero values the program decodes into.
\<close>

section \<open>Decoding\<close>

definition zero_frame :: rpcCallFrame where
  "zero_frame = rpcCallFrame '''' '''' '''' '''' '''' '''' '''' '''' '''' '''' [] []"

definition zero_log :: rpcLogFrame where
  "zero_log = \<lparr>rpcLogFrame_Address = '''', rpcLogFrame_Topics = [], rpcLogFrame_Data = '''',
     rpcLogFrame_Position = None, rpcLogFrame_Index = None\<rparr>"

text \<open>An element of a slice is decoded into a zero value.\<close>

fun dec_elements :: "'a \<Rightarrow> 'a decoder \<Rightarrow> json list \<Rightarrow> 'a list \<times> bool" where
  "dec_elements zero dec [] = ([], False)"
| "dec_elements zero dec (v # vs) =
     (let (x, e) = dec v zero; (xs, e') = dec_elements zero dec vs in (x # xs, e \<or> e'))"

fun dec_slice :: "'a \<Rightarrow> 'a decoder \<Rightarrow> 'a list decoder" where
  "dec_slice zero dec (JArray vs) old = dec_elements zero dec vs"
| "dec_slice zero dec JNull old = ([], False)"
| "dec_slice zero dec _ old = (old, True)"

text \<open>A \<open>uint64\<close>: an unsigned decimal literal in range.\<close>

fun dec_uint64 :: "u64 decoder" where
  "dec_uint64 (JNumber s) old =
     (if s = '''' then (old, True)
      else case parse_digits 10 s 0 False of
          Inr (n, False) \<Rightarrow> (of_nat n, False)
        | _ \<Rightarrow> (old, True))"
| "dec_uint64 JNull old = (old, False)"
| "dec_uint64 _ old = (old, True)"

definition dec_rpcLogFrame :: "rpcLogFrame decoder" where
  "dec_rpcLogFrame = dec_struct (\<lambda>key v l.
     if key_is key ''address'' then
       let (x, e) = dec_string v (rpcLogFrame_Address l) in (l\<lparr>rpcLogFrame_Address := x\<rparr>, e)
     else if key_is key ''topics'' then
       let (x, e) = dec_slice '''' dec_string v (rpcLogFrame_Topics l) in (l\<lparr>rpcLogFrame_Topics := x\<rparr>, e)
     else if key_is key ''data'' then
       let (x, e) = dec_string v (rpcLogFrame_Data l) in (l\<lparr>rpcLogFrame_Data := x\<rparr>, e)
     else if key_is key ''position'' then
       let (x, e) = dec_pointer 0 dec_uint64 v (rpcLogFrame_Position l) in (l\<lparr>rpcLogFrame_Position := x\<rparr>, e)
     else if key_is key ''index'' then
       let (x, e) = dec_pointer 0 dec_uint64 v (rpcLogFrame_Index l) in (l\<lparr>rpcLogFrame_Index := x\<rparr>, e)
     else (l, False))"

text \<open>The fields of a frame that hold strings, with their setters.\<close>

fun set_string_field :: "string \<Rightarrow> string \<Rightarrow> rpcCallFrame \<Rightarrow> rpcCallFrame" where
  "set_string_field name x (rpcCallFrame kind from to val gas gasUsed input out err reason calls logs) =
    (if name = ''type'' then rpcCallFrame x from to val gas gasUsed input out err reason calls logs
     else if name = ''from'' then rpcCallFrame kind x to val gas gasUsed input out err reason calls logs
     else if name = ''to'' then rpcCallFrame kind from x val gas gasUsed input out err reason calls logs
     else if name = ''value'' then rpcCallFrame kind from to x gas gasUsed input out err reason calls logs
     else if name = ''gas'' then rpcCallFrame kind from to val x gasUsed input out err reason calls logs
     else if name = ''gasused'' then rpcCallFrame kind from to val gas x input out err reason calls logs
     else if name = ''input'' then rpcCallFrame kind from to val gas gasUsed x out err reason calls logs
     else if name = ''output'' then rpcCallFrame kind from to val gas gasUsed input x err reason calls logs
     else if name = ''error'' then rpcCallFrame kind from to val gas gasUsed input out x reason calls logs
     else if name = ''revertreason'' then rpcCallFrame kind from to val gas gasUsed input out err x calls logs
     else rpcCallFrame kind from to val gas gasUsed input out err reason calls logs)"

definition string_fields :: "string set" where
  "string_fields = {''type'', ''from'', ''to'', ''value'', ''gas'', ''gasused'', ''input'', ''output'',
     ''error'', ''revertreason''}"

fun set_calls :: "rpcCallFrame list \<Rightarrow> rpcCallFrame \<Rightarrow> rpcCallFrame" where
  "set_calls cs (rpcCallFrame kind from to val gas gasUsed input out err reason calls logs) =
     rpcCallFrame kind from to val gas gasUsed input out err reason cs logs"

fun set_logs :: "rpcLogFrame list \<Rightarrow> rpcCallFrame \<Rightarrow> rpcCallFrame" where
  "set_logs ls (rpcCallFrame kind from to val gas gasUsed input out err reason calls logs) =
     rpcCallFrame kind from to val gas gasUsed input out err reason calls ls"

text \<open>
  A string field: \<open>null\<close> leaves it, a string sets it, anything else is an error. Keys are
  compared after folding their case.
\<close>

definition dec_string_field :: "string \<Rightarrow> json \<Rightarrow> rpcCallFrame \<Rightarrow> rpcCallFrame \<times> bool" where
  "dec_string_field name v f =
    (case v of JString s \<Rightarrow> (set_string_field name s f, False) | JNull \<Rightarrow> (f, False) | _ \<Rightarrow> (f, True))"

fun dec_rpcCallFrame :: "json \<Rightarrow> rpcCallFrame \<Rightarrow> rpcCallFrame \<times> bool"
  and dec_frame_members :: "(string \<times> json) list \<Rightarrow> rpcCallFrame \<Rightarrow> rpcCallFrame \<times> bool"
  and dec_frame_elements :: "json list \<Rightarrow> rpcCallFrame list \<times> bool" where
  "dec_rpcCallFrame (JObject kvs) f = dec_frame_members kvs f"
| "dec_rpcCallFrame JNull f = (f, False)"
| "dec_rpcCallFrame (JBool b) f = (f, True)"
| "dec_rpcCallFrame (JNumber s) f = (f, True)"
| "dec_rpcCallFrame (JString s) f = (f, True)"
| "dec_rpcCallFrame (JArray vs) f = (f, True)"
| "dec_frame_members [] f = (f, False)"
| "dec_frame_members ((key, v) # kvs) f =
    (let name = strings_ToLower key;
         (f', e) =
           (if name \<in> string_fields then dec_string_field name v f
            else if name = ''calls'' then
              (case v of
                 JArray vs \<Rightarrow> (let (cs, e) = dec_frame_elements vs in (set_calls cs f, e))
               | JNull \<Rightarrow> (set_calls [] f, False)
               | _ \<Rightarrow> (f, True))
            else if name = ''logs'' then
              (let (ls, e) = dec_slice zero_log dec_rpcLogFrame v (rpcCallFrame_Logs f) in (set_logs ls f, e))
            else (f, False));
         (f'', e') = dec_frame_members kvs f'
     in (f'', e \<or> e'))"
| "dec_frame_elements [] = ([], False)"
| "dec_frame_elements (v # vs) =
    (let (f, e) = dec_rpcCallFrame v zero_frame; (fs, e') = dec_frame_elements vs in (f # fs, e \<or> e'))"

section \<open>The frames as the struct tags spell them\<close>

definition omitempty :: "string \<Rightarrow> string \<Rightarrow> (string \<times> json) list" where
  "omitempty key s = (if s = '''' then [] else [(key, JString s)])"

definition opt_number :: "string \<Rightarrow> u64 option \<Rightarrow> (string \<times> json) list" where
  "opt_number key n = (case n of None \<Rightarrow> [] | Some w \<Rightarrow> [(key, JNumber (fmt_u64 w))])"

definition log_json :: "rpcLogFrame \<Rightarrow> json" where
  "log_json l = JObject (
     [(''address'', JString (rpcLogFrame_Address l))] @
     (if rpcLogFrame_Topics l = [] then [] else [(''topics'', JArray (map JString (rpcLogFrame_Topics l)))]) @
     [(''data'', JString (rpcLogFrame_Data l))] @
     opt_number ''position'' (rpcLogFrame_Position l) @ opt_number ''index'' (rpcLogFrame_Index l))"

fun frame_json :: "rpcCallFrame \<Rightarrow> json" where
  "frame_json (rpcCallFrame kind sender rcpt val gas gasUsed input out err reason calls logs) = JObject (
     [(''type'', JString kind), (''from'', JString sender)] @ omitempty ''to'' rcpt @ omitempty ''value'' val @
     [(''gas'', JString gas), (''gasUsed'', JString gasUsed), (''input'', JString input)] @
     omitempty ''output'' out @ omitempty ''error'' err @ omitempty ''revertReason'' reason @
     (if calls = [] then [] else [(''calls'', JArray (map frame_json calls))]) @
     (if logs = [] then [] else [(''logs'', JArray (map log_json logs))]))"

lemma dec_uint64_fmt: "dec_uint64 (JNumber (fmt_u64 n)) old = (n, False)"
proof -
  have "parse_digits 10 (map hex_digit (base_digits 10 (unat n))) 0 False
      = Inr (digits_value 10 (base_digits 10 (unat n)), False)"
    using parse_digits_map [of 10 "base_digits 10 (unat n)" 0 False] base_digits_bound [of 10 "unat n"]
      unsigned_less [of n, where 'a = nat] by simp
  then show ?thesis by (simp add: fmt_u64_def fmt_nat_def)
qed

lemma dec_elements_map:
  "(\<And>x. x \<in> set xs \<Longrightarrow> dec (enc x) zero = (x, False)) \<Longrightarrow> dec_elements zero dec (map enc xs) = (xs, False)"
  by (induction xs) auto

lemma dec_log_json: "dec_rpcLogFrame (log_json l) zero_log = (l, False)"
proof -
  have t: "dec_elements '''' dec_string (map JString ts) = (ts, False)" for ts
    by (rule dec_elements_map) simp
  obtain adr ts da p i where l: "l = \<lparr>rpcLogFrame_Address = adr, rpcLogFrame_Topics = ts,
      rpcLogFrame_Data = da, rpcLogFrame_Position = p, rpcLogFrame_Index = i\<rparr>" by (cases l)
  show ?thesis
    by (cases "ts = []"; cases p; cases i)
      (simp_all add: l t dec_rpcLogFrame_def log_json_def zero_log_def opt_number_def key_is_def
        strings_ToLower_def char_lower_def dec_pointer_def dec_uint64_fmt del: dec_uint64.simps)
qed

lemma dec_member_string:
  assumes "strings_ToLower key = name" "name \<in> string_fields"
  shows "dec_frame_members ((key, JString s) # kvs) f = dec_frame_members kvs (set_string_field name s f)"
  using assms by (simp add: dec_string_field_def split: prod.split)

lemma dec_member_omitempty:
  assumes "strings_ToLower key = name" "name \<in> string_fields" "set_string_field name '''' f = f"
  shows "dec_frame_members (omitempty key s @ kvs) f = dec_frame_members kvs (set_string_field name s f)"
  using assms dec_member_string [OF assms(1,2)] by (simp add: omitempty_def del: dec_frame_members.simps)

lemma frame_json_round_trip: "dec_rpcCallFrame (frame_json f) zero_frame = (f, False)"
proof (induction f)
  case (rpcCallFrame kind sender rcpt val gas gasUsed input out err reason calls logs)
  have c: "dec_frame_elements (map frame_json cs) = (cs, False)" if "set cs \<subseteq> set calls" for cs
    using that rpcCallFrame by (induction cs) auto
  have l: "dec_elements zero_log dec_rpcLogFrame (map log_json logs) = (logs, False)"
    by (rule dec_elements_map) (rule dec_log_json)
  have lower: "strings_ToLower ''type'' = ''type''" "strings_ToLower ''from'' = ''from''"
    "strings_ToLower ''to'' = ''to''" "strings_ToLower ''value'' = ''value''" "strings_ToLower ''gas'' = ''gas''"
    "strings_ToLower ''gasUsed'' = ''gasused''" "strings_ToLower ''input'' = ''input''"
    "strings_ToLower ''output'' = ''output''" "strings_ToLower ''error'' = ''error''"
    "strings_ToLower ''revertReason'' = ''revertreason''" "strings_ToLower ''calls'' = ''calls''"
    "strings_ToLower ''logs'' = ''logs''"
    by code_simp+
  note m = dec_member_string [OF lower(1)] dec_member_string [OF lower(2)] dec_member_string [OF lower(5)]
    dec_member_string [OF lower(6)] dec_member_string [OF lower(7)]
  note o = dec_member_omitempty [OF lower(3)] dec_member_omitempty [OF lower(4)]
    dec_member_omitempty [OF lower(8)] dec_member_omitempty [OF lower(9)] dec_member_omitempty [OF lower(10)]
  let ?f = "rpcCallFrame kind sender rcpt val gas gasUsed input out err reason [] []"
  let ?calls = "if calls = [] then [] else [(''calls'', JArray (map frame_json calls))]"
  let ?logs = "if logs = [] then [] else [(''logs'', JArray (map log_json logs))]"
  have "dec_rpcCallFrame (frame_json (rpcCallFrame kind sender rcpt val gas gasUsed input out err reason calls logs))
      zero_frame = dec_frame_members (?calls @ ?logs) ?f"
    by (simp add: m o string_fields_def zero_frame_def del: dec_frame_members.simps)
  also have "\<dots> = (rpcCallFrame kind sender rcpt val gas gasUsed input out err reason calls logs, False)"
    using c [of calls] l lower by (cases "calls = []"; cases "logs = []") (simp_all add: string_fields_def)
  finally show ?case .
qed

section \<open>The call\<close>

record rpcResponse =
  Result :: "rpcCallFrame list"
  Error_Message :: "string option"

text \<open>One element of the result array: an object whose \<open>result\<close> is a frame.\<close>

definition dec_rpcResult :: "rpcCallFrame decoder" where
  "dec_rpcResult = dec_struct (dec_field ''result'' dec_rpcCallFrame id (\<lambda>x f. x))"

definition dec_rpcResponse :: "rpcResponse decoder" where
  "dec_rpcResponse = dec_struct (\<lambda>key v r.
     if key_is key ''result'' then
       let (x, e) = dec_slice zero_frame dec_rpcResult v (Result r) in (r\<lparr>Result := x\<rparr>, e)
     else if key_is key ''error'' then
       let (x, e) = dec_pointer '''' (dec_struct (dec_field ''message'' dec_string id (\<lambda>x m. x))) v (Error_Message r)
       in (r\<lparr>Error_Message := x\<rparr>, e)
     else (r, False))"

text \<open>One HTTP exchange: the request may fail to be built or sent, or a response comes back.\<close>

datatype http_reply =
    Create_Fail string
  | Post_Fail string
  | Reply int "string + string"

text \<open>The request body: \<open>json.Marshal\<close> writes the keys of a map in sorted order.\<close>

definition rpc_call :: "u64 \<Rightarrow> json" where
  "rpc_call blockNumber =
     (let hexBlock = ''0x'' @ fmt_hex blockNumber
      in JObject [(''id'', JNumber ''1''), (''jsonrpc'', JString ''2.0''), (''method'', JString ''debug_traceBlockByNumber''),
           (''params'', JArray [JString hexBlock, JObject [(''tracer'', JString ''callTracer'')]])])"

definition rpc_request :: "u64 \<Rightarrow> string" where
  "rpc_request blockNumber = json_Marshal (rpc_call blockNumber)"

text \<open>The text reads back as the call, so requests for different blocks differ.\<close>

lemma rpc_request_parses: "json_parse (rpc_request n) = Some (rpc_call n)"
proof -
  have "json_fits max_nesting_depth (rpc_call n)"
    by (simp add: rpc_call_def Let_def max_nesting_depth_def is_number_1)
  then show ?thesis unfolding rpc_request_def by (rule json_parse_Marshal)
qed

lemma rpc_request_inj: "rpc_request m = rpc_request n \<longleftrightarrow> m = n"
proof
  assume "rpc_request m = rpc_request n"
  then have "rpc_call m = rpc_call n" using rpc_request_parses by (metis option.inject)
  then have "''0x'' @ fmt_hex m = ''0x'' @ fmt_hex n" by (simp add: rpc_call_def Let_def)
  then have "(Inr m :: num_error + u64) = Inr n" by (metis ParseUint_fmt_hex)
  then show "m = n" by simp
qed simp

definition doRPCCall ::
  "(string \<Rightarrow> string \<Rightarrow> http_reply) \<Rightarrow> string \<Rightarrow> u64 \<Rightarrow> string + rpcCallFrame list" where
  "doRPCCall http rpcURL blockNumber =
    (case http rpcURL (rpc_request blockNumber) of
       Create_Fail err \<Rightarrow> Inl (''create request: '' @ err)
     | Post_Fail err \<Rightarrow> Inl (''http post: '' @ err)
     | Reply status body \<Rightarrow>
         if status \<noteq> 200 then Inl (''http status '' @ fmt_int status @ '' for block#'' @ fmt_u64 blockNumber)
         else (case body of
             Inl err \<Rightarrow> Inl (''read response body: '' @ err)
           | Inr respBody \<Rightarrow>
               (case json_Unmarshal dec_rpcResponse respBody \<lparr>Result = [], Error_Message = None\<rparr> of
                  (rpcResp, failed) \<Rightarrow>
                    if failed then Inl ''decode response''
                    else (case Error_Message rpcResp of
                        Some message \<Rightarrow> Inl (''RPC error: '' @ message)
                      | None \<Rightarrow> Inr (Result rpcResp)))))"

text \<open>
  \<open>fetchRPCTraces\<close>: the exchanges of the first and of the second attempt are separate, and
  \<open>cancelled\<close> says that the wait between them ended because the context was done. The lines
  are what it logs.
\<close>

definition fetchRPCTraces ::
  "(string \<Rightarrow> string \<Rightarrow> http_reply) \<Rightarrow> (string \<Rightarrow> string \<Rightarrow> http_reply) \<Rightarrow> bool \<Rightarrow>
    string \<Rightarrow> u64 \<Rightarrow> (string + rpcCallFrame list) \<times> string list" where
  "fetchRPCTraces http1 http2 cancelled rpcURL blockNumber =
    (case doRPCCall http1 rpcURL blockNumber of
       Inr frames \<Rightarrow> (Inr frames, [])
     | Inl err \<Rightarrow>
         let line = ''RPC attempt 1 failed for block#'' @ fmt_u64 blockNumber @ '': '' @ err
         in if cancelled then (Inl ''context canceled'', [line])
            else (case doRPCCall http2 rpcURL blockNumber of
                Inl err2 \<Rightarrow> (Inl (''RPC attempt 2 failed for block#'' @ fmt_u64 blockNumber @ '': '' @ err2), [line])
              | Inr frames \<Rightarrow> (Inr frames, [line, ''RPC retry succeeded for block#'' @ fmt_u64 blockNumber])))"

text \<open>The response of an endpoint that traced the block: one element per transaction.\<close>

definition traces_json :: "(string \<times> rpcCallFrame) list \<Rightarrow> json" where
  "traces_json rs = JObject [(''jsonrpc'', JString ''2.0''), (''id'', JNumber ''1''),
     (''result'', JArray (map (\<lambda>(txHash, f). JObject [(''txHash'', JString txHash), (''result'', frame_json f)]) rs))]"

text \<open>Calls nested at most \<open>n\<close> deep; written as JSON, a level takes two levels of nesting.\<close>

fun nested_within :: "nat \<Rightarrow> rpcCallFrame \<Rightarrow> bool" where
  "nested_within n (rpcCallFrame kind sender rcpt val gas gasUsed input out err reason calls logs) =
     (0 < n \<and> list_all (nested_within (n - 1)) calls)"

lemma json_fits_log_json: "3 \<le> d \<Longrightarrow> json_fits d (log_json l)"
  by (auto simp: log_json_def opt_number_def list_all_iff fmt_u64_def is_number_fmt_nat split: option.splits)

lemma json_fits_omitempty: "list_all (\<lambda>(_, v). json_fits d v) (omitempty key s)"
  by (simp add: omitempty_def)

lemma json_fits_frame_json: "nested_within n f \<Longrightarrow> json_fits (3 + 2 * n) (frame_json f)"
proof (induction f arbitrary: n)
  case (rpcCallFrame kind sender rcpt val gas gasUsed input out err reason calls logs)
  then obtain m where n: "n = Suc m" by (cases n) auto
  have "list_all (json_fits (3 + 2 * m)) (map frame_json calls)"
    using rpcCallFrame n by (simp add: list_all_iff)
  moreover have "list_all (json_fits (3 + 2 * m)) (map log_json logs)"
    by (simp add: list_all_iff json_fits_log_json)
  ultimately show ?case by (simp add: n json_fits_omitempty)
qed

lemma json_fits_traces_json:
  assumes "\<forall>f \<in> snd ` set rs. nested_within n f"
  shows "json_fits (2 * n + 6) (traces_json rs)"
  using assms json_fits_frame_json
  by (auto simp: traces_json_def is_number_1 list_all_iff)

lemma dec_traces_json:
  "dec_rpcResponse (traces_json rs) \<lparr>Result = [], Error_Message = None\<rparr> = (\<lparr>Result = map snd rs, Error_Message = None\<rparr>, False)"
proof -
  have k: "key_is ''result'' ''result''" "\<not> key_is ''txHash'' ''result''" "\<not> key_is ''jsonrpc'' ''result''"
    "\<not> key_is ''jsonrpc'' ''error''" "\<not> key_is ''id'' ''result''" "\<not> key_is ''id'' ''error''"
    by (simp_all add: key_is_def strings_ToLower_def char_lower_def)
  have "dec_elements zero_frame dec_rpcResult
      (map (\<lambda>(txHash, f). JObject [(''txHash'', JString txHash), (''result'', frame_json f)]) rs) = (map snd rs, False)"
    by (induction rs) (auto simp: dec_rpcResult_def dec_field_def k frame_json_round_trip)
  then show ?thesis by (simp add: dec_rpcResponse_def traces_json_def k)
qed

lemma doRPCCall_traces:
  assumes "http rpcURL (rpc_request n) = Reply 200 (Inr body)" "json_parse body = Some (traces_json rs)"
  shows "doRPCCall http rpcURL n = Inr (map snd rs)"
  using assms dec_traces_json [of rs] by (simp add: doRPCCall_def json_Unmarshal_def)

lemma fetchRPCTraces_result:
  "fst (fetchRPCTraces http1 http2 cancelled rpcURL n) = Inr frames \<longleftrightarrow>
     doRPCCall http1 rpcURL n = Inr frames \<or>
     (\<exists>err. doRPCCall http1 rpcURL n = Inl err) \<and> \<not> cancelled \<and> doRPCCall http2 rpcURL n = Inr frames"
  by (auto simp: fetchRPCTraces_def Let_def split: sum.splits)

end
