(* ===== verification/Trace_Pipeline.thy ===== *)
theory Trace_Pipeline
  imports Trace_Compare_Correct Trace_Rpc
begin

text \<open>
  \<open>src/examples/go-trace-verifier/main.go\<close>: the stream goroutine that extracts the traced
  blocks from the notifications, the worker goroutines that fetch and compare, the goroutine
  that closes the result channel, and the collecting loop of \<open>main\<close>. The goroutines are a
  step relation over the two bounded channels; any scheduler is allowed. A send on a closed
  channel and a second close set \<open>panicked\<close>, as they panic in Go.

  \<open>main\<close> cancels its context only when it returns, so no step of the pipeline depends on it.
\<close>

section \<open>Data\<close>

record blockWork =
  work_blockNumber :: u64
  work_grpcFrames :: "CallFrame list"

record blockResult =
  result_blockNumber :: u64
  result_txCount :: nat
  result_frameCount :: nat
  result_logCount :: nat
  result_mismatches :: "string list"
  result_rpcError :: bool

definition maxRecvMsgSize :: nat where
  "maxRecvMsgSize = 64 * 1024 * 1024"

definition workChBuffer :: nat where
  "workChBuffer = 32"

section \<open>streamLoop\<close>

text \<open>
  What \<open>stream.Recv()\<close> yields, and the gRPC library's part. \<open>live k\<close> says that the \<open>select\<close>
  of the \<open>k\<close>-th send takes the send, not \<open>ctx.Done()\<close>.
\<close>

datatype stream_item =
    Stream_Msg Notification
  | Stream_EOF
  | Stream_Fail string bool

record stream_lib =
  connect_err :: "nat \<Rightarrow> string \<Rightarrow> string option"
  subscribe_result :: "string \<Rightarrow> SubscribeRequest \<Rightarrow> string + stream_item list"

text \<open>
  The inner loop over \<open>chain.CallTraces\<close>: the blocks sent, the new count, and whether the
  function has returned.
\<close>

fun send_traces :: "(nat \<Rightarrow> bool) \<Rightarrow> nat \<Rightarrow> nat \<Rightarrow> BlockCallTraces list \<Rightarrow> blockWork list \<times> nat \<times> bool" where
  "send_traces live n sent [] = ([], sent, False)"
| "send_traces live n sent (bct # bcts) =
    (if length (BlockCallTraces_Txs bct) = 0 then send_traces live n sent bcts
     else if \<not> live sent then ([], sent, True)
     else let work = \<lparr>work_blockNumber = BlockCallTraces_BlockNumber bct, work_grpcFrames = BlockCallTraces_Txs bct\<rparr>
          in if n \<le> Suc sent then ([work], Suc sent, True)
             else (case send_traces live n (Suc sent) bcts of
                 (works, sent', ret) \<Rightarrow> (work # works, sent', ret)))"

text \<open>
  The outer loop: the blocks sent, the log lines, and whether the function has returned; it
  has not when it waits for a further message.
\<close>

fun recv_loop :: "(nat \<Rightarrow> bool) \<Rightarrow> nat \<Rightarrow> nat \<Rightarrow> stream_item list \<Rightarrow> blockWork list \<times> string list \<times> bool" where
  "recv_loop live n sent [] = ([], [], n \<le> sent)"
| "recv_loop live n sent (item # items) =
    (if n \<le> sent then ([], [], True)
     else (case item of
         Stream_EOF \<Rightarrow> ([], [''streamLoop: stream closed by server''], True)
       | Stream_Fail err ctx_done \<Rightarrow>
           ([], if ctx_done then [] else [''streamLoop: recv error: '' @ err], True)
       | Stream_Msg notif \<Rightarrow>
           (case Notification_Event notif of
              Some (Notification_ChainCommitted cc) \<Rightarrow>
                (case ChainCommitted_New cc of
                   None \<Rightarrow> recv_loop live n sent items
                 | Some chain \<Rightarrow>
                     (case send_traces live n sent (Chain_CallTraces chain) of
                        (works, sent', True) \<Rightarrow> (works, [], True)
                      | (works, sent', False) \<Rightarrow>
                          (case recv_loop live n sent' items of
                             (works', lines, ret) \<Rightarrow> (works @ works', lines, ret))))
            | _ \<Rightarrow> recv_loop live n sent items)))"

definition streamLoop :: "stream_lib \<Rightarrow> string \<Rightarrow> (nat \<Rightarrow> bool) \<Rightarrow> nat \<Rightarrow> blockWork list \<times> string list \<times> bool" where
  "streamLoop lib grpcAddr live n =
    (case connect_err lib maxRecvMsgSize grpcAddr of
       Some err \<Rightarrow> ([], [''streamLoop: connect to '' @ grpcAddr @ '' failed: '' @ err], True)
     | None \<Rightarrow>
         (case subscribe_result lib grpcAddr
                 ((SubscribeRequest_Reset undefined)\<lparr>SubscribeRequest_IncludeCallTraces := True\<rparr>) of
            Inl err \<Rightarrow> ([], [''streamLoop: subscribe failed: '' @ err], True)
          | Inr items \<Rightarrow> recv_loop live n 0 items))"

section \<open>workerLoop\<close>

text \<open>The result a worker puts for a block, from the outcome of \<open>fetchRPCTraces\<close>.\<close>

definition work_result :: "blockWork \<Rightarrow> string + rpcCallFrame list \<Rightarrow> blockResult" where
  "work_result work reply =
    (case reply of
       Inl err \<Rightarrow>
         \<lparr>result_blockNumber = work_blockNumber work, result_txCount = 0, result_frameCount = 0,
          result_logCount = 0, result_mismatches = [], result_rpcError = True\<rparr>
     | Inr rpcFrames \<Rightarrow>
         (case compareBlock (work_blockNumber work) (work_grpcFrames work) rpcFrames of
            (mismatches, frameCount, logCount) \<Rightarrow>
              \<lparr>result_blockNumber = work_blockNumber work, result_txCount = length (work_grpcFrames work),
               result_frameCount = frameCount, result_logCount = logCount,
               result_mismatches = mismatches, result_rpcError = False\<rparr>))"

datatype worker = Idle | Busy blockWork | Putting blockResult | Finished

section \<open>The pipeline\<close>

text \<open>
  \<open>to_send\<close> are the blocks \<open>streamLoop\<close> has yet to send; after them it returns, when
  \<open>src_returns\<close> holds, or waits for a message that does not come. Its deferred
  \<open>close(workCh)\<close> runs once, on return.
\<close>

record pipe =
  to_send :: "blockWork list"
  src_returns :: bool
  src_returned :: bool
  workCh :: "blockWork list"
  work_closed :: bool
  workers :: "worker list"
  resultCh :: "blockResult list"
  result_closed :: bool
  collected :: "blockResult list"
  main_done :: bool
  panicked :: bool

definition pipe_start :: "blockWork list \<Rightarrow> bool \<Rightarrow> nat \<Rightarrow> pipe" where
  "pipe_start works returns W =
    \<lparr>to_send = works, src_returns = returns, src_returned = False, workCh = [], work_closed = False, workers = replicate W Idle,
     resultCh = [], result_closed = False, collected = [], main_done = False, panicked = False\<rparr>"

text \<open>
  \<open>replies w r\<close>: fetching the traces of \<open>w\<close>'s block may yield \<open>r\<close>. A channel operation that
  would panic is enabled as well.
\<close>

inductive pipe_step :: "(blockWork \<Rightarrow> string + rpcCallFrame list \<Rightarrow> bool) \<Rightarrow> pipe \<Rightarrow> pipe \<Rightarrow> bool"
  for replies where
  step_send:
    "to_send s = w # ws \<Longrightarrow> length (workCh s) < workChBuffer \<or> work_closed s \<Longrightarrow>
     pipe_step replies s (s\<lparr>to_send := ws, workCh := workCh s @ [w], panicked := panicked s \<or> work_closed s\<rparr>)"
| step_return:
    "to_send s = [] \<Longrightarrow> src_returns s \<Longrightarrow> \<not> src_returned s \<Longrightarrow>
     pipe_step replies s (s\<lparr>src_returned := True, work_closed := True, panicked := panicked s \<or> work_closed s\<rparr>)"
| step_take:
    "i < length (workers s) \<Longrightarrow> workers s ! i = Idle \<Longrightarrow> workCh s = w # ws \<Longrightarrow>
     pipe_step replies s (s\<lparr>workers := (workers s)[i := Busy w], workCh := ws\<rparr>)"
| step_worker_done:
    "i < length (workers s) \<Longrightarrow> workers s ! i = Idle \<Longrightarrow> workCh s = [] \<Longrightarrow> work_closed s \<Longrightarrow>
     pipe_step replies s (s\<lparr>workers := (workers s)[i := Finished]\<rparr>)"
| step_fetch:
    "i < length (workers s) \<Longrightarrow> workers s ! i = Busy w \<Longrightarrow> replies w reply \<Longrightarrow>
     pipe_step replies s (s\<lparr>workers := (workers s)[i := Putting (work_result w reply)]\<rparr>)"
| step_put:
    "i < length (workers s) \<Longrightarrow> workers s ! i = Putting r \<Longrightarrow>
     length (resultCh s) < 2 * length (workers s) \<or> result_closed s \<Longrightarrow>
     pipe_step replies s (s\<lparr>workers := (workers s)[i := Idle], resultCh := resultCh s @ [r],
       panicked := panicked s \<or> result_closed s\<rparr>)"
| step_close_results:
    "\<forall>x \<in> set (workers s). x = Finished \<Longrightarrow> \<not> result_closed s \<Longrightarrow>
     pipe_step replies s (s\<lparr>result_closed := True\<rparr>)"
| step_collect:
    "resultCh s = r # rs \<Longrightarrow> \<not> main_done s \<Longrightarrow>
     pipe_step replies s (s\<lparr>resultCh := rs, collected := collected s @ [r]\<rparr>)"
| step_main_done:
    "resultCh s = [] \<Longrightarrow> result_closed s \<Longrightarrow> \<not> main_done s \<Longrightarrow>
     pipe_step replies s (s\<lparr>main_done := True\<rparr>)"

section \<open>The report of main\<close>

record totals =
  totalTx :: nat
  totalFrames :: nat
  totalLogs :: nat
  totalMismatches :: nat
  blocksVerified :: nat
  failed :: bool
  report :: "string list"

definition result_lines :: "blockResult \<Rightarrow> string list" where
  "result_lines res =
    (if result_rpcError res then [''block#'' @ fmt_u64 (result_blockNumber res) @ '' RPC_ERROR'']
     else if length (result_mismatches res) = 0 then
       [''block#'' @ fmt_u64 (result_blockNumber res) @ '' PASS ('' @ fmt_nat (result_txCount res) @ '' txs, '' @
        fmt_nat (result_frameCount res) @ '' frames, '' @ fmt_nat (result_logCount res) @ '' logs)'']
     else (''block#'' @ fmt_u64 (result_blockNumber res) @ '' MISMATCH ('' @
             fmt_nat (length (result_mismatches res)) @ '' errors):'')
          # map (\<lambda>m. ''  '' @ m) (result_mismatches res))"

definition add_result :: "blockResult \<Rightarrow> totals \<Rightarrow> totals" where
  "add_result res t =
     t\<lparr>blocksVerified := blocksVerified t + 1,
       totalTx := totalTx t + result_txCount res,
       totalFrames := totalFrames t + result_frameCount res,
       totalLogs := totalLogs t + result_logCount res,
       totalMismatches := totalMismatches t + length (result_mismatches res),
       failed := failed t \<or> result_rpcError res \<or> 0 < length (result_mismatches res),
       report := report t @ result_lines res\<rparr>"

definition no_totals :: totals where
  "no_totals = \<lparr>totalTx = 0, totalFrames = 0, totalLogs = 0, totalMismatches = 0, blocksVerified = 0,
     failed = False, report = []\<rparr>"

definition main_totals :: "blockResult list \<Rightarrow> totals" where
  "main_totals results = fold add_result results no_totals"

definition summary_lines :: "totals \<Rightarrow> string list" where
  "summary_lines t =
     ['''', ''=== Summary ==='', ''Blocks verified:   '' @ fmt_nat (blocksVerified t),
      ''Total tx traces:   '' @ fmt_nat (totalTx t), ''Total frames:      '' @ fmt_nat (totalFrames t),
      ''Total logs:        '' @ fmt_nat (totalLogs t), ''Total mismatches:  '' @ fmt_nat (totalMismatches t)]"

definition exit_code :: "pipe \<Rightarrow> nat" where
  "exit_code s = (if failed (main_totals (collected s)) then 1 else 0)"

text \<open>What \<open>main\<close> has printed at its end: the line of each block as it came in, and the summary.\<close>

definition main_stdout :: "pipe \<Rightarrow> string list" where
  "main_stdout s = (let t = main_totals (collected s) in report t @ summary_lines t)"


end
