(* ===== verification/Trace_Pipeline_Correct.thy ===== *)
theory Trace_Pipeline_Correct
  imports Trace_Pipeline
begin

text \<open>
  Correctness of the verifier's pipeline: no goroutine panics and no channel overflows, no
  block is lost or invented, some goroutine can move until \<open>main\<close> is done, every run is
  finite, and the exit code is the verdict on the blocks that were streamed.
\<close>

section \<open>What is in flight\<close>

fun busy :: "worker \<Rightarrow> blockWork multiset" where
  "busy (Busy w) = {#w#}"
| "busy _ = {#}"

fun putting :: "worker \<Rightarrow> blockResult multiset" where
  "putting (Putting r) = {#r#}"
| "putting _ = {#}"

definition unfetched :: "pipe \<Rightarrow> blockWork multiset" where
  "unfetched s = mset (to_send s) + mset (workCh s) + sum_list (map busy (workers s))"

definition fetched :: "pipe \<Rightarrow> blockResult multiset" where
  "fetched s = mset (collected s) + mset (resultCh s) + sum_list (map putting (workers s))"

lemma sum_list_upd:
  fixes f :: "'a \<Rightarrow> 'b :: cancel_comm_monoid_add"
  assumes "i < length xs"
  shows "sum_list (map f (xs[i := y])) + f (xs ! i) = sum_list (map f xs) + f y"
  using assms
proof (induction xs arbitrary: i)
  case (Cons x xs)
  then show ?case by (cases i) (auto simp: algebra_simps)
qed simp

lemma sum_list_all_0:
  fixes f :: "'a \<Rightarrow> 'b :: comm_monoid_add"
  shows "(\<And>x. x \<in> set xs \<Longrightarrow> f x = 0) \<Longrightarrow> sum_list (map f xs) = 0"
  by (induction xs) auto

lemma sum_list_upd_same:
  fixes f :: "'a \<Rightarrow> 'b :: cancel_comm_monoid_add"
  assumes "i < length xs" "f (xs ! i) = f y"
  shows "sum_list (map f (xs[i := y])) = sum_list (map f xs)"
  using sum_list_upd [OF assms(1), of f y] assms(2) by simp

lemma sum_list_upd_add:
  fixes f :: "'a \<Rightarrow> 'b :: cancel_comm_monoid_add"
  assumes "i < length xs" "f (xs ! i) = 0"
  shows "sum_list (map f (xs[i := y])) = sum_list (map f xs) + f y"
  using sum_list_upd [OF assms(1), of f y] assms(2) by simp

lemma sum_list_upd_remove:
  fixes f :: "'a \<Rightarrow> 'b :: cancel_comm_monoid_add"
  assumes "i < length xs" "f y = 0"
  shows "sum_list (map f (xs[i := y])) + f (xs ! i) = sum_list (map f xs)"
  using sum_list_upd [OF assms(1), of f y] assms(2) by simp

text \<open>
  The results so far are those of some fetched blocks with possible replies, and these
  blocks together with the ones in flight are the blocks streamed.
\<close>

definition accounts_for ::
  "blockWork list \<Rightarrow> (blockWork \<Rightarrow> string + rpcCallFrame list \<Rightarrow> bool) \<Rightarrow>
    (blockWork \<times> (string + rpcCallFrame list)) multiset \<Rightarrow> pipe \<Rightarrow> bool" where
  "accounts_for works replies jobs s \<longleftrightarrow>
     (\<forall>(w, reply) \<in># jobs. replies w reply) \<and>
     fetched s = image_mset (\<lambda>(w, reply). work_result w reply) jobs \<and>
     image_mset fst jobs + unfetched s = mset works"

definition pipe_safe :: "nat \<Rightarrow> pipe \<Rightarrow> bool" where
  "pipe_safe W s \<longleftrightarrow>
     \<not> panicked s \<and> length (workCh s) \<le> workChBuffer \<and> length (resultCh s) \<le> 2 * W \<and> length (workers s) = W \<and>
     (work_closed s \<longleftrightarrow> src_returned s) \<and> (src_returned s \<longrightarrow> to_send s = []) \<and>
     (Finished \<in> set (workers s) \<longrightarrow> work_closed s \<and> workCh s = []) \<and>
     (result_closed s \<longrightarrow> (\<forall>x \<in> set (workers s). x = Finished)) \<and>
     (main_done s \<longrightarrow> result_closed s \<and> resultCh s = [])"

lemma pipe_safe_start: "pipe_safe W (pipe_start works returns W)"
  by (simp add: pipe_safe_def pipe_start_def workChBuffer_def)

lemma src_returns_start [simp]: "src_returns (pipe_start works returns W) = returns"
  by (simp add: pipe_start_def)

lemma set_list_update_iff_ne:
  "i < length xs \<Longrightarrow> x \<noteq> y \<Longrightarrow> x \<in> set (xs[i := y]) \<Longrightarrow> x \<in> set xs"
  by (auto dest: set_update_subset_insert [THEN subsetD])

lemma pipe_safe_step:
  assumes "pipe_step replies s s'" "pipe_safe W s" "0 < W"
  shows "pipe_safe W s'"
  using assms
proof (induction rule: pipe_step.induct)
  case (step_take i s w ws)
  then have "Idle \<in> set (workers s)" by (metis nth_mem)
  then have "\<not> result_closed s" using step_take by (auto simp: pipe_safe_def)
  moreover have "Finished \<notin> set (workers s)" using step_take by (auto simp: pipe_safe_def)
  ultimately show ?case using step_take
    by (auto simp: pipe_safe_def dest: set_list_update_iff_ne [rotated 2])
next
  case (step_worker_done i s)
  then have "Idle \<in> set (workers s)" by (metis nth_mem)
  then have "\<not> result_closed s" using step_worker_done by (auto simp: pipe_safe_def)
  then show ?case using step_worker_done by (auto simp: pipe_safe_def)
next
  case (step_fetch i s w reply)
  then have "Busy w \<in> set (workers s)" by (metis nth_mem)
  then have "\<not> result_closed s" using step_fetch by (auto simp: pipe_safe_def)
  then show ?case using step_fetch
    by (auto simp: pipe_safe_def dest: set_list_update_iff_ne [rotated 2])
next
  case (step_put i s r)
  then have "Putting r \<in> set (workers s)" by (metis nth_mem)
  then have "\<not> result_closed s" using step_put by (auto simp: pipe_safe_def)
  then show ?case using step_put
    by (auto simp: pipe_safe_def dest: set_list_update_iff_ne [rotated 2])
next
  case (step_close_results s)
  then show ?case by (auto simp: pipe_safe_def)
qed (auto simp: pipe_safe_def workChBuffer_def)

lemma accounts_start: "accounts_for works replies {#} (pipe_start works returns W)"
proof -
  have "sum_list (map f (replicate W Idle)) = {#}" if "f Idle = {#}" for f :: "worker \<Rightarrow> 'a multiset"
    using that by (intro sum_list_all_0) auto
  from this [of busy] this [of putting] show ?thesis
    by (simp add: accounts_for_def pipe_start_def fetched_def unfetched_def)
qed

lemma accounts_step:
  assumes "pipe_step replies s s'" "accounts_for works replies jobs s"
  shows "\<exists>jobs'. accounts_for works replies jobs' s'"
  using assms
proof (induction rule: pipe_step.induct)
  case (step_take i s w ws)
  then show ?case
    by (auto simp: accounts_for_def fetched_def unfetched_def sum_list_upd_add sum_list_upd_same
        algebra_simps intro!: exI [of _ jobs])
next
  case (step_worker_done i s)
  then show ?case
    by (auto simp: accounts_for_def fetched_def unfetched_def sum_list_upd_same intro!: exI [of _ jobs])
next
  case (step_fetch i s w reply)
  have b: "sum_list (map busy (workers s)) =
      add_mset w (sum_list (map busy ((workers s)[i := Putting (work_result w reply)])))"
    using sum_list_upd_remove [of i "workers s" busy "Putting (work_result w reply)"] step_fetch by simp
  show ?case using step_fetch b
    by (intro exI [of _ "add_mset (w, reply) jobs"])
      (auto simp: accounts_for_def fetched_def unfetched_def sum_list_upd_add)
next
  case (step_put i s r)
  have p: "sum_list (map putting (workers s)) = add_mset r (sum_list (map putting ((workers s)[i := Idle])))"
    using sum_list_upd_remove [of i "workers s" putting Idle] step_put by simp
  show ?case using step_put p
    by (intro exI [of _ jobs]) (auto simp: accounts_for_def fetched_def unfetched_def sum_list_upd_same)
qed (auto simp: accounts_for_def fetched_def unfetched_def intro!: exI [of _ jobs])

section \<open>Progress and termination\<close>

lemma pipe_progress:
  assumes "pipe_safe W s" "0 < W" "\<not> main_done s" "\<forall>w. Busy w \<in> set (workers s) \<longrightarrow> (\<exists>reply. replies w reply)"
    "src_returns s"
  shows "\<exists>s'. pipe_step replies s s'"
proof (cases "resultCh s")
  case (Cons r rs)
  with assms(3) show ?thesis by (blast intro: step_collect)
next
  case Nil
  show ?thesis
  proof (cases "\<forall>x \<in> set (workers s). x = Finished")
    case True
    with Nil assms(3) show ?thesis by (cases "result_closed s") (blast intro: step_close_results step_main_done)+
  next
    case False
    then obtain i where i: "i < length (workers s)" "workers s ! i \<noteq> Finished" by (metis in_set_conv_nth)
    show ?thesis
    proof (cases "workers s ! i")
      case (Busy w)
      obtain reply where "replies w reply" using assms(4) Busy i(1) by (metis nth_mem)
      with Busy i show ?thesis by (blast intro: step_fetch)
    next
      case (Putting r)
      have "length (resultCh s) < 2 * length (workers s)" using Nil assms(1,2) by (simp add: pipe_safe_def)
      with Putting i show ?thesis by (blast intro: step_put)
    next
      case Idle
      show ?thesis
      proof (cases "workCh s")
        case (Cons w ws)
        with Idle i show ?thesis by (blast intro: step_take)
      next
        case Nil
        show ?thesis
        proof (cases "work_closed s")
          case True
          with Idle i Nil show ?thesis by (blast intro: step_worker_done)
        next
          case False
          then have "\<not> src_returned s" using assms(1) by (simp add: pipe_safe_def)
          moreover have "length (workCh s) < workChBuffer" using Nil by (simp add: workChBuffer_def)
          ultimately show ?thesis using assms(5) by (cases "to_send s") (blast intro: step_return step_send)+
        qed
      qed
    qed (use i in simp)
  qed
qed

fun worker_work :: "worker \<Rightarrow> nat" where
  "worker_work (Busy w) = 4"
| "worker_work (Putting r) = 3"
| "worker_work Idle = 1"
| "worker_work Finished = 0"

definition work_left :: "pipe \<Rightarrow> nat" where
  "work_left s = 5 * length (to_send s) + 4 * length (workCh s) + sum_list (map worker_work (workers s)) +
     length (resultCh s) + (if src_returned s then 0 else 1) + (if result_closed s then 0 else 1) +
     (if main_done s then 0 else 1)"

lemma pipe_step_decreases: "pipe_step replies s s' \<Longrightarrow> work_left s' < work_left s"
proof (induction rule: pipe_step.induct)
  case (step_take i s w ws)
  then show ?case using sum_list_upd [of i "workers s" worker_work "Busy w"] by (simp add: work_left_def)
next
  case (step_worker_done i s)
  then show ?case using sum_list_upd [of i "workers s" worker_work Finished] by (simp add: work_left_def)
next
  case (step_fetch i s w reply)
  then show ?case using sum_list_upd [of i "workers s" worker_work "Putting (work_result w reply)"]
    by (simp add: work_left_def)
next
  case (step_put i s r)
  then show ?case using sum_list_upd [of i "workers s" worker_work Idle] by (simp add: work_left_def)
qed (auto simp: work_left_def)

lemma work_left_start: "work_left (pipe_start works returns W) = 5 * length works + W + 3"
  by (simp add: work_left_def pipe_start_def sum_list_replicate)

lemma pipe_steps_bounded: "(pipe_step replies ^^ k) s s' \<Longrightarrow> k + work_left s' \<le> work_left s"
proof (induction k arbitrary: s')
  case (Suc k)
  then obtain t where "(pipe_step replies ^^ k) s t" "pipe_step replies t s'" by auto
  with Suc.IH pipe_step_decreases show ?case by fastforce
qed simp

text \<open>Whether \<open>streamLoop\<close> returns is a matter of the stream, not of the schedule.\<close>

lemma src_returns_step: "pipe_step replies s s' \<Longrightarrow> src_returns s' = src_returns s"
  by (induction rule: pipe_step.induct) auto

lemma src_returns_steps: "(pipe_step replies)\<^sup>*\<^sup>* s s' \<Longrightarrow> src_returns s' = src_returns s"
  by (induction rule: rtranclp_induct) (auto simp: src_returns_step)

text \<open>When \<open>main\<close> is done nothing can move any more.\<close>

inductive_cases pipe_stepE: "pipe_step replies s s'"

lemma pipe_done_stuck:
  assumes "pipe_safe W s" "main_done s" "0 < W"
  shows "\<not> pipe_step replies s s'"
proof
  have f: "\<forall>x \<in> set (workers s). x = Finished" "workers s \<noteq> []" "resultCh s = []" "result_closed s"
    using assms by (auto simp: pipe_safe_def)
  then have "Finished \<in> set (workers s)" by (metis list.set_intros(1) neq_Nil_conv)
  then have q: "to_send s = []" "src_returned s" using assms(1) by (auto simp: pipe_safe_def)
  have w: "workers s ! i = Finished" if "i < length (workers s)" for i using f(1) that by simp
  assume "pipe_step replies s s'"
  then show False by (rule pipe_stepE) (use f q w assms(2) in auto)
qed

section \<open>Reachable states\<close>

abbreviation reaches :: "(blockWork \<Rightarrow> string + rpcCallFrame list \<Rightarrow> bool) \<Rightarrow> blockWork list \<Rightarrow> bool \<Rightarrow> nat \<Rightarrow> pipe \<Rightarrow> bool" where
  "reaches replies works returns W s \<equiv> (pipe_step replies)\<^sup>*\<^sup>* (pipe_start works returns W) s"

lemma reaches_safe: "reaches replies works returns W s \<Longrightarrow> 0 < W \<Longrightarrow> pipe_safe W s"
  by (induction rule: rtranclp_induct) (auto intro: pipe_safe_start pipe_safe_step)

lemma reaches_accounts: "reaches replies works returns W s \<Longrightarrow> \<exists>jobs. accounts_for works replies jobs s"
  by (induction rule: rtranclp_induct) (blast intro: accounts_start accounts_step)+

text \<open>Every state can be run to the end.\<close>

lemma pipe_completes:
  assumes "pipe_safe W s" "src_returns s" "0 < W" "\<forall>w. \<exists>reply. replies w reply"
  shows "\<exists>s'. (pipe_step replies)\<^sup>*\<^sup>* s s' \<and> main_done s'"
  using assms(1,2)
proof (induction "work_left s" arbitrary: s rule: less_induct)
  case less
  show ?case
  proof (cases "main_done s")
    case False
    then obtain t where t: "pipe_step replies s t"
      using pipe_progress [OF less.prems(1) assms(3) _ _ less.prems(2)] assms(4) by blast
    then have "src_returns t" using less.prems(2) src_returns_step by blast
    with t less pipe_step_decreases pipe_safe_step assms(3) show ?thesis
      by (meson converse_rtranclp_into_rtranclp)
  qed blast
qed

lemma done_all_fetched:
  assumes "pipe_safe W s" "main_done s" "0 < W"
  shows "unfetched s = {#}" "fetched s = mset (collected s)"
proof -
  have f: "\<forall>x \<in> set (workers s). x = Finished" "workers s \<noteq> []" "resultCh s = []"
    using assms by (auto simp: pipe_safe_def)
  then have "Finished \<in> set (workers s)" by (metis list.set_intros(1) neq_Nil_conv)
  then have "to_send s = []" "workCh s = []" using assms(1) by (auto simp: pipe_safe_def)
  moreover have z: "sum_list (map g (workers s)) = {#}" if "g Finished = {#}" for g :: "worker \<Rightarrow> 'a multiset"
    using f(1) that by (intro sum_list_all_0) auto
  ultimately show "unfetched s = {#}" "fetched s = mset (collected s)"
    using f(3) z [of busy] z [of putting] by (simp_all add: unfetched_def fetched_def)
qed

section \<open>The verdict\<close>

lemma fold_add_result:
  "failed (fold add_result rs t) \<longleftrightarrow> failed t \<or> (\<exists>r \<in> set rs. result_rpcError r \<or> result_mismatches r \<noteq> [])"
  "blocksVerified (fold add_result rs t) = blocksVerified t + length rs"
  "totalMismatches (fold add_result rs t) = totalMismatches t + (\<Sum>r\<leftarrow>rs. length (result_mismatches r))"
  by (induction rs arbitrary: t) (auto simp: add_result_def)

lemma work_result_clean:
  "\<not> result_rpcError (work_result w reply) \<and> result_mismatches (work_result w reply) = [] \<longleftrightarrow>
    (\<exists>frames. reply = Inr frames \<and> list_all2 frame_agrees (work_grpcFrames w) frames)"
proof (cases reply)
  case (Inr frames)
  obtain ms fc lc where c: "compareBlock (work_blockNumber w) (work_grpcFrames w) frames = (ms, fc, lc)"
    by (metis prod.exhaust)
  with Inr compareBlock_Nil_iff [of "work_blockNumber w" "work_grpcFrames w" frames] show ?thesis
    by (simp add: work_result_def)
qed (simp add: work_result_def)

lemma pipe_verdict:
  assumes "reaches replies works returns W s" "main_done s" "0 < W"
  shows "\<exists>jobs. image_mset fst jobs = mset works \<and> (\<forall>(w, reply) \<in># jobs. replies w reply) \<and>
    mset (collected s) = image_mset (\<lambda>(w, reply). work_result w reply) jobs \<and>
    (exit_code s = 0 \<longleftrightarrow>
      (\<forall>(w, reply) \<in># jobs. \<exists>frames. reply = Inr frames \<and> list_all2 frame_agrees (work_grpcFrames w) frames))"
proof -
  obtain jobs where a: "accounts_for works replies jobs s" using reaches_accounts [OF assms(1)] by blast
  note d = done_all_fetched [OF reaches_safe [OF assms(1,3)] assms(2,3)]
  have c: "mset (collected s) = image_mset (\<lambda>(w, reply). work_result w reply) jobs"
    using a d by (simp add: accounts_for_def)
  then have "set (collected s) = (\<lambda>(w, reply). work_result w reply) ` set_mset jobs"
    by (metis set_image_mset set_mset_mset)
  then have "exit_code s = 0 \<longleftrightarrow> (\<forall>(w, reply) \<in># jobs.
      \<not> result_rpcError (work_result w reply) \<and> result_mismatches (work_result w reply) = [])"
    by (auto simp: exit_code_def main_totals_def fold_add_result no_totals_def)
  then show ?thesis using a c d unfolding work_result_clean by (auto simp: accounts_for_def)
qed

text \<open>When every reply a worker may get agrees with the streamed traces, the run passes.\<close>

lemma pipe_all_agree:
  assumes "reaches replies works returns W s" "main_done s" "0 < W"
    "\<And>w reply. w \<in> set works \<Longrightarrow> replies w reply \<Longrightarrow>
      \<exists>frames. reply = Inr frames \<and> list_all2 frame_agrees (work_grpcFrames w) frames"
  shows "exit_code s = 0 \<and> totalMismatches (main_totals (collected s)) = 0 \<and>
    blocksVerified (main_totals (collected s)) = length works"
proof -
  obtain jobs where jobs: "image_mset fst jobs = mset works" "\<forall>(w, reply) \<in># jobs. replies w reply"
    "mset (collected s) = image_mset (\<lambda>(w, reply). work_result w reply) jobs"
    using pipe_verdict [OF assms(1-3)] by blast
  have ok: "\<not> result_rpcError r \<and> result_mismatches r = []" if "r \<in> set (collected s)" for r
  proof -
    have "r \<in># image_mset (\<lambda>(w, reply). work_result w reply) jobs" using that by (simp flip: jobs(3))
    then obtain w reply where j: "(w, reply) \<in># jobs" "r = work_result w reply" by auto
    have "w \<in># image_mset fst jobs" using j(1) by force
    then have "w \<in> set works" by (simp add: jobs(1))
    with j jobs(2) assms(4) show ?thesis unfolding j(2) work_result_clean by blast
  qed
  have "length (collected s) = length works" by (metis jobs(1,3) size_image_mset size_mset)
  with ok show ?thesis by (auto simp: exit_code_def main_totals_def fold_add_result no_totals_def)
qed

section \<open>What the order of the results changes\<close>

text \<open>Only the order of the lines about the blocks depends on the order the results come in.\<close>

lemma fold_add_result_report:
  "report (fold add_result rs t) = report t @ concat (map result_lines rs)"
  by (induction rs arbitrary: t) (simp_all add: add_result_def)

lemma fold_add_result_sums:
  "totalTx (fold add_result rs t) = totalTx t + (\<Sum>r\<leftarrow>rs. result_txCount r)"
  "totalFrames (fold add_result rs t) = totalFrames t + (\<Sum>r\<leftarrow>rs. result_frameCount r)"
  "totalLogs (fold add_result rs t) = totalLogs t + (\<Sum>r\<leftarrow>rs. result_logCount r)"
  by (induction rs arbitrary: t) (auto simp: add_result_def)

lemma sum_list_map_mset: "mset xs = mset ys \<Longrightarrow> sum_list (map f xs) = (sum_list (map f ys) :: 'a :: comm_monoid_add)"
  by (metis mset_map sum_mset_sum_list)

lemma output_order:
  assumes "mset (collected s') = mset (collected s)"
  shows "exit_code s' = exit_code s"
    "summary_lines (main_totals (collected s')) = summary_lines (main_totals (collected s))"
    "mset (main_stdout s') = mset (main_stdout s)"
proof -
  have same: "set (collected s') = set (collected s)" "length (collected s') = length (collected s)"
    using assms by (metis set_mset_mset, metis size_mset)
  note sums = sum_list_map_mset [OF assms]
  show "exit_code s' = exit_code s" by (simp add: exit_code_def main_totals_def fold_add_result same)
  show sum: "summary_lines (main_totals (collected s')) = summary_lines (main_totals (collected s))"
    by (simp add: summary_lines_def main_totals_def fold_add_result fold_add_result_sums same sums)
  show "mset (main_stdout s') = mset (main_stdout s)"
    by (simp add: main_stdout_def Let_def sum)
      (simp add: main_totals_def fold_add_result_report mset_concat sums comp_def)
qed

text \<open>With one reply per block the results are determined by the blocks, under any schedule.\<close>

lemma pipe_results_determined:
  assumes "reaches replies works returns W s" "main_done s" "0 < W"
    "\<forall>w r r'. replies w r \<longrightarrow> replies w r' \<longrightarrow> r = r'"
  shows "mset (collected s) = image_mset (\<lambda>w. work_result w (THE r. replies w r)) (mset works)"
proof -
  obtain jobs where jobs: "image_mset fst jobs = mset works" "\<forall>(w, reply) \<in># jobs. replies w reply"
    "mset (collected s) = image_mset (\<lambda>(w, reply). work_result w reply) jobs"
    using pipe_verdict [OF assms(1-3)] by blast
  have "(THE r. replies w r) = reply" if "(w, reply) \<in># jobs" for w reply
    using that jobs(2) assms(4) by (intro the_equality) blast+
  then have "image_mset (\<lambda>(w, reply). work_result w reply) jobs
      = image_mset (\<lambda>j. work_result (fst j) (THE r. replies (fst j) r)) jobs"
    by (intro image_mset_cong) auto
  also have "\<dots> = image_mset (\<lambda>w. work_result w (THE r. replies w r)) (image_mset fst jobs)"
    by (simp add: image_mset.compositionality comp_def)
  finally show ?thesis by (simp add: jobs)
qed

section \<open>What streamLoop sends\<close>

text \<open>The blocks of a notification that carry traces, as work, in order.\<close>

definition traced_blocks :: "Notification \<Rightarrow> blockWork list" where
  "traced_blocks notif =
    (case Notification_Event notif of
       Some (Notification_ChainCommitted cc) \<Rightarrow>
         (case ChainCommitted_New cc of
            None \<Rightarrow> []
          | Some chain \<Rightarrow>
              map (\<lambda>bct. \<lparr>work_blockNumber = BlockCallTraces_BlockNumber bct, work_grpcFrames = BlockCallTraces_Txs bct\<rparr>)
                (filter (\<lambda>bct. BlockCallTraces_Txs bct \<noteq> []) (Chain_CallTraces chain)))
     | _ \<Rightarrow> [])"

fun messages :: "stream_item list \<Rightarrow> Notification list" where
  "messages (Stream_Msg notif # items) = notif # messages items"
| "messages _ = []"

definition stream_ends :: "stream_item list \<Rightarrow> bool" where
  "stream_ends items \<longleftrightarrow> (\<exists>i \<in> set items. \<forall>notif. i \<noteq> Stream_Msg notif)"

abbreviation always :: "nat \<Rightarrow> bool" where
  "always \<equiv> \<lambda>k. True"

lemma send_traces_take:
  "sent < n \<Longrightarrow>
   send_traces always n sent bcts =
    (let works = map (\<lambda>bct. \<lparr>work_blockNumber = BlockCallTraces_BlockNumber bct,
                              work_grpcFrames = BlockCallTraces_Txs bct\<rparr>)
                   (filter (\<lambda>bct. BlockCallTraces_Txs bct \<noteq> []) bcts)
     in (take (n - sent) works, sent + min (n - sent) (length works), n \<le> sent + length works))"
proof (induction bcts arbitrary: sent)
  case (Cons bct bcts)
  show ?case
  proof (cases "n \<le> Suc sent")
    case True
    with Cons.prems have "n - sent = Suc 0" by simp
    with True Cons show ?thesis by (auto simp: Let_def take_Suc min_def)
  next
    case False
    then have "n - sent = Suc (n - Suc sent)" by simp
    with False Cons show ?thesis by (auto simp: Let_def min_def)
  qed
qed simp

lemma recv_loop_take:
  "fst (recv_loop always n sent items) = take (n - sent) (concat (map traced_blocks (messages items))) \<and>
   (snd (snd (recv_loop always n sent items)) \<longleftrightarrow>
     n \<le> sent + length (concat (map traced_blocks (messages items))) \<or> stream_ends items)"
proof (induction items arbitrary: sent)
  case Nil
  show ?case by (simp add: stream_ends_def)
next
  case (Cons item items)
  show ?case
  proof (cases "n \<le> sent")
    case True
    then show ?thesis by simp
  next
    case False
    show ?thesis
    proof (cases item)
      case (Stream_Msg notif)
      have e: "stream_ends (item # items) \<longleftrightarrow> stream_ends items"
        using Stream_Msg by (auto simp: stream_ends_def)
      show ?thesis
      proof (cases "\<exists>cc chain. Notification_Event notif = Some (Notification_ChainCommitted cc) \<and>
          ChainCommitted_New cc = Some chain")
        case True
        then obtain cc chain where c: "Notification_Event notif = Some (Notification_ChainCommitted cc)"
          "ChainCommitted_New cc = Some chain" by blast
        let ?w = "traced_blocks notif"
        have s: "send_traces always n sent (Chain_CallTraces chain) =
            (take (n - sent) ?w, sent + min (n - sent) (length ?w), n \<le> sent + length ?w)"
          using False c by (simp add: send_traces_take traced_blocks_def Let_def)
        show ?thesis
        proof (cases "n \<le> sent + length ?w")
          case True
          with False Stream_Msg c s show ?thesis by auto
        next
          case wait: False
          with False Stream_Msg c s Cons.IH [of "sent + length ?w"] e show ?thesis
            by (auto simp: min_def split: prod.splits)
        qed
      next
        case none: False
        then have "traced_blocks notif = []"
          "recv_loop always n sent (item # items) = recv_loop always n sent items"
          using Stream_Msg False
          by (auto simp: traced_blocks_def split: option.splits isNotification_Event.splits)
        with Stream_Msg Cons.IH [of sent] e show ?thesis by simp
      qed
    qed (use False in \<open>auto simp: stream_ends_def\<close>)
  qed
qed

text \<open>Where the blocks are: waiting to be sent, in the channel, in a worker, or answered.\<close>

lemma reaches_conserves:
  assumes "reaches replies works returns W s"
  shows "\<exists>jobs. (\<forall>(w, reply) \<in># jobs. replies w reply) \<and>
    image_mset fst jobs + unfetched s = mset works \<and>
    fetched s = image_mset (\<lambda>(w, reply). work_result w reply) jobs"
  using reaches_accounts [OF assms] by (auto simp: accounts_for_def)


end
