(* ===== verification/Go_Flag.thy ===== *)
theory Go_Flag
  imports Go_Strconv
begin

text \<open>
  Command lines: the \<open>flag\<close> package's \<open>Parse\<close> on the default flag set (exit code 2 on an
  error, 0 on a request for help), and the number and boolean parsers its values use.
\<close>

section \<open>Numbers and booleans\<close>

text \<open>The sign of \<open>ParseInt\<close> and the magnitude that follows it.\<close>

definition split_sign :: "string \<Rightarrow> bool \<times> string" where
  "split_sign s =
    (case s of
       c # r \<Rightarrow> if c = CHR ''-'' then (True, r) else if c = CHR ''+'' then (False, r) else (False, s)
     | [] \<Rightarrow> (False, []))"

definition signed_of_magnitude :: "bool \<Rightarrow> num_error + u64 \<Rightarrow> num_error + i64" where
  "signed_of_magnitude neg m =
    (case m of
       Inl e \<Rightarrow> Inl e
     | Inr un \<Rightarrow>
         if \<not> neg \<and> 2 ^ 63 \<le> unat un \<or> neg \<and> 2 ^ 63 < unat un then Inl ErrRange
         else Inr (if neg then - un else un))"

text \<open>\<open>strconv.ParseInt(s, 0, 64)\<close>, the value of an \<open>Int\<close> flag, and \<open>strconv.Atoi\<close>.\<close>

definition strconv_ParseInt :: "string \<Rightarrow> num_error + i64" where
  "strconv_ParseInt s =
    (case split_sign s of (neg, r) \<Rightarrow> signed_of_magnitude neg (strconv_ParseUint r))"

definition strconv_Atoi :: "string \<Rightarrow> num_error + i64" where
  "strconv_Atoi s =
    (case split_sign s of (neg, r) \<Rightarrow>
       if r = [] then Inl ErrSyntax
       else signed_of_magnitude neg
         (case parse_digits 10 r 0 False of
            Inl e \<Rightarrow> Inl e
          | Inr (n, us) \<Rightarrow> if us then Inl ErrSyntax else Inr (of_nat n)))"

definition strconv_ParseBool :: "string \<Rightarrow> bool option" where
  "strconv_ParseBool s =
    (if s \<in> {''1'', ''t'', ''T'', ''TRUE'', ''true'', ''True''} then Some True
     else if s \<in> {''0'', ''f'', ''F'', ''FALSE'', ''false'', ''False''} then Some False
     else None)"

lemma Atoi_fmt_nat:
  assumes "n < 2 ^ 63"
  shows "strconv_Atoi (fmt_nat n) = Inr (of_nat n)"
proof -
  obtain d ds where ds: "base_digits 10 n = d # ds" by (cases "base_digits 10 n") auto
  have d: "d < 36" using base_digits_bound [of 10 n] ds by auto
  have "hex_digit d \<noteq> CHR ''-''" "hex_digit d \<noteq> CHR ''+''"
    using digit_val_hex_digit [OF d] by (auto simp: digit_val_def)
  then have "split_sign (fmt_nat n) = (False, fmt_nat n)"
    by (simp add: split_sign_def fmt_nat_def ds)
  moreover have "parse_digits 10 (fmt_nat n) 0 False = Inr (n, False)"
    using parse_digits_map [of 10 "base_digits 10 n" 0 False] base_digits_bound [of 10 n] assms
    by (simp add: fmt_nat_def)
  moreover have "fmt_nat n \<noteq> []" by (simp add: fmt_nat_def)
  ultimately show ?thesis using assms
    by (simp add: strconv_Atoi_def signed_of_magnitude_def unat_of_nat)
qed

text \<open>Two values the sample command lines use.\<close>

lemma ParseInt_samples:
  "strconv_ParseInt ''2'' = Inr 2" "strconv_ParseInt ''-1'' = Inr (- 1)"
  by (simp_all add: strconv_ParseInt_def split_sign_def signed_of_magnitude_def strconv_ParseUint_def digit_val_def
      split_base.simps)

section \<open>flag.Parse\<close>

datatype flag_kind = Flag_Bool | Flag_Value

text \<open>\<open>name=value\<close>; the first character is part of the name.\<close>

definition split_flag :: "string \<Rightarrow> string \<times> string option" where
  "split_flag s =
    (case dropWhile (\<lambda>c. c \<noteq> CHR ''='') s of
       [] \<Rightarrow> (s, None)
     | _ # v \<Rightarrow> (takeWhile (\<lambda>c. c \<noteq> CHR ''='') s, Some v))"

text \<open>
  \<open>kind\<close> tells the defined flags, \<open>setf\<close> sets one from its text (\<open>None\<close> when the text is
  not a value of the flag). The result is an exit code, or the settings and the remaining
  arguments: parsing stops before the first argument that is not a flag and after \<open>--\<close>.
\<close>

fun flag_Parse :: "(string \<Rightarrow> flag_kind option) \<Rightarrow> (string \<Rightarrow> string \<Rightarrow> 'c \<Rightarrow> 'c option) \<Rightarrow>
    string list \<Rightarrow> 'c \<Rightarrow> nat + 'c \<times> string list" where
  "flag_Parse kind setf [] cfg = Inr (cfg, [])"
| "flag_Parse kind setf (s # args) cfg =
    (if length s < 2 \<or> hd s \<noteq> CHR ''-'' then Inr (cfg, s # args)
     else if s = ''--'' then Inr (cfg, args)
     else
       let body = (if s ! 1 = CHR ''-'' then drop 2 s else drop 1 s)
       in if body = [] \<or> hd body = CHR ''-'' \<or> hd body = CHR ''='' then Inl 2
          else (case split_flag body of (name, value) \<Rightarrow>
            (case kind name of
               None \<Rightarrow> if name = ''help'' \<or> name = ''h'' then Inl 0 else Inl 2
             | Some Flag_Bool \<Rightarrow>
                 (case setf name (case value of None \<Rightarrow> ''true'' | Some v \<Rightarrow> v) cfg of
                    None \<Rightarrow> Inl 2
                  | Some cfg' \<Rightarrow> flag_Parse kind setf args cfg')
             | Some Flag_Value \<Rightarrow>
                 (case value of
                    Some v \<Rightarrow>
                      (case setf name v cfg of None \<Rightarrow> Inl 2 | Some cfg' \<Rightarrow> flag_Parse kind setf args cfg')
                  | None \<Rightarrow>
                      (case args of
                         [] \<Rightarrow> Inl 2
                       | v # args' \<Rightarrow>
                           (case setf name v cfg of
                              None \<Rightarrow> Inl 2
                            | Some cfg' \<Rightarrow> flag_Parse kind setf args' cfg'))))))"

declare flag_Parse.simps(2) [simp del]

text \<open>What follows the first argument that is not a flag is never looked at.\<close>

lemma flag_Parse_positional:
  "s = [] \<or> hd s \<noteq> CHR ''-'' \<Longrightarrow> flag_Parse kind setf (s # args) cfg = Inr (cfg, s # args)"
  by (cases s) (auto simp: flag_Parse.simps(2))

lemma split_flag_plain:
  assumes "CHR ''='' \<notin> set s"
  shows "split_flag s = (s, None)"
proof -
  have d: "dropWhile (\<lambda>c. c \<noteq> CHR ''='') s = []" using assms by (auto simp: dropWhile_eq_Nil_conv)
  show ?thesis unfolding split_flag_def d by simp
qed

text \<open>A flag given as two arguments, \<open>--name value\<close>.\<close>

lemma flag_Parse_value:
  assumes "kind name = Some Flag_Value" "name \<noteq> []" "CHR ''='' \<notin> set name" "hd name \<noteq> CHR ''-''"
  shows "flag_Parse kind setf ((''--'' @ name) # v # args) cfg =
    (case setf name v cfg of None \<Rightarrow> Inl 2 | Some cfg' \<Rightarrow> flag_Parse kind setf args cfg')"
proof -
  have "split_flag name = (name, None)" by (rule split_flag_plain [OF assms(3)])
  moreover have "hd name \<noteq> CHR ''=''" using assms(2,3) by (metis hd_in_set)
  ultimately show ?thesis using assms by (simp add: flag_Parse.simps(2))
qed

text \<open>A boolean flag given as \<open>--name\<close>.\<close>

lemma flag_Parse_bool:
  assumes "kind name = Some Flag_Bool" "name \<noteq> []" "CHR ''='' \<notin> set name" "hd name \<noteq> CHR ''-''"
  shows "flag_Parse kind setf ((''--'' @ name) # args) cfg =
    (case setf name ''true'' cfg of None \<Rightarrow> Inl 2 | Some cfg' \<Rightarrow> flag_Parse kind setf args cfg')"
proof -
  have "split_flag name = (name, None)" by (rule split_flag_plain [OF assms(3)])
  moreover have "hd name \<noteq> CHR ''=''" using assms(2,3) by (metis hd_in_set)
  ultimately show ?thesis using assms by (simp add: flag_Parse.simps(2))
qed

end
