(* ===== verification/Trace_Main.thy ===== *)
theory Trace_Main
  imports Trace_Pipeline_Correct Go_Flag
begin

text \<open>
  \<open>src/examples/go-trace-verifier/main.go\<close>, the function \<open>main\<close>: the command line, the checks
  on it, and the program as a whole, from its arguments to the states its goroutines reach.
\<close>

record verifier_flags =
  flag_grpc :: string
  flag_rpc :: string
  flag_workers :: i64

definition verifier_defaults :: verifier_flags where
  "verifier_defaults = \<lparr>flag_grpc = ''127.0.0.1:10000'', flag_rpc = ''http://127.0.0.1:8545'', flag_workers = 4\<rparr>"

definition verifier_kind :: "string \<Rightarrow> flag_kind option" where
  "verifier_kind name = (if name \<in> {''grpc'', ''rpc'', ''workers''} then Some Flag_Value else None)"

definition verifier_set :: "string \<Rightarrow> string \<Rightarrow> verifier_flags \<Rightarrow> verifier_flags option" where
  "verifier_set name v cfg =
    (if name = ''grpc'' then Some (cfg\<lparr>flag_grpc := v\<rparr>)
     else if name = ''rpc'' then Some (cfg\<lparr>flag_rpc := v\<rparr>)
     else (case strconv_ParseInt v of Inl e \<Rightarrow> None | Inr w \<Rightarrow> Some (cfg\<lparr>flag_workers := w\<rparr>)))"

text \<open>The exit code with which \<open>main\<close> refuses its arguments, or its settings and \<open>n\<close>.\<close>

definition main_setup :: "string list \<Rightarrow> nat + verifier_flags \<times> nat" where
  "main_setup argv =
    (case flag_Parse verifier_kind verifier_set argv verifier_defaults of
       Inl code \<Rightarrow> Inl code
     | Inr (cfg, args) \<Rightarrow>
         if length args < 1 then Inl 2
         else (case strconv_Atoi (args ! 0) of
             Inl e \<Rightarrow> Inl 2
           | Inr n \<Rightarrow>
               if sint n \<le> 0 then Inl 2
               else if sint (flag_workers cfg) \<le> 0 then Inl 2
               else Inr (cfg, nat (sint n))))"

text \<open>
  The state in which \<open>main\<close> starts to collect: what the stream goroutine will send is what
  \<open>streamLoop\<close> extracts from the stream it finds at the address, and whether it returns.
\<close>

definition main_start :: "stream_lib \<Rightarrow> verifier_flags \<Rightarrow> nat \<Rightarrow> pipe" where
  "main_start lib cfg n =
     (case streamLoop lib (flag_grpc cfg) always n of
        (works, lines, returns) \<Rightarrow> pipe_start works returns (nat (sint (flag_workers cfg))))"

lemma main_start_unfold:
  "main_start lib cfg n =
     pipe_start (fst (streamLoop lib (flag_grpc cfg) always n)) (snd (snd (streamLoop lib (flag_grpc cfg) always n)))
       (nat (sint (flag_workers cfg)))"
  by (simp add: main_start_def split: prod.split)

text \<open>
  The reply a worker may get for a block: the outcome of \<open>fetchRPCTraces\<close> for some answers of
  the endpoint; the context is not done while the program runs.
\<close>

definition endpoint_replies ::
  "(string \<Rightarrow> string \<Rightarrow> http_reply \<Rightarrow> bool) \<Rightarrow> string \<Rightarrow>
    blockWork \<Rightarrow> string + rpcCallFrame list \<Rightarrow> bool" where
  "endpoint_replies answers rpcURL work reply \<longleftrightarrow>
    (\<exists>http1 http2.
       (\<forall>body. answers rpcURL body (http1 rpcURL body)) \<and> (\<forall>body. answers rpcURL body (http2 rpcURL body)) \<and>
       reply = fst (fetchRPCTraces http1 http2 False rpcURL (work_blockNumber work)))"

lemma endpoint_replies_total:
  assumes "\<And>body. \<exists>r. answers rpcURL body r"
  shows "\<exists>reply. endpoint_replies answers rpcURL work reply"
proof -
  obtain f where "\<forall>body. answers rpcURL body (f body)" using assms by metis
  then show ?thesis unfolding endpoint_replies_def by (intro exI conjI) auto
qed

lemma main_setup_positive:
  "main_setup argv = Inr (cfg, n) \<Longrightarrow> 0 < n \<and> 0 < nat (sint (flag_workers cfg))"
  by (auto simp: main_setup_def split: sum.splits if_splits)

lemma streamLoop_works:
  "fst (streamLoop lib addr always n) =
    (if connect_err lib maxRecvMsgSize addr = None
     then (case subscribe_result lib addr
                  ((SubscribeRequest_Reset undefined)\<lparr>SubscribeRequest_IncludeCallTraces := True\<rparr>) of
             Inl err \<Rightarrow> []
           | Inr items \<Rightarrow> take n (concat (map traced_blocks (messages items))))
     else [])"
  using recv_loop_take [of n 0] by (auto simp: streamLoop_def split: option.split sum.split)

lemma streamLoop_length: "length (fst (streamLoop lib addr always n)) \<le> n"
  by (auto simp: streamLoop_works split: sum.split)

text \<open>The number of workers given after the count is not seen.\<close>

lemma main_setup_count_first:
  assumes "0 < n" "n < 2 ^ 63"
  shows "main_setup (fmt_nat n # rest) = Inr (verifier_defaults, n)"
proof -
  obtain d ds where ds: "base_digits 10 n = d # ds" by (cases "base_digits 10 n") auto
  have d: "d < 36" using base_digits_bound [of 10 n] ds by auto
  have "hex_digit d \<noteq> CHR ''-''" using digit_val_hex_digit [OF d] by (auto simp: digit_val_def)
  then have "hd (fmt_nat n) \<noteq> CHR ''-''" by (simp add: fmt_nat_def ds)
  then have "flag_Parse verifier_kind verifier_set (fmt_nat n # rest) verifier_defaults
      = Inr (verifier_defaults, fmt_nat n # rest)"
    by (intro flag_Parse_positional) simp
  then show ?thesis using assms Atoi_fmt_nat [OF assms(2)]
    by (simp add: main_setup_def verifier_defaults_def)
qed

text \<open>An endpoint that gives each request one answer leaves the workers no choice.\<close>

lemma endpoint_replies_unique:
  assumes "\<forall>body r r'. answers rpcURL body r \<longrightarrow> answers rpcURL body r' \<longrightarrow> r = r'"
    "endpoint_replies answers rpcURL w r" "endpoint_replies answers rpcURL w r'"
  shows "r = r'"
proof -
  have rpc: "doRPCCall h rpcURL n = doRPCCall h' rpcURL n"
    if "\<forall>body. answers rpcURL body (h rpcURL body)" "\<forall>body. answers rpcURL body (h' rpcURL body)" for h h' n
  proof -
    have "h rpcURL (rpc_request n) = h' rpcURL (rpc_request n)" using that assms(1) by blast
    then show ?thesis by (simp add: doRPCCall_def)
  qed
  have "fetchRPCTraces h1 h2 False rpcURL n = fetchRPCTraces h1' h2' False rpcURL n"
    if h: "\<forall>body. answers rpcURL body (h1 rpcURL body)" "\<forall>body. answers rpcURL body (h2 rpcURL body)"
      "\<forall>body. answers rpcURL body (h1' rpcURL body)" "\<forall>body. answers rpcURL body (h2' rpcURL body)"
    for h1 h2 h1' h2' n
  proof -
    have "doRPCCall h1 rpcURL n = doRPCCall h1' rpcURL n" using h(1,3) by (rule rpc)
    moreover have "doRPCCall h2 rpcURL n = doRPCCall h2' rpcURL n" using h(2,4) by (rule rpc)
    ultimately show ?thesis by (simp add: fetchRPCTraces_def cong: sum.case_cong)
  qed
  with assms(2,3) show ?thesis unfolding endpoint_replies_def by metis
qed


end
