(* ===== verification/Trace_Properties.thy ===== *)
theory Trace_Properties
  imports Trace_Compare_Correct
begin

text \<open>
  The properties of the trace comparison, with their witnesses. The sample block has one
  transaction, a call with one nested call and one log, spelled by the endpoint with an
  upper-case address, leading zeros in quantities and \<open>0x\<close> for empty bytes.
\<close>

section \<open>A sample trace\<close>

definition sample_inner :: CallFrame where
  "sample_inner = CallFrame ''STATICCALL'' [0xbb] [0xcc] [] [0, 0x64] [0, 0x0a] [] [1, 2] '''' '''' [] []"

definition sample_log :: CallLogFrame where
  "sample_log = \<lparr>CallLogFrame_Address = [0xab], CallLogFrame_Topics = [[0xdd, 0xf2]],
     CallLogFrame_Data = [], CallLogFrame_HasPosition = True, CallLogFrame_Position = 3,
     CallLogFrame_HasIndex = False, CallLogFrame_Index = 0\<rparr>"

definition sample_frame :: CallFrame where
  "sample_frame = CallFrame ''CALL'' [0xaa] [0xbb] [0, 0] [0x52, 0x08] [0x52, 0x08] [] [] '''' ''''
     [sample_inner] [sample_log]"

definition sample_rpc_inner :: rpcCallFrame where
  "sample_rpc_inner = rpcCallFrame ''STATICCALL'' ''0xBB'' ''0xcc'' '''' ''0x64'' ''0xa'' ''0x'' ''0x0102'' '''' ''''
     [] []"

definition sample_rpc_log :: rpcLogFrame where
  "sample_rpc_log = \<lparr>rpcLogFrame_Address = ''0xAB'', rpcLogFrame_Topics = [''0xddf2''],
     rpcLogFrame_Data = ''0x'', rpcLogFrame_Position = Some 3, rpcLogFrame_Index = None\<rparr>"

definition sample_rpc :: rpcCallFrame where
  "sample_rpc = rpcCallFrame ''CALL'' ''0xAA'' ''0xbb'' ''0x0'' ''0x05208'' ''0x5208'' '''' '''' '''' ''''
     [sample_rpc_inner] [sample_rpc_log]"

definition sample_wrong :: rpcCallFrame where
  "sample_wrong = rpcCallFrame ''CALL'' ''0xAA'' ''0xbb'' ''0x0'' ''0x5209'' ''0x5208'' '''' '''' '''' '''' [] []"

lemmas sample_defs =
  sample_inner_def sample_log_def sample_frame_def sample_rpc_inner_def sample_rpc_log_def
  sample_rpc_def sample_wrong_def

lemmas agreement_defs =
  frame_agrees.simps scalars_agree_def log_agrees_def agrees_bytes_def agrees_u256_def
  agrees_optional_def quantity_val_def be_value_def digits_value_Cons lower_hex_val_def
  hex_val_def digit_val_def char_lower_def strings_ToLower_def Let_def

lemma sample_log_agrees: "log_agrees sample_log sample_rpc_log"
  by (simp add: sample_defs agreement_defs)

lemma sample_agrees: "frame_agrees sample_frame sample_rpc"
  by (simp add: sample_defs agreement_defs)

lemma sample_disagrees: "\<not> frame_agrees sample_frame sample_wrong"
  by (simp add: sample_frame_def sample_wrong_def frame_agrees.simps)

section \<open>Normalisers\<close>

text \<open>
  The big-endian bytes of a \<open>U256\<close> and the endpoint's string have the same normal form
  exactly when both are absent, or the string is \<open>0x\<close> and lower-case hex digits (leading
  zeros allowed) that stand for the number the bytes stand for.
\<close>

theorem u256_normal_forms_agree: "normalizeU256grpc b = normalizeU256rpc s \<longleftrightarrow> agrees_u256 b s"
  by (rule u256_field.norm_eq_iff)

text \<open>
  \<open>normalizeU256grpc\<close> writes the canonical JSON-RPC quantity of the number: \<open>0x\<close>, no
  leading zero, \<open>0x0\<close> for zero; the empty byte string, an absent value, stays distinct
  from zero.
\<close>

theorem u256_normal_form_canonical:
  "normalizeU256grpc b = (if b = [] then '''' else quantity (be_value b))"
  by (rule normalizeU256grpc_quantity)

text \<open>
  A byte field and a hex string have the same normal form exactly when the string,
  in either case, spells the bytes (or both are empty, \<open>0x\<close> counting as empty).
\<close>

theorem hex_normal_forms_agree: "normalizeBytes b = normalizeHexStr s \<longleftrightarrow> agrees_bytes b s"
  by (rule hex_field.norm_eq_iff)

section \<open>Logs, frames, blocks\<close>

text \<open>
  \<open>compareLog\<close> reports nothing exactly when address, topics, data and the optional
  position and index of the two logs denote the same data.
\<close>

theorem compareLog_exact: "compareLog path g r = [] \<longleftrightarrow> log_agrees g r"
  by (rule compareLog_Nil_iff)

text \<open>
  \<open>compareFrame\<close> reports nothing exactly when the two call trees agree: every scalar
  field, the shape of the tree to any depth, and every log.
\<close>

theorem compareFrame_exact: "fst (compareFrame path g r) = [] \<longleftrightarrow> frame_agrees g r"
  by (rule compareFrame_Nil_iff)

text \<open>
  C2. A block passes exactly when it has as many transactions on both sides and the
  traces agree transaction by transaction, in order.
\<close>

theorem compareBlock_exact: "fst (compareBlock n gs rs) = [] \<longleftrightarrow> list_all2 frame_agrees gs rs"
  by (rule compareBlock_Nil_iff)

text \<open>
  When a block passes, the frame and log counters it is reported with are the numbers
  of frames and logs of the received traces over all levels.
\<close>

theorem compareBlock_pass_counts:
  assumes "fst (compareBlock n gs rs) = []"
  shows "snd (compareBlock n gs rs) = (sum_list (map countFrames gs), sum_list (map countLogs gs))"
proof -
  from assms have agree: "list_all2 frame_agrees gs rs" by (simp add: compareBlock_Nil_iff)
  then show ?thesis
    using compareFrame_counts_mutual(2) [of gs rs "elem_path ''tx''" 0]
    by (simp add: compareBlock_def frames_agree_list_all2 list_all2_lengthD)
qed

lemma compareBlock_pass_counts_witness: "snd (compareBlock 7 [sample_frame] [sample_rpc]) = (2, 1)"
proof -
  have "fst (compareBlock 7 [sample_frame] [sample_rpc]) = []"
    by (simp add: compareBlock_Nil_iff sample_agrees)
  from compareBlock_pass_counts [OF this] show ?thesis
    by (simp add: sample_defs)
qed

text \<open>
  A comparison never counts more than the trace holds: at least the root frame, at
  most all frames, at most all logs, whatever the mismatches.
\<close>

theorem compareFrame_count_bounds:
  "fst (snd (compareFrame path g r)) \<in> {1..countFrames g} \<and> snd (snd (compareFrame path g r)) \<le> countLogs g"
  using compareFrame_bounds_mutual(1) [of path g r] by simp

text \<open>
  C28. In a block with equally many transactions, some reported line lies below \<open>tx[i]\<close>
  exactly when the traces of transaction \<open>i\<close> disagree: no disagreeing transaction goes
  unnamed and no agreeing one is blamed.
\<close>

theorem compareBlock_names_the_culprits:
  assumes "length gs = length rs" and "i < length gs"
  shows "(\<exists>line \<in> set (fst (compareBlock n gs rs)). below (elem_path ''tx'' i) line)
    \<longleftrightarrow> \<not> frame_agrees (gs ! i) (rs ! i)"
  using assms by (rule compareBlock_localises)

lemma compareBlock_names_the_culprits_witness:
  "\<exists>line \<in> set (fst (compareBlock 7 [sample_frame, sample_frame] [sample_rpc, sample_wrong])).
     below (elem_path ''tx'' 1) line"
  using compareBlock_names_the_culprits [of "[sample_frame, sample_frame]" "[sample_rpc, sample_wrong]" 1 7]
    sample_disagrees
  by simp

text \<open>
  Every line a frame comparison reports starts with the path of the frame it was
  called on, followed by a dot.
\<close>

theorem compareFrame_lines_below:
  assumes "line \<in> set (fst (compareFrame path g r))"
  shows "\<exists>rest. line = path @ ''.'' @ rest"
  using compareFrame_below [OF assms] by (simp add: below_def)

lemma compareFrame_lines_below_witness:
  "\<exists>line rest. line \<in> set (fst (compareFrame ''tx[0]'' sample_frame sample_wrong)) \<and> line = ''tx[0]'' @ ''.'' @ rest"
proof -
  have "fst (compareFrame ''tx[0]'' sample_frame sample_wrong) \<noteq> []"
    by (simp add: compareFrame_Nil_iff sample_disagrees)
  then obtain line where l: "line \<in> set (fst (compareFrame ''tx[0]'' sample_frame sample_wrong))"
    by (meson last_in_set)
  with compareFrame_lines_below [OF l] show ?thesis by blast
qed

end
