(* ===== verification/Pipeline_Properties.thy ===== *)
theory Pipeline_Properties
  imports Trace_Main Trace_Properties
begin

text \<open>
  The properties of the trace verifier as a program: its stream goroutine, its workers, its
  collector and its exit code. The sample stream commits one block with the sample trace of
  \<open>Trace_Properties\<close>; the sample endpoint answers every request with the matching trace.
\<close>

section \<open>A sample run\<close>

definition traced_notif :: "(u64 \<times> CallFrame list) list \<Rightarrow> Notification" where
  "traced_notif bs =
     \<lparr>Notification_Event = Some (Notification_ChainCommitted \<lparr>ChainCommitted_New = Some
        \<lparr>Chain_Blocks = [], Chain_StateDiff = None,
         Chain_CallTraces = map (\<lambda>(n, fs). \<lparr>BlockCallTraces_BlockNumber = n, BlockCallTraces_Txs = fs\<rparr>) bs\<rparr>\<rparr>)\<rparr>"

definition sample_stream :: stream_lib where
  "sample_stream = \<lparr>connect_err = (\<lambda>size addr. None),
     subscribe_result = (\<lambda>addr req. Inr [Stream_Msg (traced_notif [(6, []), (7, [sample_frame])]), Stream_EOF])\<rparr>"

definition dead_stream :: stream_lib where
  "dead_stream = \<lparr>connect_err = (\<lambda>size addr. None), subscribe_result = (\<lambda>addr req. Inl ''unavailable'')\<rparr>"

text \<open>The response text, and an endpoint that gives it to every request.\<close>

definition sample_body :: string where
  "sample_body = json_Marshal (traces_json [(''0x01'', sample_rpc)])"

definition sample_answers :: "string \<Rightarrow> string \<Rightarrow> http_reply \<Rightarrow> bool" where
  "sample_answers url body r \<longleftrightarrow> r = Reply 200 (Inr sample_body)"

lemma sample_body_parses: "json_parse sample_body = Some (traces_json [(''0x01'', sample_rpc)])"
proof -
  have "nested_within 2 sample_rpc" by (simp add: sample_defs)
  then have "json_fits (2 * 2 + 6) (traces_json [(''0x01'', sample_rpc)])"
    by (intro json_fits_traces_json) auto
  then have "json_fits max_nesting_depth (traces_json [(''0x01'', sample_rpc)])"
    by (rule json_fits_mono) (simp add: max_nesting_depth_def)
  then show ?thesis unfolding sample_body_def by (rule json_parse_Marshal)
qed

abbreviation sample_replies :: "blockWork \<Rightarrow> string + rpcCallFrame list \<Rightarrow> bool" where
  "sample_replies \<equiv> endpoint_replies sample_answers ''http://127.0.0.1:8545''"

lemma sample_setup: "main_setup [''1''] = Inr (verifier_defaults, 1)"
proof -
  have "fmt_nat 1 = ''1''" by code_simp
  with main_setup_count_first [of 1 "[]"] show ?thesis by simp
qed

lemma sample_setup_two: "main_setup [''--workers'', ''2'', ''1''] = Inr (verifier_defaults\<lparr>flag_workers := 2\<rparr>, 1)"
proof -
  have "fmt_nat 1 = ''1''" by code_simp
  then have "strconv_Atoi ''1'' = Inr 1" using Atoi_fmt_nat [of 1] by simp
  then show ?thesis
    using flag_Parse_value [of verifier_kind "''workers''" verifier_set "''2''" "[''1'']" verifier_defaults]
    by (simp add: main_setup_def verifier_kind_def verifier_set_def ParseInt_samples flag_Parse_positional)
qed

lemma sample_replies_iff: "sample_replies w reply \<longleftrightarrow> reply = Inr [sample_rpc]"
proof -
  have d: "doRPCCall http url n = Inr [sample_rpc]"
    if "\<forall>body. sample_answers url body (http url body)" for http url n
    using that doRPCCall_traces [of http url n sample_body "[(''0x01'', sample_rpc)]"]
    by (simp add: sample_answers_def sample_body_parses)
  then have u: "r = Inr [sample_rpc]" if "sample_replies w r" for r
    using that by (auto simp: endpoint_replies_def fetchRPCTraces_def)
  have "\<exists>reply. sample_replies w reply"
    by (rule endpoint_replies_total) (auto simp: sample_answers_def)
  then show ?thesis using u by metis
qed

lemma sample_total: "\<forall>w. \<exists>reply. sample_replies w reply"
  using sample_replies_iff by blast

lemma sample_works:
  "fst (streamLoop sample_stream addr always n) =
     take n [\<lparr>work_blockNumber = 7, work_grpcFrames = [sample_frame]\<rparr>]"
  by (simp add: streamLoop_works sample_stream_def traced_blocks_def traced_notif_def)

lemma dead_works: "fst (streamLoop dead_stream addr always n) = []"
  by (simp add: streamLoop_works dead_stream_def)

text \<open>Some schedule brings the sample run to its end.\<close>

lemma sample_returns:
  "snd (snd (streamLoop sample_stream addr always n))" "snd (snd (streamLoop dead_stream addr always n))"
  using recv_loop_take [of n 0 "[Stream_Msg (traced_notif [(6, []), (7, [sample_frame])]), Stream_EOF]"]
  by (simp_all add: streamLoop_def sample_stream_def dead_stream_def stream_ends_def)

lemma main_completes:
  assumes "snd (snd (streamLoop lib (flag_grpc verifier_defaults) always n))" "\<forall>w. \<exists>reply. replies w reply"
  shows "\<exists>s. (pipe_step replies)\<^sup>*\<^sup>* (main_start lib verifier_defaults n) s \<and> main_done s"
  unfolding main_start_unfold
  using assms by (intro pipe_completes [of 4]) (simp_all add: pipe_safe_start verifier_defaults_def)

lemma sample_completes:
  "snd (snd (streamLoop lib (flag_grpc verifier_defaults) always n)) \<Longrightarrow>
   \<exists>s. (pipe_step (endpoint_replies sample_answers (flag_rpc verifier_defaults)))\<^sup>*\<^sup>*
         (main_start lib verifier_defaults n) s \<and> main_done s"
  using sample_replies_iff by (intro main_completes) (simp_all add: verifier_defaults_def)

lemma sample_pipe_completes: "\<exists>s. (pipe_step sample_replies)\<^sup>*\<^sup>* (pipe_start works True 4) s \<and> main_done s"
  using sample_total by (intro pipe_completes [of 4]) (simp_all add: pipe_safe_start)

section \<open>Properties\<close>

text \<open>
  C1. The verdict of the trace verifier: whatever the scheduling of its goroutines, when
  main has finished, every block streamLoop extracted was fetched and compared exactly once,
  and the exit code is 0 exactly when every one of them got traces from the endpoint, with
  or without the retry, and these traces agree with the streamed ones.
\<close>

theorem verifier_verdict:
  assumes "main_setup argv = Inr (cfg, n)"
    "(pipe_step (endpoint_replies answers (flag_rpc cfg)))\<^sup>*\<^sup>* (main_start lib cfg n) s" "main_done s"
  shows "\<exists>jobs. image_mset fst jobs = mset (fst (streamLoop lib (flag_grpc cfg) always n)) \<and>
    (\<forall>(w, reply) \<in># jobs. endpoint_replies answers (flag_rpc cfg) w reply) \<and>
    mset (collected s) = image_mset (\<lambda>(w, reply). work_result w reply) jobs \<and>
    (exit_code s = 0 \<longleftrightarrow>
      (\<forall>(w, reply) \<in># jobs. \<exists>frames. reply = Inr frames \<and> list_all2 frame_agrees (work_grpcFrames w) frames))"
  by (rule pipe_verdict [OF assms(2) [unfolded main_start_unfold] assms(3)
        conjunct2 [OF main_setup_positive [OF assms(1)]]])

theorem verifier_verdict_witness:
  "\<exists>s. (pipe_step sample_replies)\<^sup>*\<^sup>* (main_start sample_stream verifier_defaults 1) s \<and> main_done s \<and>
     exit_code s = 0"
proof -
  obtain s where s: "(pipe_step (endpoint_replies sample_answers (flag_rpc verifier_defaults)))\<^sup>*\<^sup>*
      (main_start sample_stream verifier_defaults 1) s" "main_done s"
    using sample_completes sample_returns by blast
  obtain jobs where v: "image_mset fst jobs =
        mset (fst (streamLoop sample_stream (flag_grpc verifier_defaults) always 1)) \<and>
      (\<forall>(w, reply) \<in># jobs. endpoint_replies sample_answers (flag_rpc verifier_defaults) w reply) \<and>
      mset (collected s) = image_mset (\<lambda>(w, reply). work_result w reply) jobs \<and>
      (exit_code s = 0 \<longleftrightarrow>
        (\<forall>(w, reply) \<in># jobs. \<exists>frames. reply = Inr frames \<and> list_all2 frame_agrees (work_grpcFrames w) frames))"
    using verifier_verdict [OF sample_setup s] ..
  then have j: "image_mset fst jobs = {#\<lparr>work_blockNumber = 7, work_grpcFrames = [sample_frame]\<rparr>#}"
    "\<forall>(w, reply) \<in># jobs. endpoint_replies sample_answers (flag_rpc verifier_defaults) w reply"
    "exit_code s = 0 \<longleftrightarrow>
      (\<forall>(w, reply) \<in># jobs. \<exists>frames. reply = Inr frames \<and> list_all2 frame_agrees (work_grpcFrames w) frames)"
    by (simp_all add: sample_works)
  have "reply = Inr [sample_rpc] \<and> work_grpcFrames w = [sample_frame]" if "(w, reply) \<in># jobs" for w reply
  proof -
    have "w \<in># image_mset fst jobs" using that by force
    then show ?thesis using j(1,2) that sample_replies_iff by (auto simp: verifier_defaults_def)
  qed
  moreover have "list_all2 frame_agrees [sample_frame] [sample_rpc]" using sample_agrees by simp
  ultimately have "exit_code s = 0" using j(3) by (metis (mono_tags, lifting) case_prodI2)
  with s show ?thesis by (auto simp: verifier_defaults_def)
qed

text \<open>
  C14. No schedule makes a goroutine of the verifier panic by sending on or closing a closed
  channel, and the channels never hold more than their buffers: 32 blocks of work, two
  results per worker.
\<close>

theorem pipeline_never_panics:
  assumes "(pipe_step replies)\<^sup>*\<^sup>* (pipe_start works returns W) s" "0 < W"
  shows "\<not> panicked s \<and> length (workCh s) \<le> workChBuffer \<and> length (resultCh s) \<le> 2 * W"
  using reaches_safe [OF assms] by (simp add: pipe_safe_def)

theorem pipeline_never_panics_witness:
  "\<exists>s. (pipe_step sample_replies)\<^sup>*\<^sup>* (pipe_start [\<lparr>work_blockNumber = 7, work_grpcFrames = []\<rparr>] True 4) s \<and> main_done s \<and>
     \<not> panicked s \<and> length (workCh s) \<le> workChBuffer \<and> length (resultCh s) \<le> 2 * 4"
proof -
  obtain s where s: "(pipe_step sample_replies)\<^sup>*\<^sup>* (pipe_start [\<lparr>work_blockNumber = 7, work_grpcFrames = []\<rparr>] True 4) s"
    "main_done s"
    using sample_pipe_completes by blast
  with pipeline_never_panics [OF s(1)] show ?thesis by auto
qed

text \<open>
  C12. Once its stream goroutine returns, which it does when it has sent n blocks or the
  stream ends, the verifier with one worker or more cannot run for ever, and only an endpoint that never answers can
  stop it short: no schedule takes more than five steps per block, one per worker and three
  more; when main has finished no goroutine can move; and in a reachable state in which none
  can move, main has finished or some worker waits for the reply to a request that gets none
  (the program sets no timeout on its HTTP requests). So against an endpoint that answers every
  request it never deadlocks.
\<close>

theorem pipeline_terminates:
  assumes "0 < W" "(pipe_step replies ^^ k) (pipe_start works True W) s"
  shows "k \<le> 5 * length works + W + 3 \<and>
    (main_done s \<longrightarrow> (\<nexists>s'. pipe_step replies s s')) \<and>
    ((\<nexists>s'. pipe_step replies s s') \<longrightarrow>
      main_done s \<or> (\<exists>w. Busy w \<in> set (workers s) \<and> (\<nexists>reply. replies w reply)))"
proof -
  have r: "(pipe_step replies)\<^sup>*\<^sup>* (pipe_start works True W) s" using assms(2) relpowp_imp_rtranclp by fastforce
  have p: "pipe_safe W s" using reaches_safe [OF r assms(1)] .
  have "src_returns s" using src_returns_steps [OF r] by (simp add: pipe_start_def)
  with pipe_progress [OF p assms(1)] pipe_done_stuck [OF p _ assms(1)]
  have "(main_done s \<longrightarrow> (\<nexists>s'. pipe_step replies s s')) \<and>
    ((\<nexists>s'. pipe_step replies s s') \<longrightarrow>
      main_done s \<or> (\<exists>w. Busy w \<in> set (workers s) \<and> (\<nexists>reply. replies w reply)))" by blast
  with pipe_steps_bounded [OF assms(2)] show ?thesis by (simp add: work_left_start)
qed

theorem pipeline_terminates_witness:
  "\<exists>k s. (pipe_step sample_replies ^^ k) (pipe_start [\<lparr>work_blockNumber = 7, work_grpcFrames = []\<rparr>] True 4) s \<and>
     main_done s \<and> k \<le> 12"
proof -
  obtain s where s: "(pipe_step sample_replies)\<^sup>*\<^sup>* (pipe_start [\<lparr>work_blockNumber = 7, work_grpcFrames = []\<rparr>] True 4) s"
    "main_done s"
    using sample_pipe_completes by blast
  then obtain k where k: "(pipe_step sample_replies ^^ k) (pipe_start [\<lparr>work_blockNumber = 7, work_grpcFrames = []\<rparr>] True 4) s"
    by (meson rtranclp_imp_relpowp)
  with s pipeline_terminates [OF _ k] show ?thesis by auto
qed

text \<open>
  C15. No block is lost or duplicated on the way through the verifier: in every reachable
  state, the blocks answered so far, those still to be sent, those in the work channel and
  those in the hands of a worker are together the blocks streamed, and the results collected,
  in the result channel or about to be put are those of the blocks answered.
\<close>

theorem pipeline_conserves_blocks:
  assumes "(pipe_step replies)\<^sup>*\<^sup>* (pipe_start works returns W) s"
  shows "\<exists>jobs. (\<forall>(w, reply) \<in># jobs. replies w reply) \<and>
    image_mset fst jobs + (mset (to_send s) + mset (workCh s) + sum_list (map busy (workers s))) = mset works \<and>
    mset (collected s) + mset (resultCh s) + sum_list (map putting (workers s))
      = image_mset (\<lambda>(w, reply). work_result w reply) jobs"
  using reaches_conserves [OF assms] unfolding unfetched_def fetched_def .

theorem pipeline_conserves_blocks_witness:
  "\<exists>s. \<exists>jobs :: (blockWork \<times> (string + rpcCallFrame list)) multiset.
     (pipe_step sample_replies)\<^sup>*\<^sup>* (pipe_start [\<lparr>work_blockNumber = 7, work_grpcFrames = []\<rparr>] True 4) s \<and>
     main_done s \<and> image_mset fst jobs + (mset (to_send s) + mset (workCh s) + sum_list (map busy (workers s)))
       = {#\<lparr>work_blockNumber = 7, work_grpcFrames = []\<rparr>#}"
proof -
  obtain s where s: "(pipe_step sample_replies)\<^sup>*\<^sup>* (pipe_start [\<lparr>work_blockNumber = 7, work_grpcFrames = []\<rparr>] True 4) s"
    "main_done s"
    using sample_pipe_completes by blast
  from pipeline_conserves_blocks [OF s(1)] obtain jobs :: "(blockWork \<times> (string + rpcCallFrame list)) multiset" where
    "image_mset fst jobs + (mset (to_send s) + mset (workCh s) + sum_list (map busy (workers s)))
       = mset [\<lparr>work_blockNumber = 7, work_grpcFrames = []\<rparr>]" by blast
  then have "image_mset fst jobs + (mset (to_send s) + mset (workCh s) + sum_list (map busy (workers s)))
       = {#\<lparr>work_blockNumber = 7, work_grpcFrames = []\<rparr>#}" by (simp only: mset.simps)
  with s show ?thesis by blast
qed

text \<open>
  C24. streamLoop sends exactly the first n traced blocks of the committed chains it receives
  before the stream ends or fails, in the order of the stream, skipping blocks without
  traces; it returns as soon as it has sent n, and otherwise only when the stream ends.
\<close>

theorem streamLoop_first_n:
  "fst (recv_loop always n 0 items) = take n (concat (map traced_blocks (messages items))) \<and>
   (snd (snd (recv_loop always n 0 items)) \<longleftrightarrow>
     n \<le> length (concat (map traced_blocks (messages items))) \<or> stream_ends items)"
  using recv_loop_take [of n 0 items] by simp

text \<open>
  C32. The verifier's exit code 0 does not mean that n blocks were verified: when the
  stream cannot be subscribed to, every schedule ends with no block verified and exit code 0.
\<close>

theorem verifier_passes_without_blocks:
  assumes "main_setup argv = Inr (cfg, n)" "connect_err lib maxRecvMsgSize (flag_grpc cfg) = None"
    "subscribe_result lib (flag_grpc cfg)
       ((SubscribeRequest_Reset undefined)\<lparr>SubscribeRequest_IncludeCallTraces := True\<rparr>) = Inl err"
    "(pipe_step replies)\<^sup>*\<^sup>* (main_start lib cfg n) s" "main_done s"
  shows "exit_code s = 0 \<and> blocksVerified (main_totals (collected s)) = 0"
proof -
  have "fst (streamLoop lib (flag_grpc cfg) always n) = []" using assms(2,3) by (simp add: streamLoop_works)
  then obtain jobs where "image_mset fst jobs = {#}" "mset (collected s) = image_mset (\<lambda>(w, reply). work_result w reply) jobs"
    using pipe_verdict [OF assms(4) [unfolded main_start_unfold] assms(5)] main_setup_positive [OF assms(1)] by auto
  then have "collected s = []" by simp
  then show ?thesis by (simp add: exit_code_def main_totals_def no_totals_def)
qed

theorem verifier_passes_without_blocks_witness:
  "\<exists>s. (pipe_step sample_replies)\<^sup>*\<^sup>* (main_start dead_stream verifier_defaults 1) s \<and> main_done s \<and>
     exit_code s = 0 \<and> blocksVerified (main_totals (collected s)) = 0"
proof -
  obtain s where s: "(pipe_step (endpoint_replies sample_answers (flag_rpc verifier_defaults)))\<^sup>*\<^sup>*
      (main_start dead_stream verifier_defaults 1) s" "main_done s"
    using sample_completes sample_returns by blast
  with verifier_passes_without_blocks [OF sample_setup _ _ s] show ?thesis
    by (auto simp: dead_stream_def verifier_defaults_def)
qed

text \<open>
  C33. Flags that follow the block count, as in the documented command lines, have no effect:
  the verifier runs with its default addresses and four workers whatever comes after n.
\<close>

theorem verifier_flags_after_count_ignored:
  assumes "0 < n" "n < 2 ^ 63"
  shows "main_setup (fmt_nat n # rest) = Inr (verifier_defaults, n)"
  using assms by (rule main_setup_count_first)

theorem verifier_flags_after_count_ignored_witness:
  "main_setup (fmt_nat 50 # [''--grpc'', ''10.0.0.1:10000'', ''--workers'', ''8'']) = Inr (verifier_defaults, 50)"
  by (rule verifier_flags_after_count_ignored) simp_all

text \<open>
  C16. Decoding the JSON-RPC response of an endpoint that traced a block gives back exactly the
  frames it encoded, one per transaction and in order, with all their nested calls and logs.
\<close>

theorem doRPCCall_decodes_traces:
  assumes "http rpcURL (rpc_request n) = Reply 200 (Inr body)" "json_parse body = Some (traces_json rs)"
  shows "doRPCCall http rpcURL n = Inr (map snd rs)"
  using assms by (rule doRPCCall_traces)

theorem doRPCCall_decodes_traces_witness:
  "doRPCCall (\<lambda>url body. Reply 200 (Inr sample_body)) ''http://127.0.0.1:8545'' 7 = Inr (map snd [(''0x01'', sample_rpc)])"
  by (rule doRPCCall_decodes_traces [OF _ sample_body_parses]) (rule refl)

text \<open>
  fetchRPCTraces makes at most two attempts: it succeeds with the frames of the first
  successful one, and a second attempt is made only after the first failed and the wait was
  not cut short by the context.
\<close>

theorem fetchRPCTraces_retries_once:
  "fst (fetchRPCTraces http1 http2 cancelled rpcURL n) = Inr frames \<longleftrightarrow>
     doRPCCall http1 rpcURL n = Inr frames \<or>
     (\<exists>err. doRPCCall http1 rpcURL n = Inl err) \<and> \<not> cancelled \<and> doRPCCall http2 rpcURL n = Inr frames"
  by (rule fetchRPCTraces_result)

text \<open>
  The summary counts what was collected, whatever the order in which the workers put
  their results: the number of blocks, the total of the mismatches, and failure exactly when
  some block had an RPC error or a mismatch.
\<close>

theorem summary_counts:
  "blocksVerified (main_totals rs) = length rs \<and>
   totalMismatches (main_totals rs) = (\<Sum>r\<leftarrow>rs. length (result_mismatches r)) \<and>
   (failed (main_totals rs) \<longleftrightarrow>
      0 < length (filter (\<lambda>r. result_rpcError r \<or> 0 < length (result_mismatches r)) rs))"
  by (auto simp: main_totals_def fold_add_result no_totals_def filter_empty_conv)

text \<open>
  C37. Scheduling and the number of workers change nothing but the order of the lines: against
  an endpoint that gives each request one answer, any two finished runs over the same stream
  have the same exit code, the same summary, the same block results and, up to order, the
  same output.
\<close>

theorem verifier_output_schedule_independent:
  assumes "main_setup argv = Inr (cfg, n)" "main_setup argv' = Inr (cfg', n)"
    "flag_grpc cfg' = flag_grpc cfg" "flag_rpc cfg' = flag_rpc cfg"
    and "\<forall>body r r'. answers (flag_rpc cfg) body r \<longrightarrow> answers (flag_rpc cfg) body r' \<longrightarrow> r = r'"
    and "(pipe_step (endpoint_replies answers (flag_rpc cfg)))\<^sup>*\<^sup>* (main_start lib cfg n) s" "main_done s"
    and "(pipe_step (endpoint_replies answers (flag_rpc cfg')))\<^sup>*\<^sup>* (main_start lib cfg' n) s'" "main_done s'"
  shows "exit_code s' = exit_code s \<and>
    summary_lines (main_totals (collected s')) = summary_lines (main_totals (collected s)) \<and>
    mset (collected s') = mset (collected s) \<and> mset (main_stdout s') = mset (main_stdout s)"
proof -
  note W = conjunct2 [OF main_setup_positive [OF assms(1)]] conjunct2 [OF main_setup_positive [OF assms(2)]]
  have u: "\<forall>w r r'. endpoint_replies answers (flag_rpc cfg) w r \<longrightarrow>
      endpoint_replies answers (flag_rpc cfg) w r' \<longrightarrow> r = r'"
    using endpoint_replies_unique [where rpcURL = "flag_rpc cfg" and answers = answers, OF assms(5)] by blast
  have "mset (collected s') = mset (collected s)"
    using pipe_results_determined [OF assms(6) [unfolded main_start_unfold] assms(7) W(1) u]
      pipe_results_determined [OF assms(8) [unfolded main_start_unfold assms(3,4)] assms(9) W(2) u] by simp
  with output_order [OF this] show ?thesis by simp
qed

text \<open>The sample block with four workers and with two.\<close>

theorem verifier_output_schedule_independent_witness:
  "\<exists>s s'. (pipe_step sample_replies)\<^sup>*\<^sup>* (main_start sample_stream verifier_defaults 1) s \<and> main_done s \<and>
     (pipe_step sample_replies)\<^sup>*\<^sup>* (main_start sample_stream (verifier_defaults\<lparr>flag_workers := 2\<rparr>) 1) s' \<and>
     main_done s' \<and> mset (main_stdout s') = mset (main_stdout s)"
proof -
  let ?cfg = "verifier_defaults\<lparr>flag_workers := 2\<rparr>"
  obtain s where s: "(pipe_step (endpoint_replies sample_answers (flag_rpc verifier_defaults)))\<^sup>*\<^sup>*
      (main_start sample_stream verifier_defaults 1) s" "main_done s"
    using sample_completes sample_returns by blast
  have "\<exists>s'. (pipe_step sample_replies)\<^sup>*\<^sup>* (main_start sample_stream ?cfg 1) s' \<and> main_done s'"
    unfolding main_start_unfold
    using sample_total sample_returns(1) by (intro pipe_completes [of 2]) (simp_all add: pipe_safe_start)
  then obtain s' where s': "(pipe_step (endpoint_replies sample_answers (flag_rpc ?cfg)))\<^sup>*\<^sup>*
      (main_start sample_stream ?cfg 1) s'" "main_done s'"
    by (auto simp: verifier_defaults_def)
  have "mset (main_stdout s') = mset (main_stdout s)"
    using verifier_output_schedule_independent [OF sample_setup sample_setup_two _ _ _ s s'] by (simp add: sample_answers_def)
  with s s' show ?thesis by (auto simp: verifier_defaults_def)
qed


end
