(* ===== verification/Trace_Reference.thy ===== *)
theory Trace_Reference
  imports Trace_Compare_Correct
begin

text \<open>
  A reference rendering: how an endpoint that traced the same execution spells the frames the
  gRPC stream carries. The rendering is canonical: two streamed traces agree with one response
  exactly when they are rendered alike, so the comparison decides equality of renderings.
\<close>

section \<open>The rendering\<close>

definition render_bytes :: "bytes \<Rightarrow> string" where
  "render_bytes b = (if b = [] then '''' else ''0x'' @ hex_EncodeToString b)"

definition render_u256 :: "bytes \<Rightarrow> string" where
  "render_u256 b = (if b = [] then '''' else quantity (be_value b))"

definition render_optional :: "bool \<Rightarrow> u64 \<Rightarrow> u64 option" where
  "render_optional has v = (if has then Some v else None)"

definition render_log :: "CallLogFrame \<Rightarrow> rpcLogFrame" where
  "render_log g =
    \<lparr>rpcLogFrame_Address = render_bytes (CallLogFrame_Address g),
     rpcLogFrame_Topics = map render_bytes (CallLogFrame_Topics g),
     rpcLogFrame_Data = render_bytes (CallLogFrame_Data g),
     rpcLogFrame_Position = render_optional (CallLogFrame_HasPosition g) (CallLogFrame_Position g),
     rpcLogFrame_Index = render_optional (CallLogFrame_HasIndex g) (CallLogFrame_Index g)\<rparr>"

fun render_frame :: "CallFrame \<Rightarrow> rpcCallFrame" where
  "render_frame (CallFrame kind sender rcpt val gas gasUsed input out err reason calls logs) =
    rpcCallFrame kind (render_bytes sender) (render_bytes rcpt) (render_u256 val) (render_u256 gas)
      (render_u256 gasUsed) (render_bytes input) (render_bytes out) err reason
      (map render_frame calls) (map render_log logs)"

section \<open>Agreement is equality of renderings\<close>

text \<open>
  What a field's agreement and its rendering have to do with each other: the rendering
  agrees, and a string that agrees with one value agrees with those rendered alike.
\<close>

locale rendered_field = field_normaliser +
  fixes render :: "'g \<Rightarrow> 'r"
  assumes agrees_render: "agrees b (render b)"
    and agrees_unique: "agrees b s \<Longrightarrow> agrees c s \<longleftrightarrow> render c = render b"
begin

lemma agrees_render_iff: "agrees b (render c) \<longleftrightarrow> render b = render c"
  using agrees_unique [OF agrees_render [of c]] .

lemma norm_render: "rnorm (render b) = gnorm b"
  using agrees_render [of b] by (simp flip: norm_eq_iff)

end

lemma agrees_render_bytes: "agrees_bytes b (render_bytes b)"
proof -
  have "strings_ToLower (take 2 (''0x'' @ s)) = ''0x''" for s
    by (simp add: strings_ToLower_def char_lower_def numeral_2_eq_2)
  then show ?thesis by (simp add: agrees_bytes_def render_bytes_def numeral_2_eq_2)
qed

lemma render_bytes_inj: "render_bytes b = render_bytes c \<longleftrightarrow> b = c"
proof -
  have "hex_EncodeToString b = hex_EncodeToString c \<longleftrightarrow> b = c" by (metis option.inject unhex_hex_EncodeToString)
  then show ?thesis by (auto simp: render_bytes_def)
qed

lemma agrees_bytes_unique: "agrees_bytes b s \<Longrightarrow> agrees_bytes c s \<longleftrightarrow> render_bytes c = render_bytes b"
  by (auto simp: render_bytes_inj agrees_bytes_def split: if_splits)

lemma agrees_render_u256: "agrees_u256 b (render_u256 b)"
  by (simp add: agrees_u256_def render_u256_def)

lemma quantity_val_Nil [simp]: "quantity_val '''' = None"
  by (simp add: quantity_val_def)

lemma agrees_u256_unique: "agrees_u256 b s \<Longrightarrow> agrees_u256 c s \<longleftrightarrow> render_u256 c = render_u256 b"
  by (auto simp: agrees_u256_def render_u256_def quantity_inj quantity_not_Nil [symmetric] split: if_splits)

interpretation hex_rendered: rendered_field normalizeBytes normalizeHexStr agrees_bytes render_bytes
  by unfold_locales (rule agrees_render_bytes, rule agrees_bytes_unique)

interpretation address_rendered: rendered_field normalizeAddress normalizeHexStr agrees_bytes render_bytes
  by unfold_locales (rule agrees_render_bytes, rule agrees_bytes_unique)

interpretation u256_rendered: rendered_field normalizeU256grpc normalizeU256rpc agrees_u256 render_u256
  by unfold_locales (rule agrees_render_u256, rule agrees_u256_unique)

lemma agrees_optional_iff: "agrees_optional has v rpc \<longleftrightarrow> rpc = render_optional has v"
  by (simp add: agrees_optional_def render_optional_def)

lemma list_all2_unique:
  assumes "list_all2 R xs ys" "\<And>x y z. x \<in> set xs \<Longrightarrow> R x y \<Longrightarrow> R z y \<longleftrightarrow> f z = f x"
  shows "list_all2 R zs ys \<longleftrightarrow> map f zs = map f xs"
  using assms
proof (induction arbitrary: zs rule: list_all2_induct)
  case (Cons x xs y ys)
  then show ?case by (cases zs) auto
qed simp

lemma log_agrees_render: "log_agrees g (render_log g)"
  by (simp add: log_agrees_def render_log_def agrees_render_bytes agrees_optional_iff list_all2_map2 list.rel_refl)

lemma log_agrees_unique:
  assumes "log_agrees g r"
  shows "log_agrees h r \<longleftrightarrow> render_log h = render_log g"
proof -
  have "list_all2 agrees_bytes (CallLogFrame_Topics h) (rpcLogFrame_Topics r)
      \<longleftrightarrow> map render_bytes (CallLogFrame_Topics h) = map render_bytes (CallLogFrame_Topics g)"
    using assms by (intro list_all2_unique agrees_bytes_unique) (simp_all add: log_agrees_def)
  with assms agrees_bytes_unique [of "CallLogFrame_Address g" "rpcLogFrame_Address r" "CallLogFrame_Address h"]
    agrees_bytes_unique [of "CallLogFrame_Data g" "rpcLogFrame_Data r" "CallLogFrame_Data h"]
  show ?thesis by (auto simp: log_agrees_def render_log_def agrees_optional_iff)
qed

lemma frame_agrees_iff:
  "frame_agrees g r \<longleftrightarrow> scalars_agree g r \<and> list_all2 frame_agrees (CallFrame_Calls g) (rpcCallFrame_Calls r)
     \<and> list_all2 log_agrees (CallFrame_Logs g) (rpcCallFrame_Logs r)"
  by (simp add: frame_agrees.simps [of g r] frames_agree_list_all2)

lemma frame_agrees_render: "frame_agrees g (render_frame g)"
proof (induction g)
  case (CallFrame kind sender rcpt val gas gasUsed input out err reason calls logs)
  then show ?case
    by (simp add: frame_agrees_iff scalars_agree_def agrees_render_bytes agrees_render_u256 list_all2_map2
        list_all2_refl_on log_agrees_render)
qed

lemma render_frame_eq_iff:
  "render_frame g = render_frame h \<longleftrightarrow>
     CallFrame_Typ g = CallFrame_Typ h \<and> CallFrame_From g = CallFrame_From h \<and> CallFrame_To g = CallFrame_To h \<and>
     render_u256 (CallFrame_Value g) = render_u256 (CallFrame_Value h) \<and>
     render_u256 (CallFrame_Gas g) = render_u256 (CallFrame_Gas h) \<and>
     render_u256 (CallFrame_GasUsed g) = render_u256 (CallFrame_GasUsed h) \<and>
     CallFrame_Input g = CallFrame_Input h \<and> CallFrame_Output g = CallFrame_Output h \<and>
     CallFrame_Error g = CallFrame_Error h \<and> CallFrame_RevertReason g = CallFrame_RevertReason h \<and>
     map render_frame (CallFrame_Calls g) = map render_frame (CallFrame_Calls h) \<and>
     map render_log (CallFrame_Logs g) = map render_log (CallFrame_Logs h)"
  by (cases g; cases h) (simp add: render_bytes_inj)

lemma frame_agrees_unique: "frame_agrees g r \<Longrightarrow> frame_agrees h r \<longleftrightarrow> render_frame h = render_frame g"
proof (induction g arbitrary: h r)
  case (CallFrame kind sender rcpt val gas gasUsed input out err reason calls logs)
  let ?g = "CallFrame kind sender rcpt val gas gasUsed input out err reason calls logs"
  note a = iffD1 [OF frame_agrees_iff CallFrame.prems]
  have c: "list_all2 frame_agrees (CallFrame_Calls h) (rpcCallFrame_Calls r)
      \<longleftrightarrow> map render_frame (CallFrame_Calls h) = map render_frame calls"
    using a CallFrame.IH by (intro list_all2_unique) auto
  have l: "list_all2 log_agrees (CallFrame_Logs h) (rpcCallFrame_Logs r)
      \<longleftrightarrow> map render_log (CallFrame_Logs h) = map render_log logs"
    using a by (intro list_all2_unique log_agrees_unique) auto
  have s: "scalars_agree h r \<longleftrightarrow>
      CallFrame_Typ h = kind \<and> CallFrame_From h = sender \<and> CallFrame_To h = rcpt \<and>
      render_u256 (CallFrame_Value h) = render_u256 val \<and> render_u256 (CallFrame_Gas h) = render_u256 gas \<and>
      render_u256 (CallFrame_GasUsed h) = render_u256 gasUsed \<and> CallFrame_Input h = input \<and>
      CallFrame_Output h = out \<and> CallFrame_Error h = err \<and> CallFrame_RevertReason h = reason"
    using a agrees_bytes_unique agrees_u256_unique by (auto simp: scalars_agree_def render_bytes_inj)
  show ?case
    unfolding frame_agrees_iff [of h r] c l s render_frame_eq_iff [of h ?g] by auto
qed

text \<open>Agreement with the rendering of another trace.\<close>

lemma frame_agrees_render_iff: "frame_agrees g (render_frame h) \<longleftrightarrow> render_frame g = render_frame h"
  by (rule frame_agrees_unique [OF frame_agrees_render])

end
