(* ===== verification/Verifier_Properties.thy ===== *)
theory Verifier_Properties
  imports Pipeline_Properties Trace_Reference
begin

text \<open>
  The trace verifier against an endpoint that traced the same blocks: no false alarm, and
  what a passing comparison says about the streamed trace.
\<close>

section \<open>An honest endpoint\<close>

text \<open>Calls nested at most \<open>n\<close> deep; the EVM allows 1024 below the transaction's own.\<close>

fun calls_within :: "nat \<Rightarrow> CallFrame \<Rightarrow> bool" where
  "calls_within n (CallFrame kind sender rcpt val gas gasUsed input out err reason calls logs) =
     (0 < n \<and> list_all (calls_within (n - 1)) calls)"

definition evm_call_levels :: nat where
  "evm_call_levels = 1025"

lemma nested_within_render: "nested_within n (render_frame g) \<longleftrightarrow> calls_within n g"
proof (induction g arbitrary: n)
  case (CallFrame kind sender rcpt val gas gasUsed input out err reason calls logs)
  then show ?case by (auto simp: list_all_iff)
qed

text \<open>
  The endpoint may answer a request for a block only with HTTP 200 and the JSON text of the
  renderings of the block's traces, under whatever transaction hashes.
\<close>

definition honest_endpoint :: "(string \<Rightarrow> string \<Rightarrow> http_reply \<Rightarrow> bool) \<Rightarrow> string \<Rightarrow> blockWork list \<Rightarrow> bool" where
  "honest_endpoint answers rpcURL works \<longleftrightarrow>
    (\<forall>w \<in> set works. \<forall>r. answers rpcURL (rpc_request (work_blockNumber w)) r \<longrightarrow>
       (\<exists>rs. map snd rs = map render_frame (work_grpcFrames w) \<and> r = Reply 200 (Inr (json_Marshal (traces_json rs)))))"

text \<open>The reply of a worker whose endpoint answers with the text of certain traces.\<close>

lemma traces_reply:
  assumes "\<forall>r. answers rpcURL (rpc_request (work_blockNumber w)) r \<longrightarrow>
      (\<exists>rs. map snd rs = fs \<and> r = Reply 200 (Inr (json_Marshal (traces_json rs))))"
    "\<forall>f \<in> set fs. nested_within evm_call_levels f" "endpoint_replies answers rpcURL w reply"
  shows "reply = Inr fs"
proof -
  obtain http1 http2 where h: "answers rpcURL (rpc_request (work_blockNumber w)) (http1 rpcURL (rpc_request (work_blockNumber w)))"
    "reply = fst (fetchRPCTraces http1 http2 False rpcURL (work_blockNumber w))"
    using assms(3) by (auto simp: endpoint_replies_def)
  then obtain rs where rs: "map snd rs = fs"
    "http1 rpcURL (rpc_request (work_blockNumber w)) = Reply 200 (Inr (json_Marshal (traces_json rs)))"
    using assms(1) by blast
  have "snd ` set rs = set fs" using rs(1) by (metis list.set_map)
  then have "json_fits (2 * evm_call_levels + 6) (traces_json rs)"
    using assms(2) by (intro json_fits_traces_json) auto
  then have "json_fits max_nesting_depth (traces_json rs)"
    by (rule json_fits_mono) (simp add: max_nesting_depth_def evm_call_levels_def)
  then have "json_parse (json_Marshal (traces_json rs)) = Some (traces_json rs)" by (rule json_parse_Marshal)
  from doRPCCall_traces [where http = http1, OF rs(2) this] rs(1) h(2) show ?thesis
    by (simp add: fetchRPCTraces_def)
qed

lemma honest_reply:
  assumes "honest_endpoint answers rpcURL works" "w \<in> set works"
    "\<forall>g \<in> set (work_grpcFrames w). calls_within evm_call_levels g" "endpoint_replies answers rpcURL w reply"
  shows "reply = Inr (map render_frame (work_grpcFrames w))"
  using assms(1-3) by (intro traces_reply [OF _ _ assms(4)]) (auto simp: honest_endpoint_def nested_within_render)

lemma list_all2_render: "list_all2 frame_agrees gs (map render_frame gs)"
  by (simp add: list_all2_map2 list_all2_refl_on frame_agrees_render)

section \<open>Properties\<close>

text \<open>
  C3. No false alarm: against an endpoint that answers with the JSON text of the traces the
  stream carried, every finished run, under every schedule, exits with 0, reports no mismatch
  and has verified as many blocks as the stream goroutine extracted.
\<close>

theorem verifier_no_false_alarm:
  assumes "main_setup argv = Inr (cfg, n)"
    and "honest_endpoint answers (flag_rpc cfg) (fst (streamLoop lib (flag_grpc cfg) always n))"
    and "\<forall>w \<in> set (fst (streamLoop lib (flag_grpc cfg) always n)). \<forall>g \<in> set (work_grpcFrames w).
      calls_within evm_call_levels g"
    and "(pipe_step (endpoint_replies answers (flag_rpc cfg)))\<^sup>*\<^sup>* (main_start lib cfg n) s" "main_done s"
  shows "exit_code s = 0 \<and> totalMismatches (main_totals (collected s)) = 0 \<and>
    blocksVerified (main_totals (collected s)) = length (fst (streamLoop lib (flag_grpc cfg) always n))"
proof (rule pipe_all_agree [OF assms(4) [unfolded main_start_unfold] assms(5) conjunct2 [OF main_setup_positive [OF assms(1)]]])
  fix w reply assume w: "w \<in> set (fst (streamLoop lib (flag_grpc cfg) always n))" "endpoint_replies answers (flag_rpc cfg) w reply"
  then have "reply = Inr (map render_frame (work_grpcFrames w))"
    using honest_reply [OF assms(2)] assms(3) by blast
  then show "\<exists>frames. reply = Inr frames \<and> list_all2 frame_agrees (work_grpcFrames w) frames"
    using list_all2_render by blast
qed

text \<open>An endpoint that spells the sample block's trace the reference way.\<close>

definition honest_answers :: "string \<Rightarrow> string \<Rightarrow> http_reply \<Rightarrow> bool" where
  "honest_answers url body r \<longleftrightarrow>
     r = Reply 200 (Inr (json_Marshal (traces_json [(''0x01'', render_frame sample_frame)])))"

theorem verifier_no_false_alarm_witness:
  "\<exists>s. (pipe_step (endpoint_replies honest_answers (flag_rpc verifier_defaults)))\<^sup>*\<^sup>*
       (main_start sample_stream verifier_defaults 1) s \<and> main_done s \<and> exit_code s = 0 \<and>
     blocksVerified (main_totals (collected s)) = 1"
proof -
  have honest: "honest_endpoint honest_answers url (fst (streamLoop sample_stream addr always n))" for url addr n
    by (cases n) (auto simp: honest_endpoint_def honest_answers_def sample_works
        intro!: exI [of _ "[(''0x01'', render_frame sample_frame)]"])
  have depth: "\<forall>w \<in> set (fst (streamLoop sample_stream addr always n)). \<forall>g \<in> set (work_grpcFrames w).
      calls_within evm_call_levels g" for addr n
    by (cases n) (auto simp: sample_works sample_defs evm_call_levels_def)
  have "\<forall>w. \<exists>reply. endpoint_replies honest_answers url w reply" for url
    by (intro allI endpoint_replies_total) (simp add: honest_answers_def)
  then obtain s where s: "(pipe_step (endpoint_replies honest_answers (flag_rpc verifier_defaults)))\<^sup>*\<^sup>*
      (main_start sample_stream verifier_defaults 1) s" "main_done s"
    using main_completes [OF sample_returns(1)] by blast
  from verifier_no_false_alarm [OF sample_setup honest depth s] s show ?thesis
    by (auto simp: sample_works)
qed

text \<open>
  C27. A passing comparison pins the streamed trace down: compared with the rendering of a
  reference trace, the verifier reports nothing exactly when the streamed trace has the same
  rendering, that is, the same calls, bytes, logs and numbers up to leading zero bytes.
\<close>

theorem compareFrame_decides_rendering:
  "fst (compareFrame path g (render_frame h)) = [] \<longleftrightarrow> render_frame g = render_frame h"
  by (simp add: compareFrame_Nil_iff frame_agrees_render_iff)

end
