(* ===== verification/Bench_Spec.thy ===== *)
theory Bench_Spec
  imports Go_Strings
begin

text \<open>
  What the four benchmarks promise, stated once. Each of them receives, from two sources,
  the moments at which block numbers were seen, pairs the two sightings of a block, and
  drops a block whose second sighting does not come within \<open>matchTimeout\<close>. The abstract
  matcher below keeps, per block number, which side has been seen; the locale
  \<open>two_sided_bench\<close> says what it means for a program's main loop to implement it, and
  carries the theorems every benchmark inherits.
\<close>

section \<open>The abstract matcher\<close>

datatype side = Grpc | Peer

lemma UNIV_side: "UNIV = {Grpc, Peer}"
  using side.exhaust by auto

text \<open>There are two sides, so what holds of every side can be checked on each.\<close>

instantiation side :: enum
begin

definition enum_side :: "side list" where
  "enum_side = [Grpc, Peer]"

definition enum_all_side :: "(side \<Rightarrow> bool) \<Rightarrow> bool" where
  "enum_all_side P \<longleftrightarrow> P Grpc \<and> P Peer"

definition enum_ex_side :: "(side \<Rightarrow> bool) \<Rightarrow> bool" where
  "enum_ex_side P \<longleftrightarrow> P Grpc \<or> P Peer"

instance
  by standard (simp_all add: enum_side_def enum_all_side_def enum_ex_side_def UNIV_side)

end

lemma all_sides: "(\<forall>sd. P sd) \<longleftrightarrow> P Grpc \<and> P Peer"
  unfolding enum_all_side_def [symmetric] by simp

text \<open>
  A waiting block: the side seen, its time in milliseconds, and the instant the wait
  began. \<open>gaps\<close> are the differences of the matched blocks in the order of their matching,
  \<open>lost\<close> counts the blocks dropped.
\<close>

record matcher =
  waiting :: "u64 \<rightharpoonup> side \<times> i64 \<times> instant"
  gaps :: "i64 list"
  lost :: nat

definition idle_matcher :: matcher where
  "idle_matcher = \<lparr>waiting = Map.empty, gaps = [], lost = 0\<rparr>"

datatype input = Arrive side instant u64 i64 | Scan instant

definition match_timeout :: duration where
  "match_timeout = 10 * time_Second"

definition overdue :: "instant \<Rightarrow> side \<times> i64 \<times> instant \<Rightarrow> bool" where
  "overdue now w \<longleftrightarrow> match_timeout < time_Sub now (snd (snd w))"

definition spec_arrive :: "(i64 \<Rightarrow> i64 \<Rightarrow> i64) \<Rightarrow> side \<Rightarrow> instant \<Rightarrow> u64 \<Rightarrow> i64 \<Rightarrow> matcher \<Rightarrow> matcher" where
  "spec_arrive gap sd now k ms m =
    (case waiting m k of
       None \<Rightarrow> m\<lparr>waiting := (waiting m)(k \<mapsto> (sd, ms, now))\<rparr>
     | Some (sd', ms', since) \<Rightarrow>
         if sd' = sd then m\<lparr>waiting := (waiting m)(k \<mapsto> (sd, ms, since))\<rparr>
         else m\<lparr>waiting := (waiting m)(k := None),
                gaps := gaps m @ [if sd = Grpc then gap ms ms' else gap ms' ms]\<rparr>)"

definition overdue_blocks :: "instant \<Rightarrow> matcher \<Rightarrow> u64 set" where
  "overdue_blocks now m = {k. \<exists>w. waiting m k = Some w \<and> overdue now w}"

definition spec_scan :: "instant \<Rightarrow> matcher \<Rightarrow> matcher" where
  "spec_scan now m =
     m\<lparr>waiting := (\<lambda>k. if k \<in> overdue_blocks now m then None else waiting m k),
       lost := lost m + card (overdue_blocks now m)\<rparr>"

fun spec_step :: "(i64 \<Rightarrow> i64 \<Rightarrow> i64) \<Rightarrow> input \<Rightarrow> matcher \<Rightarrow> matcher" where
  "spec_step gap (Arrive sd now k ms) m = spec_arrive gap sd now k ms m"
| "spec_step gap (Scan now) m = spec_scan now m"

text \<open>The matcher is done when the number of matches has just become the target.\<close>

definition reached :: "i64 \<Rightarrow> matcher \<Rightarrow> bool" where
  "reached target m \<longleftrightarrow> gaps m \<noteq> [] \<and> of_nat (length (gaps m)) = target"

text \<open>Feeding a sequence of inputs until a state stops.\<close>

fun run_until :: "('s \<Rightarrow> bool) \<Rightarrow> ('e \<Rightarrow> 's \<Rightarrow> 's) \<Rightarrow> 'e list \<Rightarrow> 's \<Rightarrow> 's" where
  "run_until stop f [] s = s"
| "run_until stop f (e # es) s = (if stop s then s else run_until stop f es (f e s))"

text \<open>A condition on each event in the state it is consumed in.\<close>

fun along :: "('s \<Rightarrow> bool) \<Rightarrow> ('e \<Rightarrow> 's \<Rightarrow> 's) \<Rightarrow> ('e \<Rightarrow> 's \<Rightarrow> bool) \<Rightarrow> 'e list \<Rightarrow> 's \<Rightarrow> bool" where
  "along stop f P [] s = True"
| "along stop f P (e # es) s = (stop s \<or> P e s \<and> along stop f P es (f e s))"

lemma run_until_stopped [simp]: "stop s \<Longrightarrow> run_until stop f es s = s"
  by (cases es) auto

lemma run_until_append:
  "run_until stop f (es @ es') s = run_until stop f es' (run_until stop f es s)"
  by (induction es arbitrary: s) auto

lemma run_until_fold:
  "\<not> stop (run_until stop f es s) \<Longrightarrow> run_until stop f es s = fold f es s"
proof (induction es arbitrary: s)
  case (Cons e es)
  then show ?case by (cases "stop s") auto
qed simp

lemma run_until_invariant:
  assumes "I s" "\<And>e s. I s \<Longrightarrow> \<not> stop s \<Longrightarrow> I (f e s)"
  shows "I (run_until stop f es s)"
  using assms(1) by (induction es arbitrary: s) (auto intro: assms(2))

abbreviation spec_run :: "(i64 \<Rightarrow> i64 \<Rightarrow> i64) \<Rightarrow> i64 \<Rightarrow> input list \<Rightarrow> matcher \<Rightarrow> matcher" where
  "spec_run gap target \<equiv> run_until (reached target) (spec_step gap)"

section \<open>One step\<close>

lemma spec_arrive_gaps:
  "gaps (spec_arrive gap sd now k ms m) = gaps m
   \<or> (\<exists>d. gaps (spec_arrive gap sd now k ms m) = gaps m @ [d])"
  by (auto simp: spec_arrive_def split: option.split)

lemma spec_step_gaps: "gaps (spec_step gap i m) = gaps m \<or> (\<exists>d. gaps (spec_step gap i m) = gaps m @ [d])"
  by (cases i) (auto simp: spec_arrive_gaps spec_scan_def)

lemma spec_step_length_gaps:
  "length (gaps m) \<le> length (gaps (spec_step gap i m))"
  "length (gaps (spec_step gap i m)) \<le> Suc (length (gaps m))"
  using spec_step_gaps [of gap i m] by auto

lemma overdue_blocks_subset: "overdue_blocks now m \<subseteq> dom (waiting m)"
  by (auto simp: overdue_blocks_def)

lemma dom_waiting_scan: "dom (waiting (spec_scan now m)) = dom (waiting m) - overdue_blocks now m"
  by (simp add: spec_scan_def dom_if_None)

lemma finite_waiting_step: "finite (dom (waiting m)) \<Longrightarrow> finite (dom (waiting (spec_step gap i m)))"
  by (cases i) (auto simp: spec_arrive_def dom_waiting_scan split: option.split)

text \<open>A scan drops exactly the overdue blocks and leaves no overdue block waiting.\<close>

lemma spec_scan_leaves_none_overdue:
  "waiting (spec_scan now m) k = Some w \<Longrightarrow> waiting m k = Some w \<and> \<not> overdue now w"
  by (cases w) (auto simp: spec_scan_def overdue_blocks_def split: if_splits)

text \<open>What waits was reported, by the side and with the time it waits under.\<close>

lemma waiting_was_reported:
  "waiting (spec_run gap t is m) k = Some (sd, ms, since) \<Longrightarrow>
   (\<exists>since'. waiting m k = Some (sd, ms, since')) \<or> (\<exists>now. Arrive sd now k ms \<in> set is)"
proof (induction "is" arbitrary: m)
  case (Cons i "is")
  show ?case
  proof (cases "reached t m")
    case False
    then consider since' where "waiting (spec_step gap i m) k = Some (sd, ms, since')"
      | now where "Arrive sd now k ms \<in> set is"
      using Cons.IH [of "spec_step gap i m"] Cons.prems by auto
    then show ?thesis
    proof cases
      case 1
      then show ?thesis
      proof (cases i)
        case (Arrive sd' now k' ms')
        with 1 show ?thesis
          by (cases "waiting m k'") (auto simp: spec_arrive_def split: if_splits)
      next
        case (Scan now)
        with 1 show ?thesis by (auto simp: spec_scan_def split: if_splits)
      qed
    qed auto
  qed (use Cons.prems in auto)
qed auto

section \<open>How long a block waits\<close>

text \<open>
  Inputs in the order of their instants, with a scan at most \<open>d\<close> after the previous one:
  \<open>scan\<close> is the instant of the last scan, \<open>t\<close> that of the last input.
\<close>

fun input_time :: "input \<Rightarrow> instant" where
  "input_time (Arrive sd now k ms) = now"
| "input_time (Scan now) = now"

fun on_time :: "duration \<Rightarrow> instant \<Rightarrow> instant \<Rightarrow> input list \<Rightarrow> bool" where
  "on_time d scan t [] = True"
| "on_time d scan t (i # is) =
     (t \<le> input_time i \<and> input_time i \<le> scan + d \<and>
      on_time d (case i of Scan now \<Rightarrow> now | Arrive sd now k ms \<Rightarrow> scan) (input_time i) is)"

definition last_time :: "instant \<Rightarrow> input list \<Rightarrow> instant" where
  "last_time t is = last (t # map input_time is)"

lemma overdue_iff: "overdue now w \<longleftrightarrow> snd (snd w) + match_timeout < now"
  by (simp add: overdue_def match_timeout_def time_Second_def time_Sub_less_iff)

definition fresh :: "instant \<Rightarrow> matcher \<Rightarrow> bool" where
  "fresh scan m \<longleftrightarrow> (\<forall>k w. waiting m k = Some w \<longrightarrow> scan \<le> snd (snd w) + match_timeout)"

lemma fresh_arrive:
  "fresh scan m \<Longrightarrow> scan \<le> now \<Longrightarrow> fresh scan (spec_arrive gap sd now k ms m)"
  by (auto simp: fresh_def spec_arrive_def match_timeout_def time_Second_def split: option.split if_splits)

lemma fresh_scan: "fresh now (spec_scan now m)"
  by (auto simp: fresh_def overdue_iff dest!: spec_scan_leaves_none_overdue)

lemma waiting_age_fold:
  assumes "on_time d scan t is" "scan \<le> t" "t \<le> scan + d" "fresh scan m"
    "waiting (fold (spec_step gap) is m) k = Some w"
  shows "last_time t is - snd (snd w) \<le> match_timeout + d"
  using assms
proof (induction "is" arbitrary: scan t m)
  case Nil
  then have "waiting m k = Some w" by simp
  with Nil.prems(4) have "scan \<le> snd (snd w) + match_timeout" unfolding fresh_def by blast
  with Nil show ?case by (simp add: last_time_def)
next
  case (Cons i "is")
  have l: "last_time t (i # is) = last_time (input_time i) is" by (simp add: last_time_def)
  show ?case
  proof (cases i)
    case (Arrive sd now k' ms)
    with Cons.prems have "fresh scan (spec_arrive gap sd now k' ms m)" by (intro fresh_arrive) auto
    moreover have "on_time d scan now is" "scan \<le> now" "now \<le> scan + d"
      "waiting (fold (spec_step gap) is (spec_arrive gap sd now k' ms m)) k = Some w"
      using Cons.prems Arrive by auto
    ultimately show ?thesis unfolding l using Cons.IH Arrive by simp
  next
    case (Scan now)
    have "on_time d now now is" "now \<le> now + d"
      "waiting (fold (spec_step gap) is (spec_scan now m)) k = Some w"
      using Cons.prems Scan by auto
    then show ?thesis unfolding l using Cons.IH [OF _ order_refl _ fresh_scan] Scan by simp
  qed
qed

lemma waiting_age:
  assumes "\<not> reached target (spec_run gap target is idle_matcher)" "on_time d t t is" "0 \<le> d"
    "waiting (spec_run gap target is idle_matcher) k = Some w"
  shows "last_time t is - snd (snd w) \<le> match_timeout + d"
proof -
  have "spec_run gap target is idle_matcher = fold (spec_step gap) is idle_matcher"
    using assms(1) by (rule run_until_fold)
  with assms show ?thesis
    using waiting_age_fold [of d t t "is" idle_matcher gap k w] by (simp add: fresh_def idle_matcher_def)
qed

section \<open>Accounting\<close>

text \<open>
  Every arrival is a match half, waits, was dropped, or was replaced by a later arrival
  of the same side.
\<close>

fun is_arrival :: "input \<Rightarrow> bool" where
  "is_arrival (Arrive sd now k ms) = True"
| "is_arrival (Scan now) = False"

definition accounted :: "matcher \<Rightarrow> nat" where
  "accounted m = 2 * length (gaps m) + lost m + card (dom (waiting m))"

lemma accounted_step:
  assumes "finite (dom (waiting m))"
  shows "accounted (spec_step gap i m) \<le> accounted m + (if is_arrival i then 1 else 0)"
proof (cases i)
  case (Arrive sd now k ms)
  show ?thesis
  proof (cases "waiting m k")
    case None
    with assms Arrive show ?thesis
      by (simp add: accounted_def spec_arrive_def card_insert_if domIff)
  next
    case (Some w)
    with assms have "Suc (card (dom ((waiting m)(k := None)))) = card (dom (waiting m))"
      by (intro card_dom_remove) auto
    with assms Arrive Some show ?thesis
      by (cases w) (auto simp: accounted_def spec_arrive_def card_dom_insert domI insert_absorb)
  qed
next
  case (Scan now)
  have "card (dom (waiting m) - overdue_blocks now m) + card (overdue_blocks now m) = card (dom (waiting m))"
    using assms overdue_blocks_subset [of now m]
    by (metis card_Diff_subset card_mono finite_subset le_add_diff_inverse2)
  with Scan show ?thesis
    by (simp add: accounted_def dom_waiting_scan) (simp add: spec_scan_def)
qed

lemma accounted_run:
  "finite (dom (waiting m)) \<Longrightarrow>
   accounted (spec_run gap t is m) \<le> accounted m + length (filter is_arrival is)"
proof (induction "is" arbitrary: m)
  case (Cons i "is")
  have "accounted (spec_run gap t is (spec_step gap i m))
    \<le> accounted (spec_step gap i m) + length (filter is_arrival is)"
    using Cons by (simp add: finite_waiting_step)
  with accounted_step [OF Cons.prems, of gap i] show ?case by auto
qed simp

section \<open>The target\<close>

text \<open>With a positive target the matcher has fewer matches until it is done, then as many.\<close>

definition below_target :: "i64 \<Rightarrow> matcher \<Rightarrow> bool" where
  "below_target t m \<longleftrightarrow>
    (if reached t m then length (gaps m) = nat (sint t) else length (gaps m) < nat (sint t))"

lemma reached_iff_length:
  assumes "0 < sint t" "length (gaps m) \<le> nat (sint t)"
  shows "reached t m \<longleftrightarrow> length (gaps m) = nat (sint t)"
proof -
  have "sint t < 2 ^ 63" using sint_lt [of t] by simp
  moreover have "int (length (gaps m)) \<le> sint t" using assms by linarith
  ultimately have "int (length (gaps m)) < 2 ^ 63" by linarith
  then have l: "length (gaps m) < 2 ^ 63" by simp
  have "of_nat (length (gaps m)) = t \<longleftrightarrow> int (length (gaps m)) = sint t"
    unfolding i64_eq_iff_sint using l by simp
  also have "\<dots> \<longleftrightarrow> length (gaps m) = nat (sint t)" using assms(1) by auto
  finally show ?thesis using assms(1) by (auto simp: reached_def)
qed

lemma below_target_step:
  "0 < sint t \<Longrightarrow> below_target t m \<Longrightarrow> \<not> reached t m \<Longrightarrow> below_target t (spec_step gap i m)"
  using spec_step_length_gaps [where m = m and gap = gap and i = i] reached_iff_length [of t "spec_step gap i m"]
  by (auto simp: below_target_def)

lemma below_target_run:
  "0 < sint t \<Longrightarrow> below_target t m \<Longrightarrow> below_target t (spec_run gap t is m)"
  by (rule run_until_invariant) (auto intro: below_target_step)

lemma below_target_idle: "0 < sint t \<Longrightarrow> below_target t idle_matcher"
  by (simp add: below_target_def idle_matcher_def reached_def)

lemma not_reached_idle [simp]: "\<not> reached t idle_matcher"
  by (simp add: reached_def idle_matcher_def)

section \<open>What is matched does not depend on the interleaving\<close>

text \<open>The sightings of one side, in order, and the time each block was last seen there.\<close>

fun sightings :: "side \<Rightarrow> input list \<Rightarrow> (u64 \<times> i64) list" where
  "sightings sd [] = []"
| "sightings sd (Arrive sd' now k ms # is) =
     (if sd' = sd then (k, ms) # sightings sd is else sightings sd is)"
| "sightings sd (Scan now # is) = sightings sd is"

definition heard :: "side \<Rightarrow> input list \<Rightarrow> u64 \<rightharpoonup> i64" where
  "heard sd is = map_of (rev (sightings sd is))"

text \<open>Each side reports a block at most once.\<close>

definition once :: "input list \<Rightarrow> bool" where
  "once is \<longleftrightarrow> distinct (map fst (sightings Grpc is)) \<and> distinct (map fst (sightings Peer is))"

text \<open>The blocks both sides reported, and the differences they contribute.\<close>

definition common_blocks :: "input list \<Rightarrow> u64 set" where
  "common_blocks is = dom (heard Grpc is) \<inter> dom (heard Peer is)"

definition common_gaps :: "(i64 \<Rightarrow> i64 \<Rightarrow> i64) \<Rightarrow> input list \<Rightarrow> i64 multiset" where
  "common_gaps gap is =
     image_mset (\<lambda>k. gap (the (heard Grpc is k)) (the (heard Peer is k))) (mset_set (common_blocks is))"

text \<open>The side and time under which a block that only one side has reported waits.\<close>

definition one_sided_sighting :: "input list \<Rightarrow> u64 \<Rightarrow> (side \<times> i64) option" where
  "one_sided_sighting is k =
    (case (heard Grpc is k, heard Peer is k) of
       (Some g, None) \<Rightarrow> Some (Grpc, g)
     | (None, Some p) \<Rightarrow> Some (Peer, p)
     | _ \<Rightarrow> None)"

lemma sightings_append: "sightings sd (is @ js) = sightings sd is @ sightings sd js"
  by (induction sd "is" rule: sightings.induct) auto

lemma heard_simps [simp]:
  "heard sd [] = Map.empty"
  "heard sd (is @ [Arrive sd' now k ms]) = (if sd' = sd then (heard sd is)(k \<mapsto> ms) else heard sd is)"
  "heard sd (is @ [Scan now]) = heard sd is"
  by (auto simp: heard_def sightings_append fun_eq_iff)

lemma dom_heard: "dom (heard sd is) = fst ` set (sightings sd is)"
  by (simp add: heard_def dom_map_of_conv_image_fst)

lemma finite_dom_heard [simp]: "finite (dom (heard sd is))"
  by (simp add: dom_heard)

lemma finite_common_blocks [simp]: "finite (common_blocks is)"
  by (simp add: common_blocks_def)

lemma once_snoc:
  "once (is @ [Arrive sd now k ms]) \<longleftrightarrow> once is \<and> heard sd is k = None"
  "once (is @ [Scan now]) \<longleftrightarrow> once is"
proof -
  have "heard sd is k = None \<longleftrightarrow> k \<notin> fst ` set (sightings sd is)"
    using dom_heard [of sd "is"] by (auto simp: domIff)
  then show "once (is @ [Arrive sd now k ms]) \<longleftrightarrow> once is \<and> heard sd is k = None"
    by (cases sd) (auto simp: once_def sightings_append)
  show "once (is @ [Scan now]) \<longleftrightarrow> once is"
    by (simp add: once_def sightings_append)
qed

lemma common_blocks_snoc:
  "common_blocks (is @ [Arrive sd now k ms]) =
     (if heard (if sd = Grpc then Peer else Grpc) is k = None then common_blocks is
      else insert k (common_blocks is))"
  by (cases sd) (auto simp: common_blocks_def)

lemma common_gaps_snoc:
  assumes "heard sd is k = None"
  shows "common_gaps gap (is @ [Arrive sd now k ms]) =
    (case heard (if sd = Grpc then Peer else Grpc) is k of
       None \<Rightarrow> common_gaps gap is
     | Some ms' \<Rightarrow> add_mset (if sd = Grpc then gap ms ms' else gap ms' ms) (common_gaps gap is))"
proof -
  have k: "k \<notin> common_blocks is" using assms by (cases sd) (auto simp: common_blocks_def)
  then have *: "image_mset (\<lambda>b. gap (the (heard Grpc (is @ [Arrive sd now k ms]) b))
                    (the (heard Peer (is @ [Arrive sd now k ms]) b))) (mset_set (common_blocks is))
      = common_gaps gap is"
    unfolding common_gaps_def by (intro image_mset_cong) auto
  show ?thesis
  proof (cases "heard (if sd = Grpc then Peer else Grpc) is k")
    case None
    then show ?thesis using * by (simp add: common_gaps_def [of gap "is @ _"] common_blocks_snoc)
  next
    case (Some ms')
    then show ?thesis using * k
      by (cases sd) (simp_all add: common_gaps_def [of gap "is @ _"] common_blocks_snoc)
  qed
qed

lemma spec_scan_lost_none:
  assumes "finite (dom (waiting m))" "lost (spec_scan now m) = lost m"
  shows "spec_scan now m = m"
proof -
  have "finite (overdue_blocks now m)"
    using assms(1) overdue_blocks_subset by (rule rev_finite_subset)
  with assms(2) have "overdue_blocks now m = {}" by (simp add: spec_scan_def)
  then show ?thesis by (simp add: spec_scan_def)
qed

lemma lost_step: "lost m \<le> lost (spec_step gap i m)"
  by (cases i) (auto simp: spec_arrive_def spec_scan_def split: option.split)

lemma finite_waiting_fold: "finite (dom (waiting (fold (spec_step gap) is idle_matcher)))"
proof -
  have "finite (dom (waiting m)) \<Longrightarrow> finite (dom (waiting (fold (spec_step gap) is m)))" for m
    by (induction "is" arbitrary: m) (auto simp: finite_waiting_step)
  then show ?thesis by (simp add: idle_matcher_def)
qed

text \<open>
  After any interleaving of the two sides in which no block is dropped, the matched
  differences are, as a multiset, those of the blocks both sides reported, and the blocks
  that only one side reported are waiting.
\<close>

definition paired_up :: "(i64 \<Rightarrow> i64 \<Rightarrow> i64) \<Rightarrow> input list \<Rightarrow> matcher \<Rightarrow> bool" where
  "paired_up gap is m \<longleftrightarrow>
     mset (gaps m) = common_gaps gap is \<and>
     (\<forall>k. map_option (\<lambda>(sd, ms, since). (sd, ms)) (waiting m k) = one_sided_sighting is k)"

lemma paired_up_arrive:
  assumes "paired_up gap is m" "heard sd is k = None"
  shows "paired_up gap (is @ [Arrive sd now k ms]) (spec_arrive gap sd now k ms m)"
proof -
  have w: "map_option (\<lambda>(sd, ms, since). (sd, ms)) (waiting m b) = one_sided_sighting is b" for b
    using assms(1) by (simp add: paired_up_def)
  have g: "mset (gaps m) = common_gaps gap is" using assms(1) by (simp add: paired_up_def)
  show ?thesis
  proof (cases "heard (if sd = Grpc then Peer else Grpc) is k")
    case None
    then have "waiting m k = None"
      using assms(2) w [of k] by (cases sd) (simp_all add: one_sided_sighting_def)
    then show ?thesis using None assms(2) w g
      by (cases sd) (auto simp: paired_up_def spec_arrive_def common_gaps_snoc one_sided_sighting_def)
  next
    case (Some ms')
    then obtain since where "waiting m k = Some (if sd = Grpc then Peer else Grpc, ms', since)"
      using assms(2) w [of k] by (cases sd) (auto simp: one_sided_sighting_def)
    then show ?thesis using Some assms(2) w g
      by (cases sd) (auto simp: paired_up_def spec_arrive_def common_gaps_snoc one_sided_sighting_def)
  qed
qed

lemma paired_up_fold:
  "once is \<Longrightarrow> lost (fold (spec_step gap) is idle_matcher) = 0 \<Longrightarrow>
   paired_up gap is (fold (spec_step gap) is idle_matcher)"
proof (induction "is" rule: rev_induct)
  case Nil
  show ?case by (simp add: paired_up_def idle_matcher_def common_gaps_def common_blocks_def one_sided_sighting_def)
next
  case (snoc i "is")
  let ?m = "fold (spec_step gap) is idle_matcher"
  have l: "lost ?m = 0" using snoc.prems(2) lost_step [of ?m gap i] by simp
  show ?case
  proof (cases i)
    case (Arrive sd now k ms)
    with snoc.prems l show ?thesis using paired_up_arrive snoc.IH by (simp add: once_snoc)
  next
    case (Scan now)
    then have "spec_scan now ?m = ?m"
      using snoc.prems(2) l by (intro spec_scan_lost_none finite_waiting_fold) simp
    with Scan snoc.prems l snoc.IH show ?thesis
      by (simp add: once_snoc paired_up_def common_gaps_def common_blocks_def one_sided_sighting_def)
  qed
qed

lemma size_common_gaps [simp]: "size (common_gaps gap is) = card (common_blocks is)"
  by (simp add: common_gaps_def)

text \<open>Enough common blocks bring the matcher to its target, when none is dropped on the way.\<close>

lemma enough_common_blocks:
  assumes "0 < sint t" "once is" "sint t \<le> int (card (common_blocks is))"
    "lost (spec_run gap t is idle_matcher) = 0"
  shows "reached t (spec_run gap t is idle_matcher)"
proof (rule ccontr)
  let ?m = "spec_run gap t is idle_matcher"
  assume n: "\<not> reached t ?m"
  then have "?m = fold (spec_step gap) is idle_matcher" by (rule run_until_fold)
  with assms paired_up_fold [of "is" gap] have "mset (gaps ?m) = common_gaps gap is"
    by (simp add: paired_up_def)
  then have "length (gaps ?m) = card (common_blocks is)" by (metis size_common_gaps size_mset)
  moreover have "length (gaps ?m) < nat (sint t)"
    using below_target_run [OF assms(1) below_target_idle] assms(1) n by (simp add: below_target_def)
  ultimately show False using assms(3) by linarith
qed

end
