(* ===== verification/Bench_Loop.thy ===== *)
theory Bench_Loop
  imports Bench_Spec
begin

text \<open>
  What it means for a benchmark's \<open>select\<close> loop to implement the abstract matcher of
  \<open>Bench_Spec\<close>, and what follows for its runs: the locale \<open>two_sided_bench\<close>. Each benchmark
  interprets it on its own handlers. The locale \<open>stats_reporter\<close> is the contract of the
  summary loop of \<open>printStats\<close>.
\<close>

section \<open>Runs of a main loop\<close>

abbreviation main_loop :: "('s \<Rightarrow> nat option) \<Rightarrow> ('e \<Rightarrow> 's \<Rightarrow> 's) \<Rightarrow> 'e list \<Rightarrow> 's \<Rightarrow> 's" where
  "main_loop exited step \<equiv> run_until (\<lambda>s. exited s \<noteq> None) step"

text \<open>Every event is one the runtime can deliver in the state it is delivered in.\<close>

abbreviation schedulable ::
  "('s \<Rightarrow> nat option) \<Rightarrow> ('e \<Rightarrow> 's \<Rightarrow> 's) \<Rightarrow> ('e \<Rightarrow> 's \<Rightarrow> bool) \<Rightarrow> 'e list \<Rightarrow> 's \<Rightarrow> bool" where
  "schedulable exited step \<equiv> along (\<lambda>s. exited s \<noteq> None) step"

text \<open>The matcher inputs before the first event that ends the program, and that event.\<close>

definition inputs_before_stop :: "('e \<Rightarrow> input option) \<Rightarrow> 'e list \<Rightarrow> input list" where
  "inputs_before_stop input es = map (the \<circ> input) (takeWhile (\<lambda>e. input e \<noteq> None) es)"

definition first_stop :: "('e \<Rightarrow> input option) \<Rightarrow> 'e list \<Rightarrow> 'e option" where
  "first_stop input es = List.find (\<lambda>e. input e = None) es"

lemma inputs_before_stop_simps [simp]:
  "inputs_before_stop input [] = []"
  "input e = None \<Longrightarrow> inputs_before_stop input (e # es) = []"
  "input e = Some i \<Longrightarrow> inputs_before_stop input (e # es) = i # inputs_before_stop input es"
  by (simp_all add: inputs_before_stop_def)

lemma first_stop_simps [simp]:
  "first_stop input [] = None"
  "first_stop input (e # es) = (if input e = None then Some e else first_stop input es)"
  by (simp_all add: first_stop_def)

lemma length_inputs_before_stop: "length (inputs_before_stop input es) \<le> length es"
  by (simp add: inputs_before_stop_def length_takeWhile_le)

section \<open>The contract of a benchmark\<close>

locale two_sided_bench =
  fixes gap :: "i64 \<Rightarrow> i64 \<Rightarrow> i64"
    and start :: 's
    and step :: "i64 \<Rightarrow> 'e \<Rightarrow> 's \<Rightarrow> 's"
    and exited :: "'s \<Rightarrow> nat option"
    and deltas :: "'s \<Rightarrow> i64 list"
    and unmatched :: "'s \<Rightarrow> i64"
    and input :: "'e \<Rightarrow> input option"
    and stop_code :: "'e \<Rightarrow> nat"
    and fair :: "'e \<Rightarrow> 's \<Rightarrow> bool"
    and rel :: "'s \<Rightarrow> matcher \<Rightarrow> bool"
  assumes start_idle: "rel start idle_matcher"
    and start_running: "exited start = None"
    and rel_view: "rel s m \<Longrightarrow> deltas s = gaps m \<and> unmatched s = of_nat (lost m)"
    and input_refines:
      "rel s m \<Longrightarrow> exited s = None \<Longrightarrow> \<not> reached t m \<Longrightarrow> fair e s \<Longrightarrow> input e = Some i \<Longrightarrow>
       rel (step t e s) (spec_step gap i m) \<and>
       exited (step t e s) = (if reached t (spec_step gap i m) then Some 0 else None)"
    and stop_refines:
      "rel s m \<Longrightarrow> exited s = None \<Longrightarrow> input e = None \<Longrightarrow>
       rel (step t e s) m \<and> exited (step t e s) = Some (stop_code e)"
begin

text \<open>The loop simulates the matcher, and its exit code is determined by it.\<close>

lemma simulation:
  assumes "rel s m" "exited s = None" "\<not> reached t m" "schedulable exited (step t) fair es s"
  shows "rel (main_loop exited (step t) es s) (spec_run gap t (inputs_before_stop input es) m)
    \<and> exited (main_loop exited (step t) es s) =
        (if reached t (spec_run gap t (inputs_before_stop input es) m) then Some 0
         else map_option stop_code (first_stop input es))"
  using assms
proof (induction es arbitrary: s m)
  case (Cons e es)
  show ?case
  proof (cases "input e")
    case None
    with Cons.prems stop_refines [of s m e t] show ?thesis by auto
  next
    case (Some i)
    with Cons.prems input_refines [of s m t e i]
    have *: "rel (step t e s) (spec_step gap i m)"
      "exited (step t e s) = (if reached t (spec_step gap i m) then Some 0 else None)" by auto
    show ?thesis
    proof (cases "reached t (spec_step gap i m)")
      case True
      with * Some Cons.prems show ?thesis by auto
    next
      case False
      with * Some Cons show ?thesis by auto
    qed
  qed
qed auto

abbreviation final :: "i64 \<Rightarrow> 'e list \<Rightarrow> 's" where
  "final t es \<equiv> main_loop exited (step t) es start"

abbreviation abstract :: "i64 \<Rightarrow> 'e list \<Rightarrow> matcher" where
  "abstract t es \<equiv> spec_run gap t (inputs_before_stop input es) idle_matcher"

lemma simulation_start:
  assumes "schedulable exited (step t) fair es start"
  shows "rel (final t es) (abstract t es)"
    "exited (final t es) =
      (if reached t (abstract t es) then Some 0 else map_option stop_code (first_stop input es))"
    "deltas (final t es) = gaps (abstract t es)"
    "unmatched (final t es) = of_nat (lost (abstract t es))"
  using simulation [OF start_idle start_running not_reached_idle assms] rel_view by blast+

text \<open>The loop never has more than the target's matches, and ends by itself exactly there.\<close>

lemma exactly_the_target:
  assumes "schedulable exited (step t) fair es start" "0 < sint t"
  shows "length (deltas (final t es)) \<le> nat (sint t)"
    "exited (final t es) =
      (if length (deltas (final t es)) = nat (sint t) then Some 0
       else map_option stop_code (first_stop input es))"
proof -
  have b: "below_target t (abstract t es)"
    using below_target_run [OF assms(2) below_target_idle [OF assms(2)]] .
  then show "length (deltas (final t es)) \<le> nat (sint t)"
    using simulation_start(3) [OF assms(1)] by (auto simp: below_target_def split: if_splits)
  show "exited (final t es) =
      (if length (deltas (final t es)) = nat (sint t) then Some 0
       else map_option stop_code (first_stop input es))"
    using b simulation_start(2,3) [OF assms(1)] by (auto simp: below_target_def split: if_splits)
qed

text \<open>Every match takes two arrivals and every timeout one.\<close>

lemma accounted_bound:
  "2 * length (gaps (abstract t es)) + lost (abstract t es)
    \<le> length (filter is_arrival (inputs_before_stop input es))"
  using accounted_run [of idle_matcher t gap "inputs_before_stop input es"]
  by (simp add: accounted_def idle_matcher_def)

text \<open>A negative target is out of reach: only an error or a signal ends the loop.\<close>

lemma never_reaches_negative:
  assumes "schedulable exited (step t) fair es start" "sint t < 0" "length es < 2 ^ 63"
  shows "exited (final t es) = map_option stop_code (first_stop input es)"
proof -
  have "length (gaps (abstract t es)) < 2 ^ 63"
    using accounted_bound [of t es] length_inputs_before_stop [of input es] assms(3)
      length_filter_le [of is_arrival "inputs_before_stop input es"] by linarith
  then have "\<not> reached t (abstract t es)"
    using assms(2) by (auto simp: reached_def i64_eq_iff_sint)
  then show ?thesis using simulation_start(2) [OF assms(1)] by simp
qed

lemma lost_fits:
  assumes "length es < 2 ^ 64"
  shows "unat (of_nat (lost (abstract t es)) :: i64) = lost (abstract t es)"
proof -
  have "lost (abstract t es) < 2 ^ 64"
    using accounted_bound [of t es] length_inputs_before_stop [of input es] assms
      length_filter_le [of is_arrival "inputs_before_stop input es"] by linarith
  then show ?thesis by (simp add: unat_of_nat)
qed

lemma accounting:
  assumes "schedulable exited (step t) fair es start" "length es < 2 ^ 64"
  shows "2 * length (deltas (final t es)) + unat (unmatched (final t es))
    \<le> length (filter is_arrival (inputs_before_stop input es))"
  using accounted_bound [of t es] simulation_start(3,4) [OF assms(1)] lost_fits [OF assms(2)] by simp

lemma none_lost:
  assumes "schedulable exited (step t) fair es start" "length es < 2 ^ 64"
    "unmatched (final t es) = 0"
  shows "lost (abstract t es) = 0"
  using simulation_start(4) [OF assms(1)] lost_fits [OF assms(2), of t] assms(3) by simp

text \<open>
  While the loop runs and has dropped nothing, its differences are those of the blocks
  both sources reported, however the two were interleaved.
\<close>

lemma interleaving_irrelevant:
  assumes "schedulable exited (step t) fair es start" "length es < 2 ^ 64"
    "unmatched (final t es) = 0" "exited (final t es) = None"
    "once (inputs_before_stop input es)"
  shows "mset (deltas (final t es)) = common_gaps gap (inputs_before_stop input es)"
proof -
  have "\<not> reached t (abstract t es)"
    using simulation_start(2) [OF assms(1)] assms(4) by (auto split: if_splits)
  then have "abstract t es = fold (spec_step gap) (inputs_before_stop input es) idle_matcher"
    by (rule run_until_fold)
  with none_lost [OF assms(1-3)] paired_up_fold [OF assms(5), of gap]
  show ?thesis using simulation_start(3) [OF assms(1)] by (simp add: paired_up_def)
qed

text \<open>Enough blocks seen on both sides end the program with exit code 0.\<close>

lemma finishes:
  assumes "schedulable exited (step t) fair es start" "length es < 2 ^ 64"
    "unmatched (final t es) = 0" "once (inputs_before_stop input es)"
    "0 < sint t" "sint t \<le> int (card (common_blocks (inputs_before_stop input es)))"
  shows "exited (final t es) = Some 0"
  using enough_common_blocks [OF assms(5,4,6), of gap] none_lost [OF assms(1-3)]
    simulation_start(2) [OF assms(1)] by simp

text \<open>A block waits no longer than the timeout and one scan interval, if the scans are on time.\<close>

lemma bounded_wait:
  assumes "schedulable exited (step t) fair es start" "exited (final t es) = None"
    "on_time d t0 t0 (inputs_before_stop input es)" "0 \<le> d" "waiting (abstract t es) k = Some w"
  shows "last_time t0 (inputs_before_stop input es) - snd (snd w) \<le> match_timeout + d"
proof -
  have "\<not> reached t (abstract t es)"
    using simulation_start(2) [OF assms(1)] assms(2) by (auto split: if_splits)
  then show ?thesis using assms(3-5) by (rule waiting_age)
qed

end

section \<open>The contract of the summary loop\<close>

text \<open>
  The loop of \<open>printStats\<close> goes over the differences with the running sum, minimum and
  maximum; the first difference initialises the last two.
\<close>

lemma sum_list_snoc_word: "sint (sum_list (ds :: i64 list)) = sint (word_of_int (\<Sum>d\<leftarrow>ds. sint d) :: i64)"
proof -
  have "sum_list ds = word_of_int (\<Sum>d\<leftarrow>ds. sint d)"
    by (induction ds) (simp_all add: of_int_add)
  then show ?thesis by simp
qed

lemma div_between:
  fixes a b s :: int
  assumes "0 < n"
  shows "a * n \<le> s \<Longrightarrow> a \<le> s div n" "s \<le> b * n \<Longrightarrow> s div n \<le> b"
  using zdiv_mono1 [of "a * n" s n] zdiv_mono1 [of s "b * n" n] assms by simp_all

lemma sdiv_between:
  fixes a b s :: int
  assumes "0 < n" "a * n \<le> s" "s \<le> b * n"
  shows "a \<le> s sdiv n" "s sdiv n \<le> b"
proof -
  have t: "s sdiv n = (if 0 \<le> s then s div n else - ((- s) div n))"
    using assms(1) by (auto simp: signed_divide_int_def sgn_if)
  show "a \<le> s sdiv n" "s sdiv n \<le> b"
    using t assms div_between(1) [OF assms(1), of a s] div_between(2) [OF assms(1), of s b]
      div_between(1) [OF assms(1), of "- b" "- s"] div_between(2) [OF assms(1), of "- s" "- a"]
    by (auto split: if_splits)
qed

locale stats_reporter =
  fixes scan :: "i64 list \<Rightarrow> i64 \<times> i64 \<times> i64 \<Rightarrow> i64 \<times> i64 \<times> i64"
  assumes scan_Nil: "scan [] acc = acc"
    and scan_Cons:
      "scan (d # ds) (tot, minD, maxD) =
         scan ds (tot + d, if i64_less d minD then d else minD, if i64_less maxD d then d else maxD)"
begin

lemma scan_sum: "fst (scan ds acc) = fst acc + sum_list ds"
  by (induction ds arbitrary: acc) (auto simp: scan_Nil scan_Cons split_paired_all)

lemma scan_min:
  "fst (snd (scan ds acc)) \<in> insert (fst (snd acc)) (set ds)"
  "d \<in> insert (fst (snd acc)) (set ds) \<Longrightarrow> sint (fst (snd (scan ds acc))) \<le> sint d"
proof -
  have "fst (snd (scan ds acc)) \<in> insert (fst (snd acc)) (set ds) \<and>
    (\<forall>d \<in> insert (fst (snd acc)) (set ds). sint (fst (snd (scan ds acc))) \<le> sint d)"
  proof (induction ds arbitrary: acc)
    case (Cons d ds)
    obtain s a b where acc: "acc = (s, a, b)" by (cases acc)
    show ?case using Cons [of "(s + d, if i64_less d a then d else a, if i64_less b d then d else b)"]
      by (auto simp: acc scan_Cons split: if_splits)
  qed (simp add: scan_Nil)
  then show "fst (snd (scan ds acc)) \<in> insert (fst (snd acc)) (set ds)"
    "d \<in> insert (fst (snd acc)) (set ds) \<Longrightarrow> sint (fst (snd (scan ds acc))) \<le> sint d" by auto
qed

lemma scan_max:
  "snd (snd (scan ds acc)) \<in> insert (snd (snd acc)) (set ds)"
  "d \<in> insert (snd (snd acc)) (set ds) \<Longrightarrow> sint d \<le> sint (snd (snd (scan ds acc)))"
proof -
  have "snd (snd (scan ds acc)) \<in> insert (snd (snd acc)) (set ds) \<and>
    (\<forall>d \<in> insert (snd (snd acc)) (set ds). sint d \<le> sint (snd (snd (scan ds acc))))"
  proof (induction ds arbitrary: acc)
    case (Cons d ds)
    obtain s a b where acc: "acc = (s, a, b)" by (cases acc)
    show ?case using Cons [of "(s + d, if i64_less d a then d else a, if i64_less b d then d else b)"]
      by (auto simp: acc scan_Cons split: if_splits)
  qed (simp add: scan_Nil)
  then show "snd (snd (scan ds acc)) \<in> insert (snd (snd acc)) (set ds)"
    "d \<in> insert (snd (snd acc)) (set ds) \<Longrightarrow> sint d \<le> sint (snd (snd (scan ds acc)))" by auto
qed

text \<open>
  Started on a non-empty list the way \<open>printStats\<close> does, the loop yields the sum, the
  least and the greatest difference, and as long as the sum fits \<open>int64\<close> the printed average
  is the truncated mean and lies between them.
\<close>

lemma scan_stats:
  assumes "ds \<noteq> []" "scan ds (0, hd ds, hd ds) = (tot, minD, maxD)"
  shows "tot = sum_list ds" "minD \<in> set ds" "maxD \<in> set ds"
    "d \<in> set ds \<Longrightarrow> sint minD \<le> sint d \<and> sint d \<le> sint maxD"
  using assms scan_sum [where ds = ds and acc = "(0, hd ds, hd ds)"] scan_min [where ds = ds and acc = "(0, hd ds, hd ds)"]
    scan_max [where ds = ds and acc = "(0, hd ds, hd ds)"]
  by (auto simp: insert_absorb)

lemma scan_average:
  assumes "ds \<noteq> []" "scan ds (0, hd ds, hd ds) = (tot, minD, maxD)"
    "fits_i64 (\<Sum>d\<leftarrow>ds. sint d)" "length ds < 2 ^ 63"
  shows "sint (i64_div tot (of_nat (length ds))) = (\<Sum>d\<leftarrow>ds. sint d) sdiv int (length ds)"
    "sint minD \<le> sint (i64_div tot (of_nat (length ds)))"
    "sint (i64_div tot (of_nat (length ds))) \<le> sint maxD"
proof -
  let ?S = "\<Sum>d\<leftarrow>ds. sint d" and ?n = "int (length ds)"
  have n: "0 < ?n" using assms(1) by simp
  have s: "sint tot = ?S"
    using scan_stats(1) [OF assms(1,2)] assms(3) sum_list_snoc_word [of ds] by simp
  have lo: "sint minD * ?n \<le> ?S"
    using scan_stats(4) [OF assms(1,2)] sum_list_mono [of ds "\<lambda>_. sint minD" sint]
    by (simp add: sum_list_triv mult.commute)
  have hi: "?S \<le> sint maxD * ?n"
    using scan_stats(4) [OF assms(1,2)] sum_list_mono [of ds sint "\<lambda>_. sint maxD"]
    by (simp add: sum_list_triv mult.commute)
  have b: "sint minD \<le> ?S sdiv ?n" "?S sdiv ?n \<le> sint maxD"
    using sdiv_between [OF n lo hi] .
  have "fits_i64 (?S sdiv ?n)"
    using b fits_i64_sint [of minD] fits_i64_sint [of maxD] by (simp add: fits_i64_def)
  then show e: "sint (i64_div tot (of_nat (length ds))) = ?S sdiv ?n"
    using assms(4) s by (simp add: i64_div_def)
  show "sint minD \<le> sint (i64_div tot (of_nat (length ds)))"
    "sint (i64_div tot (of_nat (length ds))) \<le> sint maxD"
    using b e by simp_all
qed

end

end
