(* ===== verification/Bench_Env.thy ===== *)
theory Bench_Env
  imports Go_Json Go_Strconv Exex_Pb
begin

text \<open>
  The environment of the benchmarks' two goroutines and the shape of what they do. The
  results of the gRPC, WebSocket and HTTP libraries are arguments: each iteration of a
  goroutine's loop consumes one \<open>grpc_item\<close> or \<open>ws_item\<close>, which also says how the
  iteration's \<open>select\<close> between the send and \<open>ctx.Done()\<close> goes. A goroutine's behaviour is
  the list of its effects.
\<close>

section \<open>Effects\<close>

datatype 'a effect =
    Print string
  | Print_Stderr string
  | Post string string
  | Send 'a
  | Send_Err string
  | Return

fun sends :: "'a effect list \<Rightarrow> 'a list" where
  "sends [] = []"
| "sends (Send a # es) = a # sends es"
| "sends (_ # es) = sends es"

fun errors :: "'a effect list \<Rightarrow> string list" where
  "errors [] = []"
| "errors (Send_Err e # es) = e # errors es"
| "errors (_ # es) = errors es"

fun posts :: "'a effect list \<Rightarrow> (string \<times> string) list" where
  "posts [] = []"
| "posts (Post u b # es) = (u, b) # posts es"
| "posts (_ # es) = posts es"

lemma sends_append [simp]: "sends (es @ fs) = sends es @ sends fs"
  by (induction es rule: sends.induct) auto

lemma errors_append [simp]: "errors (es @ fs) = errors es @ errors fs"
  by (induction es rule: errors.induct) auto

lemma posts_append [simp]: "posts (es @ fs) = posts es @ posts fs"
  by (induction es rule: posts.induct) auto

text \<open>A goroutine does nothing after its return.\<close>

definition returns_last :: "'a effect list \<Rightarrow> bool" where
  "returns_last es \<longleftrightarrow> Return \<notin> set (butlast es)"

lemma returns_last_Cons:
  "returns_last (e # es) \<Longrightarrow> returns_last es \<and> (e = Return \<longrightarrow> es = [])"
  by (cases es) (auto simp: returns_last_def)

lemma returns_last_simps [simp]:
  "returns_last []" "returns_last [e]"
  "e \<noteq> Return \<Longrightarrow> returns_last (e # es) \<longleftrightarrow> returns_last es"
  by (auto simp: returns_last_def split: if_splits)

lemma returns_last_append: "Return \<notin> set es \<Longrightarrow> returns_last (es @ fs) \<longleftrightarrow> returns_last fs"
  by (induction es) auto

section \<open>Library results\<close>

text \<open>
  \<open>stream.Recv()\<close>: a notification with the clock reading taken after it, the end of the
  stream, or an error. The flags are the scheduler's and the context's choices:
  \<open>send_cancelled\<close> says the \<open>select\<close> took \<open>ctx.Done()\<close>, \<open>ctx_done\<close> that \<open>ctx.Err()\<close> was set.
\<close>

datatype grpc_item =
    Recv_Ok (recv_notif: Notification) (recv_ms: i64) (recv_send_cancelled: bool)
  | Recv_EOF
  | Recv_Fail string bool

text \<open>
  The gRPC library: creating a client for messages up to a size, and subscribing, each with its
  possible error.
\<close>

record grpc_lib =
  NewClient_err :: "nat \<Rightarrow> string \<Rightarrow> string option"
  Subscribe_result :: "string \<Rightarrow> SubscribeRequest \<Rightarrow> string + grpc_item list"

text \<open>
  One HTTP request of \<open>net/http\<close>: building it may fail, performing it may fail, or a
  response arrives with its status at a time in milliseconds.
\<close>

datatype http_result =
    Http_Build_Fail string
  | Http_Do_Fail string
  | Http_Response int i64

text \<open>
  \<open>conn.ReadMessage()\<close> in the loop: a message (with the clock reading after it, the answer
  the HTTP endpoint would give to a request body, and the context's flags), or an error.
\<close>

datatype ws_item =
    Read_Ok (read_msg: string) (read_ms: i64) (read_http: "string \<Rightarrow> http_result") (read_ctx_done: bool)
      (read_send_cancelled: bool)
  | Read_Fail string bool

text \<open>Dialling, writing the subscription, reading the acknowledgement, then the loop's reads.\<close>

record ws_lib =
  Dial_err :: "string \<Rightarrow> string option"
  Write_err :: "string \<Rightarrow> string option"
  Ack_result :: "string + string"
  Reads :: "ws_item list"

section \<open>The message a node pushes for a new head\<close>

text \<open>An \<open>eth_subscription\<close> notification: any further header fields surround the number.\<close>

definition pushed_head :: "string \<Rightarrow> (string \<times> json) list \<Rightarrow> u64 \<Rightarrow> (string \<times> json) list \<Rightarrow> json" where
  "pushed_head sub before n after =
     JObject [(''jsonrpc'', JString ''2.0''), (''method'', JString ''eth_subscription''),
       (''params'', JObject [(''subscription'', JString sub),
          (''result'', JObject (before @ (''number'', JString (''0x'' @ fmt_hex n)) # after))])]"

section \<open>The tip of a committed chain\<close>

text \<open>
  The notifications that give rise to an arrival, as a relation on messages: a committed
  chain whose last block carries a header.
\<close>

definition reports_tip :: "Notification \<Rightarrow> Chain \<Rightarrow> BlockHeader \<Rightarrow> bool" where
  "reports_tip notif chain header \<longleftrightarrow>
    (\<exists>c bs tip. Notification_Event notif = Some (Notification_ChainCommitted c) \<and>
       ChainCommitted_New c = Some chain \<and> Chain_Blocks chain = bs @ [tip] \<and> BlockWithReceipts_Header tip = Some header)"

fun tip_of :: "Notification \<Rightarrow> (Chain \<times> BlockHeader) option" where
  "tip_of notif =
    (case Notification_Event notif of
       Some (Notification_ChainCommitted c) \<Rightarrow>
         (case ChainCommitted_New c of
            None \<Rightarrow> None
          | Some chain \<Rightarrow>
              (case rev (Chain_Blocks chain) of
                 [] \<Rightarrow> None
               | tip # bs \<Rightarrow> map_option (Pair chain) (BlockWithReceipts_Header tip)))
     | _ \<Rightarrow> None)"

declare tip_of.simps [simp del]

lemma tip_of_iff: "tip_of notif = Some (chain, header) \<longleftrightarrow> reports_tip notif chain header"
proof -
  have r: "rev bs = tip # rest \<longleftrightarrow> bs = rev rest @ [tip]" for bs rest :: "BlockWithReceipts list" and tip
    by (metis rev.simps(2) rev_rev_ident)
  show ?thesis
    by (auto simp: tip_of.simps reports_tip_def r split: option.splits isNotification_Event.splits list.splits)
qed

text \<open>The same, with the checks in the order in which the programs make them.\<close>

lemma tip_of_checks:
  "tip_of notif =
    (case Notification_Event notif of
       Some (Notification_ChainCommitted c) \<Rightarrow>
         (case ChainCommitted_New c of
            None \<Rightarrow> None
          | Some chain \<Rightarrow>
              if Chain_Blocks chain = [] then None
              else map_option (Pair chain) (BlockWithReceipts_Header (last (Chain_Blocks chain))))
     | _ \<Rightarrow> None)"
proof -
  have r: "(case rev bs of [] \<Rightarrow> None | tip # rest \<Rightarrow> f tip) = (if bs = [] then None else f (last bs))"
    for bs :: "BlockWithReceipts list" and f :: "BlockWithReceipts \<Rightarrow> (Chain \<times> BlockHeader) option"
    by (cases bs rule: rev_cases) auto
  show ?thesis unfolding tip_of.simps r ..
qed

section \<open>The contract of a receive loop\<close>

text \<open>
  A goroutine's loop handles one item per iteration: an iteration that ends the goroutine
  sends no arrival and at most one error, any other sends no error and at most one arrival.
\<close>

locale receive_loop =
  fixes loop :: "'i list \<Rightarrow> 'a effect list"
    and body :: "'i \<Rightarrow> 'a effect list"
    and ends :: "'i \<Rightarrow> bool"
  assumes loop_Nil: "loop [] = []"
    and loop_Cons: "loop (i # is) = body i @ (if ends i then [Return] else loop is)"
    and errors_body: "length (errors (body i)) \<le> (if ends i then 1 else 0)"
    and sends_body: "length (sends (body i)) \<le> (if ends i then 0 else 1)"
    and no_return_body: "Return \<notin> set (body i)"
begin

lemma sends_loop: "sends (loop is) = concat (map (sends \<circ> body) (takeWhile (\<lambda>i. \<not> ends i) is))"
proof (induction "is")
  case (Cons i "is")
  then show ?case using sends_body [of i] by (cases "ends i") (auto simp: loop_Cons)
qed (simp add: loop_Nil)

lemma length_sends_loop: "length (sends (loop is)) \<le> length is"
proof (induction "is")
  case (Cons i "is")
  then show ?case using sends_body [of i] by (cases "ends i") (auto simp: loop_Cons)
qed (simp add: loop_Nil)

lemma one_error: "length (errors (loop is)) \<le> 1"
proof (induction "is")
  case (Cons i "is")
  then show ?case using errors_body [of i] by (cases "ends i") (auto simp: loop_Cons)
qed (simp add: loop_Nil)

lemma returns_iff: "Return \<in> set (loop is) \<longleftrightarrow> (\<exists>i \<in> set is. ends i)"
proof (induction "is")
  case (Cons i "is")
  then show ?case using no_return_body [of i] by (auto simp: loop_Cons)
qed (simp add: loop_Nil)

text \<open>An error is followed by the goroutine's return: whoever fails has stopped sending.\<close>

lemma error_returns: "errors (loop is) \<noteq> [] \<Longrightarrow> Return \<in> set (loop is)"
proof (induction "is")
  case (Cons i "is")
  then show ?case using errors_body [of i] by (cases "ends i") (auto simp: loop_Cons)
qed (simp add: loop_Nil)

lemma returns_last_loop: "returns_last (loop is)"
proof (induction "is")
  case (Cons i "is")
  then show ?case using no_return_body [of i] by (simp add: loop_Cons returns_last_append)
qed (simp add: loop_Nil)

lemma loop_append:
  "loop (is @ js) = (if \<exists>i \<in> set is. ends i then loop is else loop is @ loop js)"
  by (induction "is") (auto simp: loop_Nil loop_Cons)

text \<open>What was sent does not change when the connection delivers more.\<close>

lemma sends_prefix: "\<exists>rest. sends (loop (is @ js)) = sends (loop is) @ rest"
  by (simp add: loop_append)

end

end
