(* ===== verification/Latency_Sources.thy ===== *)
theory Latency_Sources
  imports Latency_Bench Bench_Env
begin

text \<open>
  \<open>src/examples/go-latency-bench/grpc.go\<close> and \<open>ws.go\<close>: the two goroutines that feed the
  main loop. Arrivals they send are the values \<open>Latency_Bench.on_grpc\<close> and \<open>on_ws\<close> receive.
\<close>

section \<open>grpc.go\<close>

text \<open>The loop of \<open>SubscribeGRPC\<close>, with the checks of one notification in source order.\<close>

fun grpc_loop :: "grpc_item list \<Rightarrow> arrival effect list" where
  "grpc_loop [] = []"
| "grpc_loop (Recv_EOF # is) = [Return]"
| "grpc_loop (Recv_Fail err ctx_done # is) =
     (if ctx_done then [Return] else [Send_Err (''grpc recv: '' @ err), Return])"
| "grpc_loop (Recv_Ok notif arrivedAt send_cancelled # is) =
     (case Notification_Event notif of
        Some (Notification_ChainCommitted committed) \<Rightarrow>
          (case ChainCommitted_New committed of
             None \<Rightarrow> grpc_loop is
           | Some chain \<Rightarrow>
               if Chain_Blocks chain = [] then grpc_loop is
               else
                 (case BlockWithReceipts_Header (last (Chain_Blocks chain)) of
                    None \<Rightarrow> grpc_loop is
                  | Some header \<Rightarrow>
                      if send_cancelled then [Return]
                      else Send \<lparr>blockNumber = BlockHeader_Number header, arrivedAtMs = arrivedAt\<rparr>
                             # grpc_loop is))
      | _ \<Rightarrow> grpc_loop is)"

text \<open>The limit for received messages: 64 MiB.\<close>

definition grpcMaxRecvMsgSize :: nat where
  "grpcMaxRecvMsgSize = 64 * 1024 * 1024"

definition subscribe_request :: SubscribeRequest where
  "subscribe_request =
     (SubscribeRequest_Reset undefined)
       \<lparr>SubscribeRequest_IncludeHeaders := True\<rparr>"

definition SubscribeGRPC :: "grpc_lib \<Rightarrow> string \<Rightarrow> arrival effect list" where
  "SubscribeGRPC lib grpcAddr =
    (case NewClient_err lib grpcMaxRecvMsgSize grpcAddr of
       Some err \<Rightarrow> [Send_Err (''grpc connect '' @ grpcAddr @ '': '' @ err), Return]
     | None \<Rightarrow>
         (case Subscribe_result lib grpcAddr subscribe_request of
            Inl err \<Rightarrow> [Send_Err (''grpc subscribe: '' @ err), Return]
          | Inr items \<Rightarrow> Print (''grpc connected: '' @ grpcAddr) # grpc_loop items))"

section \<open>ws.go\<close>

record newHeadsResult =
  Number :: string

record wsNotification =
  Params_Result :: newHeadsResult

definition dec_newHeadsResult :: "newHeadsResult decoder" where
  "dec_newHeadsResult = dec_struct (dec_field ''number'' dec_string Number (\<lambda>x r. r\<lparr>Number := x\<rparr>))"

definition dec_wsNotification :: "wsNotification decoder" where
  "dec_wsNotification =
     dec_struct (dec_field ''params''
       (dec_struct (dec_field ''result'' dec_newHeadsResult id (\<lambda>x r. x)))
       Params_Result (\<lambda>x r. r\<lparr>Params_Result := x\<rparr>))"

definition wsSubscribeMsg :: string where
  "wsSubscribeMsg =
     ''{\"jsonrpc\":\"2.0\",\"id\":1,\"method\":\"eth_subscribe\",\"params\":[\"newHeads\"]}''"

fun ws_loop :: "ws_item list \<Rightarrow> arrival effect list" where
  "ws_loop [] = []"
| "ws_loop (Read_Fail err ctx_done # is) =
     (if ctx_done then [Return] else [Send_Err (''ws read: '' @ err), Return])"
| "ws_loop (Read_Ok msg now http ctx_done send_cancelled # is) =
     (case json_Unmarshal dec_wsNotification msg \<lparr>Params_Result = \<lparr>Number = ''''\<rparr>\<rparr> of
        (notif, failed) \<Rightarrow>
          if failed then ws_loop is
          else (case strconv_ParseUint (Number (Params_Result notif)) of
              Inl err \<Rightarrow> ws_loop is
            | Inr blockNum \<Rightarrow>
                if blockNum = 0 then ws_loop is
                else if send_cancelled then [Return]
                else Send \<lparr>blockNumber = blockNum, arrivedAtMs = now\<rparr> # ws_loop is))"

definition SubscribeNewHeads :: "ws_lib \<Rightarrow> string \<Rightarrow> arrival effect list" where
  "SubscribeNewHeads lib wsURL =
    (case Dial_err lib wsURL of
       Some err \<Rightarrow> [Send_Err (''ws dial '' @ wsURL @ '': '' @ err), Return]
     | None \<Rightarrow>
         (case Write_err lib wsSubscribeMsg of
            Some err \<Rightarrow> [Send_Err (''ws subscribe write: '' @ err), Return]
          | None \<Rightarrow>
              (case Ack_result lib of
                 Inl err \<Rightarrow> [Send_Err (''ws subscribe ack: '' @ err), Return]
               | Inr ackMsg \<Rightarrow> Print (''ws connected: '' @ wsURL) # ws_loop (Reads lib))))"

section \<open>What the goroutines send\<close>

text \<open>One iteration of the gRPC loop, by the tip it reports.\<close>

fun grpc_body :: "grpc_item \<Rightarrow> arrival effect list" where
  "grpc_body Recv_EOF = []"
| "grpc_body (Recv_Fail err ctx_done) = (if ctx_done then [] else [Send_Err (''grpc recv: '' @ err)])"
| "grpc_body (Recv_Ok notif ms send_cancelled) =
     (case tip_of notif of
        None \<Rightarrow> []
      | Some (chain, header) \<Rightarrow>
          if send_cancelled then [] else [Send \<lparr>blockNumber = BlockHeader_Number header, arrivedAtMs = ms\<rparr>])"

fun grpc_ends :: "grpc_item \<Rightarrow> bool" where
  "grpc_ends (Recv_Ok notif ms send_cancelled) = (send_cancelled \<and> tip_of notif \<noteq> None)"
| "grpc_ends _ = True"

text \<open>The block number a WebSocket message announces, if any.\<close>

definition head_number :: "string \<Rightarrow> u64 option" where
  "head_number msg =
    (case json_Unmarshal dec_wsNotification msg \<lparr>Params_Result = \<lparr>Number = ''''\<rparr>\<rparr> of
       (notif, failed) \<Rightarrow>
         if failed then None
         else (case strconv_ParseUint (Number (Params_Result notif)) of
             Inl err \<Rightarrow> None
           | Inr n \<Rightarrow> if n = 0 then None else Some n))"

fun ws_body :: "ws_item \<Rightarrow> arrival effect list" where
  "ws_body (Read_Fail err ctx_done) = (if ctx_done then [] else [Send_Err (''ws read: '' @ err)])"
| "ws_body (Read_Ok msg now http ctx_done send_cancelled) =
     (case head_number msg of
        None \<Rightarrow> []
      | Some n \<Rightarrow> if send_cancelled then [] else [Send \<lparr>blockNumber = n, arrivedAtMs = now\<rparr>])"

fun ws_ends :: "ws_item \<Rightarrow> bool" where
  "ws_ends (Read_Fail err ctx_done) = True"
| "ws_ends (Read_Ok msg now http ctx_done send_cancelled) =
     (send_cancelled \<and> head_number msg \<noteq> None)"

interpretation latency_grpc: receive_loop grpc_loop grpc_body grpc_ends
proof unfold_locales
  show "grpc_loop (i # is) = grpc_body i @ (if grpc_ends i then [Return] else grpc_loop is)" for i "is"
    by (cases i) (auto simp: tip_of_checks split: option.splits isNotification_Event.splits)
  show "length (errors (grpc_body i)) \<le> (if grpc_ends i then 1 else 0)"
    "length (sends (grpc_body i)) \<le> (if grpc_ends i then 0 else 1)" "Return \<notin> set (grpc_body i)" for i
    by (cases i; auto split: option.splits)+
qed simp

lemma latency_ws_body:
  "length (errors (ws_body i)) \<le> (if ws_ends i then 1 else 0)
   \<and> length (sends (ws_body i)) \<le> (if ws_ends i then 0 else 1)
   \<and> Return \<notin> set (ws_body i)"
  by (cases i) (auto split: option.splits)

interpretation latency_ws: receive_loop ws_loop ws_body ws_ends
proof unfold_locales
  show "ws_loop (i # is)
      = ws_body i @ (if ws_ends i then [Return] else ws_loop is)" for i "is"
    by (cases i) (auto simp: head_number_def split: sum.splits prod.splits)
  show "length (errors (ws_body i)) \<le> (if ws_ends i then 1 else 0)"
    "length (sends (ws_body i)) \<le> (if ws_ends i then 0 else 1)"
    "Return \<notin> set (ws_body i)" for i
    using latency_ws_body by blast+
qed simp

section \<open>The whole goroutines\<close>

lemma latency_SubscribeGRPC_cases:
  "(\<exists>e. SubscribeGRPC lib addr = [Send_Err e, Return]) \<or>
   (\<exists>items. NewClient_err lib grpcMaxRecvMsgSize addr = None \<and> Subscribe_result lib addr subscribe_request = Inr items \<and>
      SubscribeGRPC lib addr = Print (''grpc connected: '' @ addr) # grpc_loop items)"
  by (auto simp: SubscribeGRPC_def split: option.splits sum.splits)

lemma latency_SubscribeNewHeads_cases:
  "(\<exists>e. SubscribeNewHeads lib wsURL = [Send_Err e, Return]) \<or>
   SubscribeNewHeads lib wsURL
     = Print (''ws connected: '' @ wsURL) # ws_loop (Reads lib)"
  by (auto simp: SubscribeNewHeads_def split: option.splits sum.splits prod.splits bool.splits)

text \<open>The buffer of the error channel.\<close>

definition errChCapacity :: nat where
  "errChCapacity = 2"

text \<open>Each goroutine sends at most one error, and returns after it.\<close>

lemma latency_SubscribeGRPC_errors:
  "length (errors (SubscribeGRPC lib addr)) \<le> 1"
  "errors (SubscribeGRPC lib addr) \<noteq> [] \<Longrightarrow> Return \<in> set (SubscribeGRPC lib addr)"
  using latency_SubscribeGRPC_cases [of lib addr] latency_grpc.one_error latency_grpc.error_returns by auto

lemma latency_SubscribeNewHeads_errors:
  "length (errors (SubscribeNewHeads lib wsURL)) \<le> 1"
  "errors (SubscribeNewHeads lib wsURL) \<noteq> [] \<Longrightarrow> Return \<in> set (SubscribeNewHeads lib wsURL)"
  using latency_SubscribeNewHeads_cases [of lib wsURL] latency_ws.one_error latency_ws.error_returns
  by auto

text \<open>The head the node announces is the head the goroutine reports.\<close>

lemma latency_head_number_pushed:
  assumes "json_parse msg = Some (pushed_head sub before n after)"
    "\<forall>kv \<in> set (before @ after). \<not> key_is (fst kv) ''number''" "n \<noteq> 0"
  shows "head_number msg = Some n"
proof -
  have i: "dec_members (dec_field ''number'' dec_string Number (\<lambda>x r. r\<lparr>Number := x\<rparr>)) kvs old = (old, False)"
    if "\<forall>kv \<in> set kvs. \<not> key_is (fst kv) ''number''" for kvs old
    using that by (intro dec_members_ignored) (auto simp: dec_field_def)
  have k: "key_is ''number'' ''number''" "key_is ''result'' ''result''" "key_is ''params'' ''params''"
    "\<not> key_is ''jsonrpc'' ''params''" "\<not> key_is ''method'' ''params''" "\<not> key_is ''subscription'' ''result''"
    by (simp_all add: key_is_def strings_ToLower_def char_lower_def)
  show ?thesis
    using assms k ParseUint_fmt_hex [of n]
    by (simp add: head_number_def json_Unmarshal_def pushed_head_def dec_wsNotification_def
        dec_newHeadsResult_def dec_field_def [of "''params''"] dec_field_def [of "''result''"]
        dec_members_append i dec_field_def [of _ dec_string])
qed

section \<open>The goroutines and the main loop together\<close>

fun grpc_received :: "event list \<Rightarrow> arrival list" where
  "grpc_received [] = []"
| "grpc_received (GrpcArrival now a # es) = a # grpc_received es"
| "grpc_received (_ # es) = grpc_received es"

fun ws_received :: "event list \<Rightarrow> arrival list" where
  "ws_received [] = []"
| "ws_received (WsArrival now a # es) = a # ws_received es"
| "ws_received (_ # es) = ws_received es"

fun errs_received :: "event list \<Rightarrow> string list" where
  "errs_received [] = []"
| "errs_received (Err e # es) = e # errs_received es"
| "errs_received (_ # es) = errs_received es"

lemma latency_sightings:
  assumes "errs_received es = []" "CtxDone \<notin> set es"
  shows "first_stop event_input es = None"
    "sightings Grpc (inputs_before_stop event_input es)
       = map (\<lambda>a. (blockNumber a, arrivedAtMs a)) (grpc_received es)"
    "sightings Peer (inputs_before_stop event_input es)
       = map (\<lambda>a. (blockNumber a, arrivedAtMs a)) (ws_received es)"
proof -
  have "first_stop event_input es = None \<and>
    sightings Grpc (inputs_before_stop event_input es)
       = map (\<lambda>a. (blockNumber a, arrivedAtMs a)) (grpc_received es) \<and>
    sightings Peer (inputs_before_stop event_input es)
       = map (\<lambda>a. (blockNumber a, arrivedAtMs a)) (ws_received es)"
    using assms
  proof (induction es)
    case (Cons e es)
    then show ?case by (cases e) auto
  qed simp
  then show "first_stop event_input es = None"
    "sightings Grpc (inputs_before_stop event_input es)
       = map (\<lambda>a. (blockNumber a, arrivedAtMs a)) (grpc_received es)"
    "sightings Peer (inputs_before_stop event_input es)
       = map (\<lambda>a. (blockNumber a, arrivedAtMs a)) (ws_received es)" by simp_all
qed

text \<open>
  A run that delivers everything two healthy goroutines send ends with exit code 0 as soon
  as the two have enough blocks in common, whatever the interleaving.
\<close>

definition delivers :: "arrival effect list \<Rightarrow> arrival effect list \<Rightarrow> event list \<Rightarrow> bool" where
  "delivers G W es \<longleftrightarrow>
     grpc_received es = sends G \<and> ws_received es = sends W \<and>
     set (errs_received es) \<subseteq> set (errors G) \<union> set (errors W) \<and> CtxDone \<notin> set es"

definition block_numbers :: "arrival effect list \<Rightarrow> u64 list" where
  "block_numbers es = map blockNumber (sends es)"

lemma latency_delivers_once:
  assumes "delivers G W es" "errors G = []" "errors W = []"
    "distinct (block_numbers G)" "distinct (block_numbers W)"
  shows "once (inputs_before_stop event_input es)"
    "common_blocks (inputs_before_stop event_input es) = set (block_numbers G) \<inter> set (block_numbers W)"
    "first_stop event_input es = None"
proof -
  have "errs_received es = []" "CtxDone \<notin> set es" using assms(1-3) by (auto simp: delivers_def)
  note s = latency_sightings [OF this]
  have c: "map (fst \<circ> (\<lambda>a. (blockNumber a, arrivedAtMs a))) as = map blockNumber as" for as :: "arrival list"
    by simp
  show "once (inputs_before_stop event_input es)"
    using s assms by (simp add: once_def block_numbers_def delivers_def comp_def)
  show "common_blocks (inputs_before_stop event_input es) = set (block_numbers G) \<inter> set (block_numbers W)"
    using s assms(1) by (auto simp: common_blocks_def dom_heard block_numbers_def delivers_def image_image)
  show "first_stop event_input es = None" by (rule s(1))
qed

lemma latency_delivers_target:
  assumes "delivers G W es" "errors G = []" "errors W = []"
    "distinct (block_numbers G)" "distinct (block_numbers W)"
    "schedulable exited (select_step blocks) event_fair es bench_start" "length es < 2 ^ 64"
    "unmatched (main blocks es) = 0"
    "0 < sint blocks" "sint blocks \<le> int (card (set (block_numbers G) \<inter> set (block_numbers W)))"
  shows "exited (main blocks es) = Some 0 \<and> length (deltas (main blocks es)) = nat (sint blocks)"
proof -
  note o = latency_delivers_once [OF assms(1-5)]
  have m: "main blocks es = latency.final blocks es" using assms(9) by (intro latency_main_runs) auto
  have "exited (main blocks es) = Some 0"
    unfolding m using assms(6-10) o m by (intro latency.finishes) simp_all
  with latency.exactly_the_target(2) [OF assms(6,9)] o(3) show ?thesis
    unfolding m by (auto split: if_splits)
qed

end
