(* ===== verification/Bench_System.thy ===== *)
theory Bench_System
  imports Bench_Env Bench_Loop
begin

text \<open>
  A benchmark as a whole: two goroutines that perform their effects, one buffered channel for
  each, the error channel, and the \<open>select\<close> loop of \<open>main\<close>, under every schedule. The state
  keeps the cases the loop has taken (\<open>history\<close>), so that invariants can speak of them. A
  benchmark interprets the locale \<open>bench_system\<close>, which extends \<open>two_sided_bench\<close>.
\<close>

section \<open>Channels and goroutines\<close>

text \<open>A case of the \<open>select\<close> that is ready, with the clock reading its handler takes.\<close>

datatype 'a ready =
    Ready_Err string
  | Ready_Arrival side instant 'a
  | Ready_Tick instant "u64 list"
  | Ready_Done

record ('a, 's) system =
  todo :: "side \<Rightarrow> 'a effect list"
  chan :: "side \<Rightarrow> 'a list"
  errCh :: "string list"
  said :: "string list"
  history :: "'a ready list"
  loop_state :: 's

definition sys_start :: "(side \<Rightarrow> 'a effect list) \<Rightarrow> 's \<Rightarrow> ('a, 's) system" where
  "sys_start src s0 =
    \<lparr>todo = src, chan = (\<lambda>sd. []), errCh = [], said = [], history = [], loop_state = s0\<rparr>"

text \<open>
  One effect of a goroutine; \<open>None\<close> when it has to wait for room in a channel. \<open>cap\<close> and
  \<open>ecap\<close> are the buffers of the arrival channels and of the error channel.
\<close>

fun perform :: "nat \<Rightarrow> nat \<Rightarrow> side \<Rightarrow> 'a effect \<Rightarrow> ('a, 's) system \<Rightarrow> ('a, 's) system option" where
  "perform cap ecap sd (Print line) s = Some (s\<lparr>said := said s @ [line]\<rparr>)"
| "perform cap ecap sd (Print_Stderr line) s = Some (s\<lparr>said := said s @ [line]\<rparr>)"
| "perform cap ecap sd (Post url body) s = Some s"
| "perform cap ecap sd (Send a) s =
     (if length (chan s sd) < cap then Some (s\<lparr>chan := (chan s)(sd := chan s sd @ [a])\<rparr>) else None)"
| "perform cap ecap sd (Send_Err e) s =
     (if length (errCh s) < ecap then Some (s\<lparr>errCh := errCh s @ [e]\<rparr>) else None)"
| "perform cap ecap sd Return s = Some s"

text \<open>
  The steps of the whole: \<open>select r\<close> is the handler of the case \<open>r\<close>, \<open>visits order\<close> says that
  \<open>order\<close> is an order in which the runtime may iterate over the pending map. Once \<open>main\<close> has
  exited, nothing moves.
\<close>

inductive sys_step ::
  "nat \<Rightarrow> nat \<Rightarrow> ('a ready \<Rightarrow> 's \<Rightarrow> 's) \<Rightarrow> ('s \<Rightarrow> nat option) \<Rightarrow> (u64 list \<Rightarrow> 's \<Rightarrow> bool) \<Rightarrow> ('a, 's) system \<Rightarrow> ('a, 's) system \<Rightarrow> bool"
  for cap ecap select exited visits where
  sys_effect:
    "exited (loop_state s) = None \<Longrightarrow> todo s sd = eff # effs \<Longrightarrow> perform cap ecap sd eff s = Some s' \<Longrightarrow>
     sys_step cap ecap select exited visits s (s'\<lparr>todo := (todo s)(sd := if eff = Return then [] else effs)\<rparr>)"
| sys_receive:
    "exited (loop_state s) = None \<Longrightarrow> chan s sd = a # as \<Longrightarrow>
     sys_step cap ecap select exited visits s
       (s\<lparr>chan := (chan s)(sd := as), history := history s @ [Ready_Arrival sd now a],
          loop_state := select (Ready_Arrival sd now a) (loop_state s)\<rparr>)"
| sys_fail:
    "exited (loop_state s) = None \<Longrightarrow> errCh s = e # es \<Longrightarrow>
     sys_step cap ecap select exited visits s
       (s\<lparr>errCh := es, history := history s @ [Ready_Err e], loop_state := select (Ready_Err e) (loop_state s)\<rparr>)"
| sys_tick:
    "exited (loop_state s) = None \<Longrightarrow> visits order (loop_state s) \<Longrightarrow>
     sys_step cap ecap select exited visits s
       (s\<lparr>history := history s @ [Ready_Tick now order],
          loop_state := select (Ready_Tick now order) (loop_state s)\<rparr>)"
| sys_done:
    "exited (loop_state s) = None \<Longrightarrow>
     sys_step cap ecap select exited visits s
       (s\<lparr>history := history s @ [Ready_Done], loop_state := select Ready_Done (loop_state s)\<rparr>)"

section \<open>What a history tells\<close>

fun received :: "side \<Rightarrow> 'a ready list \<Rightarrow> 'a list" where
  "received sd [] = []"
| "received sd (Ready_Arrival sd' now a # rs) = (if sd' = sd then a # received sd rs else received sd rs)"
| "received sd (_ # rs) = received sd rs"

fun failures :: "'a ready list \<Rightarrow> string list" where
  "failures [] = []"
| "failures (Ready_Err e # rs) = e # failures rs"
| "failures (_ # rs) = failures rs"

lemma received_append [simp]: "received sd (rs @ qs) = received sd rs @ received sd qs"
  by (induction sd rs rule: received.induct) auto

lemma failures_append [simp]: "failures (rs @ qs) = failures rs @ failures qs"
  by (induction rs rule: failures.induct) auto

section \<open>Conservation\<close>

text \<open>
  Arrivals are neither lost, invented nor reordered: for each side, what \<open>main\<close> has received,
  what the channel holds and what the goroutine will still send are together, in this order,
  what the goroutine sends. Errors are conserved as a multiset, and no buffer is overfull.
\<close>

definition conserves :: "nat \<Rightarrow> nat \<Rightarrow> (side \<Rightarrow> 'a effect list) \<Rightarrow> ('a, 's) system \<Rightarrow> bool" where
  "conserves cap ecap src s \<longleftrightarrow>
    (\<forall>sd. received sd (history s) @ chan s sd @ sends (todo s sd) = sends (src sd)) \<and>
    mset (failures (history s)) + mset (errCh s) + mset (errors (todo s Grpc)) + mset (errors (todo s Peer))
      = mset (errors (src Grpc)) + mset (errors (src Peer)) \<and>
    (\<forall>sd. returns_last (todo s sd) \<and> length (chan s sd) \<le> cap) \<and> length (errCh s) \<le> ecap"

lemma conserves_start: "\<forall>sd. returns_last (src sd) \<Longrightarrow> conserves cap ecap src (sys_start src s0)"
  by (simp add: conserves_def sys_start_def)

lemma conserves_effect:
  assumes "conserves cap ecap src s" "todo s sd = eff # effs" "perform cap ecap sd eff s = Some s'"
  shows "conserves cap ecap src (s'\<lparr>todo := (todo s)(sd := if eff = Return then [] else effs)\<rparr>)"
proof -
  have r: "returns_last effs" "eff = Return \<Longrightarrow> effs = []"
    using assms(1,2) returns_last_Cons [of eff effs] by (auto simp: conserves_def dest: spec [of _ sd])
  have f: "\<And>x. received x (history s) @ chan s x @ sends (todo s x) = sends (src x)"
    "\<And>x. returns_last (todo s x) \<and> length (chan s x) \<le> cap" "length (errCh s) \<le> ecap"
    and e: "mset (failures (history s)) + mset (errCh s) + mset (errors (todo s Grpc)) + mset (errors (todo s Peer))
      = mset (errors (src Grpc)) + mset (errors (src Peer))"
    using assms(1) by (auto simp: conserves_def)
  have fs: "received sd (history s) @ chan s sd @ sends (eff # effs) = sends (src sd)"
    using f(1) [of sd] assms(2) by simp
  show ?thesis
  proof (cases eff)
    case (Send_Err x)
    with assms r f e fs show ?thesis
      by (cases sd) (auto simp: conserves_def split: if_splits)
  next
    case (Send a)
    with assms r f e fs show ?thesis
      by (cases sd) (auto simp: conserves_def split: if_splits)
  qed (use assms r f e fs in \<open>cases sd; force simp: conserves_def\<close>)+
qed

lemma conserves_sys_step:
  assumes "sys_step cap ecap select exited visits s s'" "conserves cap ecap src s"
  shows "conserves cap ecap src s'"
  using assms
proof cases
  case (sys_receive sd a as now)
  have "received x (history s @ [Ready_Arrival sd now a]) @ ((chan s)(sd := as)) x @ sends (todo s x) = sends (src x)" for x
    using assms(2) sys_receive by (cases "x = sd") (auto simp: conserves_def dest: spec [of _ x])
  moreover have "length (((chan s)(sd := as)) x) \<le> cap" for x
    using assms(2) sys_receive by (cases "x = sd") (auto simp: conserves_def dest: spec [of _ x])
  ultimately show ?thesis using assms(2) sys_receive by (simp add: conserves_def)
next
  case (sys_effect sd eff effs s1)
  then show ?thesis using assms(2) conserves_effect by blast
qed (use assms(2) in \<open>simp_all add: conserves_def\<close>)

lemma conserves_reachable:
  assumes "(sys_step cap ecap select exited visits)\<^sup>*\<^sup>* (sys_start src s0) s" "\<forall>sd. returns_last (src sd)"
  shows "conserves cap ecap src s"
  using assms(1) by induction (auto intro: conserves_start [OF assms(2)] conserves_sys_step)

text \<open>The goroutine \<open>sd\<close> has sent the error \<open>e\<close> on the way from one state to another.\<close>

definition sent_error :: "('a, 's) system \<Rightarrow> ('a, 's) system \<Rightarrow> side \<Rightarrow> string \<Rightarrow> bool" where
  "sent_error s0 s sd e \<longleftrightarrow> count_list (errors (todo s sd)) e < count_list (errors (todo s0 sd)) e"

lemma failures_history: "e \<in> set (failures h) \<longleftrightarrow> Ready_Err e \<in> set h"
  by (induction h rule: failures.induct) auto

lemma received_error_was_sent:
  assumes "conserves cap ecap (todo s0) s" "Ready_Err e \<in> set (history s)"
  shows "\<exists>sd. sent_error s0 s sd e"
proof -
  have "count (mset (failures (history s)) + mset (errCh s) + mset (errors (todo s Grpc)) + mset (errors (todo s Peer))) e
      = count (mset (errors (todo s0 Grpc)) + mset (errors (todo s0 Peer))) e"
    using assms(1) by (simp add: conserves_def)
  moreover have "0 < count (mset (failures (history s))) e" using assms(2) by (simp add: failures_history)
  ultimately have "count (mset (errors (todo s Grpc))) e < count (mset (errors (todo s0 Grpc))) e \<or>
      count (mset (errors (todo s Peer))) e < count (mset (errors (todo s0 Peer))) e"
    unfolding count_union by linarith
  then show ?thesis unfolding sent_error_def count_mset by blast
qed

text \<open>Two errors at most fit the error channel: no goroutine waits to report one.\<close>

lemma error_never_waits:
  assumes "conserves cap ecap src s" "length (errors (src Grpc)) + length (errors (src Peer)) \<le> ecap"
    "todo s sd = Send_Err e # effs"
  shows "perform cap ecap sd (Send_Err e) s \<noteq> None"
proof -
  have "length (failures (history s)) + length (errCh s) + length (errors (todo s Grpc)) + length (errors (todo s Peer))
      = length (errors (src Grpc)) + length (errors (src Peer))"
    using assms(1) by (metis conserves_def size_mset size_union)
  moreover have "0 < length (errors (todo s Grpc)) + length (errors (todo s Peer))"
    using assms(3) by (cases sd) auto
  ultimately have "length (errCh s) < ecap" using assms(2) by linarith
  then show ?thesis by simp
qed

section \<open>Work\<close>

text \<open>
  What remains to be done: an effect counts two, since it may leave a message to be received.
  Ticks and interrupts leave it alone, every other step uses some up.
\<close>

definition work :: "('a, 's) system \<Rightarrow> nat" where
  "work s = 2 * length (todo s Grpc) + 2 * length (todo s Peer) + length (chan s Grpc) + length (chan s Peer)
     + length (errCh s)"

lemma perform_work:
  assumes "perform cap ecap sd eff s = Some s'"
  shows "length (chan s' Grpc) + length (chan s' Peer) + length (errCh s')
    \<le> Suc (length (chan s Grpc) + length (chan s Peer) + length (errCh s)) \<and> history s' = history s"
  using assms by (cases eff; cases sd) (auto split: if_splits)

lemma sys_step_work:
  assumes "sys_step cap ecap select exited visits s s'"
  shows "work s' < work s \<or>
    work s' = work s \<and> (\<exists>r. history s' = history s @ [r] \<and> (r = Ready_Done \<or> (\<exists>now order. r = Ready_Tick now order)))"
  using assms
proof cases
  case (sys_effect sd eff effs s1)
  then have "work s' < work s" using perform_work [OF sys_effect(4)] by (cases sd) (auto simp: work_def)
  then show ?thesis ..
next
  case (sys_receive sd a as now)
  then show ?thesis by (cases sd) (auto simp: work_def)
qed (auto simp: work_def)

lemma work_progress:
  assumes "0 < work s" "exited (loop_state s) = None" "0 < cap" "0 < ecap"
  shows "\<exists>s'. sys_step cap ecap select exited visits s s' \<and> work s' < work s \<and>
    (Ready_Done \<in> set (history s') \<longleftrightarrow> Ready_Done \<in> set (history s))"
proof -
  consider (err) e es where "errCh s = e # es" | (msg) sd a as where "chan s sd = a # as"
    | (eff) sd eff effs where "todo s sd = eff # effs" "chan s sd = []" "errCh s = []"
  proof -
    have "errCh s \<noteq> [] \<or> (\<exists>sd. chan s sd \<noteq> []) \<or> (\<exists>sd. todo s sd \<noteq> [] \<and> chan s sd = [] \<and> errCh s = [])"
      using assms(1) by (auto simp: work_def)
    then show thesis using that by (metis neq_Nil_conv)
  qed
  then show ?thesis
  proof cases
    case err
    let ?s = "s\<lparr>errCh := es, history := history s @ [Ready_Err e], loop_state := select (Ready_Err e) (loop_state s)\<rparr>"
    have "sys_step cap ecap select exited visits s ?s" using assms(2) err by (rule sys_fail)
    moreover have "work ?s < work s" by (simp add: work_def err)
    ultimately show ?thesis by (intro exI [of _ ?s]) simp
  next
    case msg
    let ?s = "s\<lparr>chan := (chan s)(sd := as), history := history s @ [Ready_Arrival sd 0 a],
      loop_state := select (Ready_Arrival sd 0 a) (loop_state s)\<rparr>"
    have "sys_step cap ecap select exited visits s ?s" using assms(2) msg by (rule sys_receive)
    moreover have "work ?s < work s" using msg by (cases sd) (simp_all add: work_def)
    ultimately show ?thesis by (intro exI [of _ ?s]) simp
  next
    case eff
    then obtain s1 where s1: "perform cap ecap sd eff s = Some s1" using assms(3,4) by (cases eff) auto
    let ?s = "s1\<lparr>todo := (todo s)(sd := if eff = Return then [] else effs)\<rparr>"
    have "sys_step cap ecap select exited visits s ?s" using assms(2) eff(1) s1 by (rule sys_effect)
    moreover have "work ?s < work s" using perform_work [OF s1] eff(1) by (cases sd) (auto simp: work_def)
    moreover have "history ?s = history s" using perform_work [OF s1] by simp
    ultimately show ?thesis by metis
  qed
qed


text \<open>A goroutine that prints and then sends, and \<open>main\<close> taking what it sent.\<close>

lemma first_arrival_received:
  assumes "exited (loop_state s) = None" "todo s sd = Print line # Send a # effs" "chan s sd = []" "0 < cap"
  shows "\<exists>s'. (sys_step cap ecap select exited visits)\<^sup>*\<^sup>* s s' \<and> history s' = history s @ [Ready_Arrival sd now a] \<and>
    loop_state s' = select (Ready_Arrival sd now a) (loop_state s)"
proof -
  let ?step = "sys_step cap ecap select exited visits"
  let ?s1 = "s\<lparr>said := said s @ [line], todo := (todo s)(sd := Send a # effs)\<rparr>"
  let ?s2 = "?s1\<lparr>chan := (chan s)(sd := [a]), todo := (todo s)(sd := effs)\<rparr>"
  let ?s3 = "?s2\<lparr>chan := (chan ?s2)(sd := []), history := history s @ [Ready_Arrival sd now a],
    loop_state := select (Ready_Arrival sd now a) (loop_state s)\<rparr>"
  have "?step s ?s1"
    using sys_effect [of exited s sd "Print line" "Send a # effs" cap ecap "s\<lparr>said := said s @ [line]\<rparr>"] assms by simp
  moreover have "?step ?s1 ?s2"
    using sys_effect [of exited ?s1 sd "Send a" effs cap ecap "?s1\<lparr>chan := (chan s)(sd := [a])\<rparr>"] assms by simp
  moreover have "?step ?s2 ?s3" using sys_receive [of exited ?s2 sd a "[]" cap ecap select visits now] assms by simp
  ultimately have "?step\<^sup>*\<^sup>* s ?s3" by (meson rtranclp.rtrancl_into_rtrancl rtranclp.rtrancl_refl)
  then show ?thesis by (intro exI [of _ ?s3]) simp
qed

text \<open>A goroutine that reports an error, and \<open>main\<close> taking it.\<close>

lemma first_error_received:
  assumes "exited (loop_state s) = None" "todo s sd = Send_Err e # effs" "errCh s = []" "0 < ecap"
  shows "\<exists>s'. (sys_step cap ecap select exited visits)\<^sup>*\<^sup>* s s' \<and> history s' = history s @ [Ready_Err e] \<and>
    loop_state s' = select (Ready_Err e) (loop_state s)"
proof -
  let ?step = "sys_step cap ecap select exited visits"
  let ?s1 = "s\<lparr>errCh := [e], todo := (todo s)(sd := effs)\<rparr>"
  let ?s2 = "?s1\<lparr>errCh := [], history := history s @ [Ready_Err e], loop_state := select (Ready_Err e) (loop_state s)\<rparr>"
  have "?step s ?s1"
    using sys_effect [of exited s sd "Send_Err e" effs cap ecap "s\<lparr>errCh := [e]\<rparr>"] assms by simp
  moreover have "?step ?s1 ?s2" using sys_fail [of exited ?s1 e "[]" cap ecap select visits] assms by simp
  ultimately have "?step\<^sup>*\<^sup>* s ?s2" by (meson rtranclp.rtrancl_into_rtrancl rtranclp.rtrancl_refl)
  then show ?thesis by (intro exI [of _ ?s2]) simp
qed

section \<open>A benchmark's loop between its goroutines\<close>

lemma along_snoc:
  "along stop f P (es @ [e]) s \<longleftrightarrow> along stop f P es s \<and> (stop (run_until stop f es s) \<or> P e (run_until stop f es s))"
  by (induction es arbitrary: s) auto

lemma run_until_snoc:
  "\<not> stop (run_until stop f es s) \<Longrightarrow> run_until stop f (es @ [e]) s = f e (run_until stop f es s)"
  by (simp add: run_until_append)

text \<open>
  \<open>event r\<close> is the benchmark's own event for the ready case \<open>r\<close>; arrivals carry a block number
  and a time stamp. The laws say that the events are those the matcher's contract knows.
\<close>

locale bench_system = two_sided_bench gap start step exited deltas unmatched input stop_code fair rel
  for gap and start :: 's and step :: "i64 \<Rightarrow> 'e \<Rightarrow> 's \<Rightarrow> 's" and exited deltas unmatched input stop_code fair rel +
  fixes event :: "'a ready \<Rightarrow> 'e"
    and number :: "'a \<Rightarrow> u64"
    and stamp :: "'a \<Rightarrow> i64"
    and visits :: "u64 list \<Rightarrow> 's \<Rightarrow> bool"
    and cap ecap :: nat
  assumes input_event:
      "input (event r) =
        (case r of Ready_Arrival sd now a \<Rightarrow> Some (Arrive sd now (number a) (stamp a))
         | Ready_Tick now order \<Rightarrow> Some (Scan now) | _ \<Rightarrow> None)"
    and code_event: "stop_code (event (Ready_Err e)) = 1" "stop_code (event Ready_Done) = 0"
    and fair_event:
      "fair (event r) s \<longleftrightarrow>
        (case r of Ready_Arrival sd now a \<Rightarrow> stamp a \<noteq> 0 | Ready_Tick now order \<Rightarrow> visits order s | _ \<Rightarrow> True)"
    and room: "0 < cap" "0 < ecap"
begin

abbreviation moves :: "i64 \<Rightarrow> ('a, 's) system \<Rightarrow> ('a, 's) system \<Rightarrow> bool" where
  "moves t \<equiv> sys_step cap ecap (\<lambda>r. step t (event r)) exited visits"

text \<open>Sources whose time stamps are not the epoch and that stop at their return.\<close>

definition proper :: "(side \<Rightarrow> 'a effect list) \<Rightarrow> bool" where
  "proper src \<longleftrightarrow> (\<forall>sd. returns_last (src sd) \<and> (\<forall>a \<in> set (sends (src sd)). stamp a \<noteq> 0))"

text \<open>The loop's state is that of a schedulable run on the events it has taken.\<close>

definition replays :: "i64 \<Rightarrow> ('a, 's) system \<Rightarrow> bool" where
  "replays t s \<longleftrightarrow> loop_state s = final t (map event (history s)) \<and>
     schedulable exited (step t) fair (map event (history s)) start"

lemma replays_snoc:
  assumes "replays t s" "exited (loop_state s) = None" "fair (event r) (loop_state s)"
  shows "final t (map event (history s @ [r])) = step t (event r) (loop_state s) \<and>
    schedulable exited (step t) fair (map event (history s @ [r])) start"
  using assms by (simp add: replays_def along_snoc run_until_snoc)

lemma moves_replays:
  assumes "moves t s s'" "replays t s" "conserves cap ecap src s" "proper src"
  shows "replays t s'"
  using assms(1)
proof cases
  case (sys_effect sd eff effs s1)
  then have "history s1 = history s \<and> loop_state s1 = loop_state s" by (cases eff) (auto split: if_splits)
  with sys_effect assms(2) show ?thesis by (simp add: replays_def)
next
  case (sys_receive sd a as now)
  have "received sd (history s) @ chan s sd @ sends (todo s sd) = sends (src sd)"
    using assms(3) by (simp add: conserves_def)
  then have "a \<in> set (sends (src sd))" using sys_receive by (metis Un_iff list.set_intros(1) set_append)
  then have "fair (event (Ready_Arrival sd now a)) (loop_state s)"
    using assms(4) by (simp add: proper_def fair_event)
  from replays_snoc [OF assms(2) _ this] sys_receive show ?thesis by (simp add: replays_def)
next
  case (sys_fail e es)
  with replays_snoc [OF assms(2), of "Ready_Err e"] show ?thesis by (simp add: replays_def fair_event)
next
  case (sys_tick order now)
  with replays_snoc [OF assms(2), of "Ready_Tick now order"] show ?thesis by (simp add: replays_def fair_event)
next
  case sys_done
  with replays_snoc [OF assms(2), of Ready_Done] show ?thesis by (simp add: replays_def fair_event)
qed

lemma reachable_invariant:
  assumes "(moves t)\<^sup>*\<^sup>* (sys_start src start) s" "proper src"
  shows "conserves cap ecap src s \<and> replays t s"
  using assms(1)
proof induction
  case base
  have "replays t (sys_start src start)" by (simp add: replays_def sys_start_def)
  with assms(2) show ?case by (simp add: conserves_start proper_def)
next
  case (step s s')
  with assms(2) moves_replays conserves_sys_step show ?case by blast
qed

text \<open>What the matcher is fed are the arrivals received, as long as nothing ended the loop.\<close>

lemma history_inputs:
  assumes "failures h = []" "Ready_Done \<notin> set h"
  shows "first_stop input (map event h) = None"
    "sightings sd (inputs_before_stop input (map event h)) = map (\<lambda>a. (number a, stamp a)) (received sd h)"
proof -
  have "first_stop input (map event h) = None \<and>
    sightings sd (inputs_before_stop input (map event h)) = map (\<lambda>a. (number a, stamp a)) (received sd h)"
    using assms
  proof (induction h)
    case (Cons r h)
    then show ?case by (cases r) (simp_all add: input_event)
  qed simp
  then show "first_stop input (map event h) = None"
    "sightings sd (inputs_before_stop input (map event h)) = map (\<lambda>a. (number a, stamp a)) (received sd h)"
    by simp_all
qed

lemma first_stop_history:
  "first_stop input (map event h) = Some x \<Longrightarrow>
    (\<exists>e \<in> set (failures h). stop_code x = 1) \<or> Ready_Done \<in> set h \<and> stop_code x = 0"
proof (induction h)
  case (Cons r h)
  then show ?case by (cases r) (auto simp: input_event code_event)
qed simp

text \<open>
  The exit code is justified: 1 only after a goroutine's error was received, 0 only with
  the target's number of matches or after an interrupt.
\<close>

lemma exit_justified:
  assumes "(moves t)\<^sup>*\<^sup>* (sys_start src start) s" "proper src" "0 < sint t" "exited (loop_state s) = Some c"
  shows "c = 1 \<and> (errors (src Grpc) \<noteq> [] \<or> errors (src Peer) \<noteq> []) \<or>
    c = 0 \<and> (length (deltas (loop_state s)) = nat (sint t) \<or> Ready_Done \<in> set (history s))"
proof -
  have i: "conserves cap ecap src s" "loop_state s = final t (map event (history s))"
    "schedulable exited (step t) fair (map event (history s)) start"
    using reachable_invariant [OF assms(1,2)] by (auto simp: replays_def)
  have f: "errors (src Grpc) \<noteq> [] \<or> errors (src Peer) \<noteq> []" if "e \<in> set (failures (history s))" for e
    using i(1) that by (auto simp: conserves_def)
  have "exited (loop_state s) =
      (if length (deltas (loop_state s)) = nat (sint t) then Some 0
       else map_option stop_code (first_stop input (map event (history s))))"
    unfolding i(2) by (rule exactly_the_target(2) [OF i(3) assms(3)])
  with assms(4) f first_stop_history [of "history s"] show ?thesis by (auto split: if_splits)
qed

lemma error_exit_received:
  assumes "(moves t)\<^sup>*\<^sup>* (sys_start src start) s" "proper src" "0 < sint t" "exited (loop_state s) = Some 1"
  shows "\<exists>sd e. Ready_Err e \<in> set (history s) \<and> sent_error (sys_start src start) s sd e"
proof -
  have i: "conserves cap ecap (todo (sys_start src start)) s" "loop_state s = final t (map event (history s))"
    "schedulable exited (step t) fair (map event (history s)) start"
    using reachable_invariant [OF assms(1,2)] by (auto simp: replays_def sys_start_def)
  have "exited (loop_state s) =
      (if length (deltas (loop_state s)) = nat (sint t) then Some 0
       else map_option stop_code (first_stop input (map event (history s))))"
    unfolding i(2) by (rule exactly_the_target(2) [OF i(3) assms(3)])
  with assms(4) first_stop_history [of "history s"] obtain e where "Ready_Err e \<in> set (history s)"
    by (auto simp: failures_history split: if_splits)
  with received_error_was_sent [OF i(1)] show ?thesis by blast
qed

text \<open>The state of the loop corresponds to the matcher's on what was received.\<close>

lemma reachable_rel:
  assumes "(moves t)\<^sup>*\<^sup>* (sys_start src start) s" "proper src"
  shows "rel (loop_state s) (abstract t (map event (history s)))"
  using reachable_invariant [OF assms] simulation_start(1) by (auto simp: replays_def)

lemma input_was_received:
  "Arrive sd now k ms \<in> set (inputs_before_stop input (map event h)) \<Longrightarrow>
    \<exists>a \<in> set (received sd h). number a = k \<and> stamp a = ms"
proof (induction h)
  case (Cons r h)
  then show ?case by (cases r) (auto simp: input_event)
qed simp

lemma waiting_was_received:
  assumes "waiting (abstract t (map event h)) k = Some (sd, ms, since)"
  shows "\<exists>a \<in> set (received sd h). number a = k \<and> stamp a = ms"
  using waiting_was_reported [OF assms] input_was_received by (auto simp: idle_matcher_def)

text \<open>With a negative target the program never completes.\<close>

lemma negative_never_completes:
  assumes "(moves t)\<^sup>*\<^sup>* (sys_start src start) s" "proper src" "sint t < 0" "length (history s) < 2 ^ 63"
    "exited (loop_state s) = Some c"
  shows "c = 1 \<and> (errors (src Grpc) \<noteq> [] \<or> errors (src Peer) \<noteq> []) \<or> c = 0 \<and> Ready_Done \<in> set (history s)"
proof -
  have i: "conserves cap ecap src s" "loop_state s = final t (map event (history s))"
    "schedulable exited (step t) fair (map event (history s)) start"
    using reachable_invariant [OF assms(1,2)] by (auto simp: replays_def)
  have f: "errors (src Grpc) \<noteq> [] \<or> errors (src Peer) \<noteq> []" if "e \<in> set (failures (history s))" for e
    using i(1) that by (auto simp: conserves_def)
  have "exited (loop_state s) = map_option stop_code (first_stop input (map event (history s)))"
    unfolding i(2) using never_reaches_negative [OF i(3) assms(3)] assms(4) by simp
  with assms(5) f first_stop_history [of "history s"] show ?thesis by auto
qed

text \<open>
  Healthy sources with enough blocks in common: as long as nothing timed out and nobody
  interrupts, the program has exited with 0 or work remains that some step can do.
\<close>

definition numbers :: "'a effect list \<Rightarrow> u64 list" where
  "numbers es = map number (sends es)"

lemma done_exits:
  assumes "conserves cap ecap src s" "replays t s" "work s = 0"
    "errors (src Grpc) = []" "errors (src Peer) = []" "\<forall>sd. distinct (numbers (src sd))"
    "0 < sint t" "sint t \<le> int (card (set (numbers (src Grpc)) \<inter> set (numbers (src Peer))))"
    "Ready_Done \<notin> set (history s)" "unmatched (loop_state s) = 0" "length (history s) < 2 ^ 64"
  shows "exited (loop_state s) = Some 0"
proof -
  have d: "todo s sd = []" "chan s sd = []" for sd using assms(3) by (cases sd; simp add: work_def)+
  have r: "received sd (history s) = sends (src sd)" for sd using assms(1) d by (simp add: conserves_def)
  have f: "failures (history s) = []" using assms(1,4,5) d by (simp add: conserves_def)
  note h = history_inputs [OF f assms(9)]
  have m: "map fst (map (\<lambda>a. (number a, stamp a)) as) = map number as" for as :: "'a list" by simp
  have o: "once (inputs_before_stop input (map event (history s)))"
    using assms(6) by (simp add: once_def h(2) r m numbers_def comp_def)
  have c: "common_blocks (inputs_before_stop input (map event (history s)))
      = set (numbers (src Grpc)) \<inter> set (numbers (src Peer))"
    by (auto simp: common_blocks_def dom_heard h(2) r numbers_def image_image)
  have s: "loop_state s = final t (map event (history s))"
    "schedulable exited (step t) fair (map event (history s)) start"
    using assms(2) by (auto simp: replays_def)
  show ?thesis
    using finishes [OF s(2) _ _ o assms(7)] s(1) assms(8,10,11) c by simp
qed

lemma healthy_completes:
  assumes "(moves t)\<^sup>*\<^sup>* (sys_start src start) s" "proper src"
    "errors (src Grpc) = []" "errors (src Peer) = []" "\<forall>sd. distinct (numbers (src sd))"
    "0 < sint t" "sint t \<le> int (card (set (numbers (src Grpc)) \<inter> set (numbers (src Peer))))"
    "Ready_Done \<notin> set (history s)" "unmatched (loop_state s) = 0" "length (history s) < 2 ^ 64"
  shows "exited (loop_state s) = Some 0 \<or>
    exited (loop_state s) = None \<and> (\<exists>s'. moves t s s' \<and> work s' < work s \<and> Ready_Done \<notin> set (history s'))"
proof -
  have i: "conserves cap ecap src s" "replays t s" using reachable_invariant [OF assms(1,2)] by auto
  have "exited (loop_state s) \<noteq> Some 1"
    using exit_justified [OF assms(1,2,6)] assms(3,4) by auto
  show ?thesis
  proof (cases "exited (loop_state s)")
    case None
    show ?thesis
    proof (cases "work s = 0")
      case True
      with done_exits [OF i True] assms show ?thesis by blast
    next
      case False
      with work_progress [of s exited cap ecap] None room assms(8) show ?thesis by blast
    qed
  next
    case (Some c)
    with exit_justified [OF assms(1,2,6) Some] assms(3,4) show ?thesis by auto
  qed
qed

end


end
