(* ===== verification/Bench_Samples.thy ===== *)
theory Bench_Samples
  imports Bench_Env
begin

text \<open>
  A concrete environment at which the benchmarks' properties are applied: a node that
  commits blocks 7 and 8 on the gRPC stream and announces both over WebSocket.
\<close>

definition sample_notif :: "u64 \<Rightarrow> Notification" where
  "sample_notif n =
     \<lparr>Notification_Event = Some (Notification_ChainCommitted
        \<lparr>ChainCommitted_New = Some
          \<lparr>Chain_Blocks = [(BlockWithReceipts_Reset undefined)
               \<lparr>BlockWithReceipts_Header := Some ((BlockHeader_Reset undefined)\<lparr>BlockHeader_Number := n\<rparr>)\<rparr>],
           Chain_StateDiff = None, Chain_CallTraces = []\<rparr>\<rparr>)\<rparr>"

definition sample_grpc :: grpc_lib where
  "sample_grpc = \<lparr>NewClient_err = (\<lambda>size addr. None),
     Subscribe_result = (\<lambda>addr req. Inr [Recv_Ok (sample_notif 7) 1000 False, Recv_Ok (sample_notif 8) 2000 False])\<rparr>"

text \<open>The texts the node sends: the acknowledgement and the two heads, as \<open>Marshal\<close> writes them.\<close>

definition ack_value :: json where
  "ack_value = JObject [(''jsonrpc'', JString ''2.0''), (''id'', JNumber ''1''), (''result'', JString ''0x1'')]"

definition head_value :: "u64 \<Rightarrow> json" where
  "head_value n = pushed_head ''0x1'' [] n [(''gasUsed'', JString ''0x5208'')]"

definition sample_ws :: ws_lib where
  "sample_ws = \<lparr>Dial_err = (\<lambda>url. None), Write_err = (\<lambda>msg. None), Ack_result = Inr (json_Marshal ack_value),
     Reads = [Read_Ok (json_Marshal (head_value 7)) 1100 (\<lambda>body. Http_Response 200 1040) False False,
              Read_Ok (json_Marshal (head_value 8)) 2100 (\<lambda>body. Http_Response 200 1990) False False]\<rparr>"

lemma sample_texts:
  "json_parse (json_Marshal ack_value) = Some ack_value"
  "json_parse (json_Marshal (head_value n)) = Some (head_value n)"
proof -
  have "is_number ''1''" by (simp add: is_number_1)
  then have "json_fits max_nesting_depth ack_value" by (simp add: ack_value_def max_nesting_depth_def)
  then show "json_parse (json_Marshal ack_value) = Some ack_value" by (rule json_parse_Marshal)
  have "json_fits max_nesting_depth (head_value n)"
    by (simp add: head_value_def pushed_head_def max_nesting_depth_def)
  then show "json_parse (json_Marshal (head_value n)) = Some (head_value n)" by (rule json_parse_Marshal)
qed

text \<open>No further field of the header is a number.\<close>

lemma sample_fields: "\<not> key_is ''gasUsed'' ''number''"
  by (simp add: key_is_def strings_ToLower_def char_lower_def)

lemma sample_notif_tip:
  "tip_of (sample_notif n) =
     Some (the (ChainCommitted_New (case Notification_Event (sample_notif n) of
               Some (Notification_ChainCommitted c) \<Rightarrow> c)),
           (BlockHeader_Reset undefined)\<lparr>BlockHeader_Number := n\<rparr>)"
  by (simp add: tip_of.simps sample_notif_def)

text \<open>A node nobody listens on, and two command lines.\<close>

definition dead_ws :: ws_lib where
  "dead_ws = sample_ws\<lparr>Dial_err := (\<lambda>url. Some ''refused'')\<rparr>"

definition sample_argv :: "string list" where
  "sample_argv = [''--blocks'', ''2'']"

definition negative_argv :: "string list" where
  "negative_argv = [''--blocks'', ''-1'']"


end
