(* ===== verification/Latency_Properties.thy ===== *)
theory Latency_Properties
  imports Latency_System Bench_Samples
begin

text \<open>
  The properties of the latency benchmark, with a sample run: block 7 seen on gRPC and then
  over WebSocket, block 8 the other way round, block 9 only over WebSocket.
\<close>

section \<open>A sample run\<close>

definition sample_events :: "event list" where
  "sample_events =
     [GrpcArrival 0 \<lparr>blockNumber = 7, arrivedAtMs = 1000\<rparr>, WsArrival 5 \<lparr>blockNumber = 7, arrivedAtMs = 1040\<rparr>,
      WsArrival 9 \<lparr>blockNumber = 8, arrivedAtMs = 1990\<rparr>, Tick 10 [8],
      WsArrival 10 \<lparr>blockNumber = 9, arrivedAtMs = 1995\<rparr>,
      GrpcArrival 11 \<lparr>blockNumber = 8, arrivedAtMs = 2000\<rparr>]"

definition sample_deltas :: "i64 list" where
  "sample_deltas = [40, - 10, 5]"

lemmas latency_sample_defs =
  sample_events_def bench_start_def on_grpc_def on_ws_def getOrCreate_def emit_def Let_def finish_def
  on_tick_def tick_entry_def match_timeout_def time_Sub_def time_Second_def

lemma latency_sample_run:
  "schedulable exited (select_step 5) event_fair sample_events bench_start"
  "unmatched (main 5 sample_events) = 0" "exited (main 5 sample_events) = None" "length sample_events = 6"
  by (auto simp: latency_sample_defs main_def)

lemma latency_sample_negative: "schedulable exited (select_step (- 1)) event_fair sample_events bench_start"
  by (auto simp: latency_sample_defs)

lemma latency_sample_once: "once (inputs_before_stop event_input sample_events)"
  by (simp add: once_def sample_events_def)

text \<open>The wholes that two command lines launch, the second with a negative --blocks.\<close>

definition sample_cfg :: "i64 \<Rightarrow> bench_flags" where
  "sample_cfg n = default_flags\<lparr>flag_blocks := n\<rparr>"

definition sample_system :: "(arrival, bench) system" where
  "sample_system = sys_start (goroutines sample_grpc sample_ws (sample_cfg 2)) bench_start"

lemma latency_sample_flags:
  "flag_Parse bench_kind bench_set sample_argv default_flags = Inr (sample_cfg 2, [])"
  "flag_Parse bench_kind bench_set negative_argv default_flags = Inr (sample_cfg (- 1), [])"
  using flag_Parse_value [of bench_kind "''blocks''" bench_set "''2''" "[]" default_flags]
    flag_Parse_value [of bench_kind "''blocks''" bench_set "''-1''" "[]" default_flags]
  by (simp_all add: sample_argv_def negative_argv_def sample_cfg_def bench_kind_def bench_set_def ParseInt_samples)

lemma latency_sample_launch: "launch sample_grpc sample_ws sample_argv = Inr (2, sample_system)"
  by (simp add: launch_def latency_sample_flags sample_cfg_def sample_system_def)

lemma latency_negative_launch:
  "launch sample_grpc dead_ws negative_argv = Inr (- 1, sys_start (goroutines sample_grpc dead_ws (sample_cfg (- 1))) bench_start)"
  by (simp add: launch_def latency_sample_flags sample_cfg_def)

lemma latency_sample_grpc:
  "SubscribeGRPC sample_grpc addr = [Print (''grpc connected: '' @ addr),
     Send \<lparr>blockNumber = 7, arrivedAtMs = 1000\<rparr>, Send \<lparr>blockNumber = 8, arrivedAtMs = 2000\<rparr>]"
  by (simp add: SubscribeGRPC_def sample_grpc_def latency_grpc.loop_Cons latency_grpc.loop_Nil sample_notif_tip)

lemma latency_sample_ws:
  "SubscribeNewHeads sample_ws u = [Print (''ws connected: '' @ u),
     Send \<lparr>blockNumber = 7, arrivedAtMs = 1100\<rparr>, Send \<lparr>blockNumber = 8, arrivedAtMs = 2100\<rparr>]"
proof -
  have "head_number (json_Marshal (head_value n)) = Some n" if "n \<noteq> 0" for n
    using that latency_head_number_pushed [OF sample_texts(2) [unfolded head_value_def], folded head_value_def]
    by (simp add: sample_fields)
  then show ?thesis
    by (simp add: SubscribeNewHeads_def sample_ws_def latency_ws.loop_Cons latency_ws.loop_Nil)
qed

lemma latency_dead_ws: "\<exists>e. SubscribeNewHeads dead_ws u = [Send_Err e, Return]"
  by (simp add: SubscribeNewHeads_def dead_ws_def)

section \<open>Properties\<close>

text \<open>
  C9. What the latency benchmark measures does not depend on how the two goroutines and the
  ticker interleave, provided each side reports a block at most once and --blocks is not 0:
  while it runs, in fewer than 2 ^ 64 events, and no block has timed out, its differences are,
  as a multiset, exactly wsMs - grpcMs over the blocks that both sides have reported. (A block
  that a side reports again after it was matched starts a new match, which then depends on the
  order.)
\<close>

theorem latency_interleaving_irrelevant:
  assumes "blocks \<noteq> 0" "schedulable exited (select_step blocks) event_fair es bench_start"
    "length es < 2 ^ 64" "unmatched (main blocks es) = 0" "exited (main blocks es) = None"
    "once (inputs_before_stop event_input es)"
  shows "mset (deltas (main blocks es)) = common_gaps ws_minus_grpc (inputs_before_stop event_input es)"
  using assms(4,5) unfolding latency_main_runs [OF assms(1)]
  using assms(2,3,6) by (intro latency.interleaving_irrelevant)

theorem latency_interleaving_irrelevant_witness:
  "mset (deltas (main 5 sample_events)) = common_gaps ws_minus_grpc (inputs_before_stop event_input sample_events)"
  by (rule latency_interleaving_irrelevant [OF _ latency_sample_run(1)])
    (simp_all only: latency_sample_run(2-4) latency_sample_once, simp_all)

text \<open>
  A negative --blocks, which this benchmark alone accepts, makes it run for ever: for any
  number of matches below 2 ^ 63 it never ends by itself, only by an error or a signal.
\<close>

theorem latency_negative_target_never_completes:
  assumes "sint blocks < 0" "schedulable exited (select_step blocks) event_fair es bench_start"
    "length es < 2 ^ 63"
  shows "exited (main blocks es) = map_option event_code (first_stop event_input es)"
proof -
  have "blocks \<noteq> 0" using assms(1) by auto
  then show ?thesis
    by (simp only: latency_main_runs latency.never_reaches_negative [OF assms(2,1,3)] simp_thms)
qed

theorem latency_negative_target_never_completes_witness:
  "exited (main (- 1) sample_events) = map_option event_code (first_stop event_input sample_events)"
  by (rule latency_negative_target_never_completes [OF _ latency_sample_negative])
    (simp_all add: latency_sample_run(4))

text \<open>
  C31. The summary line reports the least and the greatest difference recorded and, as long
  as the sum of the differences fits int64, their mean truncated towards zero, which lies
  between the two.
\<close>

theorem latency_printStats_summary:
  assumes "ds \<noteq> []" "fits_i64 (\<Sum>d\<leftarrow>ds. sint d)" "length ds < 2 ^ 63"
  shows "\<exists>minD maxD avg.
    printStats m u ds =
      [''--- results ---'', ''matched='' @ fmt_i64 m @ '' unmatched='' @ fmt_i64 u,
       ''delta min='' @ signPrefix minD @ fmt_i64 minD @ ''ms max='' @ signPrefix maxD @ fmt_i64 maxD @
       ''ms avg='' @ signPrefix avg @ fmt_i64 avg @ ''ms''] \<and>
    minD \<in> set ds \<and> maxD \<in> set ds \<and> (\<forall>d \<in> set ds. sint minD \<le> sint d \<and> sint d \<le> sint maxD) \<and>
    sint avg = (\<Sum>d\<leftarrow>ds. sint d) sdiv int (length ds) \<and> sint minD \<le> sint avg \<and> sint avg \<le> sint maxD"
proof -
  obtain tot minD maxD where s: "stats_scan ds (0, hd ds, hd ds) = (tot, minD, maxD)"
    by (metis prod.exhaust)
  let ?avg = "i64_div tot (of_nat (length ds))"
  have "printStats m u ds =
      [''--- results ---'', ''matched='' @ fmt_i64 m @ '' unmatched='' @ fmt_i64 u,
       ''delta min='' @ signPrefix minD @ fmt_i64 minD @ ''ms max='' @ signPrefix maxD @ fmt_i64 maxD @
       ''ms avg='' @ signPrefix ?avg @ fmt_i64 ?avg @ ''ms'']"
    using assms(1) s by (cases ds) (simp_all add: printStats_def Let_def)
  with latency_stats.scan_stats [OF assms(1) s] latency_stats.scan_average [OF assms(1) s assms(2,3)]
  show ?thesis by blast
qed

theorem latency_printStats_summary_witness:
  "\<exists>minD maxD avg.
    printStats 3 0 sample_deltas =
      [''--- results ---'', ''matched='' @ fmt_i64 3 @ '' unmatched='' @ fmt_i64 0,
       ''delta min='' @ signPrefix minD @ fmt_i64 minD @ ''ms max='' @ signPrefix maxD @ fmt_i64 maxD @
       ''ms avg='' @ signPrefix avg @ fmt_i64 avg @ ''ms''] \<and>
    minD \<in> set sample_deltas \<and> maxD \<in> set sample_deltas \<and>
    (\<forall>d \<in> set sample_deltas. sint minD \<le> sint d \<and> sint d \<le> sint maxD) \<and>
    sint avg = (\<Sum>d\<leftarrow>sample_deltas. sint d) sdiv int (length sample_deltas) \<and>
    sint minD \<le> sint avg \<and> sint avg \<le> sint maxD"
  by (rule latency_printStats_summary) (simp_all add: sample_deltas_def fits_i64_def)

text \<open>
  The gRPC goroutine reports, in order and with the time of their receipt, exactly the
  tips of the committed chains it receives that carry a header, up to the item that ends it;
  every other notification is ignored.
\<close>

theorem latency_grpc_reports_tips:
  "sends (grpc_loop items) =
     List.map_filter
       (\<lambda>i. map_option (\<lambda>(chain, header). \<lparr>blockNumber = BlockHeader_Number header, arrivedAtMs = recv_ms i\<rparr>)
              (tip_of (recv_notif i)))
       (takeWhile (\<lambda>i. \<not> grpc_ends i) items) \<and>
   (\<forall>notif chain header. tip_of notif = Some (chain, header) \<longleftrightarrow> reports_tip notif chain header)"
proof -
  have "concat (map (sends \<circ> grpc_body) is) =
     List.map_filter
       (\<lambda>i. map_option (\<lambda>(chain, header). \<lparr>blockNumber = BlockHeader_Number header, arrivedAtMs = recv_ms i\<rparr>)
              (tip_of (recv_notif i))) is" if "\<forall>i \<in> set is. \<not> grpc_ends i" for "is"
    using that
  proof (induction "is")
    case (Cons i "is")
    then show ?case by (cases i) (auto simp: List.map_filter_simps split: option.splits)
  qed (simp add: List.map_filter_simps)
  moreover have "\<forall>i \<in> set (takeWhile (\<lambda>i. \<not> grpc_ends i) items). \<not> grpc_ends i"
    by (auto dest: set_takeWhileD)
  ultimately show ?thesis by (simp add: latency_grpc.sends_loop tip_of_iff)
qed

text \<open>
  C36. When the node announces a new head, with whatever further header fields, the
  WebSocket goroutine reports exactly that block, stamped when the message was read, and
  goes on.
\<close>

theorem latency_ws_reports_head:
  assumes "json_parse msg = Some (pushed_head sub before n after)"
    "\<forall>kv \<in> set (before @ after). \<not> key_is (fst kv) ''number''" "n \<noteq> 0"
  shows "ws_loop (Read_Ok msg now http ctx_done False # is) =
    Send \<lparr>blockNumber = n, arrivedAtMs = now\<rparr> # ws_loop is"
  using latency_head_number_pushed [of msg sub before n after] assms by (simp add: latency_ws.loop_Cons)

theorem latency_ws_reports_head_witness:
  "ws_loop (Read_Ok (json_Marshal (head_value 7)) 1100 (\<lambda>body. Http_Do_Fail '''') True False # []) =
    Send \<lparr>blockNumber = 7, arrivedAtMs = 1100\<rparr> # ws_loop []"
  by (rule latency_ws_reports_head [OF sample_texts(2) [unfolded head_value_def], folded head_value_def])
    (simp_all add: sample_fields)

text \<open>
  The output of a run of the latency benchmark is one line per match and per timeout,
  followed, exactly when the exit code is 0, by the summary of the final counters.
\<close>

theorem latency_output:
  "\<exists>log. stdout (main blocks es) =
      log @ (if exited (main blocks es) = Some 0
             then printStats (matched (main blocks es)) (unmatched (main blocks es)) (deltas (main blocks es))
             else []) \<and>
    of_nat (length log) = matched (main blocks es) + unmatched (main blocks es)"
  using latency_reported_main [of blocks es] by (simp add: reported_def)

text \<open>
  C10. The whole latency benchmark loses, invents and reorders nothing: in every reachable
  state of its goroutines, channels and main loop, what main has received from a side, what
  the side's channel holds and what its goroutine will still send are together exactly what
  the goroutine sends, in order; the errors are conserved; no channel holds more than its
  buffer; and main's state is that of main on the events it has taken.
\<close>

theorem latency_system_conserves:
  assumes "launch lib wlib argv = Inr (target, s0)" "(system_step target)\<^sup>*\<^sup>* s0 s" "stamped (todo s0)"
  shows "received sd (history s) @ chan s sd @ sends (todo s sd) = sends (todo s0 sd) \<and>
    mset (failures (history s)) + mset (errCh s) + mset (errors (todo s Grpc)) + mset (errors (todo s Peer))
      = mset (errors (todo s0 Grpc)) + mset (errors (todo s0 Peer)) \<and>
    length (chan s sd) \<le> chCapacity \<and> length (errCh s) \<le> errChCapacity \<and>
    loop_state s = main_args argv (map ready_event (history s))"
  using latency_system_main [OF assms] by (auto simp: conserves_def)

theorem latency_system_conserves_witness:
  "\<exists>s. (system_step 2)\<^sup>*\<^sup>* sample_system s \<and> history s = [Ready_Arrival Grpc 0 \<lparr>blockNumber = 7, arrivedAtMs = 1000\<rparr>] \<and>
     received Grpc (history s) @ chan s Grpc @ sends (todo s Grpc) = sends (todo sample_system Grpc) \<and>
     loop_state s = main_args sample_argv (map ready_event (history s))"
proof -
  have t: "todo sample_system = goroutines sample_grpc sample_ws (sample_cfg 2)"
    by (simp add: sample_system_def sys_start_def)
  have "stamped (todo sample_system)"
    by (simp add: stamped_def all_sides t latency_sample_grpc latency_sample_ws)
  moreover have "\<exists>s. (system_step 2)\<^sup>*\<^sup>* sample_system s \<and>
      history s = history sample_system @ [Ready_Arrival Grpc 0 \<lparr>blockNumber = 7, arrivedAtMs = 1000\<rparr>] \<and>
      loop_state s = select_step 2 (ready_event (Ready_Arrival Grpc 0 \<lparr>blockNumber = 7, arrivedAtMs = 1000\<rparr>)) (loop_state sample_system)"
    unfolding system_step_def
    by (rule first_arrival_received [where line = "''grpc connected: '' @ flag_grpc (sample_cfg 2)"])
      (simp_all only: t, simp_all add: latency_sample_grpc sample_system_def sys_start_def bench_start_def chCapacity_def)
  then obtain s where s: "(system_step 2)\<^sup>*\<^sup>* sample_system s"
    "history s = [Ready_Arrival Grpc 0 \<lparr>blockNumber = 7, arrivedAtMs = 1000\<rparr>]"
    by (auto simp: sample_system_def sys_start_def)
  ultimately show ?thesis using latency_system_conserves [OF latency_sample_launch s(1)] by blast
qed

text \<open>
  C34. A negative --blocks, which this benchmark alone accepts, makes the whole program run for
  ever: in every reachable state, whatever the schedule, it has exited only because of a
  goroutine's error or of an interrupt, however many blocks matched.
\<close>

theorem latency_negative_system_never_completes:
  assumes "launch lib wlib argv = Inr (target, s0)" "sint target < 0" "(system_step target)\<^sup>*\<^sup>* s0 s"
    "stamped (todo s0)" "length (history s) < 2 ^ 63" "exited (loop_state s) = Some c"
  shows "c = 1 \<and> (errors (todo s0 Grpc) \<noteq> [] \<or> errors (todo s0 Peer) \<noteq> []) \<or> c = 0 \<and> Ready_Done \<in> set (history s)"
proof -
  obtain cfg where l: "s0 = sys_start (goroutines lib wlib cfg) bench_start"
    using latency_launch [OF assms(1)] by metis
  then have src: "todo s0 = goroutines lib wlib cfg" by (simp add: sys_start_def)
  have "latency_sys.proper (goroutines lib wlib cfg)" using latency_proper assms(4) src by simp
  from latency_sys.negative_never_completes [OF assms(3) [unfolded l system_step_def] this assms(2,5,6)]
  show ?thesis unfolding src .
qed

theorem latency_negative_system_never_completes_witness:
  "\<exists>s e. (system_step (- 1))\<^sup>*\<^sup>* (sys_start (goroutines sample_grpc dead_ws (sample_cfg (- 1))) bench_start) s \<and>
     history s = [Ready_Err e] \<and> exited (loop_state s) = Some 1 \<and>
     (errors (SubscribeGRPC sample_grpc ''127.0.0.1:10000'') \<noteq> [] \<or> errors (SubscribeNewHeads dead_ws ''ws://127.0.0.1:8546'') \<noteq> [])"
proof -
  let ?s = "sys_start (goroutines sample_grpc dead_ws (sample_cfg (- 1))) bench_start"
  obtain e where e: "SubscribeNewHeads dead_ws (flag_ws (sample_cfg (- 1))) = [Send_Err e, Return]"
    using latency_dead_ws by blast
  have "stamped (todo ?s)"
    by (simp add: stamped_def all_sides sys_start_def latency_sample_grpc e)
  moreover have "\<exists>s. (system_step (- 1))\<^sup>*\<^sup>* ?s s \<and> history s = history ?s @ [Ready_Err e] \<and>
      loop_state s = select_step (- 1) (ready_event (Ready_Err e)) (loop_state ?s)"
    unfolding system_step_def
    by (rule first_error_received [where sd = Peer and effs = "[Return]"])
      (simp_all add: e sys_start_def bench_start_def errChCapacity_def)
  then obtain s where s: "(system_step (- 1))\<^sup>*\<^sup>* ?s s" "history s = [Ready_Err e]"
      "loop_state s = select_step (- 1) (Err e) bench_start"
    by (auto simp: sys_start_def)
  moreover have "exited (loop_state s) = Some 1" using s(3) by (simp add: on_err_def)
  ultimately show ?thesis
    using latency_negative_system_never_completes [OF latency_negative_launch _ s(1), of 1]
    by (auto simp: sys_start_def sample_cfg_def default_flags_def defaultGRPC_def defaultWS_def)
qed


text \<open>
  C35. No block waits for its second sighting longer than matchTimeout and one scan interval: in
  a run that is still going and whose ticks come at most timeoutScanInterval apart, every
  pending entry is at most 11 seconds old at the time of the last event.
\<close>

theorem latency_pending_age_bounded:
  assumes "blocks \<noteq> 0" "schedulable exited (select_step blocks) event_fair es bench_start"
    "exited (main blocks es) = None" "on_time timeoutScanInterval t0 t0 (inputs_before_stop event_input es)"
    "pending (main blocks es) k = Some p"
  shows "last_time t0 (inputs_before_stop event_input es) - since p \<le> matchTimeout + timeoutScanInterval"
  using assms unfolding latency_main_runs [OF assms(1)] by (intro latency_pending_age)

text \<open>Block 9, seen at two seconds, still waits after the tick at twelve.\<close>

definition waiting_events :: "event list" where
  "waiting_events = map (\<lambda>n. Tick (int n * time_Second) []) [1..<3] @
     [WsArrival (2 * time_Second) \<lparr>blockNumber = 9, arrivedAtMs = 1995\<rparr>] @
     map (\<lambda>n. Tick (int n * time_Second) [9]) [3..<13]"

theorem latency_pending_age_bounded_witness:
  "pending (main 5 waiting_events) 9 = Some \<lparr>wsMs = 1995, grpcMs = 0, since = 2 * time_Second\<rparr> \<and>
   last_time 0 (inputs_before_stop event_input waiting_events) - since \<lparr>wsMs = 1995, grpcMs = 0, since = 2 * time_Second\<rparr>
     \<le> matchTimeout + timeoutScanInterval"
proof -
  have e: "waiting_events = [Tick time_Second [], Tick (2 * time_Second) [],
      WsArrival (2 * time_Second) \<lparr>blockNumber = 9, arrivedAtMs = 1995\<rparr>,
      Tick (3 * time_Second) [9], Tick (4 * time_Second) [9], Tick (5 * time_Second) [9], Tick (6 * time_Second) [9],
      Tick (7 * time_Second) [9], Tick (8 * time_Second) [9], Tick (9 * time_Second) [9], Tick (10 * time_Second) [9],
      Tick (11 * time_Second) [9], Tick (12 * time_Second) [9]]"
    by (simp add: waiting_events_def upt_rec numeral_eq_Suc)
  have s: "schedulable exited (select_step 5) event_fair waiting_events bench_start"
    "exited (main 5 waiting_events) = None"
    "pending (main 5 waiting_events) 9 = Some \<lparr>wsMs = 1995, grpcMs = 0, since = 2 * time_Second\<rparr>"
    by (simp_all add: e main_def latency_sample_defs)
  have "on_time timeoutScanInterval 0 0 (inputs_before_stop event_input waiting_events)"
    by (simp add: e timeoutScanInterval_def time_Second_def)
  with latency_pending_age_bounded [OF _ s(1,2) _ s(3)] s(3) show ?thesis by simp
qed


end
