(* ===== verification/Receipts_Bench.thy ===== *)
theory Receipts_Bench
  imports Bench_Loop Go_Flag
begin

text \<open>
  \<open>src/examples/go-receipts-bench/main.go\<close>: the main loop that pairs, per block, the arrival
  of the ExEx notification (gRPC) with the arrival of the receipts over JSON-RPC.

  One \<open>event\<close> is one ready case of the \<open>select\<close>: a value received from a channel, with the
  clock reading the handler takes, or a tick, with the order in which the runtime iterates
  over the map. Output is the list of lines written.
\<close>

section \<open>Data\<close>

record arrival =
  blockNumber :: u64
  arrivedAtMs :: i64

record partialArrival =
  grpcMs :: i64
  rpcMs :: i64
  since :: instant

record bench =
  pending :: "u64 \<rightharpoonup> partialArrival"
  matched :: i64
  unmatched :: i64
  deltas :: "i64 list"
  stdout :: "string list"
  stderr :: "string list"
  exited :: "nat option"

section \<open>Constants\<close>

definition defaultWS :: string where
  "defaultWS = ''ws://127.0.0.1:8546''"

definition defaultGRPC :: string where
  "defaultGRPC = ''127.0.0.1:10000''"

definition defaultRPC :: string where
  "defaultRPC = ''http://127.0.0.1:8545''"

definition defaultBlocks :: i64 where
  "defaultBlocks = 10"

definition matchTimeout :: duration where
  "matchTimeout = 10 * time_Second"

definition timeoutScanInterval :: duration where
  "timeoutScanInterval = time_Second"

text \<open>The timeout of the abstract matcher is the program's.\<close>

lemma receipts_matchTimeout [simp]: "matchTimeout = match_timeout"
  by (simp add: matchTimeout_def match_timeout_def)

section \<open>Reporting\<close>

definition signPrefix :: "i64 \<Rightarrow> string" where
  "signPrefix v = (if 0 \<le> sint v then ''+'' else '''')"

text \<open>The loop of \<open>printStats\<close> over the differences: sum, minimum, maximum.\<close>

fun stats_scan :: "i64 list \<Rightarrow> i64 \<times> i64 \<times> i64 \<Rightarrow> i64 \<times> i64 \<times> i64" where
  "stats_scan [] acc = acc"
| "stats_scan (d # ds) (tot, minD, maxD) =
     stats_scan ds (tot + d, if i64_less d minD then d else minD, if i64_less maxD d then d else maxD)"

definition printStats :: "i64 \<Rightarrow> i64 \<Rightarrow> i64 list \<Rightarrow> string list" where
  "printStats nMatched nUnmatched deltaList =
     [''--- results ---'', ''matched='' @ fmt_i64 nMatched @ '' unmatched='' @ fmt_i64 nUnmatched] @
     (case deltaList of
        [] \<Rightarrow> [''(no data)'']
      | d # ds \<Rightarrow>
          let (tot, minD, maxD) = stats_scan (d # ds) (0, d, d);
              avg = i64_div tot (of_nat (length (d # ds)))
          in [''delta min='' @ signPrefix minD @ fmt_i64 minD @
              ''ms max='' @ signPrefix maxD @ fmt_i64 maxD @
              ''ms avg='' @ signPrefix avg @ fmt_i64 avg @ ''ms''])"

definition emit ::
  "u64 \<Rightarrow> i64 \<Rightarrow> i64 \<Rightarrow> i64 \<Rightarrow> i64 \<Rightarrow> i64 list \<Rightarrow> string \<times> i64 \<times> i64 \<times> i64 list" where
  "emit blockNum grpc rpc nMatched nUnmatched deltaList =
    (let deltaMs = grpc - rpc;
         sign = (if sint deltaMs < 0 then '''' else ''+'')
     in (''block='' @ fmt_u64 blockNum @ '' grpc='' @ fmt_i64 grpc @ ''ms rpc='' @ fmt_i64 rpc @
         ''ms delta='' @ sign @ fmt_i64 deltaMs @ ''ms'',
         nMatched + 1, nUnmatched, deltaList @ [deltaMs]))"

section \<open>The main loop\<close>

definition getOrCreate ::
  "(u64 \<rightharpoonup> partialArrival) \<Rightarrow> instant \<Rightarrow> u64 \<Rightarrow> partialArrival \<times> (u64 \<rightharpoonup> partialArrival)" where
  "getOrCreate pend now blockNum =
    (case pend blockNum of
       Some p \<Rightarrow> (p, pend)
     | None \<Rightarrow> (let p = \<lparr>grpcMs = 0, rpcMs = 0, since = now\<rparr> in (p, pend(blockNum \<mapsto> p))))"

definition finish :: "bench \<Rightarrow> bench" where
  "finish s = s\<lparr>stdout := stdout s @ printStats (matched s) (unmatched s) (deltas s), exited := Some 0\<rparr>"

definition on_err :: "string \<Rightarrow> bench \<Rightarrow> bench" where
  "on_err err s = s\<lparr>stderr := stderr s @ [''error: '' @ err], exited := Some 1\<rparr>"

definition on_grpc :: "i64 \<Rightarrow> instant \<Rightarrow> arrival \<Rightarrow> bench \<Rightarrow> bench" where
  "on_grpc target now a s =
    (let (p0, pend0) = getOrCreate (pending s) now (blockNumber a);
         p = p0\<lparr>grpcMs := arrivedAtMs a\<rparr>;
         pend = pend0(blockNumber a \<mapsto> p)
     in if rpcMs p \<noteq> 0 then
          let (line, matched', unmatched', deltas') =
                emit (blockNumber a) (grpcMs p) (rpcMs p) (matched s) (unmatched s) (deltas s);
              s' = s\<lparr>pending := pend(blockNumber a := None), matched := matched',
                     unmatched := unmatched', deltas := deltas', stdout := stdout s @ [line]\<rparr>
          in if matched' = target then finish s' else s'
        else s\<lparr>pending := pend\<rparr>)"

definition on_rpc :: "i64 \<Rightarrow> instant \<Rightarrow> arrival \<Rightarrow> bench \<Rightarrow> bench" where
  "on_rpc target now a s =
    (let (p0, pend0) = getOrCreate (pending s) now (blockNumber a);
         p = p0\<lparr>rpcMs := arrivedAtMs a\<rparr>;
         pend = pend0(blockNumber a \<mapsto> p)
     in if grpcMs p \<noteq> 0 then
          let (line, matched', unmatched', deltas') =
                emit (blockNumber a) (grpcMs p) (rpcMs p) (matched s) (unmatched s) (deltas s);
              s' = s\<lparr>pending := pend(blockNumber a := None), matched := matched',
                     unmatched := unmatched', deltas := deltas', stdout := stdout s @ [line]\<rparr>
          in if matched' = target then finish s' else s'
        else s\<lparr>pending := pend\<rparr>)"

text \<open>One iteration of the loop over \<open>pending\<close>, and the loop in the order of the runtime.\<close>

definition timeout_line :: "u64 \<Rightarrow> partialArrival \<Rightarrow> string" where
  "timeout_line blockNum p =
     ''block='' @ fmt_u64 blockNum @ '' timeout (grpc='' @ fmt_bool (grpcMs p \<noteq> 0) @
     '' rpc='' @ fmt_bool (rpcMs p \<noteq> 0) @ '')''"

definition tick_entry :: "instant \<Rightarrow> u64 \<Rightarrow> bench \<Rightarrow> bench" where
  "tick_entry now blockNum s =
    (case pending s blockNum of
       None \<Rightarrow> s
     | Some p \<Rightarrow>
         if matchTimeout < time_Sub now (since p) then
           s\<lparr>stdout := stdout s @ [timeout_line blockNum p], unmatched := unmatched s + 1,
             pending := (pending s)(blockNum := None)\<rparr>
         else s)"

definition on_tick :: "instant \<Rightarrow> u64 list \<Rightarrow> bench \<Rightarrow> bench" where
  "on_tick now order s = fold (tick_entry now) order s"

datatype event =
    Err string
  | GrpcArrival instant arrival
  | RpcArrival instant arrival
  | Tick instant "u64 list"
  | CtxDone

fun select_step :: "i64 \<Rightarrow> event \<Rightarrow> bench \<Rightarrow> bench" where
  "select_step target (Err err) s = on_err err s"
| "select_step target (GrpcArrival now a) s = on_grpc target now a s"
| "select_step target (RpcArrival now a) s = on_rpc target now a s"
| "select_step target (Tick now order) s = on_tick now order s"
| "select_step target CtxDone s = finish s"

text \<open>The state in which \<open>main\<close> enters its loop, and \<open>main\<close> for a value of \<open>--blocks\<close>.\<close>

definition bench_start :: bench where
  "bench_start = \<lparr>pending = Map.empty, matched = 0, unmatched = 0, deltas = [], stdout = [], stderr = [],
     exited = None\<rparr>"

definition main :: "i64 \<Rightarrow> event list \<Rightarrow> bench" where
  "main blocks es =
    (if sint blocks < 0 then
       bench_start\<lparr>stderr := [''error: --blocks must be >= 0, got '' @ fmt_i64 blocks], exited := Some 1\<rparr>
     else if blocks = 0 then bench_start\<lparr>stdout := printStats 0 0 [], exited := Some 0\<rparr>
     else main_loop exited (select_step blocks) es bench_start)"

text \<open>The command line, and \<open>main\<close> from its arguments.\<close>

record bench_flags =
  flag_grpc :: string
  flag_ws :: string
  flag_rpc :: string
  flag_blocks :: i64

definition default_flags :: bench_flags where
  "default_flags = \<lparr>flag_grpc = defaultGRPC, flag_ws = defaultWS, flag_rpc = defaultRPC, flag_blocks = defaultBlocks\<rparr>"

definition bench_kind :: "string \<Rightarrow> flag_kind option" where
  "bench_kind name = (if name \<in> {''grpc'', ''ws'', ''rpc'', ''blocks''} then Some Flag_Value else None)"

definition bench_set :: "string \<Rightarrow> string \<Rightarrow> bench_flags \<Rightarrow> bench_flags option" where
  "bench_set name v cfg =
    (if name = ''grpc'' then Some (cfg\<lparr>flag_grpc := v\<rparr>)
     else if name = ''ws'' then Some (cfg\<lparr>flag_ws := v\<rparr>)
     else if name = ''rpc'' then Some (cfg\<lparr>flag_rpc := v\<rparr>)
     else (case strconv_ParseInt v of Inl e \<Rightarrow> None | Inr n \<Rightarrow> Some (cfg\<lparr>flag_blocks := n\<rparr>)))"

definition main_args :: "string list \<Rightarrow> event list \<Rightarrow> bench" where
  "main_args argv es =
    (case flag_Parse bench_kind bench_set argv default_flags of
       Inl code \<Rightarrow> bench_start\<lparr>exited := Some code\<rparr>
     | Inr (cfg, args) \<Rightarrow> main (flag_blocks cfg) es)"

section \<open>Refinement\<close>

text \<open>A pending entry has heard exactly one side, recognised by its non-zero time.\<close>

definition seen :: "partialArrival \<Rightarrow> side \<times> i64 \<times> instant" where
  "seen p = (if rpcMs p = 0 then (Grpc, grpcMs p, since p) else (Peer, rpcMs p, since p))"

definition one_sided :: "partialArrival \<Rightarrow> bool" where
  "one_sided p \<longleftrightarrow> (grpcMs p = 0) \<noteq> (rpcMs p = 0)"

definition tracks :: "bench \<Rightarrow> matcher \<Rightarrow> bool" where
  "tracks s m \<longleftrightarrow>
     (\<forall>k. waiting m k = map_option seen (pending s k)) \<and>
     (\<forall>k p. pending s k = Some p \<longrightarrow> one_sided p) \<and>
     finite (dom (pending s)) \<and>
     deltas s = gaps m \<and> matched s = of_nat (length (gaps m)) \<and> unmatched s = of_nat (lost m)"

fun event_input :: "event \<Rightarrow> input option" where
  "event_input (GrpcArrival now a) = Some (Arrive Grpc now (blockNumber a) (arrivedAtMs a))"
| "event_input (RpcArrival now a) = Some (Arrive Peer now (blockNumber a) (arrivedAtMs a))"
| "event_input (Tick now order) = Some (Scan now)"
| "event_input (Err err) = None"
| "event_input CtxDone = None"

fun event_code :: "event \<Rightarrow> nat" where
  "event_code (Err err) = 1"
| "event_code _ = 0"

text \<open>
  What the runtime guarantees: no source stamps an arrival with the epoch itself (0 is the
  program's mark for "not yet arrived"), and iterating over the map visits every key once.
\<close>

fun event_fair :: "event \<Rightarrow> bench \<Rightarrow> bool" where
  "event_fair (GrpcArrival now a) s = (arrivedAtMs a \<noteq> 0)"
| "event_fair (RpcArrival now a) s = (arrivedAtMs a \<noteq> 0)"
| "event_fair (Tick now order) s = (distinct order \<and> set order = dom (pending s))"
| "event_fair _ s = True"

lemma receipts_getOrCreate_entry:
  "pend k = None \<Longrightarrow> getOrCreate pend now k =
     (\<lparr>grpcMs = 0, rpcMs = 0, since = now\<rparr>, pend(k \<mapsto> \<lparr>grpcMs = 0, rpcMs = 0, since = now\<rparr>))"
  "pend k = Some p \<Longrightarrow> getOrCreate pend now k = (p, pend)"
  by (simp_all add: getOrCreate_def Let_def)

lemmas receipts_handlers [bench_defs] =
  on_grpc_def on_rpc_def emit_def finish_def Let_def receipts_getOrCreate_entry spec_arrive_def tracks_def seen_def
  one_sided_def reached_def

lemma receipts_on_grpc_tracks:
  assumes "tracks s m" "exited s = None" "arrivedAtMs a \<noteq> 0" "\<not> reached t m"
  shows "tracks (on_grpc t now a s) (spec_arrive (-) Grpc now (blockNumber a) (arrivedAtMs a) m)
    \<and> exited (on_grpc t now a s) =
      (if reached t (spec_arrive (-) Grpc now (blockNumber a) (arrivedAtMs a) m) then Some 0 else None)"
proof (cases "pending s (blockNumber a)")
  case None
  with assms show ?thesis by (auto simp: bench_defs)
next
  case (Some p)
  with assms(1) have w: "waiting m (blockNumber a) = Some (seen p)" "one_sided p"
    by (auto simp: tracks_def)
  show ?thesis
  proof (cases "rpcMs p = 0")
    case True
    with assms Some w show ?thesis by (auto simp: bench_defs)
  next
    case False
    with assms Some w show ?thesis by (auto simp: bench_defs ac_simps)
  qed
qed

lemma receipts_on_rpc_tracks:
  assumes "tracks s m" "exited s = None" "arrivedAtMs a \<noteq> 0" "\<not> reached t m"
  shows "tracks (on_rpc t now a s) (spec_arrive (-) Peer now (blockNumber a) (arrivedAtMs a) m)
    \<and> exited (on_rpc t now a s) =
      (if reached t (spec_arrive (-) Peer now (blockNumber a) (arrivedAtMs a) m) then Some 0 else None)"
proof (cases "pending s (blockNumber a)")
  case None
  with assms show ?thesis by (auto simp: bench_defs)
next
  case (Some p)
  with assms(1) have w: "waiting m (blockNumber a) = Some (seen p)" "one_sided p"
    by (auto simp: tracks_def)
  show ?thesis
  proof (cases "grpcMs p = 0")
    case True
    with assms Some w show ?thesis by (auto simp: bench_defs)
  next
    case False
    with assms Some w show ?thesis by (auto simp: bench_defs ac_simps)
  qed
qed

text \<open>The loop over \<open>pending\<close>, entry by entry: what it deletes, counts and prints.\<close>

definition expired :: "instant \<Rightarrow> bench \<Rightarrow> u64 \<Rightarrow> bool" where
  "expired now s k = (case pending s k of None \<Rightarrow> False | Some p \<Rightarrow> match_timeout < time_Sub now (since p))"

lemma receipts_tick_entry_effect:
  "tick_entry now k s =
    (if expired now s k then
       s\<lparr>stdout := stdout s @ [timeout_line k (the (pending s k))], unmatched := unmatched s + 1,
         pending := (pending s)(k := None)\<rparr>
     else s)"
  by (simp add: tick_entry_def expired_def split: option.split)

lemma receipts_expired_other: "b \<noteq> k \<Longrightarrow> expired now (tick_entry now k s) b = expired now s b"
  by (simp add: receipts_tick_entry_effect) (simp add: expired_def)

lemma receipts_on_tick_effect:
  "distinct order \<Longrightarrow> on_tick now order s =
    s\<lparr>pending := (\<lambda>k. if k \<in> set order \<and> expired now s k then None else pending s k),
      unmatched := unmatched s + of_nat (length (filter (expired now s) order)),
      stdout := stdout s @ map (\<lambda>k. timeout_line k (the (pending s k))) (filter (expired now s) order)\<rparr>"
proof (induction order arbitrary: s)
  case Nil
  show ?case by (simp add: on_tick_def)
next
  case (Cons k order)
  let ?s = "tick_entry now k s"
  have k: "k \<notin> set order" and d: "distinct order" using Cons.prems by auto
  have step: "on_tick now (k # order) s = on_tick now order ?s"
    by (simp add: on_tick_def)
  have f: "filter (expired now ?s) order = filter (expired now s) order"
    using k receipts_expired_other by (intro filter_cong) metis+
  have lines: "map (\<lambda>b. timeout_line b (the (pending ?s b))) (filter (expired now s) order)
    = map (\<lambda>b. timeout_line b (the (pending s b))) (filter (expired now s) order)"
    using k by (intro map_cong) (auto simp: receipts_tick_entry_effect)
  have left: "(if b \<in> set order \<and> expired now ?s b then None else pending ?s b)
    = (if b \<in> set (k # order) \<and> expired now s b then None else pending s b)" for b
    using k receipts_expired_other [of b k now s] by (cases "b = k") (auto simp: receipts_tick_entry_effect)
  show ?case
    unfolding step Cons.IH [OF d] f lines left by (simp add: receipts_tick_entry_effect)
qed

lemma receipts_expired_overdue:
  "tracks s m \<Longrightarrow> expired now s k \<longleftrightarrow> k \<in> overdue_blocks now m"
  by (cases "pending s k")
    (auto simp: tracks_def expired_def overdue_blocks_def overdue_def seen_def split: if_splits)

lemma receipts_on_tick_tracks:
  assumes "tracks s m" "exited s = None" "distinct order" "set order = dom (pending s)" "\<not> reached t m"
  shows "tracks (on_tick now order s) (spec_scan now m)
    \<and> exited (on_tick now order s) = (if reached t (spec_scan now m) then Some 0 else None)"
proof -
  have dom: "dom (pending s) = dom (waiting m)" using assms(1) by (auto simp: tracks_def dom_def)
  have "set (filter (expired now s) order) = overdue_blocks now m"
    using receipts_expired_overdue [OF assms(1)] overdue_blocks_subset [of now m] assms(4) dom by auto
  then have n: "length (filter (expired now s) order) = card (overdue_blocks now m)"
    using assms(3) by (metis distinct_card distinct_filter)
  have e: "k \<in> set order \<and> expired now s k \<longleftrightarrow> k \<in> overdue_blocks now m" for k
    using receipts_expired_overdue [OF assms(1)] overdue_blocks_subset [of now m] assms(4) dom by auto
  have "finite (dom (\<lambda>k. if k \<in> overdue_blocks now m then None else pending s k))"
    using assms(1) by (auto simp: tracks_def dom_if_None)
  with assms(1,2,5) show ?thesis
    unfolding receipts_on_tick_effect [OF assms(3)] e n
    by (auto simp: tracks_def spec_scan_def reached_def split: if_splits)
qed

text \<open>The order in which the runtime iterates does not matter, up to the order of the lines.\<close>

lemma receipts_on_tick_order:
  assumes "distinct order" "distinct order'" "set order' = set order"
  shows "on_tick now order' s = on_tick now order s\<lparr>stdout := stdout (on_tick now order' s)\<rparr>"
    "mset (stdout (on_tick now order' s)) = mset (stdout (on_tick now order s))"
proof -
  have m: "mset order' = mset order" using assms by (metis set_eq_iff_mset_eq_distinct)
  then have l: "length (filter P order') = length (filter P order)" for P
    by (metis mset_filter size_mset)
  show "on_tick now order' s = on_tick now order s\<lparr>stdout := stdout (on_tick now order' s)\<rparr>"
    unfolding receipts_on_tick_effect [OF assms(1)] receipts_on_tick_effect [OF assms(2)] assms(3) l by simp
  show "mset (stdout (on_tick now order' s)) = mset (stdout (on_tick now order s))"
    unfolding receipts_on_tick_effect [OF assms(1)] receipts_on_tick_effect [OF assms(2)]
    using m by (simp add: mset_filter)
qed

interpretation receipts: two_sided_bench "(-)" bench_start select_step exited deltas unmatched
  event_input event_code event_fair tracks
proof unfold_locales
  show "tracks bench_start idle_matcher"
    by (simp add: tracks_def bench_start_def idle_matcher_def)
  show "exited bench_start = None" by (simp add: bench_start_def)
  show "deltas s = gaps m \<and> unmatched s = of_nat (lost m)" if "tracks s m" for s m
    using that by (simp add: tracks_def)
  show "tracks (select_step t e s) (spec_step (-) i m) \<and>
      exited (select_step t e s) = (if reached t (spec_step (-) i m) then Some 0 else None)"
    if "tracks s m" "exited s = None" "\<not> reached t m" "event_fair e s" "event_input e = Some i" for s m t e i
    using that receipts_on_grpc_tracks receipts_on_rpc_tracks receipts_on_tick_tracks by (cases e) auto
  show "tracks (select_step t e s) m \<and> exited (select_step t e s) = Some (event_code e)"
    if "tracks s m" "exited s = None" "event_input e = None" for s m e t
    using that by (cases e) (auto simp: tracks_def on_err_def finish_def)
qed

interpretation receipts_stats: stats_reporter stats_scan
  by unfold_locales simp_all

lemma receipts_main_runs: "0 < sint blocks \<Longrightarrow> main blocks es = receipts.final blocks es"
  by (auto simp: main_def)

text \<open>
  The output of a run: one line per match and per timeout, and then, exactly when the exit
  code is 0, the summary of the final counters.
\<close>

definition reported :: "bench \<Rightarrow> bool" where
  "reported s \<longleftrightarrow>
    (\<exists>log. stdout s =
        log @ (if exited s = Some 0 then printStats (matched s) (unmatched s) (deltas s) else []) \<and>
      of_nat (length log) = matched s + unmatched s)"

lemma receipts_reported_running:
  "exited s = None \<Longrightarrow> reported s \<longleftrightarrow> of_nat (length (stdout s)) = matched s + unmatched s"
  by (auto simp: reported_def)

lemma receipts_reported_finish: "exited s = None \<Longrightarrow> reported s \<Longrightarrow> reported (finish s)"
  by (auto simp: reported_def finish_def)

lemma receipts_reported_tick:
  "exited s = None \<Longrightarrow> reported s \<Longrightarrow> reported (on_tick now order s) \<and> exited (on_tick now order s) = None"
proof (induction order arbitrary: s)
  case (Cons k order)
  have "reported (tick_entry now k s) \<and> exited (tick_entry now k s) = None"
    using Cons.prems by (simp add: receipts_tick_entry_effect receipts_reported_running algebra_simps)
  with Cons.IH [of "tick_entry now k s"] show ?case by (simp add: on_tick_def)
qed (simp add: on_tick_def)

lemma receipts_reported_step:
  assumes "reported s" "exited s = None"
  shows "reported (select_step t e s)"
proof (cases e)
  case (GrpcArrival now a)
  with assms show ?thesis
    by (auto simp: on_grpc_def emit_def Let_def receipts_reported_running algebra_simps
        intro!: receipts_reported_finish split: prod.split)
next
  case (RpcArrival now a)
  with assms show ?thesis
    by (auto simp: on_rpc_def emit_def Let_def receipts_reported_running algebra_simps
        intro!: receipts_reported_finish split: prod.split)
next
  case (Tick now order)
  with assms receipts_reported_tick show ?thesis by simp
next
  case (Err err)
  with assms show ?thesis by (auto simp: on_err_def reported_def)
next
  case CtxDone
  with assms receipts_reported_finish show ?thesis by simp
qed

lemma receipts_reported_main: "reported (main blocks es)"
proof -
  have "reported bench_start" by (simp add: reported_def bench_start_def)
  then have "reported (main_loop exited (select_step blocks) es bench_start)"
    by (rule run_until_invariant) (auto intro: receipts_reported_step)
  then show ?thesis by (simp add: main_def) (simp add: reported_def bench_start_def)
qed

text \<open>
  No block waits for its second sighting longer than \<open>matchTimeout\<close> and one scan interval,
  while the ticks come at most \<open>timeoutScanInterval\<close> apart.
\<close>

lemma receipts_pending_age:
  assumes "schedulable exited (select_step t) event_fair es bench_start"
    "exited (receipts.final t es) = None" "on_time timeoutScanInterval t0 t0 (inputs_before_stop event_input es)"
    "pending (receipts.final t es) k = Some p"
  shows "last_time t0 (inputs_before_stop event_input es) - since p \<le> matchTimeout + timeoutScanInterval"
proof -
  have "waiting (receipts.abstract t es) k = Some (seen p)"
    using receipts.simulation_start(1) [OF assms(1)] assms(4) by (simp add: tracks_def)
  from receipts.bounded_wait [OF assms(1-3) _ this] show ?thesis
    by (auto simp: seen_def timeoutScanInterval_def time_Second_def split: if_splits)
qed


end
