(* ===== verification/Receipts_Properties.thy ===== *)
theory Receipts_Properties
  imports Receipts_System Bench_Samples
begin

text \<open>
  The properties of the receipts benchmark, each applied at a concrete run: a node that
  commits blocks 7 and 8 on the gRPC stream and announces them over WebSocket.
\<close>

section \<open>A sample run\<close>

definition sample_events :: "event list" where
  "sample_events =
     [GrpcArrival 0 \<lparr>blockNumber = 7, arrivedAtMs = 1000\<rparr>, RpcArrival 5 \<lparr>blockNumber = 7, arrivedAtMs = 1040\<rparr>,
      RpcArrival 9 \<lparr>blockNumber = 8, arrivedAtMs = 1990\<rparr>, Tick 10 [8],
      GrpcArrival 11 \<lparr>blockNumber = 8, arrivedAtMs = 2000\<rparr>]"

lemma receipts_sample_head: "n \<noteq> 0 \<Longrightarrow> head_number (json_Marshal (head_value n)) = Some n"
  by (rule receipts_head_number_pushed [OF sample_texts(2) [unfolded head_value_def], folded head_value_def])
    (simp_all add: sample_fields)

lemma receipts_sample_sends:
  "sends (SubscribeGRPC sample_grpc addr) =
     [\<lparr>blockNumber = 7, arrivedAtMs = 1000\<rparr>, \<lparr>blockNumber = 8, arrivedAtMs = 2000\<rparr>]"
  "errors (SubscribeGRPC sample_grpc addr) = []"
  "sends (SubscribeWS sample_ws u r) =
     [\<lparr>blockNumber = 7, arrivedAtMs = 1040\<rparr>, \<lparr>blockNumber = 8, arrivedAtMs = 1990\<rparr>]"
  "errors (SubscribeWS sample_ws u r) = []"
proof -
  have g: "SubscribeGRPC sample_grpc addr = Print (''grpc connected: '' @ addr) #
     grpc_loop [Recv_Ok (sample_notif 7) 1000 False, Recv_Ok (sample_notif 8) 2000 False]"
    by (simp add: SubscribeGRPC_def sample_grpc_def)
  have a: "dec_wsAck ack_value \<lparr>Error_Message = None\<rparr> = (\<lparr>Error_Message = None\<rparr>, False)"
    by (simp add: dec_wsAck_def ack_value_def dec_field_def key_is_def strings_ToLower_def char_lower_def)
  have w: "SubscribeWS sample_ws u r =
      Print (''ws connected: '' @ u) # ws_loop r (Reads sample_ws)"
    by (simp add: SubscribeWS_def sample_ws_def json_Unmarshal_def sample_texts a)
  show "sends (SubscribeGRPC sample_grpc addr) =
     [\<lparr>blockNumber = 7, arrivedAtMs = 1000\<rparr>, \<lparr>blockNumber = 8, arrivedAtMs = 2000\<rparr>]"
    "errors (SubscribeGRPC sample_grpc addr) = []"
    unfolding g by (simp_all add: receipts_grpc.loop_Cons receipts_grpc.loop_Nil sample_notif_tip)
  show "sends (SubscribeWS sample_ws u r) =
     [\<lparr>blockNumber = 7, arrivedAtMs = 1040\<rparr>, \<lparr>blockNumber = 8, arrivedAtMs = 1990\<rparr>]"
    "errors (SubscribeWS sample_ws u r) = []"
    unfolding w by (simp_all add: receipts_ws.loop_Cons receipts_ws.loop_Nil sample_ws_def
        receipts_sample_head fetchBlockReceipts_def)
qed

lemmas receipts_sample_defs =
  sample_events_def bench_start_def on_grpc_def on_rpc_def getOrCreate_def emit_def Let_def finish_def
  on_tick_def tick_entry_def match_timeout_def time_Sub_def time_Second_def

lemma receipts_sample_run:
  "schedulable exited (select_step 2) event_fair sample_events bench_start"
  "unmatched (main 2 sample_events) = 0" "length sample_events = 5"
  by (auto simp: receipts_sample_defs main_def)

text \<open>The whole that the sample command line launches.\<close>

definition sample_cfg :: bench_flags where
  "sample_cfg = default_flags\<lparr>flag_blocks := 2\<rparr>"

definition sample_system :: "(arrival, bench) system" where
  "sample_system = sys_start (goroutines sample_grpc sample_ws sample_cfg) bench_start"

lemma receipts_sample_flags: "flag_Parse bench_kind bench_set sample_argv default_flags = Inr (sample_cfg, [])"
  using flag_Parse_value [of bench_kind "''blocks''" bench_set "''2''" "[]" default_flags]
  by (simp add: sample_argv_def sample_cfg_def bench_kind_def bench_set_def ParseInt_samples)

lemma receipts_sample_launch: "launch sample_grpc sample_ws sample_argv = Inr (2, sample_system)"
  by (simp add: launch_def receipts_sample_flags sample_cfg_def sample_system_def)

lemma receipts_sample_todo:
  "todo sample_system sd = goroutines sample_grpc sample_ws sample_cfg sd"
  by (simp add: sample_system_def sys_start_def)

lemma receipts_sample_stamped: "stamped (todo sample_system)"
  by (simp add: stamped_def all_sides receipts_sample_todo receipts_sample_sends)

section \<open>Properties\<close>

text \<open>
  C26. With a positive --blocks, in every schedule, the receipts benchmark never records more
  matches than asked for; it leaves its loop with exit code 0 by itself exactly when it has
  that many, and otherwise only an error (1) or a signal (0) ends it.
\<close>

theorem receipts_exact_target:
  assumes "0 < sint blocks" "schedulable exited (select_step blocks) event_fair es bench_start"
  shows "length (deltas (main blocks es)) \<le> nat (sint blocks) \<and>
    exited (main blocks es) =
      (if length (deltas (main blocks es)) = nat (sint blocks) then Some 0
       else map_option event_code (first_stop event_input es))"
  unfolding receipts_main_runs [OF assms(1)]
  using receipts.exactly_the_target [OF assms(2,1)] by blast

theorem receipts_exact_target_witness:
  "length (deltas (main 2 sample_events)) \<le> nat (sint (2 :: i64)) \<and>
    exited (main 2 sample_events) =
      (if length (deltas (main 2 sample_events)) = nat (sint (2 :: i64)) then Some 0
       else map_option event_code (first_stop event_input sample_events))"
  by (rule receipts_exact_target [OF _ receipts_sample_run(1)]) simp

text \<open>
  Whatever the interleaving of the two goroutines with the main loop and with ticks: if
  both goroutines run without error, everything they send is delivered, each reports a
  block at most once, no match times out, and they have at least --blocks blocks in common,
  then the program ends with exit code 0 and exactly --blocks differences.
\<close>

theorem receipts_healthy_run_completes:
  assumes "delivers (SubscribeGRPC lib addr) (SubscribeWS wlib wsURL rpcURL) es"
    "errors (SubscribeGRPC lib addr) = []" "errors (SubscribeWS wlib wsURL rpcURL) = []"
    "distinct (block_numbers (SubscribeGRPC lib addr))"
    "distinct (block_numbers (SubscribeWS wlib wsURL rpcURL))"
    "schedulable exited (select_step blocks) event_fair es bench_start" "length es < 2 ^ 64"
    "unmatched (main blocks es) = 0" "0 < sint blocks"
    "sint blocks \<le> int (card (set (block_numbers (SubscribeGRPC lib addr)) \<inter>
                                set (block_numbers (SubscribeWS wlib wsURL rpcURL))))"
  shows "exited (main blocks es) = Some 0 \<and> length (deltas (main blocks es)) = nat (sint blocks)"
  using assms by (rule receipts_delivers_target)

theorem receipts_healthy_run_completes_witness:
  "exited (main 2 sample_events) = Some 0 \<and> length (deltas (main 2 sample_events)) = nat (sint (2 :: i64))"
proof (rule receipts_healthy_run_completes [OF _ _ _ _ _ receipts_sample_run(1)])
  show "delivers (SubscribeGRPC sample_grpc []) (SubscribeWS sample_ws [] []) sample_events"
    by (simp add: delivers_def receipts_sample_sends sample_events_def)
  have "card ({7, 8} :: u64 set) = 2" by simp
  then show "sint (2 :: i64) \<le> int (card (set (block_numbers (SubscribeGRPC sample_grpc [])) \<inter>
      set (block_numbers (SubscribeWS sample_ws [] []))))"
    by (simp add: block_numbers_def receipts_sample_sends)
qed (simp_all add: receipts_sample_run receipts_sample_sends block_numbers_def)

text \<open>
  Every match uses up two arrivals and every timeout one: in any schedule of fewer than
  2 ^ 64 events, twice the matches plus the timeouts reported never exceed the arrivals
  received before the program was stopped.
\<close>

theorem receipts_accounting_bound:
  assumes "0 < sint blocks" "schedulable exited (select_step blocks) event_fair es bench_start"
    "length es < 2 ^ 64"
  shows "2 * length (deltas (main blocks es)) + unat (unmatched (main blocks es))
    \<le> length (filter is_arrival (inputs_before_stop event_input es))"
  unfolding receipts_main_runs [OF assms(1)] using assms(2,3) by (rule receipts.accounting)

theorem receipts_accounting_bound_witness:
  "2 * length (deltas (main 2 sample_events)) + unat (unmatched (main 2 sample_events))
    \<le> length (filter is_arrival (inputs_before_stop event_input sample_events))"
  by (rule receipts_accounting_bound [OF _ receipts_sample_run(1)]) (simp_all add: receipts_sample_run(3))

text \<open>
  The request fetchBlockReceipts sends is a JSON text, and the call it spells asks for the
  receipts of exactly the block it was called for: the quantity in it reads back, the way the
  programs read quantities, as that block number.
\<close>

theorem receipts_request_names_the_block:
  "json_parse (fetch_body n) = Some (JObject [(''jsonrpc'', JString ''2.0''), (''id'', JNumber ''1''),
     (''method'', JString ''eth_getBlockReceipts''), (''params'', JArray [JString (''0x'' @ fmt_hex n)])]) \<and>
   strconv_ParseUint (''0x'' @ fmt_hex n) = Inr n"
proof -
  let ?v = "JObject [(''jsonrpc'', JString ''2.0''), (''id'', JNumber ''1''),
     (''method'', JString ''eth_getBlockReceipts''), (''params'', JArray [JString (''0x'' @ fmt_hex n)])]"
  have p: "list_all plain_char ''jsonrpc''" "list_all plain_char ''2.0''" "list_all plain_char ''id''"
    "list_all plain_char ''method''" "list_all plain_char ''eth_getBlockReceipts''" "list_all plain_char ''params''"
    by code_simp+
  have "list_all plain_char ''0x''" by code_simp
  then have h: "list_all plain_char (''0x'' @ fmt_hex n)" using plain_fmt_hex [of n] by (simp only: list_all_append)
  note q = quote_plain [OF p(1)] quote_plain [OF p(2)] quote_plain [OF p(3)] quote_plain [OF p(4)]
    quote_plain [OF p(5)] quote_plain [OF p(6)] quote_plain [OF h]
  have "fetch_body n = json_Marshal ?v" by (simp only: fetch_body_def Let_def json_Marshal.simps list.map prod.case commas.simps q) simp
  moreover have "json_fits max_nesting_depth ?v" by (simp add: max_nesting_depth_def is_number_1)
  ultimately show ?thesis using json_parse_Marshal [of ?v] ParseUint_fmt_hex [of n] by (simp only: simp_thms)
qed

text \<open>
  The two goroutines together never send more errors than the error channel buffers,
  so neither can block on reporting a failure, and a goroutine that failed has returned.
\<close>

theorem receipts_error_channel_suffices:
  "length (errors (SubscribeGRPC lib addr)) + length (errors (SubscribeWS wlib wsURL rpcURL))
     \<le> errChCapacity \<and>
   (errors (SubscribeGRPC lib addr) = [] \<or> Return \<in> set (SubscribeGRPC lib addr)) \<and>
   (errors (SubscribeWS wlib wsURL rpcURL) = [] \<or> Return \<in> set (SubscribeWS wlib wsURL rpcURL))"
proof -
  have "length (errors (SubscribeGRPC lib addr)) + length (errors (SubscribeWS wlib wsURL rpcURL)) \<le> 2"
    using receipts_SubscribeGRPC_errors(1) [of lib addr]
      receipts_SubscribeWS_errors(1) [of wlib wsURL rpcURL] by linarith
  then show ?thesis
    using receipts_SubscribeGRPC_errors(2) [of lib addr]
      receipts_SubscribeWS_errors(2) [of wlib wsURL rpcURL] by (auto simp: errChCapacity_def)
qed

text \<open>A healthy run of the whole receipts benchmark.\<close>

lemma receipts_healthy_completes:
  assumes "launch lib wlib argv = Inr (target, s0)" "(system_step target)\<^sup>*\<^sup>* s0 s" "stamped (todo s0)"
    "\<forall>sd. errors (todo s0 sd) = [] \<and> distinct (block_numbers (todo s0 sd))"
    "sint target \<le> int (card (set (block_numbers (todo s0 Grpc)) \<inter> set (block_numbers (todo s0 Peer))))"
    "Ready_Done \<notin> set (history s)" "unmatched (loop_state s) = 0" "length (history s) < 2 ^ 64"
  shows "(exited (loop_state s) = Some 0 \<or> exited (loop_state s) = None \<and> (\<exists>s'. system_step target s s' \<and> work s' < work s)) \<and>
    (\<forall>s'. system_step target s s' \<longrightarrow> work s' < work s \<or>
       (\<exists>r. history s' = history s @ [r] \<and> (r = Ready_Done \<or> (\<exists>now order. r = Ready_Tick now order))))"
proof -
  obtain cfg where l: "0 < sint target" "s0 = sys_start (goroutines lib wlib cfg) bench_start"
    using receipts_launch [OF assms(1)] by metis
  then have src: "todo s0 = goroutines lib wlib cfg" by (simp add: sys_start_def)
  have n: "receipts_sys.numbers es = block_numbers es" for es
    by (simp add: receipts_sys.numbers_def block_numbers_def)
  have "receipts_sys.proper (goroutines lib wlib cfg)" using receipts_proper assms(3) src by simp
  from receipts_sys.healthy_completes [OF assms(2) [unfolded system_step_def l(2)] this] assms(4-8) l(1) src
  show ?thesis using sys_step_work unfolding system_step_def n by (metis (no_types, lifting))
qed

text \<open>
  C7. The whole receipts benchmark, its two goroutines, its channels and its main loop: when
  both goroutines run without error, report each block at most once and have at least
  --blocks blocks in common, then in every reachable state in which nothing timed out and
  nobody interrupted, the program has exited with code 0 or some step brings it closer to
  that, and every step does, except a tick or an interrupt.
\<close>

theorem receipts_system_completes:
  assumes "launch lib wlib argv = Inr (target, s0)" "(system_step target)\<^sup>*\<^sup>* s0 s" "stamped (todo s0)"
    "\<forall>sd. errors (todo s0 sd) = [] \<and> distinct (block_numbers (todo s0 sd))"
    "sint target \<le> int (card (set (block_numbers (todo s0 Grpc)) \<inter> set (block_numbers (todo s0 Peer))))"
    "Ready_Done \<notin> set (history s)" "unmatched (loop_state s) = 0" "length (history s) < 2 ^ 64"
  shows "(exited (loop_state s) = Some 0 \<or> exited (loop_state s) = None \<and> (\<exists>s'. system_step target s s' \<and> work s' < work s)) \<and>
    (\<forall>s'. system_step target s s' \<longrightarrow> work s' < work s \<or>
       (\<exists>r. history s' = history s @ [r] \<and> (r = Ready_Done \<or> (\<exists>now order. r = Ready_Tick now order))))"
  using assms by (rule receipts_healthy_completes)

theorem receipts_system_completes_witness:
  "exited (loop_state sample_system) = None \<and> (\<exists>s'. system_step 2 sample_system s' \<and> work s' < work sample_system)"
proof -
  have e: "\<forall>sd. errors (todo sample_system sd) = [] \<and> distinct (block_numbers (todo sample_system sd))"
    by (simp add: all_sides receipts_sample_todo receipts_sample_sends block_numbers_def)
  have "card ({7, 8} :: u64 set) = 2" by simp
  then have c: "sint (2 :: i64) \<le> int (card (set (block_numbers (todo sample_system Grpc)) \<inter> set (block_numbers (todo sample_system Peer))))"
    by (simp add: receipts_sample_todo receipts_sample_sends block_numbers_def)
  have r: "exited (loop_state sample_system) = None" "Ready_Done \<notin> set (history sample_system)"
    "unmatched (loop_state sample_system) = 0" "length (history sample_system) < 2 ^ 64"
    by (simp_all add: sample_system_def sys_start_def bench_start_def)
  from receipts_system_completes [OF receipts_sample_launch rtranclp.rtrancl_refl receipts_sample_stamped e c r(2-4)] r(1)
  show ?thesis by simp
qed

text \<open>
  C29. No goroutine of the receipts benchmark is ever stuck on reporting an error: in every
  reachable state, a goroutine about to send an error finds room in the error channel.
\<close>

theorem receipts_errors_never_wait:
  assumes "launch lib wlib argv = Inr (target, s0)" "(system_step target)\<^sup>*\<^sup>* s0 s" "todo s sd = Send_Err e # effs"
  shows "perform chCapacity errChCapacity sd (Send_Err e) s \<noteq> None"
proof -
  obtain cfg where l: "s0 = sys_start (goroutines lib wlib cfg) bench_start"
    using receipts_launch [OF assms(1)] by metis
  have "conserves chCapacity errChCapacity (goroutines lib wlib cfg) s"
    using assms(2) unfolding l system_step_def
    by (rule conserves_reachable) (simp add: receipts_goroutines_return)
  then show ?thesis using receipts_goroutine_errors assms(3) by (rule error_never_waits)
qed

theorem receipts_errors_never_wait_witness:
  "\<exists>e s. (system_step 2)\<^sup>*\<^sup>* (sys_start (goroutines sample_grpc dead_ws sample_cfg) bench_start) s \<and>
     todo s Peer = [Send_Err e, Return] \<and> perform chCapacity errChCapacity Peer (Send_Err e) s \<noteq> None"
proof -
  let ?s = "sys_start (goroutines sample_grpc dead_ws sample_cfg) bench_start"
  have l: "launch sample_grpc dead_ws sample_argv = Inr (2, ?s)"
    by (simp add: launch_def receipts_sample_flags sample_cfg_def)
  obtain e where "todo ?s Peer = [Send_Err e, Return]"
    by (simp add: sys_start_def SubscribeWS_def dead_ws_def)
  with receipts_errors_never_wait [OF l rtranclp.rtrancl_refl this] show ?thesis by blast
qed


end
