(* ===== verification/Internal_Txs_System.thy ===== *)
theory Internal_Txs_System
  imports Internal_Txs_Sources Bench_System
begin

text \<open>
  The internal-transactions benchmark as \<open>main\<close> of \<open>src/examples/go-internal-txs-bench/main.go\<close> sets it up: the
  two goroutines, their channels, the error channel and the \<open>select\<close> loop.
\<close>

section \<open>Set-up\<close>

text \<open>The buffer of an arrival channel; \<open>errChCapacity\<close> is that of the error channel.\<close>

definition chCapacity :: nat where
  "chCapacity = 32"

text \<open>The event of the loop for each ready case of the \<open>select\<close>.\<close>

fun ready_event :: "arrival ready \<Rightarrow> event" where
  "ready_event (Ready_Err err) = Err err"
| "ready_event (Ready_Arrival Grpc now a) = GrpcArrival now a"
| "ready_event (Ready_Arrival Peer now a) = RpcArrival now a"
| "ready_event (Ready_Tick now order) = Tick now order"
| "ready_event Ready_Done = CtxDone"

fun goroutines :: "grpc_lib \<Rightarrow> ws_lib \<Rightarrow> bench_flags \<Rightarrow> side \<Rightarrow> arrival effect list" where
  "goroutines lib wlib cfg Grpc = SubscribeGRPC lib (flag_grpc cfg)"
| "goroutines lib wlib cfg Peer = SubscribeWS wlib (flag_ws cfg) (flag_rpc cfg)"

text \<open>
  \<open>main\<close> up to its loop: it exits on its arguments, or starts the goroutines and enters the
  loop with the given target.
\<close>

definition launch :: "grpc_lib \<Rightarrow> ws_lib \<Rightarrow> string list \<Rightarrow> bench + i64 \<times> (arrival, bench) system" where
  "launch lib wlib argv =
    (case flag_Parse bench_kind bench_set argv default_flags of
       Inl code \<Rightarrow> Inl (bench_start\<lparr>exited := Some code\<rparr>)
     | Inr (cfg, args) \<Rightarrow>
         if sint (flag_blocks cfg) \<le> 0 then Inl (main (flag_blocks cfg) [])
         else Inr (flag_blocks cfg, sys_start (goroutines lib wlib cfg) bench_start))"

text \<open>An order in which the runtime may iterate over \<open>pending\<close>.\<close>

definition map_order :: "u64 list \<Rightarrow> bench \<Rightarrow> bool" where
  "map_order order s \<longleftrightarrow> distinct order \<and> set order = dom (pending s)"

definition system_step :: "i64 \<Rightarrow> (arrival, bench) system \<Rightarrow> (arrival, bench) system \<Rightarrow> bool" where
  "system_step target =
     sys_step chCapacity errChCapacity (\<lambda>r. select_step target (ready_event r)) exited map_order"

text \<open>No source reads the epoch itself from its clock: 0 is the program's mark for "not yet".\<close>

definition stamped :: "(side \<Rightarrow> arrival effect list) \<Rightarrow> bool" where
  "stamped src \<longleftrightarrow> (\<forall>sd. \<forall>a \<in> set (sends (src sd)). arrivedAtMs a \<noteq> 0)"

section \<open>The contract of the system\<close>

interpretation internal_txs_sys: bench_system "(-)" bench_start select_step exited deltas unmatched
  event_input event_code event_fair tracks ready_event blockNumber arrivedAtMs map_order chCapacity errChCapacity
proof unfold_locales
  show "event_input (ready_event r) =
      (case r of Ready_Arrival sd now a \<Rightarrow> Some (Arrive sd now (blockNumber a) (arrivedAtMs a))
       | Ready_Tick now order \<Rightarrow> Some (Scan now) | _ \<Rightarrow> None)" for r
    by (cases r rule: ready_event.cases) simp_all
  show "event_fair (ready_event r) s =
      (case r of Ready_Arrival sd now a \<Rightarrow> arrivedAtMs a \<noteq> 0 | Ready_Tick now order \<Rightarrow> map_order order s | _ \<Rightarrow> True)"
    for r s
    by (cases r rule: ready_event.cases) (simp_all add: map_order_def)
qed (simp_all add: chCapacity_def errChCapacity_def)

lemma internal_txs_goroutines_return: "returns_last (goroutines lib wlib cfg sd)"
  using internal_txs_SubscribeGRPC_cases [of lib "flag_grpc cfg"]
    internal_txs_SubscribeWS_cases [of wlib "flag_ws cfg" "flag_rpc cfg"]
    internal_txs_grpc.returns_last_loop internal_txs_ws.returns_last_loop
  by (cases sd) (auto simp: returns_last_append)

lemma internal_txs_proper: "stamped (goroutines lib wlib cfg) \<Longrightarrow> internal_txs_sys.proper (goroutines lib wlib cfg)"
  by (simp add: internal_txs_sys.proper_def stamped_def internal_txs_goroutines_return)

text \<open>What \<open>launch\<close> starts.\<close>

lemma internal_txs_launch:
  assumes "launch lib wlib argv = Inr (target, s0)"
  obtains cfg args where "flag_Parse bench_kind bench_set argv default_flags = Inr (cfg, args)"
    "target = flag_blocks cfg" "0 < sint target" "s0 = sys_start (goroutines lib wlib cfg) bench_start"
  using assms by (auto simp: launch_def split: sum.splits if_splits)

text \<open>The loop of the whole is \<open>main\<close> on the events it has taken.\<close>

lemma internal_txs_system_main:
  assumes "launch lib wlib argv = Inr (target, s0)" "(system_step target)\<^sup>*\<^sup>* s0 s" "stamped (todo s0)"
  shows "conserves chCapacity errChCapacity (todo s0) s \<and>
    loop_state s = main_args argv (map ready_event (history s)) \<and>
    tracks (loop_state s) (internal_txs.abstract target (map ready_event (history s)))"
proof -
  obtain cfg args where l: "flag_Parse bench_kind bench_set argv default_flags = Inr (cfg, args)"
    "target = flag_blocks cfg" "0 < sint target" "s0 = sys_start (goroutines lib wlib cfg) bench_start"
    using internal_txs_launch [OF assms(1)] by metis
  have p: "internal_txs_sys.proper (goroutines lib wlib cfg)"
    using internal_txs_proper assms(3) l(4) by (simp add: sys_start_def)
  have run: "(internal_txs_sys.moves target)\<^sup>*\<^sup>* (sys_start (goroutines lib wlib cfg) bench_start) s"
    using assms(2) by (simp add: system_step_def l(4))
  have "loop_state s = internal_txs.final target (map ready_event (history s))"
    using internal_txs_sys.reachable_invariant [OF run p] by (simp add: internal_txs_sys.replays_def)
  then have "loop_state s = main_args argv (map ready_event (history s))"
    using internal_txs_main_runs l(1-3) by (simp add: main_args_def)
  with internal_txs_sys.reachable_invariant [OF run p] internal_txs_sys.reachable_rel [OF run p] show ?thesis
    by (simp add: l(4) sys_start_def)
qed

lemma internal_txs_goroutine_errors:
  "length (errors (goroutines lib wlib cfg Grpc)) + length (errors (goroutines lib wlib cfg Peer)) \<le> errChCapacity"
  using internal_txs_SubscribeGRPC_errors(1) [of lib "flag_grpc cfg"]
    internal_txs_SubscribeWS_errors(1) [of wlib "flag_ws cfg" "flag_rpc cfg"]
  by (simp add: errChCapacity_def)

end
