(* ===== verification/Internal_Txs_Properties.thy ===== *)
theory Internal_Txs_Properties
  imports Internal_Txs_System Bench_Samples
begin

text \<open>
  The properties of the internal-transactions benchmark, with a sample run in which one
  block is reported first by gRPC and another first over JSON-RPC.
\<close>

section \<open>A sample run\<close>

definition sample_grpc_arrival :: "u64 \<Rightarrow> i64 \<Rightarrow> arrival" where
  "sample_grpc_arrival n ms = \<lparr>blockNumber = n, arrivedAtMs = ms, arrival_txCount = 12, arrival_gasUsed = 21000\<rparr>"

definition sample_rpc_arrival :: "u64 \<Rightarrow> i64 \<Rightarrow> arrival" where
  "sample_rpc_arrival n ms = \<lparr>blockNumber = n, arrivedAtMs = ms, arrival_txCount = 0, arrival_gasUsed = 0\<rparr>"

definition sample_events :: "event list" where
  "sample_events =
     [GrpcArrival 0 (sample_grpc_arrival 7 1000), RpcArrival 5 (sample_rpc_arrival 7 1040),
      RpcArrival 9 (sample_rpc_arrival 8 1990), Tick 10 [8], GrpcArrival 11 (sample_grpc_arrival 8 2000)]"

lemmas internal_txs_sample_defs =
  sample_events_def sample_grpc_arrival_def sample_rpc_arrival_def bench_start_def on_grpc_def on_rpc_def
  getOrCreate_def emit_def Let_def finish_def on_tick_def tick_entry_def match_timeout_def time_Sub_def
  time_Second_def

lemma internal_txs_sample_run: "schedulable exited (select_step 2) event_fair sample_events bench_start"
  by (auto simp: internal_txs_sample_defs)

section \<open>Properties\<close>

text \<open>
  C6. The main loop of the internal-transactions benchmark implements the abstract matcher:
  in every schedule its final state corresponds to the state the matcher reaches on the
  same arrivals and scans (same waiting blocks with the side seen and its time, same
  differences, same number dropped), and its exit code is the one the matcher prescribes.
\<close>

theorem internal_txs_refines_matcher:
  assumes "0 < sint blocks" "schedulable exited (select_step blocks) event_fair es bench_start"
  shows "tracks (main blocks es) (spec_run (-) blocks (inputs_before_stop event_input es) idle_matcher) \<and>
    exited (main blocks es) =
      (if reached blocks (spec_run (-) blocks (inputs_before_stop event_input es) idle_matcher) then Some 0
       else map_option event_code (first_stop event_input es))"
  unfolding internal_txs_main_runs [OF assms(1)]
  using internal_txs.simulation_start(1,2) [OF assms(2)] by blast

theorem internal_txs_refines_matcher_witness:
  "tracks (main 2 sample_events) (spec_run (-) 2 (inputs_before_stop event_input sample_events) idle_matcher) \<and>
    exited (main 2 sample_events) =
      (if reached 2 (spec_run (-) 2 (inputs_before_stop event_input sample_events) idle_matcher) then Some 0
       else map_option event_code (first_stop event_input sample_events))"
  by (rule internal_txs_refines_matcher [OF _ internal_txs_sample_run]) simp

text \<open>
  The line printed for a block carries the transaction count and the gas of its gRPC
  arrival whichever side came first: the two orders of arrival leave the program in the same
  state, and print the same line.
\<close>

theorem internal_txs_order_of_sides_irrelevant:
  assumes "pending s n = None" "blockNumber a = n" "blockNumber b = n"
    "arrivedAtMs a \<noteq> 0" "arrivedAtMs b \<noteq> 0"
  shows "on_rpc target now' b (on_grpc target now a s) = on_grpc target now'' a (on_rpc target now''' b s) \<and>
    (\<exists>rest. stdout (on_rpc target now' b (on_grpc target now a s)) =
      stdout s @ [fst (emit n (arrival_txCount a) (arrival_gasUsed a) (arrivedAtMs a) (arrivedAtMs b)
                        (matched s) (unmatched s) (deltas s))] @ rest)"
  using assms by (simp add: on_grpc_def on_rpc_def getOrCreate_def emit_def Let_def finish_def)

theorem internal_txs_order_of_sides_irrelevant_witness:
  "on_rpc 2 5 (sample_rpc_arrival 7 1040) (on_grpc 2 0 (sample_grpc_arrival 7 1000) bench_start) =
     on_grpc 2 6 (sample_grpc_arrival 7 1000) (on_rpc 2 1 (sample_rpc_arrival 7 1040) bench_start) \<and>
   (\<exists>rest. stdout (on_rpc 2 5 (sample_rpc_arrival 7 1040) (on_grpc 2 0 (sample_grpc_arrival 7 1000) bench_start)) =
      stdout bench_start @ [fst (emit 7 (arrival_txCount (sample_grpc_arrival 7 1000))
          (arrival_gasUsed (sample_grpc_arrival 7 1000)) (arrivedAtMs (sample_grpc_arrival 7 1000))
          (arrivedAtMs (sample_rpc_arrival 7 1040))
          (matched bench_start) (unmatched bench_start) (deltas bench_start))] @ rest)"
  by (rule internal_txs_order_of_sides_irrelevant)
    (simp_all add: bench_start_def sample_grpc_arrival_def sample_rpc_arrival_def)

text \<open>
  The gRPC goroutine reports each tip with the gas of its own header and with the number
  of transactions of the first call-trace entry of the notification that is for the tip, 0
  when there is none.
\<close>

theorem internal_txs_counts_the_tip:
  assumes "reports_tip notif chain header"
  shows "grpc_loop (Recv_Ok notif ms False # is) =
     Send \<lparr>blockNumber = BlockHeader_Number header, arrivedAtMs = ms,
       arrival_txCount =
         (case find (\<lambda>ct. BlockCallTraces_BlockNumber ct = BlockHeader_Number header) (Chain_CallTraces chain) of
            None \<Rightarrow> 0
          | Some ct \<Rightarrow> of_nat (length (BlockCallTraces_Txs ct))),
       arrival_gasUsed = BlockHeader_GasUsed header\<rparr> # grpc_loop is"
proof -
  have "traced_txs number cts =
    (case find (\<lambda>ct. BlockCallTraces_BlockNumber ct = number) cts of
       None \<Rightarrow> 0 | Some ct \<Rightarrow> of_nat (length (BlockCallTraces_Txs ct)))" for number cts
    by (induction cts) auto
  moreover have "tip_of notif = Some (chain, header)" using assms by (simp add: tip_of_iff)
  ultimately show ?thesis by (simp add: internal_txs_grpc.loop_Cons)
qed

theorem internal_txs_counts_the_tip_witness:
  "\<exists>chain. reports_tip (sample_notif 7) chain ((BlockHeader_Reset undefined)\<lparr>BlockHeader_Number := 7\<rparr>) \<and>
    grpc_loop [Recv_Ok (sample_notif 7) 1000 False] =
     Send \<lparr>blockNumber = BlockHeader_Number ((BlockHeader_Reset undefined)\<lparr>BlockHeader_Number := 7\<rparr>), arrivedAtMs = 1000,
       arrival_txCount =
         (case find (\<lambda>ct. BlockCallTraces_BlockNumber ct = 7) (Chain_CallTraces chain) of
            None \<Rightarrow> 0
          | Some ct \<Rightarrow> of_nat (length (BlockCallTraces_Txs ct))),
       arrival_gasUsed = BlockHeader_GasUsed ((BlockHeader_Reset undefined)\<lparr>BlockHeader_Number := 7\<rparr>)\<rparr> # grpc_loop []"
proof -
  obtain chain where r: "reports_tip (sample_notif 7) chain ((BlockHeader_Reset undefined)\<lparr>BlockHeader_Number := 7\<rparr>)"
    using sample_notif_tip [of 7] by (metis tip_of_iff)
  show ?thesis using r internal_txs_counts_the_tip [OF r, of 1000 "[]"] by auto
qed

text \<open>
  C13. The exit code of the whole internal-transactions benchmark is justified: in every
  reachable state of its goroutines, channels and main loop, code 1 means that one of the
  goroutines has sent an error (fewer of its sends of that error are still to come than at the
  start) and main has received it, and code 0 that as many blocks were matched as --blocks asks
  for or that somebody interrupted. (No clock reads the epoch, the mark for "not seen".)
\<close>

theorem internal_txs_exit_justified:
  assumes "launch lib wlib argv = Inr (target, s0)" "(system_step target)\<^sup>*\<^sup>* s0 s" "stamped (todo s0)"
    "exited (loop_state s) = Some c"
  shows "c = 1 \<and> (\<exists>sd e. sent_error s0 s sd e \<and> Ready_Err e \<in> set (history s)) \<or>
    c = 0 \<and> (length (deltas (loop_state s)) = nat (sint target) \<or> Ready_Done \<in> set (history s))"
proof -
  obtain cfg where l: "0 < sint target" "s0 = sys_start (goroutines lib wlib cfg) bench_start"
    using internal_txs_launch [OF assms(1)] by metis
  then have src: "todo s0 = goroutines lib wlib cfg" by (simp add: sys_start_def)
  have p: "internal_txs_sys.proper (goroutines lib wlib cfg)" using internal_txs_proper assms(3) src by simp
  note run = assms(2) [unfolded l system_step_def]
  show ?thesis
    using internal_txs_sys.exit_justified [OF run p l(1) assms(4)] internal_txs_sys.error_exit_received [OF run p l(1)]
      assms(4) unfolding l(2) by blast
qed

text \<open>The whole that the sample command line launches when nobody listens on the WebSocket side.\<close>

definition dead_system :: "(arrival, bench) system" where
  "dead_system = sys_start (goroutines sample_grpc dead_ws (default_flags\<lparr>flag_blocks := 2\<rparr>)) bench_start"

lemma internal_txs_sample_flags:
  "flag_Parse bench_kind bench_set sample_argv default_flags = Inr (default_flags\<lparr>flag_blocks := 2\<rparr>, [])"
  using flag_Parse_value [of bench_kind "''blocks''" bench_set "''2''" "[]" default_flags]
  by (simp add: sample_argv_def bench_kind_def bench_set_def ParseInt_samples)

theorem internal_txs_exit_justified_witness:
  "\<exists>s. (system_step 2)\<^sup>*\<^sup>* dead_system s \<and> exited (loop_state s) = Some 1 \<and>
     (\<exists>sd e. sent_error dead_system s sd e \<and> Ready_Err e \<in> set (history s))"
proof -
  let ?src = "goroutines sample_grpc dead_ws (default_flags\<lparr>flag_blocks := 2\<rparr>)"
  have l: "launch sample_grpc dead_ws sample_argv = Inr (2, dead_system)"
    by (simp add: launch_def internal_txs_sample_flags dead_system_def)
  obtain e where e: "SubscribeWS dead_ws (flag_ws default_flags) (flag_rpc default_flags) = [Send_Err e, Return]"
    by (simp add: SubscribeWS_def dead_ws_def)
  have g: "sends (SubscribeGRPC sample_grpc addr) =
      concat (map (sends \<circ> grpc_body) [Recv_Ok (sample_notif 7) 1000 False, Recv_Ok (sample_notif 8) 2000 False])" for addr
    by (simp add: SubscribeGRPC_def sample_grpc_def internal_txs_grpc.sends_loop del: grpc_loop.simps grpc_body.simps)
  have "stamped (todo dead_system)"
    by (simp add: stamped_def all_sides dead_system_def sys_start_def e g sample_notif_tip)
  moreover have "\<exists>s. (system_step 2)\<^sup>*\<^sup>* dead_system s \<and> history s = history dead_system @ [Ready_Err e] \<and>
      loop_state s = select_step 2 (ready_event (Ready_Err e)) (loop_state dead_system)"
    unfolding system_step_def
    by (rule first_error_received [where sd = Peer and effs = "[Return]"])
      (simp_all add: dead_system_def e sys_start_def bench_start_def errChCapacity_def)
  then obtain s where s: "(system_step 2)\<^sup>*\<^sup>* dead_system s" "exited (loop_state s) = Some 1"
    by (auto simp: on_err_def)
  ultimately have "\<exists>sd e. sent_error dead_system s sd e \<and> Ready_Err e \<in> set (history s)"
    using internal_txs_exit_justified [OF l s(1) _ s(2)] by simp
  with s show ?thesis by blast
qed


end
