(* ===== verification/State_Diff_Sources.thy ===== *)
theory State_Diff_Sources
  imports State_Diff_Bench Bench_Env
begin

text \<open>
  \<open>src/examples/go-state-diff-bench/grpc.go\<close> and \<open>ws.go\<close>: the two goroutines that feed the
  main loop. Arrivals they send are the values \<open>State_Diff_Bench.on_grpc\<close> and \<open>on_rpc\<close> receive.
\<close>

section \<open>grpc.go\<close>

text \<open>The accounts the chain's state diff lists.\<close>

definition changed_accounts :: "Chain \<Rightarrow> u64" where
  "changed_accounts chain =
    (case Chain_StateDiff chain of None \<Rightarrow> 0 | Some diff \<Rightarrow> of_nat (length (StateDiff_Accounts diff)))"

text \<open>The loop of \<open>SubscribeGRPC\<close>, with the checks of one notification in source order.\<close>

fun grpc_loop :: "grpc_item list \<Rightarrow> arrival effect list" where
  "grpc_loop [] = []"
| "grpc_loop (Recv_EOF # is) = [Send_Err ''grpc stream closed by server'', Return]"
| "grpc_loop (Recv_Fail err ctx_done # is) =
     (if ctx_done then [Return] else [Send_Err (''grpc recv: '' @ err), Return])"
| "grpc_loop (Recv_Ok notif arrivedAt send_cancelled # is) =
     (case Notification_Event notif of
        Some (Notification_ChainCommitted committed) \<Rightarrow>
          (case ChainCommitted_New committed of
             None \<Rightarrow> grpc_loop is
           | Some chain \<Rightarrow>
               if Chain_Blocks chain = [] then grpc_loop is
               else
                 (case BlockWithReceipts_Header (last (Chain_Blocks chain)) of
                    None \<Rightarrow> grpc_loop is
                  | Some header \<Rightarrow>
                      if send_cancelled then [Return]
                      else Send \<lparr>blockNumber = BlockHeader_Number header, arrivedAtMs = arrivedAt,
                                 arrival_accounts = changed_accounts chain\<rparr>
                             # grpc_loop is))
      | _ \<Rightarrow> grpc_loop is)"

text \<open>The limit for received messages: 64 MiB.\<close>

definition grpcMaxRecvMsgSizeBytes :: nat where
  "grpcMaxRecvMsgSizeBytes = 64 * 1024 * 1024"

definition subscribe_request :: SubscribeRequest where
  "subscribe_request =
     (SubscribeRequest_Reset undefined)
       \<lparr>SubscribeRequest_IncludeHeaders := True, SubscribeRequest_IncludeStateDiff := True\<rparr>"

definition SubscribeGRPC :: "grpc_lib \<Rightarrow> string \<Rightarrow> arrival effect list" where
  "SubscribeGRPC lib grpcAddr =
    (case NewClient_err lib grpcMaxRecvMsgSizeBytes grpcAddr of
       Some err \<Rightarrow> [Send_Err (''grpc connect '' @ grpcAddr @ '': '' @ err), Return]
     | None \<Rightarrow>
         (case Subscribe_result lib grpcAddr subscribe_request of
            Inl err \<Rightarrow> [Send_Err (''grpc subscribe: '' @ err), Return]
          | Inr items \<Rightarrow> Print (''grpc connected: '' @ grpcAddr) # grpc_loop items))"

section \<open>ws.go\<close>

record newHeadsResult =
  Number :: string

record wsNotification =
  Params_Result :: newHeadsResult

record wsAck =
  Error_Message :: "string option"

definition dec_newHeadsResult :: "newHeadsResult decoder" where
  "dec_newHeadsResult = dec_struct (dec_field ''number'' dec_string Number (\<lambda>x r. r\<lparr>Number := x\<rparr>))"

definition dec_wsNotification :: "wsNotification decoder" where
  "dec_wsNotification =
     dec_struct (dec_field ''params''
       (dec_struct (dec_field ''result'' dec_newHeadsResult id (\<lambda>x r. x)))
       Params_Result (\<lambda>x r. r\<lparr>Params_Result := x\<rparr>))"

definition dec_wsAck :: "wsAck decoder" where
  "dec_wsAck =
     dec_struct (dec_field ''error''
       (dec_pointer '''' (dec_struct (dec_field ''message'' dec_string id (\<lambda>x r. x))))
       Error_Message (\<lambda>x r. r\<lparr>Error_Message := x\<rparr>))"

definition wsSubscribeMsg :: string where
  "wsSubscribeMsg =
     ''{\"jsonrpc\":\"2.0\",\"id\":1,\"method\":\"eth_subscribe\",\"params\":[\"newHeads\"]}''"

text \<open>
  \<open>fetchBlockStateDiff\<close>: the request it makes, and its result: a time or an error. The status
  must be 2xx; the time is the one taken when the response arrived.
\<close>

definition fetch_body :: "u64 \<Rightarrow> string" where
  "fetch_body blockNum =
     (let hexNum = ''0x'' @ fmt_hex blockNum
      in ''{\"jsonrpc\":\"2.0\",\"id\":1,\"method\":\"trace_replayBlockTransactions\",\"params\":[\"'' @ hexNum @ ''\",[\"stateDiff\"]]}'')"

definition fetchBlockStateDiff :: "string \<Rightarrow> u64 \<Rightarrow> (string \<Rightarrow> http_result) \<Rightarrow> arrival effect list \<times> (string + i64)" where
  "fetchBlockStateDiff rpcURL blockNum http =
    (case http (fetch_body blockNum) of
       Http_Build_Fail err \<Rightarrow> ([], Inl (''build request: '' @ err))
     | Http_Do_Fail err \<Rightarrow> ([Post rpcURL (fetch_body blockNum)], Inl (''http post: '' @ err))
     | Http_Response status arrivedAt \<Rightarrow>
         ([Post rpcURL (fetch_body blockNum)],
          if status < 200 \<or> 300 \<le> status then Inl (''http status '' @ fmt_int status) else Inr arrivedAt))"

fun ws_loop :: "string \<Rightarrow> ws_item list \<Rightarrow> arrival effect list" where
  "ws_loop rpcURL [] = []"
| "ws_loop rpcURL (Read_Fail err ctx_done # is) =
     (if ctx_done then [Return] else [Send_Err (''ws read: '' @ err), Return])"
| "ws_loop rpcURL (Read_Ok msg now http ctx_done send_cancelled # is) =
     (case json_Unmarshal dec_wsNotification msg \<lparr>Params_Result = \<lparr>Number = ''''\<rparr>\<rparr> of
        (notif, failed) \<Rightarrow>
          if failed then ws_loop rpcURL is
          else (case strconv_ParseUint (Number (Params_Result notif)) of
              Inl err \<Rightarrow> ws_loop rpcURL is
            | Inr blockNum \<Rightarrow>
                if blockNum = 0 then ws_loop rpcURL is
                else (case fetchBlockStateDiff rpcURL blockNum http of
                    (es, Inl err) \<Rightarrow>
                      es @ (if ctx_done then [Return]
                            else [Send_Err (''trace_replayBlockTransactions block='' @ fmt_u64 blockNum @ '': '' @ err), Return])
                  | (es, Inr arrivedAt) \<Rightarrow>
                      es @ (if send_cancelled then [Return]
                            else Send \<lparr>blockNumber = blockNum, arrivedAtMs = arrivedAt, arrival_accounts = 0\<rparr>
                                   # ws_loop rpcURL is))))"

definition SubscribeWS :: "ws_lib \<Rightarrow> string \<Rightarrow> string \<Rightarrow> arrival effect list" where
  "SubscribeWS lib wsURL rpcURL =
    (case Dial_err lib wsURL of
       Some err \<Rightarrow> [Send_Err (''ws dial '' @ wsURL @ '': '' @ err), Return]
     | None \<Rightarrow>
         (case Write_err lib wsSubscribeMsg of
            Some err \<Rightarrow> [Send_Err (''ws subscribe write: '' @ err), Return]
          | None \<Rightarrow>
              (case Ack_result lib of
                 Inl err \<Rightarrow> [Send_Err (''ws subscribe ack: '' @ err), Return]
               | Inr ackMsg \<Rightarrow>
                   (case json_Unmarshal dec_wsAck ackMsg \<lparr>Error_Message = None\<rparr> of
                      (ack, failed) \<Rightarrow>
                        (case (failed, Error_Message ack) of
                           (False, Some message) \<Rightarrow>
                             [Send_Err (''ws subscribe rejected: '' @ message), Return]
                         | _ \<Rightarrow>
                             (if failed then [Print_Stderr ''ws: ack parse failed, proceeding''] else []) @
                             Print (''ws connected: '' @ wsURL) # ws_loop rpcURL (Reads lib))))))"

section \<open>What the goroutines send\<close>

text \<open>One iteration of the gRPC loop, by the tip it reports.\<close>

fun grpc_body :: "grpc_item \<Rightarrow> arrival effect list" where
  "grpc_body Recv_EOF = [Send_Err ''grpc stream closed by server'']"
| "grpc_body (Recv_Fail err ctx_done) = (if ctx_done then [] else [Send_Err (''grpc recv: '' @ err)])"
| "grpc_body (Recv_Ok notif ms send_cancelled) =
     (case tip_of notif of
        None \<Rightarrow> []
      | Some (chain, header) \<Rightarrow>
          if send_cancelled then [] else [Send \<lparr>blockNumber = BlockHeader_Number header, arrivedAtMs = ms, arrival_accounts = changed_accounts chain\<rparr>])"

fun grpc_ends :: "grpc_item \<Rightarrow> bool" where
  "grpc_ends (Recv_Ok notif ms send_cancelled) = (send_cancelled \<and> tip_of notif \<noteq> None)"
| "grpc_ends _ = True"

text \<open>The block number a WebSocket message announces, if any.\<close>

definition head_number :: "string \<Rightarrow> u64 option" where
  "head_number msg =
    (case json_Unmarshal dec_wsNotification msg \<lparr>Params_Result = \<lparr>Number = ''''\<rparr>\<rparr> of
       (notif, failed) \<Rightarrow>
         if failed then None
         else (case strconv_ParseUint (Number (Params_Result notif)) of
             Inl err \<Rightarrow> None
           | Inr n \<Rightarrow> if n = 0 then None else Some n))"

fun ws_body :: "string \<Rightarrow> ws_item \<Rightarrow> arrival effect list" where
  "ws_body rpcURL (Read_Fail err ctx_done) = (if ctx_done then [] else [Send_Err (''ws read: '' @ err)])"
| "ws_body rpcURL (Read_Ok msg now http ctx_done send_cancelled) =
     (case head_number msg of
        None \<Rightarrow> []
      | Some n \<Rightarrow>
          (case fetchBlockStateDiff rpcURL n http of
             (es, Inl err) \<Rightarrow>
               es @ (if ctx_done then []
                     else [Send_Err (''trace_replayBlockTransactions block='' @ fmt_u64 n @ '': '' @ err)])
           | (es, Inr ms) \<Rightarrow>
               es @ (if send_cancelled then [] else [Send \<lparr>blockNumber = n, arrivedAtMs = ms, arrival_accounts = 0\<rparr>])))"

fun ws_ends :: "string \<Rightarrow> ws_item \<Rightarrow> bool" where
  "ws_ends rpcURL (Read_Fail err ctx_done) = True"
| "ws_ends rpcURL (Read_Ok msg now http ctx_done send_cancelled) =
     (case head_number msg of
        None \<Rightarrow> False
      | Some n \<Rightarrow> (case snd (fetchBlockStateDiff rpcURL n http) of Inl err \<Rightarrow> True | Inr ms \<Rightarrow> send_cancelled))"

lemma state_diff_fetch_effects:
  "fetchBlockStateDiff rpcURL n http = (es, r) \<Longrightarrow> sends es = [] \<and> errors es = [] \<and> Return \<notin> set es"
  by (auto simp: fetchBlockStateDiff_def split: http_result.splits)

interpretation state_diff_grpc: receive_loop grpc_loop grpc_body grpc_ends
proof unfold_locales
  show "grpc_loop (i # is) = grpc_body i @ (if grpc_ends i then [Return] else grpc_loop is)" for i "is"
    by (cases i) (auto simp: tip_of_checks split: option.splits isNotification_Event.splits)
  show "length (errors (grpc_body i)) \<le> (if grpc_ends i then 1 else 0)"
    "length (sends (grpc_body i)) \<le> (if grpc_ends i then 0 else 1)" "Return \<notin> set (grpc_body i)" for i
    by (cases i; auto split: option.splits)+
qed simp

lemma state_diff_ws_body:
  "length (errors (ws_body rpcURL i)) \<le> (if ws_ends rpcURL i then 1 else 0)
   \<and> length (sends (ws_body rpcURL i)) \<le> (if ws_ends rpcURL i then 0 else 1)
   \<and> Return \<notin> set (ws_body rpcURL i)"
proof (cases i)
  case (Read_Ok msg now http ctx_done send_cancelled)
  show ?thesis
  proof (cases "head_number msg")
    case (Some n)
    obtain es r where f: "fetchBlockStateDiff rpcURL n http = (es, r)" by fastforce
    with Read_Ok Some state_diff_fetch_effects [OF f] show ?thesis by (cases r) simp_all
  qed (simp add: Read_Ok)
qed simp

interpretation state_diff_ws: receive_loop "ws_loop rpcURL" "ws_body rpcURL" "ws_ends rpcURL"
proof unfold_locales
  show "ws_loop rpcURL (i # is)
      = ws_body rpcURL i @ (if ws_ends rpcURL i then [Return] else ws_loop rpcURL is)" for i "is"
    by (cases i) (auto simp: head_number_def split: sum.splits prod.splits)
  show "length (errors (ws_body rpcURL i)) \<le> (if ws_ends rpcURL i then 1 else 0)"
    "length (sends (ws_body rpcURL i)) \<le> (if ws_ends rpcURL i then 0 else 1)"
    "Return \<notin> set (ws_body rpcURL i)" for i
    using state_diff_ws_body by blast+
qed simp

section \<open>The whole goroutines\<close>

lemma state_diff_SubscribeGRPC_cases:
  "(\<exists>e. SubscribeGRPC lib addr = [Send_Err e, Return]) \<or>
   (\<exists>items. NewClient_err lib grpcMaxRecvMsgSizeBytes addr = None \<and> Subscribe_result lib addr subscribe_request = Inr items \<and>
      SubscribeGRPC lib addr = Print (''grpc connected: '' @ addr) # grpc_loop items)"
  by (auto simp: SubscribeGRPC_def split: option.splits sum.splits)

lemma state_diff_SubscribeWS_cases:
  "(\<exists>e. SubscribeWS lib wsURL rpcURL = [Send_Err e, Return]) \<or>
   (\<exists>warn \<in> {[], [Print_Stderr ''ws: ack parse failed, proceeding'']}. SubscribeWS lib wsURL rpcURL
     = warn @ Print (''ws connected: '' @ wsURL) # ws_loop rpcURL (Reads lib))"
  by (auto simp: SubscribeWS_def split: option.splits sum.splits prod.splits bool.splits)

text \<open>The buffer of the error channel.\<close>

definition errChCapacity :: nat where
  "errChCapacity = 2"

text \<open>Each goroutine sends at most one error, and returns after it.\<close>

lemma state_diff_SubscribeGRPC_errors:
  "length (errors (SubscribeGRPC lib addr)) \<le> 1"
  "errors (SubscribeGRPC lib addr) \<noteq> [] \<Longrightarrow> Return \<in> set (SubscribeGRPC lib addr)"
  using state_diff_SubscribeGRPC_cases [of lib addr] state_diff_grpc.one_error state_diff_grpc.error_returns by auto

lemma state_diff_SubscribeWS_errors:
  "length (errors (SubscribeWS lib wsURL rpcURL)) \<le> 1"
  "errors (SubscribeWS lib wsURL rpcURL) \<noteq> [] \<Longrightarrow> Return \<in> set (SubscribeWS lib wsURL rpcURL)"
  using state_diff_SubscribeWS_cases [of lib wsURL rpcURL] state_diff_ws.one_error state_diff_ws.error_returns
  by auto

text \<open>The head the node announces is the head the goroutine asks the state diff of.\<close>

lemma state_diff_head_number_pushed:
  assumes "json_parse msg = Some (pushed_head sub before n after)"
    "\<forall>kv \<in> set (before @ after). \<not> key_is (fst kv) ''number''" "n \<noteq> 0"
  shows "head_number msg = Some n"
proof -
  have i: "dec_members (dec_field ''number'' dec_string Number (\<lambda>x r. r\<lparr>Number := x\<rparr>)) kvs old = (old, False)"
    if "\<forall>kv \<in> set kvs. \<not> key_is (fst kv) ''number''" for kvs old
    using that by (intro dec_members_ignored) (auto simp: dec_field_def)
  have k: "key_is ''number'' ''number''" "key_is ''result'' ''result''" "key_is ''params'' ''params''"
    "\<not> key_is ''jsonrpc'' ''params''" "\<not> key_is ''method'' ''params''" "\<not> key_is ''subscription'' ''result''"
    by (simp_all add: key_is_def strings_ToLower_def char_lower_def)
  show ?thesis
    using assms k ParseUint_fmt_hex [of n]
    by (simp add: head_number_def json_Unmarshal_def pushed_head_def dec_wsNotification_def
        dec_newHeadsResult_def dec_field_def [of "''params''"] dec_field_def [of "''result''"]
        dec_members_append i dec_field_def [of _ dec_string])
qed

section \<open>The goroutines and the main loop together\<close>

fun grpc_received :: "event list \<Rightarrow> arrival list" where
  "grpc_received [] = []"
| "grpc_received (GrpcArrival now a # es) = a # grpc_received es"
| "grpc_received (_ # es) = grpc_received es"

fun rpc_received :: "event list \<Rightarrow> arrival list" where
  "rpc_received [] = []"
| "rpc_received (RpcArrival now a # es) = a # rpc_received es"
| "rpc_received (_ # es) = rpc_received es"

fun errs_received :: "event list \<Rightarrow> string list" where
  "errs_received [] = []"
| "errs_received (Err e # es) = e # errs_received es"
| "errs_received (_ # es) = errs_received es"

lemma state_diff_sightings:
  assumes "errs_received es = []" "CtxDone \<notin> set es"
  shows "first_stop event_input es = None"
    "sightings Grpc (inputs_before_stop event_input es)
       = map (\<lambda>a. (blockNumber a, arrivedAtMs a)) (grpc_received es)"
    "sightings Peer (inputs_before_stop event_input es)
       = map (\<lambda>a. (blockNumber a, arrivedAtMs a)) (rpc_received es)"
proof -
  have "first_stop event_input es = None \<and>
    sightings Grpc (inputs_before_stop event_input es)
       = map (\<lambda>a. (blockNumber a, arrivedAtMs a)) (grpc_received es) \<and>
    sightings Peer (inputs_before_stop event_input es)
       = map (\<lambda>a. (blockNumber a, arrivedAtMs a)) (rpc_received es)"
    using assms
  proof (induction es)
    case (Cons e es)
    then show ?case by (cases e) auto
  qed simp
  then show "first_stop event_input es = None"
    "sightings Grpc (inputs_before_stop event_input es)
       = map (\<lambda>a. (blockNumber a, arrivedAtMs a)) (grpc_received es)"
    "sightings Peer (inputs_before_stop event_input es)
       = map (\<lambda>a. (blockNumber a, arrivedAtMs a)) (rpc_received es)" by simp_all
qed

text \<open>
  A run that delivers everything two healthy goroutines send ends with exit code 0 as soon
  as the two have enough blocks in common, whatever the interleaving.
\<close>

definition delivers :: "arrival effect list \<Rightarrow> arrival effect list \<Rightarrow> event list \<Rightarrow> bool" where
  "delivers G W es \<longleftrightarrow>
     grpc_received es = sends G \<and> rpc_received es = sends W \<and>
     set (errs_received es) \<subseteq> set (errors G) \<union> set (errors W) \<and> CtxDone \<notin> set es"

definition block_numbers :: "arrival effect list \<Rightarrow> u64 list" where
  "block_numbers es = map blockNumber (sends es)"

lemma state_diff_delivers_once:
  assumes "delivers G W es" "errors G = []" "errors W = []"
    "distinct (block_numbers G)" "distinct (block_numbers W)"
  shows "once (inputs_before_stop event_input es)"
    "common_blocks (inputs_before_stop event_input es) = set (block_numbers G) \<inter> set (block_numbers W)"
    "first_stop event_input es = None"
proof -
  have "errs_received es = []" "CtxDone \<notin> set es" using assms(1-3) by (auto simp: delivers_def)
  note s = state_diff_sightings [OF this]
  have c: "map (fst \<circ> (\<lambda>a. (blockNumber a, arrivedAtMs a))) as = map blockNumber as" for as :: "arrival list"
    by simp
  show "once (inputs_before_stop event_input es)"
    using s assms by (simp add: once_def block_numbers_def delivers_def comp_def)
  show "common_blocks (inputs_before_stop event_input es) = set (block_numbers G) \<inter> set (block_numbers W)"
    using s assms(1) by (auto simp: common_blocks_def dom_heard block_numbers_def delivers_def image_image)
  show "first_stop event_input es = None" by (rule s(1))
qed

lemma state_diff_delivers_target:
  assumes "delivers G W es" "errors G = []" "errors W = []"
    "distinct (block_numbers G)" "distinct (block_numbers W)"
    "schedulable exited (select_step blocks) event_fair es bench_start" "length es < 2 ^ 64"
    "unmatched (main blocks es) = 0"
    "0 < sint blocks" "sint blocks \<le> int (card (set (block_numbers G) \<inter> set (block_numbers W)))"
  shows "exited (main blocks es) = Some 0 \<and> length (deltas (main blocks es)) = nat (sint blocks)"
proof -
  note o = state_diff_delivers_once [OF assms(1-5)]
  have m: "main blocks es = state_diff.final blocks es" by (rule state_diff_main_runs [OF assms(9)])
  have "exited (main blocks es) = Some 0"
    unfolding m using assms(6-10) o m by (intro state_diff.finishes) simp_all
  with state_diff.exactly_the_target(2) [OF assms(6,9)] o(3) show ?thesis
    unfolding m by (auto split: if_splits)
qed

end
