(* ===== verification/State_Diff_Properties.thy ===== *)
theory State_Diff_Properties
  imports State_Diff_System Bench_Samples
begin

text \<open>
  The properties of the state-diff benchmark, with a sample state in which block 7 has
  waited for 13 seconds and block 8 for three.
\<close>

section \<open>A sample state\<close>

definition sample_state :: bench where
  "sample_state = bench_start
     \<lparr>pending := [7 \<mapsto> \<lparr>grpcMs = 1000, rpcMs = 0, since = 0, accounts = 4\<rparr>,
                  8 \<mapsto> \<lparr>grpcMs = 0, rpcMs = 9000, since = 10 * time_Second, accounts = 0\<rparr>]\<rparr>"

lemma state_diff_sample_dom: "dom (pending sample_state) = {7, 8}"
  by (auto simp: sample_state_def)

section \<open>Properties\<close>

text \<open>
  C30. A tick drops exactly the blocks whose first sighting is more than ten seconds old,
  counts each of them once as unmatched, and leaves the other blocks, the matches and the
  program running, whatever the order in which the runtime iterates over the map.
\<close>

theorem state_diff_tick_drops_overdue:
  assumes "distinct order" "set order = dom (pending s)"
  shows "pending (on_tick now order s) k =
      (case pending s k of
         None \<Rightarrow> None
       | Some p \<Rightarrow> if since p + match_timeout < now then None else Some p) \<and>
    unmatched (on_tick now order s) = unmatched s + of_nat (card {b. \<exists>p. pending s b = Some p \<and> since p + match_timeout < now}) \<and>
    matched (on_tick now order s) = matched s \<and> deltas (on_tick now order s) = deltas s \<and>
    exited (on_tick now order s) = exited s"
proof -
  have e: "expired now s b \<longleftrightarrow> (\<exists>p. pending s b = Some p \<and> since p + match_timeout < now)" for b
    by (auto simp: expired_def match_timeout_def time_Second_def time_Sub_less_iff split: option.split)
  have "set (filter (expired now s) order) = {b. \<exists>p. pending s b = Some p \<and> since p + match_timeout < now}"
    using assms(2) e by auto
  then have "length (filter (expired now s) order) =
      card {b. \<exists>p. pending s b = Some p \<and> since p + match_timeout < now}"
    using assms(1) by (metis distinct_card distinct_filter)
  then show ?thesis
    unfolding state_diff_on_tick_effect [OF assms(1)] using assms(2) e [of k] by (auto split: option.split)
qed

theorem state_diff_tick_drops_overdue_witness:
  "pending (on_tick (13 * time_Second) [8, 7] sample_state) 7 =
      (case pending sample_state 7 of
         None \<Rightarrow> None
       | Some p \<Rightarrow> if since p + match_timeout < 13 * time_Second then None else Some p) \<and>
    unmatched (on_tick (13 * time_Second) [8, 7] sample_state) =
      unmatched sample_state +
      of_nat (card {b. \<exists>p. pending sample_state b = Some p \<and> since p + match_timeout < 13 * time_Second}) \<and>
    matched (on_tick (13 * time_Second) [8, 7] sample_state) = matched sample_state \<and>
    deltas (on_tick (13 * time_Second) [8, 7] sample_state) = deltas sample_state \<and>
    exited (on_tick (13 * time_Second) [8, 7] sample_state) = exited sample_state"
  by (rule state_diff_tick_drops_overdue) (auto simp: state_diff_sample_dom)

text \<open>
  The order in which Go's runtime iterates over the map of pending blocks is not
  observable except in the order of the timeout lines.
\<close>

theorem state_diff_map_order_irrelevant:
  assumes "distinct order" "distinct order'" "set order' = set order"
  shows "on_tick now order' s = on_tick now order s\<lparr>stdout := stdout (on_tick now order' s)\<rparr> \<and>
    mset (stdout (on_tick now order' s)) = mset (stdout (on_tick now order s))"
  using state_diff_on_tick_order [OF assms] by blast

theorem state_diff_map_order_irrelevant_witness:
  "on_tick (30 * time_Second) [8, 7] sample_state =
     on_tick (30 * time_Second) [7, 8] sample_state
       \<lparr>stdout := stdout (on_tick (30 * time_Second) [8, 7] sample_state)\<rparr> \<and>
   mset (stdout (on_tick (30 * time_Second) [8, 7] sample_state)) =
     mset (stdout (on_tick (30 * time_Second) [7, 8] sample_state))"
  by (rule state_diff_map_order_irrelevant) auto

text \<open>
  C38. When the server closes the stream, the state-diff benchmark fails: the gRPC goroutine
  reports everything received before, then the error, and returns, and the main loop turns
  the error into exit code 1 with the message on stderr.
\<close>

theorem state_diff_stream_end_is_failure:
  assumes "\<forall>i \<in> set items. \<not> grpc_ends i" "exited s = None"
  shows "grpc_loop (items @ Recv_EOF # rest) =
      grpc_loop items @ [Send_Err ''grpc stream closed by server'', Return] \<and>
    exited (select_step blocks (Err ''grpc stream closed by server'') s) = Some 1 \<and>
    stderr (select_step blocks (Err ''grpc stream closed by server'') s)
      = stderr s @ [''error: grpc stream closed by server'']"
  using assms by (auto simp: state_diff_grpc.loop_append on_err_def)

theorem state_diff_stream_end_is_failure_witness:
  "grpc_loop ([Recv_Ok (sample_notif 7) 1000 False] @ Recv_EOF # []) =
      grpc_loop [Recv_Ok (sample_notif 7) 1000 False] @ [Send_Err ''grpc stream closed by server'', Return] \<and>
    exited (select_step 10 (Err ''grpc stream closed by server'') sample_state) = Some 1 \<and>
    stderr (select_step 10 (Err ''grpc stream closed by server'') sample_state)
      = stderr sample_state @ [''error: grpc stream closed by server'']"
  by (rule state_diff_stream_end_is_failure) (simp_all add: sample_state_def bench_start_def)

text \<open>
  C25. The entries of the pending map are well-formed in every reachable state of the whole
  state-diff benchmark: an entry has heard exactly one side, it holds the time of an arrival
  main really received from that side for that block, and the other side's time is zero.
\<close>

theorem state_diff_pending_well_formed:
  assumes "launch lib wlib argv = Inr (target, s0)" "(system_step target)\<^sup>*\<^sup>* s0 s" "stamped (todo s0)"
    "pending (loop_state s) k = Some p"
  shows "(grpcMs p \<noteq> 0 \<and> rpcMs p = 0 \<and> (\<exists>a \<in> set (received Grpc (history s)). blockNumber a = k \<and> arrivedAtMs a = grpcMs p)) \<or>
    (grpcMs p = 0 \<and> rpcMs p \<noteq> 0 \<and> (\<exists>a \<in> set (received Peer (history s)). blockNumber a = k \<and> arrivedAtMs a = rpcMs p))"
proof -
  have t: "tracks (loop_state s) (state_diff.abstract target (map ready_event (history s)))"
    using state_diff_system_main [OF assms(1-3)] by blast
  then have o: "one_sided p" and w: "waiting (state_diff.abstract target (map ready_event (history s))) k = Some (seen p)"
    using assms(4) by (simp_all add: tracks_def)
  show ?thesis
  proof (cases "rpcMs p = 0")
    case True
    with o state_diff_sys.waiting_was_received [of target "history s" k Grpc "grpcMs p" "since p"] w show ?thesis
      by (auto simp: one_sided_def seen_def)
  next
    case False
    with o state_diff_sys.waiting_was_received [of target "history s" k Peer "rpcMs p" "since p"] w show ?thesis
      by (auto simp: one_sided_def seen_def)
  qed
qed

text \<open>The whole that the sample command line launches.\<close>

definition sample_system :: "(arrival, bench) system" where
  "sample_system = sys_start (goroutines sample_grpc dead_ws (default_flags\<lparr>flag_blocks := 2\<rparr>)) bench_start"

definition sample_arrival :: "u64 \<Rightarrow> i64 \<Rightarrow> arrival" where
  "sample_arrival n ms = \<lparr>blockNumber = n, arrivedAtMs = ms, arrival_accounts = 0\<rparr>"

lemma state_diff_sample_flags:
  "flag_Parse bench_kind bench_set sample_argv default_flags = Inr (default_flags\<lparr>flag_blocks := 2\<rparr>, [])"
  using flag_Parse_value [of bench_kind "''blocks''" bench_set "''2''" "[]" default_flags]
  by (simp add: sample_argv_def bench_kind_def bench_set_def ParseInt_samples)

lemma state_diff_sample_grpc:
  "SubscribeGRPC sample_grpc addr =
     [Print (''grpc connected: '' @ addr), Send (sample_arrival 7 1000), Send (sample_arrival 8 2000)]"
proof -
  have "the (ChainCommitted_New (case Notification_Event (sample_notif n) of
      Some (Notification_ChainCommitted c) \<Rightarrow> c)) = chain \<Longrightarrow> changed_accounts chain = 0" for n chain
    by (auto simp: sample_notif_def changed_accounts_def)
  then show ?thesis
    by (simp add: SubscribeGRPC_def sample_grpc_def state_diff_grpc.loop_Cons state_diff_grpc.loop_Nil
        sample_notif_tip sample_arrival_def)
qed

theorem state_diff_pending_well_formed_witness:
  "\<exists>s p. (system_step 2)\<^sup>*\<^sup>* sample_system s \<and> pending (loop_state s) 7 = Some p \<and> grpcMs p = 1000 \<and> rpcMs p = 0 \<and>
     (\<exists>a \<in> set (received Grpc (history s)). blockNumber a = 7 \<and> arrivedAtMs a = grpcMs p)"
proof -
  have l: "launch sample_grpc dead_ws sample_argv = Inr (2, sample_system)"
    by (simp add: launch_def state_diff_sample_flags sample_system_def)
  obtain e where e: "SubscribeWS dead_ws (flag_ws default_flags) (flag_rpc default_flags) = [Send_Err e, Return]"
    by (simp add: SubscribeWS_def dead_ws_def)
  have st: "stamped (todo sample_system)"
    by (simp add: stamped_def all_sides sample_system_def sys_start_def e state_diff_sample_grpc sample_arrival_def)
  have "\<exists>s. (system_step 2)\<^sup>*\<^sup>* sample_system s \<and>
      history s = history sample_system @ [Ready_Arrival Grpc 0 (sample_arrival 7 1000)] \<and>
      loop_state s = select_step 2 (ready_event (Ready_Arrival Grpc 0 (sample_arrival 7 1000))) (loop_state sample_system)"
    unfolding system_step_def
    by (rule first_arrival_received [where line = "''grpc connected: '' @ flag_grpc default_flags"
          and effs = "[Send (sample_arrival 8 2000)]"])
      (simp_all add: state_diff_sample_grpc sample_system_def sys_start_def bench_start_def chCapacity_def)
  then obtain s where s: "(system_step 2)\<^sup>*\<^sup>* sample_system s"
    "loop_state s = on_grpc 2 0 (sample_arrival 7 1000) bench_start"
    by (auto simp: sample_system_def sys_start_def)
  then have p: "pending (loop_state s) 7 = Some \<lparr>grpcMs = 1000, rpcMs = 0, since = 0, accounts = 0\<rparr>"
    by (simp add: on_grpc_def getOrCreate_def Let_def bench_start_def sample_arrival_def)
  from state_diff_pending_well_formed [OF l s(1) st p]
  have "\<exists>a \<in> set (received Grpc (history s)). blockNumber a = 7 \<and> arrivedAtMs a = 1000" by simp
  with s(1) p show ?thesis
    by (intro exI [of _ s] exI [of _ "\<lparr>grpcMs = 1000, rpcMs = 0, since = 0, accounts = 0\<rparr>"]) simp
qed


end
