(* ===== verification/Go_Consumer.thy ===== *)
theory Go_Consumer
  imports Exex_Pb Go_Strings Go_Flag Go_Hex
begin

text \<open>
  \<open>src/examples/go-consumer/main.go\<close>: the demonstration client, which subscribes with the
  features chosen on its command line and prints every notification. Printed text is a list
  of lines; log lines and the exit code are kept apart.
\<close>

section \<open>Printing\<close>

definition hexBytes :: "bytes \<Rightarrow> string" where
  "hexBytes b = (if length b = 0 then ''(empty)'' else ''0x'' @ hex_EncodeToString b)"

text \<open>\<open>fmt.Sprintf("%*s", indent, "")\<close> for a width below the million columns \<open>fmt\<close> accepts.\<close>

definition pad_to :: "nat \<Rightarrow> string" where
  "pad_to indent = replicate indent CHR '' ''"

text \<open>
  \<open>printCallFrame\<close>: the frame's own lines, then its children two columns further right. Go's
  range loops over the logs and calls are the indexed and the plain concatenation.
\<close>

fun printCallFrame :: "CallFrame \<Rightarrow> nat \<Rightarrow> string list" where
  "printCallFrame (CallFrame kind sender rcpt val gas gasUsed input out err reason calls logs) indent =
    (let pad = pad_to indent in
     [pad @ ''type='' @ kind @ ''  from='' @ hexBytes sender @ ''  to='' @ hexBytes rcpt @ ''  value='' @
      hexBytes val @ ''  gas_used='' @ hexBytes gasUsed] @
     (if err \<noteq> '''' then [pad @ ''  error='' @ err] else []) @
     (if reason \<noteq> '''' then [pad @ ''  revert_reason='' @ reason] else []) @
     map (\<lambda>(i, l). pad @ ''  log['' @ fmt_nat i @ ''] addr='' @ hexBytes (CallLogFrame_Address l) @
          ''  topics='' @ fmt_nat (length (CallLogFrame_Topics l))) (enumerate 0 logs) @
     concat (map (\<lambda>child. printCallFrame child (indent + 2)) calls))"

definition block_line :: "BlockWithReceipts \<Rightarrow> string" where
  "block_line bwr =
    (let blockNum = (case BlockWithReceipts_Header bwr of None \<Rightarrow> 0 | Some hdr \<Rightarrow> BlockHeader_Number hdr)
     in ''  block #'' @ fmt_u64 blockNum @ ''  txs='' @ fmt_nat (length (BlockWithReceipts_Txs bwr)) @
        ''  receipts='' @ fmt_nat (length (BlockWithReceipts_Receipts bwr)) @
        ''  withdrawals='' @ fmt_nat (length (BlockWithReceipts_Withdrawals bwr)))"

definition info_line :: "string \<Rightarrow> AccountInfo \<Rightarrow> string" where
  "info_line label info =
     ''      '' @ label @ ''balance='' @ hexBytes (AccountInfo_Balance info) @ ''  nonce='' @
     fmt_u64 (AccountInfo_Nonce info) @ ''  code_hash='' @ hexBytes (AccountInfo_CodeHash info)"

definition account_lines :: "nat \<Rightarrow> AccountDiff \<Rightarrow> string list" where
  "account_lines i acc =
     [''    account['' @ fmt_nat i @ ''] addr='' @ hexBytes (AccountDiff_Address acc) @ ''  status='' @
      AccountStatus_String (AccountDiff_Status acc)] @
     (case AccountDiff_OriginalInfo acc of None \<Rightarrow> [] | Some info \<Rightarrow> [info_line ''original: '' info]) @
     (case AccountDiff_Info acc of None \<Rightarrow> [] | Some info \<Rightarrow> [info_line ''current:  '' info]) @
     map (\<lambda>(j, slot). ''      storage['' @ fmt_nat j @ ''] key='' @ hexBytes (StorageSlotDiff_Key slot) @
          ''  '' @ hexBytes (StorageSlotDiff_Previous slot) @ '' -> '' @ hexBytes (StorageSlotDiff_Current slot))
       (enumerate 0 (AccountDiff_Storage acc))"

definition contract_line :: "nat \<Rightarrow> ContractDiff \<Rightarrow> string" where
  "contract_line i c =
     ''    contract['' @ fmt_nat i @ ''] code_hash='' @ hexBytes (ContractDiff_CodeHash c) @
     ''  bytecode_len='' @ fmt_nat (length (ContractDiff_Bytecode c))"

definition storage_revert_lines :: "nat \<Rightarrow> StorageRevert \<Rightarrow> string list" where
  "storage_revert_lines k sr =
    (case StorageRevert_RevertTo sr of
       Some (StorageRevert_Value v) \<Rightarrow>
         [''        storage_revert['' @ fmt_nat k @ ''] key='' @ hexBytes (StorageRevert_Key sr) @
          '' -> value='' @ hexBytes v]
     | Some (StorageRevert_Destroyed d) \<Rightarrow>
         [''        storage_revert['' @ fmt_nat k @ ''] key='' @ hexBytes (StorageRevert_Key sr) @ '' -> destroyed'']
     | None \<Rightarrow> [])"

definition account_revert_lines :: "nat \<Rightarrow> AccountRevert \<Rightarrow> string list" where
  "account_revert_lines j ar =
     [''      revert['' @ fmt_nat j @ ''] addr='' @ hexBytes (AccountRevert_Address ar) @ ''  kind='' @
      AccountRevertKind_String (AccountRevert_Kind ar) @ ''  wipe_storage='' @ fmt_bool (AccountRevert_WipeStorage ar)] @
     concat (map (\<lambda>(k, sr). storage_revert_lines k sr) (enumerate 0 (AccountRevert_Storage ar)))"

definition revert_block_lines :: "nat \<Rightarrow> BlockReverts \<Rightarrow> string list" where
  "revert_block_lines i br =
     [''    revert_block['' @ fmt_nat i @ '']: '' @ fmt_nat (length (BlockReverts_Accounts br)) @ '' account reverts''] @
     concat (map (\<lambda>(j, ar). account_revert_lines j ar) (enumerate 0 (BlockReverts_Accounts br)))"

definition state_diff_lines :: "StateDiff option \<Rightarrow> string list" where
  "state_diff_lines sd =
    (case sd of
       None \<Rightarrow> [''  state_diff: (nil)'']
     | Some d \<Rightarrow>
         [''  state_diff: accounts='' @ fmt_nat (length (StateDiff_Accounts d)) @ ''  contracts='' @
          fmt_nat (length (StateDiff_Contracts d)) @ ''  revert_blocks='' @ fmt_nat (length (StateDiff_Reverts d))] @
         concat (map (\<lambda>(i, acc). account_lines i acc) (enumerate 0 (StateDiff_Accounts d))) @
         map (\<lambda>(i, c). contract_line i c) (enumerate 0 (StateDiff_Contracts d)) @
         concat (map (\<lambda>(i, br). revert_block_lines i br) (enumerate 0 (StateDiff_Reverts d))))"

definition call_trace_lines :: "BlockCallTraces \<Rightarrow> string list" where
  "call_trace_lines bct =
     [''    block #'' @ fmt_u64 (BlockCallTraces_BlockNumber bct) @ '': '' @
      fmt_nat (length (BlockCallTraces_Txs bct)) @ '' tx traces''] @
     concat (map (\<lambda>(i, frame). (''      tx['' @ fmt_nat i @ '']:'') # printCallFrame frame 8)
       (enumerate 0 (BlockCallTraces_Txs bct)))"

definition printChain :: "string \<Rightarrow> Chain option \<Rightarrow> string list" where
  "printChain label chain =
    (case chain of
       None \<Rightarrow> []
     | Some c \<Rightarrow>
         [''=== '' @ label @ '' | '' @ fmt_nat (length (Chain_Blocks c)) @ '' blocks ===''] @
         map block_line (Chain_Blocks c) @
         state_diff_lines (Chain_StateDiff c) @
         [''  call_traces: '' @ fmt_nat (length (Chain_CallTraces c)) @ '' blocks''] @
         concat (map call_trace_lines (Chain_CallTraces c)) @
         [''''])"

definition printNotification :: "Notification \<Rightarrow> string list" where
  "printNotification n =
    (case Notification_Event n of
       Some (Notification_ChainCommitted ev) \<Rightarrow> printChain ''COMMITTED new'' (ChainCommitted_New ev)
     | Some (Notification_ChainReorged ev) \<Rightarrow>
         printChain ''REORGED old'' (ChainReorged_Old ev) @ printChain ''REORGED new'' (ChainReorged_New ev)
     | Some (Notification_ChainReverted ev) \<Rightarrow> printChain ''REVERTED old'' (ChainReverted_Old ev)
     | None \<Rightarrow> [])"

section \<open>main\<close>

text \<open>The command line: six boolean flags, each a field of the request, and the address.\<close>

definition consumer_kind :: "string \<Rightarrow> flag_kind option" where
  "consumer_kind name =
    (if name \<in> {''headers'', ''transactions'', ''receipts'', ''withdrawals'', ''state-diff'', ''call-traces''}
     then Some Flag_Bool else None)"

definition consumer_set :: "string \<Rightarrow> string \<Rightarrow> SubscribeRequest \<Rightarrow> SubscribeRequest option" where
  "consumer_set name v req =
    (case strconv_ParseBool v of
       None \<Rightarrow> None
     | Some b \<Rightarrow> Some
         (if name = ''headers'' then req\<lparr>SubscribeRequest_IncludeHeaders := b\<rparr>
          else if name = ''transactions'' then req\<lparr>SubscribeRequest_IncludeTransactions := b\<rparr>
          else if name = ''receipts'' then req\<lparr>SubscribeRequest_IncludeReceipts := b\<rparr>
          else if name = ''withdrawals'' then req\<lparr>SubscribeRequest_IncludeWithdrawals := b\<rparr>
          else if name = ''state-diff'' then req\<lparr>SubscribeRequest_IncludeStateDiff := b\<rparr>
          else req\<lparr>SubscribeRequest_IncludeCallTraces := b\<rparr>))"

text \<open>What \<open>stream.Recv()\<close> yields; the flag of an error says that \<open>ctx.Err()\<close> was set.\<close>

datatype recv_item =
    Recv_Notification Notification
  | Recv_EOF
  | Recv_Error string bool

text \<open>What the program has printed, what it has logged, and its exit code when it has ended.\<close>

record consumer =
  printed :: "string list"
  logged :: "string list"
  code :: "nat option"

fun recv_notifications :: "recv_item list \<Rightarrow> consumer \<Rightarrow> consumer" where
  "recv_notifications [] s = s"
| "recv_notifications (Recv_EOF # items) s = s\<lparr>logged := logged s @ [''stream closed by server''], code := Some 0\<rparr>"
| "recv_notifications (Recv_Error err ctx_done # items) s =
    (if ctx_done then s\<lparr>code := Some 0\<rparr>
     else s\<lparr>logged := logged s @ [''recv error: '' @ err], code := Some 1\<rparr>)"
| "recv_notifications (Recv_Notification notif # items) s =
     recv_notifications items (s\<lparr>printed := printed s @ printNotification notif\<rparr>)"

text \<open>\<open>connect\<close> and \<open>subscribe\<close> are the gRPC library's answers.\<close>

definition maxRecvMsgSize :: nat where
  "maxRecvMsgSize = 64 * 1024 * 1024"

definition consumer_main ::
  "(nat \<Rightarrow> string \<Rightarrow> string option) \<Rightarrow> (string \<Rightarrow> SubscribeRequest \<Rightarrow> string + recv_item list) \<Rightarrow> string list \<Rightarrow> consumer" where
  "consumer_main connect subscribe argv =
    (case flag_Parse consumer_kind consumer_set argv (SubscribeRequest_Reset undefined) of
       Inl c \<Rightarrow> \<lparr>printed = [], logged = [], code = Some c\<rparr>
     | Inr (req, args) \<Rightarrow>
         let addr = (if 0 < length args then args ! 0 else ''[::1]:10000'')
         in (case connect maxRecvMsgSize addr of
               Some err \<Rightarrow>
                 \<lparr>printed = [], logged = [''connect to '' @ addr @ '' failed: '' @ err], code = Some 1\<rparr>
             | None \<Rightarrow>
                 (case subscribe addr req of
                    Inl err \<Rightarrow> \<lparr>printed = [], logged = [''subscribe failed: '' @ err], code = Some 1\<rparr>
                  | Inr items \<Rightarrow>
                      recv_notifications items
                        \<lparr>printed = [], logged = [''connected to '' @ addr @ '', waiting for notifications...''],
                         code = None\<rparr>)))"

section \<open>Correctness\<close>

lemma hexBytes_inj: "hexBytes b = hexBytes b' \<longleftrightarrow> b = b'"
proof -
  have "hex_EncodeToString b = hex_EncodeToString b' \<Longrightarrow> b = b'" by (metis unhex_hex_EncodeToString option.inject)
  then show ?thesis by (auto simp: hexBytes_def)
qed

text \<open>The frames of a trace in pre-order, with their columns, and the lines of one frame.\<close>

fun frames_at :: "nat \<Rightarrow> CallFrame \<Rightarrow> (nat \<times> CallFrame) list" where
  "frames_at indent (CallFrame kind sender rcpt val gas gasUsed input out err reason calls logs) =
     (indent, CallFrame kind sender rcpt val gas gasUsed input out err reason calls logs)
     # concat (map (frames_at (indent + 2)) calls)"

definition own_lines :: "nat \<times> CallFrame \<Rightarrow> string list" where
  "own_lines p = (case p of (indent, f) \<Rightarrow>
     [pad_to indent @ ''type='' @ CallFrame_Typ f @ ''  from='' @ hexBytes (CallFrame_From f) @ ''  to='' @
      hexBytes (CallFrame_To f) @ ''  value='' @ hexBytes (CallFrame_Value f) @ ''  gas_used='' @
      hexBytes (CallFrame_GasUsed f)] @
     (if CallFrame_Error f \<noteq> '''' then [pad_to indent @ ''  error='' @ CallFrame_Error f] else []) @
     (if CallFrame_RevertReason f \<noteq> '''' then [pad_to indent @ ''  revert_reason='' @ CallFrame_RevertReason f] else []) @
     map (\<lambda>(i, l). pad_to indent @ ''  log['' @ fmt_nat i @ ''] addr='' @ hexBytes (CallLogFrame_Address l) @
          ''  topics='' @ fmt_nat (length (CallLogFrame_Topics l))) (enumerate 0 (CallFrame_Logs f)))"

lemma printCallFrame_frames_at: "printCallFrame f indent = concat (map own_lines (frames_at indent f))"
proof (induction f arbitrary: indent)
  case (CallFrame kind sender rcpt val gas gasUsed input out err reason calls logs)
  have c: "concat (map own_lines (concat (map g cs))) = concat (map (\<lambda>x. concat (map own_lines (g x))) cs)"
    for g and cs :: "CallFrame list" by (induction cs) auto
  have "map (\<lambda>child. printCallFrame child (indent + 2)) calls =
      map (\<lambda>child. concat (map own_lines (frames_at (indent + 2) child))) calls"
    using CallFrame by (intro map_cong) auto
  then have "concat (map (\<lambda>child. printCallFrame child (indent + 2)) calls) =
      concat (map own_lines (concat (map (frames_at (indent + 2)) calls)))"
    by (simp only: c)
  then show ?case
    by (simp add: own_lines_def [of "(indent, CallFrame kind sender rcpt val gas gasUsed input out err reason calls logs)"]
        Let_def)
qed

text \<open>The feature a flag name stands for.\<close>

definition feature_flags :: "string set" where
  "feature_flags = {''headers'', ''transactions'', ''receipts'', ''withdrawals'', ''state-diff'', ''call-traces''}"

definition feature :: "string \<Rightarrow> SubscribeRequest \<Rightarrow> bool" where
  "feature name req =
    (if name = ''headers'' then SubscribeRequest_IncludeHeaders req
     else if name = ''transactions'' then SubscribeRequest_IncludeTransactions req
     else if name = ''receipts'' then SubscribeRequest_IncludeReceipts req
     else if name = ''withdrawals'' then SubscribeRequest_IncludeWithdrawals req
     else if name = ''state-diff'' then SubscribeRequest_IncludeStateDiff req
     else SubscribeRequest_IncludeCallTraces req)"

text \<open>Boolean flags as arguments.\<close>

primrec as_flags :: "string list \<Rightarrow> string list" where
  "as_flags [] = []"
| "as_flags (name # names) = (''--'' @ name) # as_flags names"

lemma consumer_set_true:
  assumes "name \<in> feature_flags"
  shows "\<exists>req'. consumer_set name ''true'' req = Some req' \<and>
    (\<forall>n \<in> feature_flags. feature n req' \<longleftrightarrow> feature n req \<or> n = name)"
  using assms by (auto simp: feature_flags_def consumer_set_def strconv_ParseBool_def feature_def)

lemma consumer_flag_step:
  assumes "name \<in> feature_flags"
  shows "\<exists>req'. flag_Parse consumer_kind consumer_set ((''--'' @ name) # argv) req
        = flag_Parse consumer_kind consumer_set argv req' \<and>
    (\<forall>n \<in> feature_flags. feature n req' \<longleftrightarrow> feature n req \<or> n = name)"
proof -
  obtain req' where r: "consumer_set name ''true'' req = Some req'"
    "\<forall>n \<in> feature_flags. feature n req' \<longleftrightarrow> feature n req \<or> n = name"
    using consumer_set_true [OF assms] by blast
  have "consumer_kind name = Some Flag_Bool" "name \<noteq> []" "CHR ''='' \<notin> set name" "hd name \<noteq> CHR ''-''"
    using assms by (auto simp: consumer_kind_def feature_flags_def)
  note p = flag_Parse_bool [where kind = consumer_kind and name = name, OF this]
  show ?thesis
  proof (intro exI conjI)
    show "flag_Parse consumer_kind consumer_set ((''--'' @ name) # argv) req
        = flag_Parse consumer_kind consumer_set argv req'"
      using p [of consumer_set argv req] r(1) by simp
  qed (rule r(2))
qed

lemma consumer_flags:
  "set names \<subseteq> feature_flags \<Longrightarrow>
   \<exists>req'. flag_Parse consumer_kind consumer_set (as_flags names @ argv) req
        = flag_Parse consumer_kind consumer_set argv req' \<and>
    (\<forall>n \<in> feature_flags. feature n req' \<longleftrightarrow> feature n req \<or> n \<in> set names)"
proof (induction names arbitrary: req)
  case (Cons name names)
  obtain req1 where 1: "flag_Parse consumer_kind consumer_set ((''--'' @ name) # as_flags names @ argv) req
        = flag_Parse consumer_kind consumer_set (as_flags names @ argv) req1"
    "\<forall>n \<in> feature_flags. feature n req1 \<longleftrightarrow> feature n req \<or> n = name"
    using consumer_flag_step [of name "as_flags names @ argv" req] Cons.prems by (meson in_mono list.set_intros(1))
  obtain req2 where 2: "flag_Parse consumer_kind consumer_set (as_flags names @ argv) req1
        = flag_Parse consumer_kind consumer_set argv req2"
    "\<forall>n \<in> feature_flags. feature n req2 \<longleftrightarrow> feature n req1 \<or> n \<in> set names"
    using Cons.IH [of req1] Cons.prems by (meson order_trans set_subset_Cons)
  show ?case by (rule exI [of _ req2]) (use 1 2 in auto)
qed auto

lemma recv_notifications_prefix:
  "printed (recv_notifications (map Recv_Notification ns @ items) s) =
     printed (recv_notifications items (s\<lparr>printed := printed s @ concat (map printNotification ns)\<rparr>))"
  "code (recv_notifications (map Recv_Notification ns @ items) s) = code (recv_notifications items s)"
proof -
  have "recv_notifications (map Recv_Notification ns @ items) s =
      recv_notifications items (s\<lparr>printed := printed s @ concat (map printNotification ns)\<rparr>)" for s
    by (induction ns arbitrary: s) auto
  moreover have "code (recv_notifications items (s\<lparr>printed := p\<rparr>)) = code (recv_notifications items s)" for s p
    by (induction items s arbitrary: p rule: recv_notifications.induct) auto
  ultimately show "printed (recv_notifications (map Recv_Notification ns @ items) s) =
     printed (recv_notifications items (s\<lparr>printed := printed s @ concat (map printNotification ns)\<rparr>))"
    "code (recv_notifications (map Recv_Notification ns @ items) s) = code (recv_notifications items s)" by simp_all
qed

end
