(* ===== verification/Consumer_Shown.thy ===== *)
theory Consumer_Shown
  imports Go_Consumer
begin

text \<open>
  What the demonstration client shows of a notification, as data: the items of a notification
  in the order of its parts, and the line that shows an item. No two items share a line, so a
  printed text can be read back item by item.
\<close>

section \<open>Items\<close>

datatype shown =
    Shown_Chain string nat
  | Shown_Block u64 nat nat nat
  | Shown_No_Diff
  | Shown_Diff nat nat nat
  | Shown_Account nat bytes string
  | Shown_Original AccountInfo
  | Shown_Current AccountInfo
  | Shown_Slot nat bytes bytes bytes
  | Shown_Contract nat bytes nat
  | Shown_Revert_Block nat nat
  | Shown_Revert nat bytes string bool
  | Shown_Slot_Value nat bytes bytes
  | Shown_Slot_Destroyed nat bytes
  | Shown_Traces nat
  | Shown_Trace_Block u64 nat
  | Shown_Tx nat
  | Shown_Call nat string bytes bytes bytes bytes
  | Shown_Error nat string
  | Shown_Reason nat string
  | Shown_Log nat nat bytes nat
  | Shown_End

section \<open>The items of a notification\<close>

definition block_item :: "BlockWithReceipts \<Rightarrow> shown" where
  "block_item b =
    Shown_Block (case BlockWithReceipts_Header b of None \<Rightarrow> 0 | Some h \<Rightarrow> BlockHeader_Number h)
      (length (BlockWithReceipts_Txs b)) (length (BlockWithReceipts_Receipts b)) (length (BlockWithReceipts_Withdrawals b))"

text \<open>The elements of a list with their positions.\<close>

definition numbered :: "(nat \<Rightarrow> 'a \<Rightarrow> 'b list) \<Rightarrow> 'a list \<Rightarrow> 'b list" where
  "numbered f xs = concat (map (\<lambda>i. f i (xs ! i)) [0..<length xs])"

definition account_items :: "nat \<Rightarrow> AccountDiff \<Rightarrow> shown list" where
  "account_items i a =
    [Shown_Account i (AccountDiff_Address a) (AccountStatus_String (AccountDiff_Status a))] @
    map Shown_Original (case AccountDiff_OriginalInfo a of None \<Rightarrow> [] | Some info \<Rightarrow> [info]) @
    map Shown_Current (case AccountDiff_Info a of None \<Rightarrow> [] | Some info \<Rightarrow> [info]) @
    numbered (\<lambda>j s. [Shown_Slot j (StorageSlotDiff_Key s) (StorageSlotDiff_Previous s) (StorageSlotDiff_Current s)])
      (AccountDiff_Storage a)"

definition slot_revert_items :: "nat \<Rightarrow> StorageRevert \<Rightarrow> shown list" where
  "slot_revert_items k r =
    (case StorageRevert_RevertTo r of
       None \<Rightarrow> []
     | Some (StorageRevert_Value v) \<Rightarrow> [Shown_Slot_Value k (StorageRevert_Key r) v]
     | Some (StorageRevert_Destroyed d) \<Rightarrow> [Shown_Slot_Destroyed k (StorageRevert_Key r)])"

definition revert_items :: "nat \<Rightarrow> AccountRevert \<Rightarrow> shown list" where
  "revert_items j r =
    Shown_Revert j (AccountRevert_Address r) (AccountRevertKind_String (AccountRevert_Kind r)) (AccountRevert_WipeStorage r)
    # numbered slot_revert_items (AccountRevert_Storage r)"

definition diff_items :: "StateDiff \<Rightarrow> shown list" where
  "diff_items d =
    Shown_Diff (length (StateDiff_Accounts d)) (length (StateDiff_Contracts d)) (length (StateDiff_Reverts d))
    # numbered account_items (StateDiff_Accounts d)
    @ numbered (\<lambda>i c. [Shown_Contract i (ContractDiff_CodeHash c) (length (ContractDiff_Bytecode c))]) (StateDiff_Contracts d)
    @ numbered (\<lambda>i b. Shown_Revert_Block i (length (BlockReverts_Accounts b)) # numbered revert_items (BlockReverts_Accounts b))
        (StateDiff_Reverts d)"

text \<open>A call with its error, revert reason and logs; a trace is its calls in pre-order.\<close>

definition call_items :: "nat \<times> CallFrame \<Rightarrow> shown list" where
  "call_items = (\<lambda>(column, f).
    Shown_Call column (CallFrame_Typ f) (CallFrame_From f) (CallFrame_To f) (CallFrame_Value f) (CallFrame_GasUsed f)
    # map (Shown_Error column) (filter (\<lambda>e. e \<noteq> []) [CallFrame_Error f])
    @ map (Shown_Reason column) (filter (\<lambda>e. e \<noteq> []) [CallFrame_RevertReason f])
    @ numbered (\<lambda>i l. [Shown_Log column i (CallLogFrame_Address l) (length (CallLogFrame_Topics l))]) (CallFrame_Logs f))"

definition trace_items :: "BlockCallTraces \<Rightarrow> shown list" where
  "trace_items t =
    Shown_Trace_Block (BlockCallTraces_BlockNumber t) (length (BlockCallTraces_Txs t))
    # numbered (\<lambda>i f. Shown_Tx i # concat (map call_items (frames_at 8 f))) (BlockCallTraces_Txs t)"

definition chain_items :: "string \<times> Chain \<Rightarrow> shown list" where
  "chain_items = (\<lambda>(label, c).
    Shown_Chain label (length (Chain_Blocks c))
    # map block_item (Chain_Blocks c)
    @ (case Chain_StateDiff c of None \<Rightarrow> [Shown_No_Diff] | Some d \<Rightarrow> diff_items d)
    @ Shown_Traces (length (Chain_CallTraces c))
    # concat (map trace_items (Chain_CallTraces c))
    @ [Shown_End])"

text \<open>The chains of a notification: both of a reorganisation, the old one first.\<close>

definition labelled_chains :: "Notification \<Rightarrow> (string \<times> Chain) list" where
  "labelled_chains n =
    (let present = \<lambda>label c. map (Pair label) (case c of None \<Rightarrow> [] | Some x \<Rightarrow> [x]) in
     case Notification_Event n of
       None \<Rightarrow> []
     | Some (Notification_ChainCommitted ev) \<Rightarrow> present ''COMMITTED new'' (ChainCommitted_New ev)
     | Some (Notification_ChainReorged ev) \<Rightarrow>
         present ''REORGED old'' (ChainReorged_Old ev) @ present ''REORGED new'' (ChainReorged_New ev)
     | Some (Notification_ChainReverted ev) \<Rightarrow> present ''REVERTED old'' (ChainReverted_Old ev))"

definition items :: "Notification \<Rightarrow> shown list" where
  "items n = concat (map chain_items (labelled_chains n))"

section \<open>The line of an item\<close>

definition info_text :: "AccountInfo \<Rightarrow> string" where
  "info_text info = ''balance='' @ hexBytes (AccountInfo_Balance info) @ ''  nonce='' @
     fmt_u64 (AccountInfo_Nonce info) @ ''  code_hash='' @ hexBytes (AccountInfo_CodeHash info)"

fun column_text :: "shown \<Rightarrow> nat \<times> string" where
  "column_text (Shown_Chain label n) = (0, ''=== '' @ label @ '' | '' @ fmt_nat n @ '' blocks ==='')"
| "column_text (Shown_Block k txs receipts withdrawals) =
     (2, ''block #'' @ fmt_u64 k @ ''  txs='' @ fmt_nat txs @ ''  receipts='' @ fmt_nat receipts @
         ''  withdrawals='' @ fmt_nat withdrawals)"
| "column_text Shown_No_Diff = (2, ''state_diff: (nil)'')"
| "column_text (Shown_Diff accounts contracts reverts) =
     (2, ''state_diff: accounts='' @ fmt_nat accounts @ ''  contracts='' @ fmt_nat contracts @
         ''  revert_blocks='' @ fmt_nat reverts)"
| "column_text (Shown_Account i addr status) =
     (4, ''account['' @ fmt_nat i @ ''] addr='' @ hexBytes addr @ ''  status='' @ status)"
| "column_text (Shown_Original info) = (6, ''original: '' @ info_text info)"
| "column_text (Shown_Current info) = (6, ''current:  '' @ info_text info)"
| "column_text (Shown_Slot j key prev cur) =
     (6, ''storage['' @ fmt_nat j @ ''] key='' @ hexBytes key @ ''  '' @ hexBytes prev @ '' -> '' @ hexBytes cur)"
| "column_text (Shown_Contract i hash n) =
     (4, ''contract['' @ fmt_nat i @ ''] code_hash='' @ hexBytes hash @ ''  bytecode_len='' @ fmt_nat n)"
| "column_text (Shown_Revert_Block i n) =
     (4, ''revert_block['' @ fmt_nat i @ '']: '' @ fmt_nat n @ '' account reverts'')"
| "column_text (Shown_Revert j addr kind wipe) =
     (6, ''revert['' @ fmt_nat j @ ''] addr='' @ hexBytes addr @ ''  kind='' @ kind @ ''  wipe_storage='' @ fmt_bool wipe)"
| "column_text (Shown_Slot_Value k key v) =
     (8, ''storage_revert['' @ fmt_nat k @ ''] key='' @ hexBytes key @ '' -> value='' @ hexBytes v)"
| "column_text (Shown_Slot_Destroyed k key) =
     (8, ''storage_revert['' @ fmt_nat k @ ''] key='' @ hexBytes key @ '' -> destroyed'')"
| "column_text (Shown_Traces n) = (2, ''call_traces: '' @ fmt_nat n @ '' blocks'')"
| "column_text (Shown_Trace_Block k n) = (4, ''block #'' @ fmt_u64 k @ '': '' @ fmt_nat n @ '' tx traces'')"
| "column_text (Shown_Tx i) = (6, ''tx['' @ fmt_nat i @ '']:'')"
| "column_text (Shown_Call c kind sender rcpt val gasUsed) =
     (c, ''type='' @ kind @ ''  from='' @ hexBytes sender @ ''  to='' @ hexBytes rcpt @ ''  value='' @
         hexBytes val @ ''  gas_used='' @ hexBytes gasUsed)"
| "column_text (Shown_Error c err) = (c + 2, ''error='' @ err)"
| "column_text (Shown_Reason c reason) = (c + 2, ''revert_reason='' @ reason)"
| "column_text (Shown_Log c i addr topics) =
     (c + 2, ''log['' @ fmt_nat i @ ''] addr='' @ hexBytes addr @ ''  topics='' @ fmt_nat topics)"
| "column_text Shown_End = (0, [])"

definition show_item :: "shown \<Rightarrow> string" where
  "show_item x = (case column_text x of (column, text) \<Rightarrow> replicate column CHR '' '' @ text)"

section \<open>The program prints the items\<close>

lemma map_enumerate: "map (\<lambda>(i, x). g i x) (enumerate 0 xs) = numbered (\<lambda>i x. [g i x]) xs"
  unfolding numbered_def by (simp add: concat_map_singleton) (rule nth_equalityI, auto simp: nth_enumerate_eq)

lemma concat_numbered: "concat (numbered (f :: nat \<Rightarrow> 'a \<Rightarrow> 'b list list) xs) = numbered (\<lambda>i x. concat (f i x)) (xs :: 'a list)"
proof -
  have "concat (concat xss) = concat (map concat xss)" for xss :: "'b list list list" by (induction xss) auto
  then show ?thesis by (simp add: numbered_def comp_def)
qed

lemma map_numbered: "map h (numbered f xs) = numbered (\<lambda>i x. map h (f i x)) xs"
  by (simp add: numbered_def map_concat comp_def)

lemmas shown_lines = map_enumerate show_item_def map_numbered concat_numbered map_concat comp_def numeral_eq_Suc

lemma account_lines_items: "account_lines i a = map show_item (account_items i a)"
  by (simp add: account_lines_def account_items_def info_line_def info_text_def shown_lines
      split: option.split)

lemma storage_revert_lines_items: "storage_revert_lines k r = map show_item (slot_revert_items k r)"
  by (simp add: storage_revert_lines_def slot_revert_items_def shown_lines
      split: option.split isStorageRevert_RevertTo.split)

lemma account_revert_lines_items: "account_revert_lines j r = map show_item (revert_items j r)"
  by (simp add: account_revert_lines_def revert_items_def storage_revert_lines_items shown_lines)

lemma revert_block_lines_items:
  "revert_block_lines i b = map show_item (Shown_Revert_Block i (length (BlockReverts_Accounts b))
     # numbered revert_items (BlockReverts_Accounts b))"
  by (simp add: revert_block_lines_def account_revert_lines_items shown_lines)

lemma state_diff_lines_items:
  "state_diff_lines sd = map show_item (case sd of None \<Rightarrow> [Shown_No_Diff] | Some d \<Rightarrow> diff_items d)"
  by (simp add: state_diff_lines_def diff_items_def account_lines_items contract_line_def revert_block_lines_items shown_lines split: option.split)

lemma own_lines_items: "own_lines p = map show_item (call_items p)"
  by (cases p) (simp add: own_lines_def call_items_def pad_to_def shown_lines replicate_app_Cons_same)

lemma call_trace_lines_items: "call_trace_lines t = map show_item (trace_items t)"
  by (simp add: call_trace_lines_def trace_items_def printCallFrame_frames_at own_lines_items [abs_def] 
      shown_lines)

lemma printChain_items:
  "printChain label c = concat (map (\<lambda>x. map show_item (chain_items (label, x))) (case c of None \<Rightarrow> [] | Some x \<Rightarrow> [x]))"
  by (simp add: printChain_def chain_items_def block_line_def [abs_def] block_item_def state_diff_lines_items
      call_trace_lines_items [abs_def] shown_lines split: option.split)

lemma printNotification_items: "printNotification n = map show_item (items n)"
  by (simp add: printNotification_def items_def labelled_chains_def printChain_items Let_def map_concat comp_def
      split: option.split isNotification_Event.split)

section \<open>No two items share a line\<close>

declare fmt_nat_inj [simp]

text \<open>Numbers and byte strings are written without the separators that end them.\<close>

lemma hexBytes_chars: "digit_val c = None \<Longrightarrow> c \<noteq> CHR ''('' \<Longrightarrow> c \<noteq> CHR '')'' \<Longrightarrow> c \<notin> set (hexBytes b)"
proof -
  assume c: "digit_val c = None" "c \<noteq> CHR ''(''" "c \<noteq> CHR '')''"
  have digit: "hex_digit v \<noteq> c" if "v < 16" for v
  proof -
    have "digit_val (hex_digit v) = Some v" using that by simp
    with c(1) show ?thesis by auto
  qed
  have "c \<notin> set ''emptyx0''" using c(1) by (auto simp: digit_val_def)
  moreover have "c \<notin> set (hex_EncodeToString b)"
    using digit nibbles_bound [of b] by (simp add: hex_EncodeToString_nibbles image_iff) metis
  ultimately show "c \<notin> set (hexBytes b)" using c by (auto simp: hexBytes_def)
qed

lemmas no_separators [simp] = fmt_nat_chars hexBytes_chars

lemma separators [simp]:
  "digit_val CHR '' '' = None" "digit_val CHR '']'' = None" "digit_val CHR '':'' = None" "digit_val CHR ''='' = None"
  "digit_val CHR ''|'' = None"
  by (simp_all add: digit_val_def)

text \<open>A field ends at the first separator after it, and begins after the last one before it.\<close>

lemma first_separator:
  "c \<notin> set xs \<Longrightarrow> c \<notin> set ys \<Longrightarrow> xs @ c # us = ys @ c # vs \<longleftrightarrow> xs = ys \<and> us = vs"
proof (induction xs arbitrary: ys)
  case (Cons x xs)
  then show ?case by (cases ys) auto
qed (auto simp: Cons_eq_append_conv)

lemma last_separator:
  assumes "c \<notin> set us" "c \<notin> set vs"
  shows "xs @ c # us = ys @ c # vs \<longleftrightarrow> xs = ys \<and> us = vs"
proof
  assume "xs @ c # us = ys @ c # vs"
  then have "rev us @ c # rev xs = rev vs @ c # rev ys" by (metis rev_append rev.simps(2) append.assoc append_Cons append_Nil)
  then show "xs = ys \<and> us = vs" using assms by (simp add: first_separator)
qed simp

lemma word_field [simp]: "fmt_u64 v = fmt_u64 w \<longleftrightarrow> v = w"
  by (simp add: fmt_u64_def word_unat_eq_iff)

lemma fields [simp]:
  "digit_val c = None \<Longrightarrow> fmt_nat m @ c # us = fmt_nat n @ c # vs \<longleftrightarrow> m = n \<and> us = vs"
  "digit_val c = None \<Longrightarrow> fmt_u64 v @ c # us = fmt_u64 w @ c # vs \<longleftrightarrow> v = w \<and> us = vs"
  "hexBytes a @ CHR '' '' # us = hexBytes b @ CHR '' '' # vs \<longleftrightarrow> a = b \<and> us = vs"
  by (simp_all add: first_separator hexBytes_inj fmt_u64_def word_unat_eq_iff)

lemma info_text_inj: "info_text i = info_text j \<longleftrightarrow> i = j"
  by (cases i; cases j) (simp add: info_text_def hexBytes_inj)

lemma chain_text_inj:
  "label @ '' | '' @ fmt_nat m @ '' blocks ==='' = label' @ '' | '' @ fmt_nat n @ '' blocks ===''
     \<longleftrightarrow> label = label' \<and> m = n"
  using last_separator [of "CHR ''|''" "'' '' @ fmt_nat m @ '' blocks ===''" "'' '' @ fmt_nat n @ '' blocks ===''"
      "label @ '' ''" "label' @ '' ''"] by simp

lemma revert_text_inj:
  "kind @ ''  wipe_storage='' @ fmt_bool w = kind' @ ''  wipe_storage='' @ fmt_bool w' \<longleftrightarrow> kind = kind' \<and> w = w'"
  using last_separator [of "CHR ''=''" "fmt_bool w" "fmt_bool w'" "kind @ ''  wipe_storage''" "kind' @ ''  wipe_storage''"]
  by (auto simp: fmt_bool_def split: if_splits)

lemma call_text_inj:
  "kind @ ''  from='' @ hexBytes a @ ''  to='' @ hexBytes b @ ''  value='' @ hexBytes c @ ''  gas_used='' @ hexBytes d =
   kind' @ ''  from='' @ hexBytes a' @ ''  to='' @ hexBytes b' @ ''  value='' @ hexBytes c' @ ''  gas_used='' @ hexBytes d'
     \<longleftrightarrow> kind = kind' \<and> a = a' \<and> b = b' \<and> c = c' \<and> d = d'"
proof -
  let ?e = "CHR ''=''"
  have r: "k @ ''  from='' @ p @ ''  to='' @ q @ ''  value='' @ r @ ''  gas_used='' @ s =
      ((((k @ ''  from'') @ ?e # (p @ ''  to'')) @ ?e # (q @ ''  value'')) @ ?e # (r @ ''  gas_used'')) @ ?e # s" for k p q r s
    by simp
  have n: "?e \<notin> set (hexBytes x)" "?e \<notin> set (hexBytes x @ ''  to'')" "?e \<notin> set (hexBytes x @ ''  value'')"
    "?e \<notin> set (hexBytes x @ ''  gas_used'')" for x by simp_all
  show ?thesis unfolding r last_separator [OF n(1) n(1)] last_separator [OF n(2) n(2)] last_separator [OF n(3) n(3)]
      last_separator [OF n(4) n(4)] append_same_eq hexBytes_inj by blast
qed

lemma column_text_inj: "column_text x = column_text y \<longleftrightarrow> x = y"
  by (cases x; cases y) (simp_all add: info_text_inj chain_text_inj [simplified] revert_text_inj [simplified]
      call_text_inj [simplified] hexBytes_inj)

lemma column_text_no_space: "snd (column_text x) = [] \<or> hd (snd (column_text x)) \<noteq> CHR '' ''"
  by (cases x) simp_all

lemma drop_padding: "us = [] \<or> hd us \<noteq> CHR '' '' \<Longrightarrow> dropWhile (\<lambda>c. c = CHR '' '') (replicate n CHR '' '' @ us) = us"
  by (induction n) (cases us; auto)+

lemma show_item_inj: "show_item x = show_item y \<longleftrightarrow> x = y"
proof
  assume e: "show_item x = show_item y"
  obtain m us n vs where t: "column_text x = (m, us)" "column_text y = (n, vs)" by (metis surj_pair)
  then have p: "replicate m CHR '' '' @ us = replicate n CHR '' '' @ vs" using e by (simp add: show_item_def)
  from arg_cong [OF this, of "dropWhile (\<lambda>c. c = CHR '' '')"] have "us = vs"
    using column_text_no_space [of x] column_text_no_space [of y] t by (simp add: drop_padding)
  with arg_cong [OF p, of length] t have "column_text x = column_text y" by simp
  then show "x = y" by (simp add: column_text_inj)
qed simp

end
