(* ===== verification/Consumer_Properties.thy ===== *)
theory Consumer_Properties
  imports Consumer_Shown
begin

text \<open>The properties of the demonstration client.\<close>

section \<open>A sample\<close>

definition sample_reorg :: Notification where
  "sample_reorg = \<lparr>Notification_Event = Some (Notification_ChainReorged
     \<lparr>ChainReorged_Old = Some
        \<lparr>Chain_Blocks = [\<lparr>BlockWithReceipts_Header = None, BlockWithReceipts_Txs = [], BlockWithReceipts_Senders = [],
           BlockWithReceipts_Receipts = [], BlockWithReceipts_Withdrawals = []\<rparr>],
         Chain_StateDiff = None, Chain_CallTraces = []\<rparr>,
      ChainReorged_New = Some
        \<lparr>Chain_Blocks = [],
         Chain_StateDiff = Some \<lparr>StateDiff_Accounts = [],
           StateDiff_Contracts = [\<lparr>ContractDiff_CodeHash = [7], ContractDiff_Bytecode = [0, 0]\<rparr>], StateDiff_Reverts = []\<rparr>,
         Chain_CallTraces = []\<rparr>\<rparr>)\<rparr>"

section \<open>Properties\<close>

text \<open>
  C40. The client prints a call tree frame by frame in pre-order: every frame, nested to any
  depth, contributes exactly its own lines (the call, its error and revert reason if any, its
  logs), two columns to the right of its caller's.
\<close>

theorem printCallFrame_preorder: "printCallFrame f indent = concat (map own_lines (frames_at indent f))"
  by (rule printCallFrame_frames_at)

text \<open>
  Different byte strings are never shown alike: hexBytes is injective, the empty string
  included.
\<close>

theorem hexBytes_injective: "hexBytes b = hexBytes b' \<longleftrightarrow> b = b'"
  by (rule hexBytes_inj)

text \<open>
  C39. With acceptable arguments and a stream, the client prints every notification it
  receives, in order and completely, and then ends. What it prints is one line for each item of
  the notifications: for every chain, of a reorganisation the old and the new one, its blocks,
  its state diff with the accounts, storage slots, contracts and reverts by position, and every
  call of every trace with its error, revert reason and logs. No two items are printed alike, so
  nothing shown is ambiguous. The exit code is 0 when the server closes the stream or the
  context was cancelled, and 1 on any other error.
\<close>

theorem consumer_prints_all:
  assumes "flag_Parse consumer_kind consumer_set argv (SubscribeRequest_Reset undefined) = Inr (req, args)"
    "addr = (if args = [] then ''[::1]:10000'' else args ! 0)" "connect maxRecvMsgSize addr = None"
    "subscribe addr req = Inr (map Recv_Notification ns @ last_item # rest)" "\<And>n. last_item \<noteq> Recv_Notification n"
  shows "printed (consumer_main connect subscribe argv) = map show_item (concat (map items ns)) \<and>
    inj show_item \<and>
    code (consumer_main connect subscribe argv) =
      Some (case last_item of Recv_Error err ctx_done \<Rightarrow> if ctx_done then 0 else 1 | _ \<Rightarrow> 0)"
proof -
  have "consumer_main connect subscribe argv =
      recv_notifications (map Recv_Notification ns @ last_item # rest)
        \<lparr>printed = [], logged = [''connected to '' @ addr @ '', waiting for notifications...''], code = None\<rparr>"
    using assms(1-4) by (auto simp: consumer_main_def Let_def)
  moreover have "concat (map printNotification ns) = map show_item (concat (map items ns))"
    by (simp add: printNotification_items [abs_def] map_concat comp_def)
  moreover have "inj show_item" by (simp add: inj_def show_item_inj)
  ultimately show ?thesis using assms(5) by (cases last_item) (auto simp: recv_notifications_prefix)
qed

theorem consumer_prints_all_witness:
  "printed (consumer_main (\<lambda>size addr. None) (\<lambda>addr req. Inr [Recv_Notification sample_reorg, Recv_EOF]) [''host:1''])
      = [''=== REORGED old | 1 blocks ==='', ''  block #0  txs=0  receipts=0  withdrawals=0'', ''  state_diff: (nil)'',
         ''  call_traces: 0 blocks'', [], ''=== REORGED new | 0 blocks ==='',
         ''  state_diff: accounts=0  contracts=1  revert_blocks=0'',
         ''    contract[0] code_hash=0x07  bytecode_len=2'', ''  call_traces: 0 blocks'', []] \<and>
   code (consumer_main (\<lambda>size addr. None) (\<lambda>addr req. Inr [Recv_Notification sample_reorg, Recv_EOF]) [''host:1''])
      = Some 0"
proof -
  have n: "fmt_nat 0 = ''0''" "fmt_nat (Suc 0) = ''1''" "fmt_nat (Suc (Suc 0)) = ''2''" "hexBytes [7] = ''0x07''"
    by code_simp+
  have "printed (consumer_main (\<lambda>size addr. None) (\<lambda>addr req. Inr [Recv_Notification sample_reorg, Recv_EOF]) [''host:1''])
      = map show_item (concat (map items [sample_reorg])) \<and> inj show_item \<and>
   code (consumer_main (\<lambda>size addr. None) (\<lambda>addr req. Inr [Recv_Notification sample_reorg, Recv_EOF]) [''host:1''])
      = Some (case Recv_EOF of Recv_Error err ctx_done \<Rightarrow> if ctx_done then 0 else 1 | _ \<Rightarrow> 0)"
    by (rule consumer_prints_all [where req = "SubscribeRequest_Reset undefined" and args = "[''host:1'']"
          and addr = "''host:1''" and rest = "[]"])
      (simp_all add: flag_Parse_positional)
  moreover have "map show_item (concat (map items [sample_reorg]))
      = [''=== REORGED old | 1 blocks ==='', ''  block #0  txs=0  receipts=0  withdrawals=0'', ''  state_diff: (nil)'',
         ''  call_traces: 0 blocks'', [], ''=== REORGED new | 0 blocks ==='',
         ''  state_diff: accounts=0  contracts=1  revert_blocks=0'',
         ''    contract[0] code_hash=0x07  bytecode_len=2'', ''  call_traces: 0 blocks'', []]"
    by (simp add: n sample_reorg_def items_def labelled_chains_def chain_items_def block_item_def diff_items_def
        numbered_def show_item_def fmt_u64_def) (simp add: numeral_eq_Suc)
  ultimately show ?thesis by simp
qed

text \<open>
  The feature flags of the client are independent: given before the address in any order
  and any number of times, they ask the server for exactly the named features.
\<close>

theorem consumer_asks_for_named_features:
  assumes "set names \<subseteq> feature_flags" "addr = [] \<or> hd addr \<noteq> CHR ''-''"
  shows "\<exists>req. flag_Parse consumer_kind consumer_set (as_flags names @ [addr]) (SubscribeRequest_Reset undefined)
      = Inr (req, [addr]) \<and> (\<forall>n \<in> feature_flags. feature n req \<longleftrightarrow> n \<in> set names)"
proof -
  have "feature n (SubscribeRequest_Reset undefined) = False" for n
    by (simp add: feature_def wire_defs)
  with consumer_flags [OF assms(1), of "[addr]" "SubscribeRequest_Reset undefined"]
    flag_Parse_positional [OF assms(2), of consumer_kind consumer_set "[]"] show ?thesis by auto
qed

theorem consumer_asks_for_named_features_witness:
  "\<exists>req. flag_Parse consumer_kind consumer_set (as_flags [''receipts'', ''headers''] @ [''host:1''])
        (SubscribeRequest_Reset undefined) = Inr (req, [''host:1'']) \<and>
     (\<forall>n \<in> feature_flags. feature n req \<longleftrightarrow> n \<in> set [''receipts'', ''headers''])"
  by (rule consumer_asks_for_named_features) (simp_all add: feature_flags_def)

end
