(* ===== verification/Reth_Types.thy ===== *)
theory Reth_Types
  imports Exex_Pb Go_Hex
begin

text \<open>
  What the server (\<open>src/src/convert.rs\<close>, \<open>src/src/exex.rs\<close>) reads of the values reth hands
  it. The types belong to reth, revm and alloy, which are not part of the repository: a
  record here has the fields the server reads, a datatype the variants it matches on, under
  the names it uses. What the server does not read (such as the ommers of a block or the code
  of an account) has no field here, so no theorem speaks of it.

  \<^item> \<open>U256\<close>, \<open>u128\<close>, \<open>u64\<close>, \<open>u32\<close> and \<open>u8\<close> are words. A \<open>FixedBytes<N>\<close> (\<open>B256\<close>, \<open>Address\<close>,
    \<open>Bloom\<close>, \<open>B64\<close>) is the word of \<open>8 * N\<close> bits whose big-endian bytes it holds.
  \<^item> \<open>Bytes\<close> and \<open>Vec<u8>\<close> are byte lists, \<open>String\<close> a character list.
  \<^item> A hash map that is iterated over is the list of its entries in the order of the
    iteration; one that is looked up is a map.
  \<^item> An accessor method of a foreign type (\<open>hash()\<close>, \<open>signature()\<close>, \<open>topics()\<close>,
    \<open>blocks_and_receipts()\<close>) is a field.
\<close>

section \<open>Big-endian bytes\<close>

text \<open>\<open>to_be_bytes\<close> of an integer of \<open>n\<close> bytes.\<close>

fun be_bytes :: "nat \<Rightarrow> nat \<Rightarrow> bytes" where
  "be_bytes 0 v = []"
| "be_bytes (Suc n) v = be_bytes n (v div 256) @ [of_nat v]"

definition to_be_bytes :: "'a :: len word \<Rightarrow> bytes" where
  "to_be_bytes w = be_bytes (LENGTH('a) div 8) (unat w)"

lemma length_be_bytes [simp]: "length (be_bytes n v) = n"
  by (induction n arbitrary: v) auto

lemma be_value_snoc: "be_value (bs @ [b]) = be_value bs * 256 + unat b"
  by (simp add: be_value_def digits_value_append digits_value_Cons)

lemma be_value_be_bytes: "v < 256 ^ n \<Longrightarrow> be_value (be_bytes n v) = v"
proof (induction n arbitrary: v)
  case (Suc n)
  have "v div 256 < 256 ^ n" using Suc.prems by (simp add: less_mult_imp_div_less mult.commute)
  with Suc.IH [of "v div 256"] show ?case
    by (simp add: be_value_snoc unat_of_nat take_bit_eq_mod)
qed (simp add: be_value_def)

lemma length_to_be_bytes [simp]: "length (to_be_bytes (w :: 'a :: len word)) = LENGTH('a) div 8"
  by (simp add: to_be_bytes_def)

text \<open>For the widths that are whole bytes, the bytes give the number back.\<close>

lemma be_value_to_be_bytes:
  assumes "LENGTH('a :: len) mod 8 = 0"
  shows "be_value (to_be_bytes (w :: 'a word)) = unat w"
proof -
  have "(256 :: nat) ^ (LENGTH('a) div 8) = 2 ^ (8 * (LENGTH('a) div 8))" by (simp add: power_mult)
  also have "\<dots> = 2 ^ LENGTH('a)" using assms by (metis add.right_neutral mult_div_mod_eq)
  finally have "unat w < 256 ^ (LENGTH('a) div 8)" using unsigned_less [of w] by simp
  then show ?thesis unfolding to_be_bytes_def by (rule be_value_be_bytes)
qed

lemma to_be_bytes_eq_iff:
  assumes "LENGTH('a :: len) mod 8 = 0"
  shows "to_be_bytes (v :: 'a word) = to_be_bytes w \<longleftrightarrow> v = w"
  using be_value_to_be_bytes [OF assms] by (metis word_unat_eq_iff)

type_synonym U256 = "256 word"
type_synonym B256 = "256 word"
type_synonym Address = "160 word"
type_synonym Bloom = "2048 word"
type_synonym B64 = "64 word"
type_synonym u128 = "128 word"

section \<open>Blocks\<close>

record alloy_Header =
  Header_parent_hash :: B256
  Header_ommers_hash :: B256
  Header_beneficiary :: Address
  Header_state_root :: B256
  Header_transactions_root :: B256
  Header_receipts_root :: B256
  Header_logs_bloom :: Bloom
  Header_difficulty :: U256
  Header_number :: u64
  Header_gas_limit :: u64
  Header_gas_used :: u64
  Header_timestamp :: u64
  Header_extra_data :: bytes
  Header_mix_hash :: B256
  Header_nonce :: B64
  Header_base_fee_per_gas :: "u64 option"
  Header_withdrawals_root :: "B256 option"
  Header_blob_gas_used :: "u64 option"
  Header_excess_blob_gas :: "u64 option"
  Header_parent_beacon_block_root :: "B256 option"
  Header_requests_hash :: "B256 option"

record eip4895_Withdrawal =
  Eip4895_index :: u64
  Eip4895_validator_index :: u64
  Eip4895_address :: Address
  Eip4895_amount :: u64

datatype TxKind = TxKind_Create | TxKind_Call Address

record alloy_Signature =
  Sig_v :: bool
  Sig_r :: U256
  Sig_s :: U256

record alloy_AccessListItem =
  AccessItem_address :: Address
  AccessItem_storage_keys :: "B256 list"

record alloy_SignedAuthorization =
  Auth_chain_id :: U256
  Auth_address :: Address
  Auth_nonce :: u64
  Auth_y_parity :: byte
  Auth_r :: U256
  Auth_s :: U256

text \<open>The fields the five transaction types share, and those each adds.\<close>

record tx_base =
  Tx_nonce :: u64
  Tx_gas_limit :: u64
  Tx_value :: U256
  Tx_input :: bytes

record TxLegacy = tx_base +
  Legacy_to :: TxKind
  Legacy_chain_id :: "u64 option"
  Legacy_gas_price :: u128

record TxEip2930 = tx_base +
  Eip2930_to :: TxKind
  Eip2930_chain_id :: u64
  Eip2930_gas_price :: u128
  Eip2930_access_list :: "alloy_AccessListItem list"

record TxEip1559 = tx_base +
  Eip1559_to :: TxKind
  Eip1559_chain_id :: u64
  Eip1559_max_fee_per_gas :: u128
  Eip1559_max_priority_fee_per_gas :: u128
  Eip1559_access_list :: "alloy_AccessListItem list"

record TxEip4844 = tx_base +
  Eip4844_to :: Address
  Eip4844_chain_id :: u64
  Eip4844_max_fee_per_gas :: u128
  Eip4844_max_priority_fee_per_gas :: u128
  Eip4844_access_list :: "alloy_AccessListItem list"
  Eip4844_blob_versioned_hashes :: "B256 list"
  Eip4844_max_fee_per_blob_gas :: u128

record TxEip7702 = tx_base +
  Eip7702_to :: Address
  Eip7702_chain_id :: u64
  Eip7702_max_fee_per_gas :: u128
  Eip7702_max_priority_fee_per_gas :: u128
  Eip7702_access_list :: "alloy_AccessListItem list"
  Eip7702_authorization_list :: "alloy_SignedAuthorization list"

record 't alloy_Signed =
  Signed_tx :: 't
  Signed_signature :: alloy_Signature
  Signed_hash :: B256

datatype TransactionSigned =
    Legacy "TxLegacy alloy_Signed"
  | Eip2930 "TxEip2930 alloy_Signed"
  | Eip1559 "TxEip1559 alloy_Signed"
  | Eip4844 "TxEip4844 alloy_Signed"
  | Eip7702 "TxEip7702 alloy_Signed"

text \<open>\<open>Transaction::gas_limit\<close>, which the five types implement by their field.\<close>

fun tx_gas_limit :: "TransactionSigned \<Rightarrow> u64" where
  "tx_gas_limit (Legacy s) = Tx_gas_limit (Signed_tx s)"
| "tx_gas_limit (Eip2930 s) = Tx_gas_limit (Signed_tx s)"
| "tx_gas_limit (Eip1559 s) = Tx_gas_limit (Signed_tx s)"
| "tx_gas_limit (Eip4844 s) = Tx_gas_limit (Signed_tx s)"
| "tx_gas_limit (Eip7702 s) = Tx_gas_limit (Signed_tx s)"

record alloy_Log =
  Log_address :: Address
  Log_topics :: "B256 list"
  Log_data :: bytes

text \<open>The transaction type of a receipt is given by its discriminant.\<close>

record reth_Receipt =
  Receipt_tx_type :: "32 word"
  Receipt_success :: bool
  Receipt_cumulative_gas_used :: u64
  Receipt_logs :: "alloy_Log list"

record RecoveredBlock =
  Block_header :: alloy_Header
  Block_transactions :: "TransactionSigned list"
  Block_withdrawals :: "eip4895_Withdrawal list option"
  Block_senders :: "Address list"

section \<open>State changes\<close>

datatype revm_AccountStatus =
    LoadedNotExisting | Loaded | LoadedEmptyEIP161 | InMemoryChange
  | Changed | Destroyed | DestroyedChanged | DestroyedAgain

record revm_AccountInfo =
  Info_balance :: U256
  Info_nonce :: u64
  Info_code_hash :: B256

record revm_StorageSlot =
  Slot_previous_or_original_value :: U256
  Slot_present_value :: U256

record BundleAccount =
  Acc_info :: "revm_AccountInfo option"
  Acc_original_info :: "revm_AccountInfo option"
  Acc_storage :: "(U256 \<times> revm_StorageSlot) list"
  Acc_status :: revm_AccountStatus

datatype AccountInfoRevert = DoNothing | DeleteIt | RevertTo revm_AccountInfo

datatype RevertToSlot = Slot_Some U256 | Slot_Destroyed

record revm_AccountRevert =
  Revert_account :: AccountInfoRevert
  Revert_storage :: "(U256 \<times> RevertToSlot) list"
  Revert_previous_status :: revm_AccountStatus
  Revert_wipe_storage :: bool

text \<open>The bytes of a contract are \<open>original_byte_slice()\<close> of its bytecode.\<close>

record BundleState =
  Bundle_state :: "(Address \<times> BundleAccount) list"
  Bundle_contracts :: "(B256 \<times> bytes) list"
  Bundle_reverts :: "(Address \<times> revm_AccountRevert) list list"

section \<open>Traces, chains and notifications\<close>

record alloy_CallLogFrame =
  LogFrame_address :: "Address option"
  LogFrame_topics :: "B256 list option"
  LogFrame_data :: "bytes option"
  LogFrame_position :: "u64 option"
  LogFrame_index :: "u64 option"

datatype alloy_CallFrame = Frame
  (Frame_typ: string)
  (Frame_from: Address)
  (Frame_to: "Address option")
  (Frame_value: "U256 option")
  (Frame_gas: U256)
  (Frame_gas_used: U256)
  (Frame_input: bytes)
  (Frame_output: "bytes option")
  (Frame_error: "string option")
  (Frame_revert_reason: "string option")
  (Frame_calls: "alloy_CallFrame list")
  (Frame_logs: "alloy_CallLogFrame list")

record reth_Chain =
  blocks_and_receipts :: "(RecoveredBlock \<times> reth_Receipt list) list"
  execution_outcome_bundle :: BundleState
  call_traces :: "(u64 \<rightharpoonup> alloy_CallFrame list) option"

datatype ExExNotification =
    ExEx_ChainCommitted reth_Chain
  | ExEx_ChainReorged reth_Chain reth_Chain
  | ExEx_ChainReverted reth_Chain

datatype CanonStateNotification = Commit reth_Chain | Reorg reth_Chain reth_Chain

end
