(* ===== verification/Server_Convert.thy ===== *)
theory Server_Convert
  imports Reth_Types
begin

text \<open>
  \<open>src/src/convert.rs\<close>: the conversion of reth's notifications into the protobuf messages of
  \<open>Exex_Pb\<close>, by the flags of the subscription. The messages are the ones the Go modules
  decode; the encoding in between is the protobuf runtimes' part.
\<close>

record SubscribeFlags =
  include_headers :: bool
  include_transactions :: bool
  include_receipts :: bool
  include_withdrawals :: bool
  include_state_diff :: bool
  include_call_traces :: bool

section \<open>Helpers\<close>

definition u256_to_bytes :: "U256 \<Rightarrow> bytes" where
  "u256_to_bytes v = to_be_bytes v"

definition b256_to_bytes :: "B256 \<Rightarrow> bytes" where
  "b256_to_bytes v = to_be_bytes v"

definition addr_to_bytes :: "Address \<Rightarrow> bytes" where
  "addr_to_bytes v = to_be_bytes v"

definition u128_to_bytes :: "u128 \<Rightarrow> bytes" where
  "u128_to_bytes v = to_be_bytes v"

text \<open>\<open>unwrap_or_default\<close> of an optional byte string, string or sequence.\<close>

definition or_empty :: "('a \<Rightarrow> 'b list) \<Rightarrow> 'a option \<Rightarrow> 'b list" where
  "or_empty f x = (case x of None \<Rightarrow> [] | Some v \<Rightarrow> f v)"

definition unwrap_or :: "'a option \<Rightarrow> 'a \<Rightarrow> 'a" where
  "unwrap_or x d = (case x of None \<Rightarrow> d | Some v \<Rightarrow> v)"

section \<open>Headers and withdrawals\<close>

definition header_to_proto :: "alloy_Header \<Rightarrow> BlockHeader" where
  "header_to_proto h =
    \<lparr>BlockHeader_ParentHash = b256_to_bytes (Header_parent_hash h),
     BlockHeader_OmmersHash = b256_to_bytes (Header_ommers_hash h),
     BlockHeader_Beneficiary = addr_to_bytes (Header_beneficiary h),
     BlockHeader_StateRoot = b256_to_bytes (Header_state_root h),
     BlockHeader_TransactionsRoot = b256_to_bytes (Header_transactions_root h),
     BlockHeader_ReceiptsRoot = b256_to_bytes (Header_receipts_root h),
     BlockHeader_LogsBloom = to_be_bytes (Header_logs_bloom h),
     BlockHeader_Difficulty = u256_to_bytes (Header_difficulty h),
     BlockHeader_Number = Header_number h,
     BlockHeader_GasLimit = Header_gas_limit h,
     BlockHeader_GasUsed = Header_gas_used h,
     BlockHeader_Timestamp = Header_timestamp h,
     BlockHeader_ExtraData = Header_extra_data h,
     BlockHeader_MixHash = b256_to_bytes (Header_mix_hash h),
     BlockHeader_Nonce = to_be_bytes (Header_nonce h),
     BlockHeader_HasBaseFeePerGas = (Header_base_fee_per_gas h \<noteq> None),
     BlockHeader_BaseFeePerGas = unwrap_or (Header_base_fee_per_gas h) 0,
     BlockHeader_HasWithdrawalsRoot = (Header_withdrawals_root h \<noteq> None),
     BlockHeader_WithdrawalsRoot = or_empty b256_to_bytes (Header_withdrawals_root h),
     BlockHeader_HasBlobGasUsed = (Header_blob_gas_used h \<noteq> None),
     BlockHeader_BlobGasUsed = unwrap_or (Header_blob_gas_used h) 0,
     BlockHeader_HasExcessBlobGas = (Header_excess_blob_gas h \<noteq> None),
     BlockHeader_ExcessBlobGas = unwrap_or (Header_excess_blob_gas h) 0,
     BlockHeader_HasParentBeaconBlockRoot = (Header_parent_beacon_block_root h \<noteq> None),
     BlockHeader_ParentBeaconBlockRoot = or_empty b256_to_bytes (Header_parent_beacon_block_root h),
     BlockHeader_HasRequestsHash = (Header_requests_hash h \<noteq> None),
     BlockHeader_RequestsHash = or_empty b256_to_bytes (Header_requests_hash h)\<rparr>"

definition withdrawal_to_proto :: "eip4895_Withdrawal \<Rightarrow> Withdrawal" where
  "withdrawal_to_proto w =
    \<lparr>Withdrawal_Index = Eip4895_index w, Withdrawal_ValidatorIndex = Eip4895_validator_index w,
     Withdrawal_Address = addr_to_bytes (Eip4895_address w), Withdrawal_Amount = Eip4895_amount w\<rparr>"

section \<open>Transactions\<close>

fun txkind_to_bytes :: "TxKind \<Rightarrow> bytes" where
  "txkind_to_bytes TxKind_Create = []"
| "txkind_to_bytes (TxKind_Call addr) = to_be_bytes addr"

definition sig_to_proto :: "alloy_Signature \<Rightarrow> Signature" where
  "sig_to_proto sig =
    \<lparr>Signature_YParity = Sig_v sig, Signature_R = u256_to_bytes (Sig_r sig), Signature_S = u256_to_bytes (Sig_s sig)\<rparr>"

definition access_item_to_proto :: "alloy_AccessListItem \<Rightarrow> AccessListItem" where
  "access_item_to_proto item =
    \<lparr>AccessListItem_Address = addr_to_bytes (AccessItem_address item),
     AccessListItem_StorageKeys = map b256_to_bytes (AccessItem_storage_keys item)\<rparr>"

definition access_list_to_proto :: "alloy_AccessListItem list \<Rightarrow> AccessListItem list" where
  "access_list_to_proto al = map access_item_to_proto al"

definition auth_to_proto :: "alloy_SignedAuthorization \<Rightarrow> SignedAuthorization" where
  "auth_to_proto auth =
    \<lparr>SignedAuthorization_ChainId = u256_to_bytes (Auth_chain_id auth),
     SignedAuthorization_Address = addr_to_bytes (Auth_address auth),
     SignedAuthorization_Nonce = Auth_nonce auth,
     SignedAuthorization_YParity = (Auth_y_parity auth \<noteq> 0),
     SignedAuthorization_R = u256_to_bytes (Auth_r auth),
     SignedAuthorization_S = u256_to_bytes (Auth_s auth)\<rparr>"

text \<open>\<open>proto::Transaction::default()\<close>, and the fields every transaction has.\<close>

definition default_transaction :: Transaction where
  "default_transaction = Transaction_Reset undefined"

definition tx_common_fields ::
  "32 word \<Rightarrow> B256 \<Rightarrow> alloy_Signature \<Rightarrow> u64 \<Rightarrow> u64 \<Rightarrow> U256 \<Rightarrow> bytes \<Rightarrow> bytes \<Rightarrow> Transaction" where
  "tx_common_fields tx_type hash sig nonce gas_limit value input to =
     default_transaction
       \<lparr>Transaction_Hash := b256_to_bytes hash, Transaction_TxType := tx_type,
        Transaction_Signature := Some (sig_to_proto sig), Transaction_Nonce := nonce,
        Transaction_GasLimit := gas_limit, Transaction_Value := u256_to_bytes value,
        Transaction_Input := input, Transaction_To := to\<rparr>"

text \<open>The call of \<open>tx_common_fields\<close> on the parts of a signed transaction.\<close>

definition signed_fields :: "32 word \<Rightarrow> ('a tx_base_scheme) alloy_Signed \<Rightarrow> bytes \<Rightarrow> Transaction" where
  "signed_fields tx_type stx to =
     (let t = Signed_tx stx in
      tx_common_fields tx_type (Signed_hash stx) (Signed_signature stx)
        (Tx_nonce t) (Tx_gas_limit t) (Tx_value t) (Tx_input t) to)"

fun tx_to_proto :: "TransactionSigned \<Rightarrow> Transaction" where
  "tx_to_proto (Legacy stx) =
     (let t = Signed_tx stx in
      (signed_fields 0 stx (txkind_to_bytes (Legacy_to t)))
        \<lparr>Transaction_ChainId := or_empty to_be_bytes (Legacy_chain_id t),
         Transaction_GasPrice := u128_to_bytes (Legacy_gas_price t)\<rparr>)"
| "tx_to_proto (Eip2930 stx) =
     (let t = Signed_tx stx in
      (signed_fields 1 stx (txkind_to_bytes (Eip2930_to t)))
        \<lparr>Transaction_ChainId := to_be_bytes (Eip2930_chain_id t),
         Transaction_GasPrice := u128_to_bytes (Eip2930_gas_price t),
         Transaction_AccessList := access_list_to_proto (Eip2930_access_list t)\<rparr>)"
| "tx_to_proto (Eip1559 stx) =
     (let t = Signed_tx stx in
      (signed_fields 2 stx (txkind_to_bytes (Eip1559_to t)))
        \<lparr>Transaction_ChainId := to_be_bytes (Eip1559_chain_id t),
         Transaction_MaxFeePerGas := u128_to_bytes (Eip1559_max_fee_per_gas t),
         Transaction_MaxPriorityFeePerGas := u128_to_bytes (Eip1559_max_priority_fee_per_gas t),
         Transaction_AccessList := access_list_to_proto (Eip1559_access_list t)\<rparr>)"
| "tx_to_proto (Eip4844 stx) =
     (let t = Signed_tx stx in
      (signed_fields 3 stx (to_be_bytes (Eip4844_to t)))
        \<lparr>Transaction_ChainId := to_be_bytes (Eip4844_chain_id t),
         Transaction_MaxFeePerGas := u128_to_bytes (Eip4844_max_fee_per_gas t),
         Transaction_MaxPriorityFeePerGas := u128_to_bytes (Eip4844_max_priority_fee_per_gas t),
         Transaction_AccessList := access_list_to_proto (Eip4844_access_list t),
         Transaction_BlobVersionedHashes := map b256_to_bytes (Eip4844_blob_versioned_hashes t),
         Transaction_MaxFeePerBlobGas := u128_to_bytes (Eip4844_max_fee_per_blob_gas t)\<rparr>)"
| "tx_to_proto (Eip7702 stx) =
     (let t = Signed_tx stx in
      (signed_fields 4 stx (to_be_bytes (Eip7702_to t)))
        \<lparr>Transaction_ChainId := to_be_bytes (Eip7702_chain_id t),
         Transaction_MaxFeePerGas := u128_to_bytes (Eip7702_max_fee_per_gas t),
         Transaction_MaxPriorityFeePerGas := u128_to_bytes (Eip7702_max_priority_fee_per_gas t),
         Transaction_AccessList := access_list_to_proto (Eip7702_access_list t),
         Transaction_AuthorizationList := map auth_to_proto (Eip7702_authorization_list t)\<rparr>)"

section \<open>Receipts\<close>

definition log_to_proto :: "alloy_Log \<Rightarrow> EventLog" where
  "log_to_proto log =
    \<lparr>EventLog_Address = addr_to_bytes (Log_address log), EventLog_Topics = map b256_to_bytes (Log_topics log),
     EventLog_Data = Log_data log\<rparr>"

definition receipt_to_proto :: "reth_Receipt \<Rightarrow> Receipt" where
  "receipt_to_proto r =
    \<lparr>Receipt_TxType = Receipt_tx_type r, Receipt_Success = Receipt_success r,
     Receipt_CumulativeGasUsed = Receipt_cumulative_gas_used r, Receipt_Logs = map log_to_proto (Receipt_logs r)\<rparr>"

section \<open>Blocks\<close>

definition block_with_receipts_to_proto ::
  "RecoveredBlock \<Rightarrow> reth_Receipt list \<Rightarrow> SubscribeFlags \<Rightarrow> BlockWithReceipts" where
  "block_with_receipts_to_proto block receipts flags =
    (let header = if include_headers flags then Some (header_to_proto (Block_header block)) else None;
         (txs, senders) = if include_transactions flags
           then (map tx_to_proto (Block_transactions block), map addr_to_bytes (Block_senders block)) else ([], []);
         receipts = if include_receipts flags then map receipt_to_proto receipts else [];
         withdrawals = if include_withdrawals flags
           then or_empty (map withdrawal_to_proto) (Block_withdrawals block) else []
     in \<lparr>BlockWithReceipts_Header = header, BlockWithReceipts_Txs = txs, BlockWithReceipts_Senders = senders,
         BlockWithReceipts_Receipts = receipts, BlockWithReceipts_Withdrawals = withdrawals\<rparr>)"

section \<open>State changes\<close>

definition account_info_to_proto :: "revm_AccountInfo \<Rightarrow> AccountInfo" where
  "account_info_to_proto info =
    \<lparr>AccountInfo_Balance = u256_to_bytes (Info_balance info), AccountInfo_Nonce = Info_nonce info,
     AccountInfo_CodeHash = b256_to_bytes (Info_code_hash info)\<rparr>"

text \<open>\<open>proto::AccountInfo::default()\<close>.\<close>

definition default_account_info :: AccountInfo where
  "default_account_info = AccountInfo_Reset undefined"

text \<open>The variant of \<open>proto::AccountStatus\<close> as its number.\<close>

fun account_status_to_proto :: "revm_AccountStatus \<Rightarrow> AccountStatus" where
  "account_status_to_proto LoadedNotExisting = 0"
| "account_status_to_proto Loaded = 1"
| "account_status_to_proto LoadedEmptyEIP161 = 2"
| "account_status_to_proto InMemoryChange = 3"
| "account_status_to_proto Changed = 4"
| "account_status_to_proto Destroyed = 5"
| "account_status_to_proto DestroyedChanged = 6"
| "account_status_to_proto DestroyedAgain = 7"

definition storage_diff_to_proto :: "U256 \<times> revm_StorageSlot \<Rightarrow> StorageSlotDiff" where
  "storage_diff_to_proto = (\<lambda>(key, slot).
    \<lparr>StorageSlotDiff_Key = u256_to_bytes key,
     StorageSlotDiff_Previous = u256_to_bytes (Slot_previous_or_original_value slot),
     StorageSlotDiff_Current = u256_to_bytes (Slot_present_value slot)\<rparr>)"

definition account_diff_to_proto :: "Address \<Rightarrow> BundleAccount \<Rightarrow> AccountDiff" where
  "account_diff_to_proto addr acc =
    \<lparr>AccountDiff_Address = addr_to_bytes addr,
     AccountDiff_Status = account_status_to_proto (Acc_status acc),
     AccountDiff_Info = Some (unwrap_or (map_option account_info_to_proto (Acc_info acc)) default_account_info),
     AccountDiff_OriginalInfo =
       Some (unwrap_or (map_option account_info_to_proto (Acc_original_info acc)) default_account_info),
     AccountDiff_Storage = map storage_diff_to_proto (Acc_storage acc)\<rparr>"

text \<open>The kind of a revert, and the account it goes back to.\<close>

fun revert_kind :: "AccountInfoRevert \<Rightarrow> AccountRevertKind \<times> AccountInfo option" where
  "revert_kind DoNothing = (0, None)"
| "revert_kind DeleteIt = (1, None)"
| "revert_kind (RevertTo info) = (2, Some (account_info_to_proto info))"

fun revert_slot_to_proto :: "RevertToSlot \<Rightarrow> isStorageRevert_RevertTo" where
  "revert_slot_to_proto (Slot_Some val) = StorageRevert_Value (u256_to_bytes val)"
| "revert_slot_to_proto Slot_Destroyed = StorageRevert_Destroyed True"

definition storage_revert_to_proto :: "U256 \<times> RevertToSlot \<Rightarrow> StorageRevert" where
  "storage_revert_to_proto = (\<lambda>(key, slot).
    \<lparr>StorageRevert_Key = u256_to_bytes key, StorageRevert_RevertTo = Some (revert_slot_to_proto slot)\<rparr>)"

definition account_revert_to_proto :: "Address \<Rightarrow> revm_AccountRevert \<Rightarrow> AccountRevert" where
  "account_revert_to_proto addr revert =
    (case revert_kind (Revert_account revert) of (kind, revert_to_info) \<Rightarrow>
       \<lparr>AccountRevert_Address = addr_to_bytes addr, AccountRevert_Kind = kind,
        AccountRevert_RevertToInfo = revert_to_info,
        AccountRevert_Storage = map storage_revert_to_proto (Revert_storage revert),
        AccountRevert_PreviousStatus = account_status_to_proto (Revert_previous_status revert),
        AccountRevert_WipeStorage = Revert_wipe_storage revert\<rparr>)"

definition contract_to_proto :: "B256 \<times> bytes \<Rightarrow> ContractDiff" where
  "contract_to_proto = (\<lambda>(code_hash, bytecode).
    \<lparr>ContractDiff_CodeHash = b256_to_bytes code_hash, ContractDiff_Bytecode = bytecode\<rparr>)"

definition block_reverts_to_proto :: "(Address \<times> revm_AccountRevert) list \<Rightarrow> BlockReverts" where
  "block_reverts_to_proto block_reverts =
    \<lparr>BlockReverts_Accounts = map (\<lambda>(addr, revert). account_revert_to_proto addr revert) block_reverts\<rparr>"

definition state_diff_to_proto :: "reth_Chain \<Rightarrow> StateDiff" where
  "state_diff_to_proto chain =
    (let bundle = execution_outcome_bundle chain in
     \<lparr>StateDiff_Accounts = map (\<lambda>(addr, acc). account_diff_to_proto addr acc) (Bundle_state bundle),
      StateDiff_Contracts = map contract_to_proto (Bundle_contracts bundle),
      StateDiff_Reverts = map block_reverts_to_proto (Bundle_reverts bundle)\<rparr>)"

section \<open>Call traces\<close>

definition call_log_frame_to_proto :: "alloy_CallLogFrame \<Rightarrow> CallLogFrame" where
  "call_log_frame_to_proto l =
    \<lparr>CallLogFrame_Address = or_empty addr_to_bytes (LogFrame_address l),
     CallLogFrame_Topics = or_empty (map b256_to_bytes) (LogFrame_topics l),
     CallLogFrame_Data = or_empty (\<lambda>b. b) (LogFrame_data l),
     CallLogFrame_HasPosition = (LogFrame_position l \<noteq> None),
     CallLogFrame_Position = unwrap_or (LogFrame_position l) 0,
     CallLogFrame_HasIndex = (LogFrame_index l \<noteq> None),
     CallLogFrame_Index = unwrap_or (LogFrame_index l) 0\<rparr>"

fun call_frame_to_proto :: "alloy_CallFrame \<Rightarrow> CallFrame" where
  "call_frame_to_proto (Frame kind sender rcpt val gas gasUsed input out err reason calls logs) =
     CallFrame kind (addr_to_bytes sender) (or_empty addr_to_bytes rcpt) (or_empty u256_to_bytes val)
       (u256_to_bytes gas) (u256_to_bytes gasUsed) input (or_empty (\<lambda>b. b) out)
       (or_empty (\<lambda>s. s) err) (or_empty (\<lambda>s. s) reason)
       (map call_frame_to_proto calls) (map call_log_frame_to_proto logs)"

text \<open>The assignment of the gas field of a converted frame.\<close>

fun set_gas :: "bytes \<Rightarrow> CallFrame \<Rightarrow> CallFrame" where
  "set_gas g (CallFrame kind sender rcpt val gas gasUsed input out err reason calls logs) =
     CallFrame kind sender rcpt val g gasUsed input out err reason calls logs"

definition tx_frame_to_proto :: "TransactionSigned \<times> alloy_CallFrame \<Rightarrow> CallFrame" where
  "tx_frame_to_proto = (\<lambda>(tx, frame).
     set_gas (u256_to_bytes (ucast (tx_gas_limit tx))) (call_frame_to_proto frame))"

definition call_traces_to_proto :: "reth_Chain \<Rightarrow> BlockCallTraces list" where
  "call_traces_to_proto chain =
    (case call_traces chain of
       None \<Rightarrow> []
     | Some traces \<Rightarrow>
         List.map_filter (\<lambda>(block, _).
           let block_number = Header_number (Block_header block) in
           (case traces block_number of
              None \<Rightarrow> None
            | Some tx_frames \<Rightarrow>
                Some \<lparr>BlockCallTraces_BlockNumber = block_number,
                      BlockCallTraces_Txs = map tx_frame_to_proto (zip (Block_transactions block) tx_frames)\<rparr>))
           (blocks_and_receipts chain))"

section \<open>Chains and notifications\<close>

definition chain_to_proto :: "reth_Chain \<Rightarrow> SubscribeFlags \<Rightarrow> Chain" where
  "chain_to_proto chain flags =
    \<lparr>Chain_Blocks = map (\<lambda>(block, receipts). block_with_receipts_to_proto block receipts flags)
       (blocks_and_receipts chain),
     Chain_StateDiff = (if include_state_diff flags then Some (state_diff_to_proto chain) else None),
     Chain_CallTraces = (if include_call_traces flags then call_traces_to_proto chain else [])\<rparr>"

fun notification_to_proto :: "ExExNotification \<Rightarrow> SubscribeFlags \<Rightarrow> Notification" where
  "notification_to_proto (ExEx_ChainCommitted new) flags =
     \<lparr>Notification_Event = Some (Notification_ChainCommitted \<lparr>ChainCommitted_New = Some (chain_to_proto new flags)\<rparr>)\<rparr>"
| "notification_to_proto (ExEx_ChainReorged old new) flags =
     \<lparr>Notification_Event = Some (Notification_ChainReorged
        \<lparr>ChainReorged_Old = Some (chain_to_proto old flags), ChainReorged_New = Some (chain_to_proto new flags)\<rparr>)\<rparr>"
| "notification_to_proto (ExEx_ChainReverted old) flags =
     \<lparr>Notification_Event = Some (Notification_ChainReverted \<lparr>ChainReverted_Old = Some (chain_to_proto old flags)\<rparr>)\<rparr>"

end
