(* ===== verification/Server_Convert_Correct.thy ===== *)
theory Server_Convert_Correct
  imports Server_Convert
begin

text \<open>
  Facts about the conversion of \<open>convert.rs\<close>: the sizes of its fields, the distinctions the
  messages do not make, the blocks and transactions whose traces are sent, and that each
  subscription flag governs its own part of a chain.
\<close>

section \<open>Fields\<close>

lemma length_field_bytes [simp]:
  "length (u256_to_bytes u) = 32" "length (b256_to_bytes b) = 32" "length (addr_to_bytes a) = 20"
  "length (u128_to_bytes c) = 16"
  by (simp_all add: u256_to_bytes_def b256_to_bytes_def addr_to_bytes_def u128_to_bytes_def)

lemma field_bytes_not_Nil [simp]:
  "u256_to_bytes u \<noteq> []" "b256_to_bytes b \<noteq> []" "addr_to_bytes a \<noteq> []"
  "to_be_bytes (v :: u64) \<noteq> []" "to_be_bytes (d :: Address) \<noteq> []"
  using length_field_bytes(1) [of u] length_field_bytes(2) [of b] length_field_bytes(3) [of a]
    length_to_be_bytes [of v] length_to_be_bytes [of d]
  by (auto simp del: length_field_bytes length_to_be_bytes)

section \<open>Transactions\<close>

text \<open>Of the parity byte of an authorization the message keeps whether it is zero.\<close>

definition parity_bit :: "alloy_SignedAuthorization \<Rightarrow> alloy_SignedAuthorization" where
  "parity_bit a = a\<lparr>Auth_y_parity := (if Auth_y_parity a = 0 then 0 else 1)\<rparr>"

fun parity_bits :: "TransactionSigned \<Rightarrow> TransactionSigned" where
  "parity_bits (Eip7702 stx) =
     Eip7702 (stx\<lparr>Signed_tx := (Signed_tx stx)
       \<lparr>Eip7702_authorization_list := map parity_bit (Eip7702_authorization_list (Signed_tx stx))\<rparr>\<rparr>)"
| "parity_bits tx = tx"

section \<open>Blocks\<close>

definition all_flags :: SubscribeFlags where
  "all_flags = \<lparr>include_headers = True, include_transactions = True, include_receipts = True,
     include_withdrawals = True, include_state_diff = True, include_call_traces = True\<rparr>"

section \<open>Call traces\<close>

text \<open>An empty optional byte string, text or list reads like a missing one.\<close>

definition drop_empty :: "'a list option \<Rightarrow> 'a list option" where
  "drop_empty x = (if x = Some [] then None else x)"

definition plain_log :: "alloy_CallLogFrame \<Rightarrow> alloy_CallLogFrame" where
  "plain_log l = l\<lparr>LogFrame_topics := drop_empty (LogFrame_topics l), LogFrame_data := drop_empty (LogFrame_data l)\<rparr>"

fun plain_frame :: "alloy_CallFrame \<Rightarrow> alloy_CallFrame" where
  "plain_frame (Frame kind sender rcpt val gas gasUsed input out err reason calls logs) =
     Frame kind sender rcpt val gas gasUsed input (drop_empty out) (drop_empty err) (drop_empty reason)
       (map plain_frame calls) (map plain_log logs)"

text \<open>The blocks of a chain that carry traces, with the frames of their transactions.\<close>

definition traced :: "reth_Chain \<Rightarrow> (u64 \<times> (TransactionSigned \<times> alloy_CallFrame) list) list" where
  "traced chain = List.map_filter (\<lambda>(b, _).
     map_option (\<lambda>fs. (Header_number (Block_header b), zip (Block_transactions b) fs))
       (case call_traces chain of None \<Rightarrow> None | Some traces \<Rightarrow> traces (Header_number (Block_header b))))
     (blocks_and_receipts chain)"

lemma map_filter_map: "map f (List.map_filter g xs) = List.map_filter (\<lambda>x. map_option f (g x)) xs"
  by (induction xs) (auto simp: List.map_filter_simps split: option.split)

lemma call_traces_to_proto_traced:
  "call_traces_to_proto chain =
     map (\<lambda>(n, tfs). \<lparr>BlockCallTraces_BlockNumber = n, BlockCallTraces_Txs = map tx_frame_to_proto tfs\<rparr>) (traced chain)"
proof (cases "call_traces chain")
  case None
  then show ?thesis by (simp add: call_traces_to_proto_def traced_def List.map_filter_def)
next
  case (Some traces)
  show ?thesis
    unfolding call_traces_to_proto_def traced_def map_filter_map
    by (simp add: Some Let_def, rule arg_cong [where f = "\<lambda>g. List.map_filter g (blocks_and_receipts chain)"])
      (auto simp: fun_eq_iff split: option.split)
qed

section \<open>The subscription flags\<close>

text \<open>The filter the unit tests of \<open>convert.rs\<close> apply to a full chain.\<close>

definition filter_block :: "SubscribeFlags \<Rightarrow> BlockWithReceipts \<Rightarrow> BlockWithReceipts" where
  "filter_block flags b =
    \<lparr>BlockWithReceipts_Header = (if include_headers flags then BlockWithReceipts_Header b else None),
     BlockWithReceipts_Txs = (if include_transactions flags then BlockWithReceipts_Txs b else []),
     BlockWithReceipts_Senders = (if include_transactions flags then BlockWithReceipts_Senders b else []),
     BlockWithReceipts_Receipts = (if include_receipts flags then BlockWithReceipts_Receipts b else []),
     BlockWithReceipts_Withdrawals = (if include_withdrawals flags then BlockWithReceipts_Withdrawals b else [])\<rparr>"

definition apply_flags :: "SubscribeFlags \<Rightarrow> Chain \<Rightarrow> Chain" where
  "apply_flags flags c =
    \<lparr>Chain_Blocks = map (filter_block flags) (Chain_Blocks c),
     Chain_StateDiff = (if include_state_diff flags then Chain_StateDiff c else None),
     Chain_CallTraces = (if include_call_traces flags then Chain_CallTraces c else [])\<rparr>"

lemma chain_to_proto_apply_flags: "chain_to_proto chain flags = apply_flags flags (chain_to_proto chain all_flags)"
  by (simp add: chain_to_proto_def apply_flags_def all_flags_def filter_block_def block_with_receipts_to_proto_def
      case_prod_beta)


end
