(* ===== verification/Server_Read.thy ===== *)
theory Server_Read
  imports Server_Convert_Correct
begin

text \<open>
  What a client can read in a message, by the comments of \<open>proto/exex.proto\<close>: integers and
  hashes are big-endian bytes, a \<open>has_\<close> flag or a non-empty field says that an optional value is
  there, enums are numbers. The readers are independent of the conversion; reading a converted
  notification gives back its content.
\<close>

section \<open>Fields\<close>

definition read_word :: "bytes \<Rightarrow> 'a :: len word" where
  "read_word b = of_nat (be_value b)"

definition read_optional :: "('b list \<Rightarrow> 'a) \<Rightarrow> 'b list \<Rightarrow> 'a option" where
  "read_optional f b = (if b = [] then None else Some (f b))"

definition read_flagged :: "bool \<Rightarrow> 'a \<Rightarrow> 'a option" where
  "read_flagged present v = (if present then Some v else None)"

lemma read_word_to_be_bytes: "LENGTH('a :: len) mod 8 = 0 \<Longrightarrow> read_word (to_be_bytes (w :: 'a word)) = w"
  by (simp add: read_word_def be_value_to_be_bytes)

lemma read_field [simp]:
  "read_word (u256_to_bytes u) = u" "read_word (b256_to_bytes h) = h" "read_word (addr_to_bytes a) = a"
  "read_word (u128_to_bytes c) = c" "read_word (to_be_bytes (n :: u64)) = n" "read_word (to_be_bytes (b :: Bloom)) = b"
  "read_word (to_be_bytes (d :: Address)) = d"
  by (simp_all add: read_word_to_be_bytes u256_to_bytes_def b256_to_bytes_def addr_to_bytes_def u128_to_bytes_def)

lemma read_optional_or_empty: "(\<And>x. f x \<noteq> []) \<Longrightarrow> read_optional g (or_empty f x) = map_option (\<lambda>v. g (f v)) x"
  by (cases x) (simp_all add: read_optional_def or_empty_def)

lemma read_optional_field [simp]:
  "read_optional read_word (or_empty b256_to_bytes h) = h" "read_optional read_word (or_empty addr_to_bytes a) = a"
  "read_optional read_word (or_empty u256_to_bytes u) = u" "read_optional read_word (or_empty to_be_bytes n) = (n :: u64 option)"
  by (simp_all add: read_optional_or_empty option.map_ident)

lemma read_optional_list [simp]: "read_optional (\<lambda>b. b) (or_empty (\<lambda>b. b) x) = drop_empty x"
  by (cases x) (simp_all add: read_optional_def or_empty_def drop_empty_def)

lemma read_flagged_unwrap [simp]: "read_flagged (x \<noteq> None) (unwrap_or x d) = x"
  by (cases x) (simp_all add: read_flagged_def unwrap_or_def)

lemma read_flagged_bytes [simp]: "read_flagged (x \<noteq> None) (read_word (or_empty b256_to_bytes x)) = x"
  by (cases x) (simp_all add: read_flagged_def or_empty_def)

section \<open>Headers, withdrawals and receipts\<close>

definition read_header :: "BlockHeader \<Rightarrow> alloy_Header" where
  "read_header h =
    \<lparr>Header_parent_hash = read_word (BlockHeader_ParentHash h),
     Header_ommers_hash = read_word (BlockHeader_OmmersHash h),
     Header_beneficiary = read_word (BlockHeader_Beneficiary h),
     Header_state_root = read_word (BlockHeader_StateRoot h),
     Header_transactions_root = read_word (BlockHeader_TransactionsRoot h),
     Header_receipts_root = read_word (BlockHeader_ReceiptsRoot h),
     Header_logs_bloom = read_word (BlockHeader_LogsBloom h),
     Header_difficulty = read_word (BlockHeader_Difficulty h),
     Header_number = BlockHeader_Number h,
     Header_gas_limit = BlockHeader_GasLimit h,
     Header_gas_used = BlockHeader_GasUsed h,
     Header_timestamp = BlockHeader_Timestamp h,
     Header_extra_data = BlockHeader_ExtraData h,
     Header_mix_hash = read_word (BlockHeader_MixHash h),
     Header_nonce = read_word (BlockHeader_Nonce h),
     Header_base_fee_per_gas = read_flagged (BlockHeader_HasBaseFeePerGas h) (BlockHeader_BaseFeePerGas h),
     Header_withdrawals_root = read_flagged (BlockHeader_HasWithdrawalsRoot h) (read_word (BlockHeader_WithdrawalsRoot h)),
     Header_blob_gas_used = read_flagged (BlockHeader_HasBlobGasUsed h) (BlockHeader_BlobGasUsed h),
     Header_excess_blob_gas = read_flagged (BlockHeader_HasExcessBlobGas h) (BlockHeader_ExcessBlobGas h),
     Header_parent_beacon_block_root = read_flagged (BlockHeader_HasParentBeaconBlockRoot h) (read_word (BlockHeader_ParentBeaconBlockRoot h)),
     Header_requests_hash = read_flagged (BlockHeader_HasRequestsHash h) (read_word (BlockHeader_RequestsHash h))\<rparr>"

definition read_withdrawal :: "Withdrawal \<Rightarrow> eip4895_Withdrawal" where
  "read_withdrawal w =
    \<lparr>Eip4895_index = Withdrawal_Index w, Eip4895_validator_index = Withdrawal_ValidatorIndex w,
     Eip4895_address = read_word (Withdrawal_Address w), Eip4895_amount = Withdrawal_Amount w\<rparr>"

definition read_log :: "EventLog \<Rightarrow> alloy_Log" where
  "read_log l =
    \<lparr>Log_address = read_word (EventLog_Address l), Log_topics = map read_word (EventLog_Topics l),
     Log_data = EventLog_Data l\<rparr>"

definition read_receipt :: "Receipt \<Rightarrow> reth_Receipt" where
  "read_receipt r =
    \<lparr>Receipt_tx_type = Receipt_TxType r, Receipt_success = Receipt_Success r,
     Receipt_cumulative_gas_used = Receipt_CumulativeGasUsed r, Receipt_logs = map read_log (Receipt_Logs r)\<rparr>"

lemma read_header_to_proto [simp]: "read_header (header_to_proto h) = h"
  by (simp add: read_header_def header_to_proto_def del: not_None_eq)

lemma read_withdrawal_to_proto [simp]: "read_withdrawal (withdrawal_to_proto w) = w"
  by (simp add: read_withdrawal_def withdrawal_to_proto_def)

lemma read_log_to_proto [simp]: "read_log (log_to_proto l) = l"
  by (simp add: read_log_def log_to_proto_def comp_def)

lemma read_receipt_to_proto [simp]: "read_receipt (receipt_to_proto r) = r"
  by (simp add: read_receipt_def receipt_to_proto_def comp_def)

section \<open>Transactions\<close>

definition read_signature :: "Signature option \<Rightarrow> alloy_Signature" where
  "read_signature sig =
    (case sig of
       None \<Rightarrow> \<lparr>Sig_v = False, Sig_r = 0, Sig_s = 0\<rparr>
     | Some s \<Rightarrow> \<lparr>Sig_v = Signature_YParity s, Sig_r = read_word (Signature_R s), Sig_s = read_word (Signature_S s)\<rparr>)"

definition read_access_item :: "AccessListItem \<Rightarrow> alloy_AccessListItem" where
  "read_access_item i =
    \<lparr>AccessItem_address = read_word (AccessListItem_Address i),
     AccessItem_storage_keys = map read_word (AccessListItem_StorageKeys i)\<rparr>"

definition read_authorization :: "SignedAuthorization \<Rightarrow> alloy_SignedAuthorization" where
  "read_authorization a =
    \<lparr>Auth_chain_id = read_word (SignedAuthorization_ChainId a), Auth_address = read_word (SignedAuthorization_Address a),
     Auth_nonce = SignedAuthorization_Nonce a, Auth_y_parity = (if SignedAuthorization_YParity a then 1 else 0),
     Auth_r = read_word (SignedAuthorization_R a), Auth_s = read_word (SignedAuthorization_S a)\<rparr>"

definition read_to :: "bytes \<Rightarrow> TxKind" where
  "read_to b = (if b = [] then TxKind_Create else TxKind_Call (read_word b))"

definition read_signed :: "Transaction \<Rightarrow> 'a \<Rightarrow> 'a alloy_Signed" where
  "read_signed t body =
    \<lparr>Signed_tx = body, Signed_signature = read_signature (Transaction_Signature t),
     Signed_hash = read_word (Transaction_Hash t)\<rparr>"

text \<open>\<open>tx_type\<close>: 0 is a legacy transaction, 1 to 4 are those of the EIPs 2930, 1559, 4844 and 7702.\<close>

definition read_tx :: "Transaction \<Rightarrow> TransactionSigned" where
  "read_tx t =
    (if Transaction_TxType t = 0 then
       Legacy (read_signed t
         \<lparr>Tx_nonce = Transaction_Nonce t, Tx_gas_limit = Transaction_GasLimit t,
          Tx_value = read_word (Transaction_Value t), Tx_input = Transaction_Input t,
          Legacy_to = read_to (Transaction_To t),
          Legacy_chain_id = read_optional read_word (Transaction_ChainId t),
          Legacy_gas_price = read_word (Transaction_GasPrice t)\<rparr>)
     else if Transaction_TxType t = 1 then
       Eip2930 (read_signed t
         \<lparr>Tx_nonce = Transaction_Nonce t, Tx_gas_limit = Transaction_GasLimit t,
          Tx_value = read_word (Transaction_Value t), Tx_input = Transaction_Input t,
          Eip2930_to = read_to (Transaction_To t),
          Eip2930_chain_id = read_word (Transaction_ChainId t),
          Eip2930_gas_price = read_word (Transaction_GasPrice t),
          Eip2930_access_list = map read_access_item (Transaction_AccessList t)\<rparr>)
     else if Transaction_TxType t = 2 then
       Eip1559 (read_signed t
         \<lparr>Tx_nonce = Transaction_Nonce t, Tx_gas_limit = Transaction_GasLimit t,
          Tx_value = read_word (Transaction_Value t), Tx_input = Transaction_Input t,
          Eip1559_to = read_to (Transaction_To t),
          Eip1559_chain_id = read_word (Transaction_ChainId t),
          Eip1559_max_fee_per_gas = read_word (Transaction_MaxFeePerGas t),
          Eip1559_max_priority_fee_per_gas = read_word (Transaction_MaxPriorityFeePerGas t),
          Eip1559_access_list = map read_access_item (Transaction_AccessList t)\<rparr>)
     else if Transaction_TxType t = 3 then
       Eip4844 (read_signed t
         \<lparr>Tx_nonce = Transaction_Nonce t, Tx_gas_limit = Transaction_GasLimit t,
          Tx_value = read_word (Transaction_Value t), Tx_input = Transaction_Input t,
          Eip4844_to = read_word (Transaction_To t),
          Eip4844_chain_id = read_word (Transaction_ChainId t),
          Eip4844_max_fee_per_gas = read_word (Transaction_MaxFeePerGas t),
          Eip4844_max_priority_fee_per_gas = read_word (Transaction_MaxPriorityFeePerGas t),
          Eip4844_access_list = map read_access_item (Transaction_AccessList t),
          Eip4844_blob_versioned_hashes = map read_word (Transaction_BlobVersionedHashes t),
          Eip4844_max_fee_per_blob_gas = read_word (Transaction_MaxFeePerBlobGas t)\<rparr>)
     else
       Eip7702 (read_signed t
         \<lparr>Tx_nonce = Transaction_Nonce t, Tx_gas_limit = Transaction_GasLimit t,
          Tx_value = read_word (Transaction_Value t), Tx_input = Transaction_Input t,
          Eip7702_to = read_word (Transaction_To t),
          Eip7702_chain_id = read_word (Transaction_ChainId t),
          Eip7702_max_fee_per_gas = read_word (Transaction_MaxFeePerGas t),
          Eip7702_max_priority_fee_per_gas = read_word (Transaction_MaxPriorityFeePerGas t),
          Eip7702_access_list = map read_access_item (Transaction_AccessList t),
          Eip7702_authorization_list = map read_authorization (Transaction_AuthorizationList t)\<rparr>))"

lemma read_access_item_to_proto [simp]: "read_access_item (access_item_to_proto i) = i"
  by (simp add: read_access_item_def access_item_to_proto_def comp_def)

lemma read_access_list [simp]: "map read_access_item (access_list_to_proto al) = al"
  by (simp add: access_list_to_proto_def comp_def)

lemma read_authorization_to_proto [simp]: "read_authorization (auth_to_proto a) = parity_bit a"
  by (simp add: read_authorization_def auth_to_proto_def parity_bit_def)

lemma read_to_txkind [simp]: "read_to (txkind_to_bytes k) = k"
  by (cases k) (simp_all add: read_to_def)

lemma read_signature_to_proto [simp]: "read_signature (Some (sig_to_proto s)) = s"
  by (simp add: read_signature_def sig_to_proto_def)

lemma read_tx_to_proto [simp]: "read_tx (tx_to_proto t) = parity_bits t"
proof (cases t)
  case (Eip7702 s)
  then show ?thesis
    by (cases s, cases "Signed_tx s")
      (simp add: read_tx_def read_signed_def signed_fields_def tx_common_fields_def Let_def comp_def)
qed (simp_all add: read_tx_def read_signed_def signed_fields_def tx_common_fields_def Let_def comp_def)

section \<open>Blocks\<close>

definition read_block :: "BlockWithReceipts \<Rightarrow> RecoveredBlock \<times> reth_Receipt list" where
  "read_block b =
    (\<lparr>Block_header = read_header (the (BlockWithReceipts_Header b)),
      Block_transactions = map read_tx (BlockWithReceipts_Txs b),
      Block_withdrawals = read_optional (map read_withdrawal) (BlockWithReceipts_Withdrawals b),
      Block_senders = map read_word (BlockWithReceipts_Senders b)\<rparr>,
     map read_receipt (BlockWithReceipts_Receipts b))"

text \<open>The content of a block: no withdrawals and an empty list of them are one.\<close>

definition block_content :: "RecoveredBlock \<times> reth_Receipt list \<Rightarrow> RecoveredBlock \<times> reth_Receipt list" where
  "block_content = (\<lambda>(b, rs).
    (b\<lparr>Block_transactions := map parity_bits (Block_transactions b),
       Block_withdrawals := drop_empty (Block_withdrawals b)\<rparr>, rs))"

lemma read_withdrawals: "read_optional (map read_withdrawal) (or_empty (map withdrawal_to_proto) x) = drop_empty x"
  by (cases x) (simp_all add: read_optional_def or_empty_def drop_empty_def comp_def)

lemma read_block_to_proto: "read_block (block_with_receipts_to_proto b rs all_flags) = block_content (b, rs)"
  by (cases b) (simp add: read_block_def block_with_receipts_to_proto_def all_flags_def block_content_def
      read_withdrawals comp_def)

section \<open>State changes\<close>

text \<open>An account that is not there has no code hash.\<close>

definition read_info :: "AccountInfo option \<Rightarrow> revm_AccountInfo option" where
  "read_info x =
    (case x of
       None \<Rightarrow> None
     | Some i \<Rightarrow>
         if AccountInfo_CodeHash i = [] then None
         else Some \<lparr>Info_balance = read_word (AccountInfo_Balance i), Info_nonce = AccountInfo_Nonce i,
                    Info_code_hash = read_word (AccountInfo_CodeHash i)\<rparr>)"

definition read_status :: "AccountStatus \<Rightarrow> revm_AccountStatus" where
  "read_status s =
    (if s = 0 then LoadedNotExisting else if s = 1 then Loaded else if s = 2 then LoadedEmptyEIP161
     else if s = 3 then InMemoryChange else if s = 4 then Changed else if s = 5 then Destroyed
     else if s = 6 then DestroyedChanged else DestroyedAgain)"

definition read_slot :: "StorageSlotDiff \<Rightarrow> U256 \<times> revm_StorageSlot" where
  "read_slot d =
    (read_word (StorageSlotDiff_Key d),
     \<lparr>Slot_previous_or_original_value = read_word (StorageSlotDiff_Previous d),
      Slot_present_value = read_word (StorageSlotDiff_Current d)\<rparr>)"

definition read_account :: "AccountDiff \<Rightarrow> Address \<times> BundleAccount" where
  "read_account d =
    (read_word (AccountDiff_Address d),
     \<lparr>Acc_info = read_info (AccountDiff_Info d), Acc_original_info = read_info (AccountDiff_OriginalInfo d),
      Acc_storage = map read_slot (AccountDiff_Storage d), Acc_status = read_status (AccountDiff_Status d)\<rparr>)"

definition read_contract :: "ContractDiff \<Rightarrow> B256 \<times> bytes" where
  "read_contract c = (read_word (ContractDiff_CodeHash c), ContractDiff_Bytecode c)"

text \<open>A revert of an account: 0 leaves it alone, 1 deletes it, 2 goes back to the given one.\<close>

definition read_account_revert :: "AccountRevert \<Rightarrow> AccountInfoRevert" where
  "read_account_revert r =
    (if AccountRevert_Kind r = 0 then DoNothing else if AccountRevert_Kind r = 1 then DeleteIt
     else RevertTo (the (read_info (AccountRevert_RevertToInfo r))))"

definition read_storage_revert :: "StorageRevert \<Rightarrow> U256 \<times> RevertToSlot" where
  "read_storage_revert r =
    (read_word (StorageRevert_Key r),
     case StorageRevert_RevertTo r of Some (StorageRevert_Value v) \<Rightarrow> Slot_Some (read_word v) | _ \<Rightarrow> Slot_Destroyed)"

definition read_revert :: "AccountRevert \<Rightarrow> Address \<times> revm_AccountRevert" where
  "read_revert r =
    (read_word (AccountRevert_Address r),
     \<lparr>Revert_account = read_account_revert r, Revert_storage = map read_storage_revert (AccountRevert_Storage r),
      Revert_previous_status = read_status (AccountRevert_PreviousStatus r),
      Revert_wipe_storage = AccountRevert_WipeStorage r\<rparr>)"

definition read_bundle :: "StateDiff \<Rightarrow> BundleState" where
  "read_bundle d =
    \<lparr>Bundle_state = map read_account (StateDiff_Accounts d), Bundle_contracts = map read_contract (StateDiff_Contracts d),
     Bundle_reverts = map (\<lambda>b. map read_revert (BlockReverts_Accounts b)) (StateDiff_Reverts d)\<rparr>"

lemma read_info_to_proto [simp]:
  "read_info (Some (unwrap_or (map_option account_info_to_proto x) default_account_info)) = x"
  "read_info (Some (account_info_to_proto i)) = Some i"
  by (cases x) (simp_all add: read_info_def unwrap_or_def account_info_to_proto_def default_account_info_def
      AccountInfo_Reset_def)

lemma read_status_to_proto [simp]: "read_status (account_status_to_proto s) = s"
  by (cases s) (simp_all add: read_status_def)

lemma read_slot_to_proto [simp]: "read_slot (storage_diff_to_proto p) = p"
  by (cases p) (simp add: read_slot_def storage_diff_to_proto_def)

lemma read_account_to_proto [simp]: "read_account (account_diff_to_proto a x) = (a, x)"
  by (simp add: read_account_def account_diff_to_proto_def comp_def)

lemma read_contract_to_proto [simp]: "read_contract (contract_to_proto p) = p"
  by (cases p) (simp add: read_contract_def contract_to_proto_def)

lemma read_storage_revert_to_proto [simp]: "read_storage_revert (storage_revert_to_proto p) = p"
  by (cases p; cases "snd p") (simp_all add: read_storage_revert_def storage_revert_to_proto_def)

lemma read_revert_to_proto [simp]: "read_revert (account_revert_to_proto a r) = (a, r)"
  by (cases "Revert_account r")
    (simp_all add: read_revert_def account_revert_to_proto_def read_account_revert_def comp_def)

lemma read_bundle_to_proto: "read_bundle (state_diff_to_proto c) = execution_outcome_bundle c"
  by (simp add: read_bundle_def state_diff_to_proto_def block_reverts_to_proto_def Let_def comp_def case_prod_beta)

section \<open>Call traces\<close>

definition read_call_log :: "CallLogFrame \<Rightarrow> alloy_CallLogFrame" where
  "read_call_log l =
    \<lparr>LogFrame_address = read_optional read_word (CallLogFrame_Address l),
     LogFrame_topics = read_optional (map read_word) (CallLogFrame_Topics l),
     LogFrame_data = read_optional (\<lambda>b. b) (CallLogFrame_Data l),
     LogFrame_position = read_flagged (CallLogFrame_HasPosition l) (CallLogFrame_Position l),
     LogFrame_index = read_flagged (CallLogFrame_HasIndex l) (CallLogFrame_Index l)\<rparr>"

fun read_frame :: "CallFrame \<Rightarrow> alloy_CallFrame" where
  "read_frame (CallFrame kind sender rcpt val gas gasUsed input out err reason calls logs) =
     Frame kind (read_word sender) (read_optional read_word rcpt) (read_optional read_word val)
       (read_word gas) (read_word gasUsed) input (read_optional (\<lambda>b. b) out)
       (read_optional (\<lambda>s. s) err) (read_optional (\<lambda>s. s) reason) (map read_frame calls) (map read_call_log logs)"

definition read_traces :: "BlockCallTraces \<Rightarrow> u64 \<times> alloy_CallFrame list" where
  "read_traces t = (BlockCallTraces_BlockNumber t, map read_frame (BlockCallTraces_Txs t))"

lemma read_call_log_to_proto [simp]: "read_call_log (call_log_frame_to_proto l) = plain_log l"
proof -
  have "read_optional (map read_word) (or_empty (map b256_to_bytes) x) = drop_empty x" for x
    by (cases x) (simp_all add: read_optional_def or_empty_def drop_empty_def comp_def)
  then show ?thesis
    by (cases l) (simp add: read_call_log_def call_log_frame_to_proto_def plain_log_def del: not_None_eq)
qed

lemma read_frame_to_proto [simp]: "read_frame (call_frame_to_proto f) = plain_frame f"
proof (induction f)
  case (Frame kind sender rcpt val gas gasUsed input out err reason calls logs)
  then show ?case by (simp add: comp_def)
qed

text \<open>A streamed trace is the node's trace with the transaction's gas limit as its gas.\<close>

fun with_frame_gas :: "U256 \<Rightarrow> alloy_CallFrame \<Rightarrow> alloy_CallFrame" where
  "with_frame_gas g (Frame kind sender rcpt val gas gasUsed input out err reason calls logs) =
     Frame kind sender rcpt val g gasUsed input out err reason calls logs"

definition tx_trace :: "TransactionSigned \<times> alloy_CallFrame \<Rightarrow> alloy_CallFrame" where
  "tx_trace = (\<lambda>(tx, frame). with_frame_gas (ucast (tx_gas_limit tx)) frame)"

lemma tx_frame_to_proto_trace: "tx_frame_to_proto tf = call_frame_to_proto (tx_trace tf)"
proof -
  have "set_gas (u256_to_bytes g) (call_frame_to_proto f) = call_frame_to_proto (with_frame_gas g f)" for g f
    by (cases f) simp
  then show ?thesis by (cases tf) (simp add: tx_frame_to_proto_def tx_trace_def)
qed

text \<open>
  The traces of a chain: block by block, the traces of its transactions as far as there are
  both a transaction and a trace, without the distinctions of \<open>plain_frame\<close>.
\<close>

definition plain_traces :: "reth_Chain \<Rightarrow> (u64 \<times> alloy_CallFrame list) list" where
  "plain_traces c = map (\<lambda>(n, tfs). (n, map (\<lambda>tf. plain_frame (tx_trace tf)) tfs)) (traced c)"

lemma read_traces_to_proto: "map read_traces (call_traces_to_proto c) = plain_traces c"
  by (simp add: call_traces_to_proto_traced plain_traces_def read_traces_def tx_frame_to_proto_trace comp_def
      case_prod_beta)

section \<open>Chains and notifications\<close>

record chain_content =
  content_blocks :: "(RecoveredBlock \<times> reth_Receipt list) list"
  content_bundle :: BundleState
  content_traces :: "(u64 \<times> alloy_CallFrame list) list"

datatype notification_content =
    Content_Committed chain_content
  | Content_Reorged chain_content chain_content
  | Content_Reverted chain_content

definition read_chain :: "Chain \<Rightarrow> chain_content" where
  "read_chain c =
    \<lparr>content_blocks = map read_block (Chain_Blocks c), content_bundle = read_bundle (the (Chain_StateDiff c)),
     content_traces = map read_traces (Chain_CallTraces c)\<rparr>"

definition read_notification :: "Notification \<Rightarrow> notification_content option" where
  "read_notification n =
    (case Notification_Event n of
       Some (Notification_ChainCommitted ev) \<Rightarrow>
         map_option (\<lambda>new. Content_Committed (read_chain new)) (ChainCommitted_New ev)
     | Some (Notification_ChainReorged ev) \<Rightarrow>
         (case (ChainReorged_Old ev, ChainReorged_New ev) of
            (Some old, Some new) \<Rightarrow> Some (Content_Reorged (read_chain old) (read_chain new))
          | _ \<Rightarrow> None)
     | Some (Notification_ChainReverted ev) \<Rightarrow>
         map_option (\<lambda>old. Content_Reverted (read_chain old)) (ChainReverted_Old ev)
     | None \<Rightarrow> None)"

text \<open>What a notification says, as far as the messages can.\<close>

definition chain_contents :: "reth_Chain \<Rightarrow> chain_content" where
  "chain_contents c =
    \<lparr>content_blocks = map block_content (blocks_and_receipts c), content_bundle = execution_outcome_bundle c,
     content_traces = plain_traces c\<rparr>"

fun contents :: "ExExNotification \<Rightarrow> notification_content" where
  "contents (ExEx_ChainCommitted new) = Content_Committed (chain_contents new)"
| "contents (ExEx_ChainReorged old new) = Content_Reorged (chain_contents old) (chain_contents new)"
| "contents (ExEx_ChainReverted old) = Content_Reverted (chain_contents old)"

lemma read_chain_to_proto: "read_chain (chain_to_proto c all_flags) = chain_contents c"
proof -
  have "map read_block (map (\<lambda>(b, rs). block_with_receipts_to_proto b rs all_flags) bs) = map block_content bs" for bs
    by (auto simp: read_block_to_proto)
  then show ?thesis
    by (simp add: read_chain_def chain_contents_def chain_to_proto_def read_bundle_to_proto read_traces_to_proto)
      (simp add: all_flags_def read_bundle_to_proto read_traces_to_proto)
qed

lemma read_notification_to_proto: "read_notification (notification_to_proto n all_flags) = Some (contents n)"
  by (cases n) (simp_all add: read_notification_def read_chain_to_proto)

end
