(* ===== verification/Server_Stream.thy ===== *)
theory Server_Stream
  imports Server_Read "HOL-Library.Sublist"
begin

text \<open>
  \<open>src/src/exex.rs\<close>: the ExEx loop, which passes the node's canonical notifications on to a
  broadcast channel, and the task of each subscriber, which converts what it receives from
  the channel and sends it to its client. The node, the channels of tokio and the gRPC server
  are arguments: what the loops receive and whether their sends succeed.
\<close>

section \<open>The ExEx loop\<close>

text \<open>
  What the canonical stream yields: a notification, with the error of the event that reports
  its height when that fails, or the end.
\<close>

datatype canon_item =
    Canon CanonStateNotification "string option"
  | Canon_Ended

datatype 'h exex_effect =
    Exex_Info string
  | FinishedHeight 'h
  | Broadcast ExExNotification
  | Exex_Return "string option"

text \<open>
  \<open>num_hash\<close> is \<open>new.tip().num_hash()\<close> and \<open>from_canon\<close> is \<open>ExExNotification::from\<close>. A failed
  broadcast only says that nobody is subscribed.
\<close>

fun exex_loop :: "(reth_Chain \<Rightarrow> 'h) \<Rightarrow> (CanonStateNotification \<Rightarrow> ExExNotification) \<Rightarrow> canon_item list \<Rightarrow> 'h exex_effect list" where
  "exex_loop num_hash from_canon [] = []"
| "exex_loop num_hash from_canon (Canon_Ended # is) =
     [Exex_Info ''ExEx canonical state stream ended'', Exex_Return None]"
| "exex_loop num_hash from_canon (Canon canon_notification send_err # is) =
     (case canon_notification of
        Commit new \<Rightarrow>
          (case send_err of
             Some err \<Rightarrow> [Exex_Return (Some err)]
           | None \<Rightarrow> FinishedHeight (num_hash new) # Broadcast (from_canon canon_notification)
                      # exex_loop num_hash from_canon is)
      | Reorg old new \<Rightarrow> Broadcast (from_canon canon_notification) # exex_loop num_hash from_canon is)"

definition remote_exex :: "(reth_Chain \<Rightarrow> 'h) \<Rightarrow> (CanonStateNotification \<Rightarrow> ExExNotification) \<Rightarrow> canon_item list \<Rightarrow> 'h exex_effect list" where
  "remote_exex num_hash from_canon is =
     Exex_Info ''ExEx started, subscribing to canonical state stream'' # exex_loop num_hash from_canon is"

definition broadcasts :: "'h exex_effect list \<Rightarrow> ExExNotification list" where
  "broadcasts es = List.map_filter (\<lambda>e. case e of Broadcast n \<Rightarrow> Some n | _ \<Rightarrow> None) es"

definition heights :: "'h exex_effect list \<Rightarrow> 'h list" where
  "heights es = List.map_filter (\<lambda>e. case e of FinishedHeight h \<Rightarrow> Some h | _ \<Rightarrow> None) es"

lemma exex_effects_simps [simp]:
  "broadcasts [] = []" "broadcasts (Exex_Info s # es) = broadcasts es" "broadcasts (FinishedHeight h # es) = broadcasts es"
  "broadcasts (Broadcast n # es) = n # broadcasts es" "broadcasts (Exex_Return r # es) = broadcasts es"
  "heights [] = []" "heights (Exex_Info s # es) = heights es" "heights (FinishedHeight h # es) = h # heights es"
  "heights (Broadcast n # es) = heights es" "heights (Exex_Return r # es) = heights es"
  by (simp_all add: broadcasts_def heights_def List.map_filter_simps)

text \<open>The notifications the loop gets through: those before the end and before a failed event.\<close>

fun passes :: "canon_item \<Rightarrow> bool" where
  "passes (Canon (Commit new) send_err) = (send_err = None)"
| "passes (Canon (Reorg old new) send_err) = True"
| "passes Canon_Ended = False"

fun canon_of :: "canon_item \<Rightarrow> CanonStateNotification option" where
  "canon_of (Canon c send_err) = Some c"
| "canon_of Canon_Ended = None"

definition passed_on :: "canon_item list \<Rightarrow> CanonStateNotification list" where
  "passed_on is = List.map_filter canon_of (takeWhile passes is)"

definition commits :: "CanonStateNotification list \<Rightarrow> reth_Chain list" where
  "commits cs = List.map_filter (\<lambda>c. case c of Commit new \<Rightarrow> Some new | Reorg old new \<Rightarrow> None) cs"

lemma exex_loop_passes:
  "broadcasts (exex_loop num_hash from_canon is) = map from_canon (passed_on is)"
  "heights (exex_loop num_hash from_canon is) = map num_hash (commits (passed_on is))"
proof (induction "is")
  case (Cons i "is")
  case 1
  show ?case using Cons by (cases i)
    (auto simp: passed_on_def List.map_filter_simps split: CanonStateNotification.split option.split)
  case 2
  show ?case using Cons by (cases i)
    (auto simp: passed_on_def commits_def List.map_filter_simps split: CanonStateNotification.split option.split)
qed (simp_all add: passed_on_def commits_def List.map_filter_simps)

section \<open>The task of a subscriber\<close>

text \<open>\<open>BROADCAST_CHANNEL_CAPACITY\<close>.\<close>

definition BROADCAST_CHANNEL_CAPACITY :: nat where
  "BROADCAST_CHANNEL_CAPACITY = 16"

definition subscribe_flags :: "SubscribeRequest \<Rightarrow> SubscribeFlags" where
  "subscribe_flags req =
    \<lparr>include_headers = SubscribeRequest_IncludeHeaders req,
     include_transactions = SubscribeRequest_IncludeTransactions req,
     include_receipts = SubscribeRequest_IncludeReceipts req,
     include_withdrawals = SubscribeRequest_IncludeWithdrawals req,
     include_state_diff = SubscribeRequest_IncludeStateDiff req,
     include_call_traces = SubscribeRequest_IncludeCallTraces req\<rparr>"

text \<open>What \<open>notifications.recv()\<close> returns, and what the task does with it.\<close>

datatype broadcast_recv = Got ExExNotification | Lagged nat | Closed

datatype client_effect =
    To_Client Notification
  | Task_Info string
  | Task_Warn string
  | Task_Break

text \<open>Each received notification comes with whether the send to the client succeeds.\<close>

fun subscribe_loop :: "SubscribeFlags \<Rightarrow> (broadcast_recv \<times> bool) list \<Rightarrow> client_effect list" where
  "subscribe_loop flags [] = []"
| "subscribe_loop flags ((Got notification, sent) # rs) =
     (if \<not> sent then [Task_Info ''gRPC client disconnected'', Task_Break]
      else To_Client (notification_to_proto notification flags)
           # Task_Info ''Notification sent to gRPC client'' # subscribe_loop flags rs)"
| "subscribe_loop flags ((Lagged n, sent) # rs) =
     Task_Warn (''gRPC client lagged, dropped '' @ fmt_nat n @ '' notifications'') # subscribe_loop flags rs"
| "subscribe_loop flags ((Closed, sent) # rs) = [Task_Break]"

definition subscribe :: "SubscribeRequest \<Rightarrow> (broadcast_recv \<times> bool) list \<Rightarrow> client_effect list" where
  "subscribe req rs = subscribe_loop (subscribe_flags req) rs"

definition to_client :: "client_effect list \<Rightarrow> Notification list" where
  "to_client es = List.map_filter (\<lambda>e. case e of To_Client n \<Rightarrow> Some n | _ \<Rightarrow> None) es"

lemma to_client_simps [simp]:
  "to_client [] = []" "to_client (To_Client n # es) = n # to_client es" "to_client (Task_Info s # es) = to_client es"
  "to_client (Task_Warn s # es) = to_client es" "to_client (Task_Break # es) = to_client es"
  by (simp_all add: to_client_def List.map_filter_simps)

section \<open>The broadcast channel\<close>

text \<open>
  One subscriber's view of the channel: notifications published since it subscribed, and the
  results of its \<open>recv\<close>. Documented of the channel: values arrive in order; a value is
  dropped only for a receiver more than the capacity behind, which is told how many it
  missed and goes on with the oldest value retained; \<open>Closed\<close> comes when nothing is left.
\<close>

datatype channel_event = Publish ExExNotification | Receive broadcast_recv bool

fun broadcast_channel :: "nat \<Rightarrow> ExExNotification list \<Rightarrow> channel_event list \<Rightarrow> bool" where
  "broadcast_channel cap unread [] = True"
| "broadcast_channel cap unread (Publish n # es) = broadcast_channel cap (unread @ [n]) es"
| "broadcast_channel cap unread (Receive (Got n) sent # es) =
     (unread \<noteq> [] \<and> hd unread = n \<and> broadcast_channel cap (tl unread) es)"
| "broadcast_channel cap unread (Receive (Lagged k) sent # es) =
     (0 < k \<and> k + cap \<le> length unread \<and> broadcast_channel cap (drop k unread) es)"
| "broadcast_channel cap unread (Receive Closed sent # es) = (unread = [] \<and> es = [])"

fun published :: "channel_event list \<Rightarrow> ExExNotification list" where
  "published [] = []"
| "published (Publish n # es) = n # published es"
| "published (Receive r sent # es) = published es"

fun results :: "channel_event list \<Rightarrow> (broadcast_recv \<times> bool) list" where
  "results [] = []"
| "results (Publish n # es) = results es"
| "results (Receive r sent # es) = (r, sent) # results es"

text \<open>What the subscriber got, how much it was told to have missed, and what is left.\<close>

definition got :: "(broadcast_recv \<times> bool) list \<Rightarrow> ExExNotification list" where
  "got rs = List.map_filter (\<lambda>(r, sent). case r of Got n \<Rightarrow> Some n | _ \<Rightarrow> None) rs"

definition missed :: "(broadcast_recv \<times> bool) list \<Rightarrow> nat" where
  "missed rs = (\<Sum>(r, sent)\<leftarrow>rs. case r of Lagged k \<Rightarrow> k | _ \<Rightarrow> 0)"

definition connected :: "(broadcast_recv \<times> bool) list \<Rightarrow> bool" where
  "connected rs \<longleftrightarrow> (\<forall>(r, sent) \<in> set rs. sent)"

lemma got_simps [simp]:
  "got [] = []" "got ((Got n, sent) # rs) = n # got rs" "got ((Lagged k, sent) # rs) = got rs"
  "got ((Closed, sent) # rs) = got rs"
  by (simp_all add: got_def List.map_filter_simps)

lemma missed_simps [simp]:
  "missed [] = 0" "missed ((Got n, sent) # rs) = missed rs" "missed ((Lagged k, sent) # rs) = k + missed rs"
  "missed ((Closed, sent) # rs) = missed rs"
  by (simp_all add: missed_def)

text \<open>
  Nothing is reordered, duplicated or made up, and without a lag nothing is missing: what is
  published is what was got, in order, then what is unread.
\<close>

lemma channel_subseq:
  "broadcast_channel cap unread es \<Longrightarrow> subseq (got (results es)) (unread @ published es)"
proof (induction cap unread es rule: broadcast_channel.induct)
  case (3 cap unread n sent es)
  then show ?case by (cases unread) auto
next
  case (4 cap unread k sent es)
  have "subseq (drop k unread @ published es) (unread @ published es)"
    by (simp add: suffix_imp_subseq suffix_drop)
  with 4 show ?case by (auto intro: subseq_order.trans)
qed auto

lemma channel_accounts:
  "broadcast_channel cap unread es \<Longrightarrow>
   length (got (results es)) + missed (results es) \<le> length (unread @ published es)"
proof (induction cap unread es rule: broadcast_channel.induct)
  case (3 cap unread n sent es)
  then show ?case by (cases unread) auto
qed auto

lemma channel_prefix:
  "broadcast_channel cap unread es \<Longrightarrow> missed (results es) = 0 \<Longrightarrow> prefix (got (results es)) (unread @ published es)"
proof (induction cap unread es rule: broadcast_channel.induct)
  case (3 cap unread n sent es)
  then show ?case by (cases unread) auto
qed auto

text \<open>The task sends the conversions of what it gets, in order, until a send fails.\<close>

lemma subscribe_prefix:
  "prefix (to_client (subscribe_loop flags rs)) (map (\<lambda>n. notification_to_proto n flags) (got rs))"
proof (induction flags rs rule: subscribe_loop.induct)
  case (2 flags notification sent rs)
  then show ?case by (cases sent) auto
qed auto

lemma channel_to_client:
  "broadcast_channel cap unread es \<Longrightarrow> connected (results es) \<Longrightarrow>
   to_client (subscribe_loop flags (results es)) = map (\<lambda>n. notification_to_proto n flags) (got (results es))"
  by (induction cap unread es rule: broadcast_channel.induct) (auto simp: connected_def)

text \<open>A subscriber that is never more than the capacity behind misses nothing.\<close>

fun keeps_up :: "nat \<Rightarrow> nat \<Rightarrow> channel_event list \<Rightarrow> bool" where
  "keeps_up cap behind [] = True"
| "keeps_up cap behind (Publish n # es) = (behind < cap \<and> keeps_up cap (Suc behind) es)"
| "keeps_up cap behind (Receive (Got n) sent # es) = keeps_up cap (behind - 1) es"
| "keeps_up cap behind (Receive (Lagged k) sent # es) = keeps_up cap (behind - k) es"
| "keeps_up cap behind (Receive Closed sent # es) = keeps_up cap behind es"

lemma keeps_up_misses_nothing:
  "broadcast_channel cap unread es \<Longrightarrow> keeps_up cap (length unread) es \<Longrightarrow> length unread \<le> cap \<Longrightarrow>
   missed (results es) = 0"
  by (induction cap unread es rule: broadcast_channel.induct) auto

end
