(* ===== verification/Server_Samples.thy ===== *)
theory Server_Samples
  imports Server_Stream
begin

text \<open>A chain of one block with one traced transaction, and a subscriber that is sent it.\<close>

definition sample_header :: alloy_Header where
  "sample_header =
    \<lparr>Header_parent_hash = 6, Header_ommers_hash = 0, Header_beneficiary = 1, Header_state_root = 0,
     Header_transactions_root = 0, Header_receipts_root = 0, Header_logs_bloom = 0, Header_difficulty = 0,
     Header_number = 7, Header_gas_limit = 30000000, Header_gas_used = 21000, Header_timestamp = 1000,
     Header_extra_data = [], Header_mix_hash = 0, Header_nonce = 0, Header_base_fee_per_gas = Some 7,
     Header_withdrawals_root = None, Header_blob_gas_used = None, Header_excess_blob_gas = None,
     Header_parent_beacon_block_root = None, Header_requests_hash = None\<rparr>"

definition sample_tx :: TransactionSigned where
  "sample_tx = Legacy
    \<lparr>Signed_tx = \<lparr>Tx_nonce = 0, Tx_gas_limit = 21000, Tx_value = 1, Tx_input = [], Legacy_to = TxKind_Call 5,
       Legacy_chain_id = Some 1, Legacy_gas_price = 7\<rparr>,
     Signed_signature = \<lparr>Sig_v = True, Sig_r = 3, Sig_s = 4\<rparr>, Signed_hash = 9\<rparr>"

definition sample_call :: alloy_CallFrame where
  "sample_call = Frame ''CALL'' 1 (Some 5) (Some 1) 0 21000 [] None None None [] []"

definition sample_chain :: reth_Chain where
  "sample_chain =
    \<lparr>blocks_and_receipts =
       [(\<lparr>Block_header = sample_header, Block_transactions = [sample_tx], Block_withdrawals = None,
          Block_senders = [1]\<rparr>, [])],
     execution_outcome_bundle =
       \<lparr>Bundle_state = [(5, \<lparr>Acc_info = None, Acc_original_info = None, Acc_storage = [], Acc_status = Loaded\<rparr>)],
        Bundle_contracts = [], Bundle_reverts = []\<rparr>,
     call_traces = Some [7 \<mapsto> [sample_call]]\<rparr>"

definition served_events :: "channel_event list" where
  "served_events =
    [Publish (ExEx_ChainCommitted sample_chain), Receive (Got (ExEx_ChainCommitted sample_chain)) True,
     Receive Closed True]"

lemma sample_chain_blocks:
  "blocks_and_receipts sample_chain \<noteq> []"
  "Block_header (fst (last (blocks_and_receipts sample_chain))) = sample_header"
  "Header_number sample_header = 7" "Header_gas_used sample_header = 21000"
  by (simp_all add: sample_chain_def sample_header_def)

lemma sample_chain_bundle: "length (Bundle_state (execution_outcome_bundle sample_chain)) = 1"
  by (simp add: sample_chain_def)

lemma sample_traced: "traced sample_chain = [(7, [(sample_tx, sample_call)])]"
  by (simp add: traced_def sample_chain_def sample_header_def List.map_filter_simps)

lemma sample_channel:
  "broadcast_channel BROADCAST_CHANNEL_CAPACITY [] served_events" "connected (results served_events)"
  "keeps_up BROADCAST_CHANNEL_CAPACITY 0 served_events"
  "published served_events = [ExEx_ChainCommitted sample_chain]" "got (results served_events) = [ExEx_ChainCommitted sample_chain]"
  by (simp_all add: served_events_def connected_def BROADCAST_CHANNEL_CAPACITY_def)

end
