(* ===== verification/Server_Properties.thy ===== *)
theory Server_Properties
  imports Server_Samples
begin

text \<open>The properties of the server: what it converts, what it broadcasts, what a client gets.\<close>

section \<open>Conversion\<close>

text \<open>
  C17. A client that subscribes to everything can read back the content of every notification:
  its kind, and of each chain every header, transaction, sender, receipt, withdrawal, state
  change and trace in the fields the server reads of them, each value from its own field and
  big-endian, as \<open>proto/exex.proto\<close> describes the messages. What it cannot tell apart, and
  \<open>contents\<close> therefore leaves out, is: the parity byte of an authorization beyond being zero;
  absent and empty withdrawals of a block; absent and empty output, error and revert reason of a
  call, and topics and data of a call's log; and of the traces those of blocks outside the chain
  and those beyond the transactions of their block, and whether any were collected when no
  block has an entry. The gas of a transaction's trace is the
  transaction's gas limit.
\<close>

theorem client_reads_content: "read_notification (notification_to_proto n all_flags) = Some (contents n)"
  by (rule read_notification_to_proto)

text \<open>
  C23. A subscription flag selects its part and nothing else: the chain converted for any flags
  is the fully converted chain with the parts of the unset flags removed, senders going with
  transactions. This is the filter against which the unit tests of the conversion check.
\<close>

theorem flags_select_parts:
  "chain_to_proto chain flags = apply_flags flags (chain_to_proto chain all_flags)"
  by (rule chain_to_proto_apply_flags)

section \<open>Broadcast\<close>

text \<open>
  C22. The ExEx loop passes every notification of the canonical stream on, in order, and
  reports the height of every commit just as far: it stops only at the end of the stream or
  when the event of a height cannot be sent, and then with that error and without
  broadcasting the commit.
\<close>

theorem exex_passes_everything_on:
  "broadcasts (remote_exex num_hash from_canon is) = map from_canon (passed_on is) \<and>
   heights (remote_exex num_hash from_canon is) = map num_hash (commits (passed_on is)) \<and>
   (Exex_Return (Some err) \<in> set (remote_exex num_hash from_canon is) \<longleftrightarrow>
     (\<exists>new rest. dropWhile passes is = Canon (Commit new) (Some err) # rest))"
proof -
  have "Exex_Return (Some err) \<in> set (exex_loop num_hash from_canon is) \<longleftrightarrow>
      (\<exists>new rest. dropWhile passes is = Canon (Commit new) (Some err) # rest)"
  proof (induction "is")
    case (Cons i "is")
    then show ?case by (cases i) (auto split: CanonStateNotification.split option.split)
  qed simp
  then show ?thesis by (simp add: remote_exex_def exex_loop_passes)
qed

section \<open>What a client gets\<close>

text \<open>
  C21. The stream of a client: whatever lags the broadcast channel reports, the client is sent
  conversions of published notifications only, in their order and each at most once; it is
  sent or told to have missed at most as many as were published; and when its sends succeed
  and it is never more than 16 notifications behind, it is sent everything it has read up to.
\<close>

theorem client_stream_ordered:
  assumes "broadcast_channel BROADCAST_CHANNEL_CAPACITY [] es"
  shows "subseq (to_client (subscribe req (results es)))
      (map (\<lambda>n. notification_to_proto n (subscribe_flags req)) (published es)) \<and>
    length (to_client (subscribe req (results es))) + missed (results es) \<le> length (published es) \<and>
    (connected (results es) \<and> keeps_up BROADCAST_CHANNEL_CAPACITY 0 es \<longrightarrow>
      to_client (subscribe req (results es))
        = map (\<lambda>n. notification_to_proto n (subscribe_flags req)) (take (length (got (results es))) (published es)))"
proof -
  let ?conv = "\<lambda>n. notification_to_proto n (subscribe_flags req)"
  have p: "prefix (to_client (subscribe req (results es))) (map ?conv (got (results es)))"
    unfolding subscribe_def by (rule subscribe_prefix)
  have "subseq (map ?conv (got (results es))) (map ?conv (published es))"
    using channel_subseq [OF assms] by (simp add: subseq_map)
  with p have "subseq (to_client (subscribe req (results es))) (map ?conv (published es))"
    by (meson prefix_imp_subseq subseq_order.trans)
  moreover have "length (to_client (subscribe req (results es))) + missed (results es) \<le> length (published es)"
    using channel_accounts [OF assms] prefix_length_le [OF p] by simp
  moreover have "to_client (subscribe req (results es)) = map ?conv (take (length (got (results es))) (published es))"
    if "connected (results es)" "keeps_up BROADCAST_CHANNEL_CAPACITY 0 es"
  proof -
    have "prefix (got (results es)) (published es)"
      using channel_prefix [OF assms] keeps_up_misses_nothing [OF assms] that(2) by simp
    then have "take (length (got (results es))) (published es) = got (results es)"
      by (auto elim!: prefixE)
    then show ?thesis unfolding subscribe_def channel_to_client [OF assms that(1)] by simp
  qed
  ultimately show ?thesis by blast
qed

theorem client_stream_ordered_witness:
  "to_client (subscribe (SubscribeRequest_Reset undefined) (results served_events))
     = map (\<lambda>n. notification_to_proto n (subscribe_flags (SubscribeRequest_Reset undefined))) [ExEx_ChainCommitted sample_chain]"
  using client_stream_ordered [OF sample_channel(1), of "SubscribeRequest_Reset undefined"] sample_channel(2-)
  by simp

end
