(* ===== verification/Server_System.thy ===== *)
theory Server_System
  imports Server_Stream
begin

text \<open>
  The running server of \<open>src/src/exex.rs\<close>: the ExEx loop, the broadcast channel, and for each
  subscriber its task, the bounded channel to its connection and the client at the other
  end, under every schedule. Clients may subscribe, read slowly and hang up at any time.
\<close>

section \<open>A subscriber\<close>

definition PER_CLIENT_CHANNEL_CAPACITY :: nat where
  "PER_CLIENT_CHANNEL_CAPACITY = 16"

text \<open>
  \<open>unread\<close> are the notifications broadcast since the last one the task has got, \<open>sending\<close> is the
  message whose \<open>tx.send\<close> waits for room, \<open>buffer\<close> the channel to the connection. \<open>joined\<close> is
  the number of broadcasts before the subscription, \<open>accepted\<close> and \<open>events\<close> record what happened.
\<close>

record subscriber =
  request :: SubscribeRequest
  joined :: nat
  unread :: "ExExNotification list"
  sending :: "Notification option"
  buffer :: "Notification list"
  delivered :: "Notification list"
  gone :: bool
  ended :: bool
  accepted :: "Notification list"
  events :: "channel_event list"

definition new_subscriber :: "SubscribeRequest \<Rightarrow> nat \<Rightarrow> subscriber" where
  "new_subscriber req before =
    \<lparr>request = req, joined = before, unread = [], sending = None, buffer = [], delivered = [],
     gone = False, ended = False, accepted = [], events = []\<rparr>"

text \<open>A broadcast reaches every subscriber whose task still runs, and waits for none.\<close>

fun publish :: "'h exex_effect \<Rightarrow> subscriber \<Rightarrow> subscriber" where
  "publish (Broadcast n) c =
     (if ended c then c else c\<lparr>unread := unread c @ [n], events := events c @ [Publish n]\<rparr>)"
| "publish _ c = c"

text \<open>
  The task's \<open>recv\<close> (a receiver too far behind is first told so), its \<open>send\<close>, the client's
  reading, and the client's leaving, which drops the messages it has not read.
\<close>

inductive client_step :: "subscriber \<Rightarrow> subscriber \<Rightarrow> bool" where
  client_got:
    "\<not> ended c \<Longrightarrow> sending c = None \<Longrightarrow> unread c = n # ns \<Longrightarrow> length (unread c) \<le> BROADCAST_CHANNEL_CAPACITY \<Longrightarrow>
     client_step c (c\<lparr>unread := ns, sending := Some (notification_to_proto n (subscribe_flags (request c))),
       events := events c @ [Receive (Got n) True]\<rparr>)"
| client_lagged:
    "\<not> ended c \<Longrightarrow> sending c = None \<Longrightarrow> length (unread c) = BROADCAST_CHANNEL_CAPACITY + k \<Longrightarrow> 0 < k \<Longrightarrow>
     client_step c (c\<lparr>unread := drop k (unread c), events := events c @ [Receive (Lagged k) True]\<rparr>)"
| client_send:
    "sending c = Some m \<Longrightarrow> \<not> gone c \<Longrightarrow> length (buffer c) < PER_CLIENT_CHANNEL_CAPACITY \<Longrightarrow>
     client_step c (c\<lparr>sending := None, buffer := buffer c @ [m], accepted := accepted c @ [m]\<rparr>)"
| client_send_fails:
    "sending c = Some m \<Longrightarrow> gone c \<Longrightarrow> client_step c (c\<lparr>sending := None, ended := True\<rparr>)"
| client_reads:
    "buffer c = m # ms \<Longrightarrow> \<not> gone c \<Longrightarrow> client_step c (c\<lparr>buffer := ms, delivered := delivered c @ [m]\<rparr>)"
| client_hangs_up:
    "\<not> gone c \<Longrightarrow> client_step c (c\<lparr>gone := True, buffer := []\<rparr>)"

inductive_cases client_stepE: "client_step c c'"

section \<open>The server\<close>

record 'h server =
  exex_todo :: "'h exex_effect list"
  exex_done :: "'h exex_effect list"
  subscribers :: "subscriber list"

text \<open>
  \<open>effs\<close> is what the ExEx loop does on the items the canonical stream yields during the run:
  \<open>remote_exex\<close> of them. With nothing left to do the loop has returned, if the last effect says
  so, or waits for the stream's next item.
\<close>

definition server_start :: "'h exex_effect list \<Rightarrow> 'h server" where
  "server_start effs = \<lparr>exex_todo = effs, exex_done = [], subscribers = []\<rparr>"

text \<open>Who moves: the ExEx loop, a new subscriber, or the task or client of a subscriber.\<close>

datatype actor = Exex | Join | Client nat

inductive server_step :: "actor \<Rightarrow> 'h server \<Rightarrow> 'h server \<Rightarrow> bool" where
  server_exex:
    "exex_todo s = eff # effs \<Longrightarrow>
     server_step Exex s (s\<lparr>exex_todo := effs, exex_done := exex_done s @ [eff],
       subscribers := map (publish eff) (subscribers s)\<rparr>)"
| server_join:
    "server_step Join s (s\<lparr>subscribers :=
       subscribers s @ [new_subscriber req (length (broadcasts (exex_done s)))]\<rparr>)"
| server_client:
    "i < length (subscribers s) \<Longrightarrow> client_step (subscribers s ! i) c' \<Longrightarrow>
     server_step (Client i) s (s\<lparr>subscribers := (subscribers s)[i := c']\<rparr>)"

inductive_cases server_stepE: "server_step a s s'"

definition some_step :: "'h server \<Rightarrow> 'h server \<Rightarrow> bool" where
  "some_step s s' \<longleftrightarrow> (\<exists>a. server_step a s s')"

section \<open>What the channel still holds\<close>

fun unread_step :: "channel_event \<Rightarrow> ExExNotification list \<Rightarrow> ExExNotification list" where
  "unread_step (Publish n) u = u @ [n]"
| "unread_step (Receive (Got n) sent) u = tl u"
| "unread_step (Receive (Lagged k) sent) u = drop k u"
| "unread_step (Receive Closed sent) u = u"

definition open_channel :: "channel_event list \<Rightarrow> bool" where
  "open_channel es \<longleftrightarrow> (\<forall>sent. Receive Closed sent \<notin> set es)"

lemma broadcast_channel_snoc:
  "open_channel es \<Longrightarrow> broadcast_channel cap u (es @ [e]) \<longleftrightarrow>
     broadcast_channel cap u es \<and> broadcast_channel cap (fold unread_step es u) [e]"
  by (induction cap u es rule: broadcast_channel.induct) (auto simp: open_channel_def)

lemma published_snoc [simp]:
  "published (es @ [e]) = published es @ (case e of Publish n \<Rightarrow> [n] | Receive r sent \<Rightarrow> [])"
  by (induction es rule: published.induct) (cases e; simp)+

lemma results_snoc [simp]:
  "results (es @ [e]) = results es @ (case e of Publish n \<Rightarrow> [] | Receive r sent \<Rightarrow> [(r, sent)])"
  by (induction es rule: results.induct) (cases e; simp)+

lemma open_channel_snoc [simp]: "open_channel (es @ [e]) \<longleftrightarrow> open_channel es \<and> (\<forall>sent. e \<noteq> Receive Closed sent)"
  by (auto simp: open_channel_def)

text \<open>Nothing missed: what was published is what was got and what is unread.\<close>

lemma channel_split:
  "broadcast_channel cap u es \<Longrightarrow> open_channel es \<Longrightarrow> missed (results es) = 0 \<Longrightarrow>
   u @ published es = got (results es) @ fold unread_step es u"
proof (induction cap u es rule: broadcast_channel.induct)
  case (3 cap u n sent es)
  then show ?case by (cases u) (auto simp: open_channel_def)
qed (auto simp: open_channel_def)

section \<open>The program\<close>

text \<open>
  \<open>main\<close>: the address is bound only when the server task runs, which is after the node has
  launched with the ExEx in it. Whether the launch, the server and the node fail are arguments.
\<close>

datatype main_effect =
    Install_Exex string
  | Launch_Node
  | Spawn_Critical string "task_effect list"
  | Wait_For_Exit
  | Main_Return "string option"
and task_effect = Serve string | Task_Panic string

definition grpc_server_task :: "string option \<Rightarrow> task_effect list" where
  "grpc_server_task serve_err =
    Serve ''0.0.0.0:10000'' #
    (case serve_err of None \<Rightarrow> [] | Some err \<Rightarrow> [Task_Panic (''failed to start gRPC server: '' @ err)])"

definition server_main :: "string option \<Rightarrow> string option \<Rightarrow> string option \<Rightarrow> main_effect list" where
  "server_main launch_err serve_err exit_err =
    [Install_Exex ''exex-for-go'', Launch_Node] @
    (case launch_err of
       Some err \<Rightarrow> [Main_Return (Some err)]
     | None \<Rightarrow> [Spawn_Critical ''gRPC server'' (grpc_server_task serve_err), Wait_For_Exit, Main_Return exit_err])"

text \<open>Clients are served only by a node that has launched; the exit of the program is the node's.\<close>

lemma server_main_serves_after_launch:
  "(\<exists>name. Spawn_Critical name (grpc_server_task serve_err) \<in> set (server_main launch_err serve_err exit_err))
     \<longleftrightarrow> launch_err = None"
  "last (server_main launch_err serve_err exit_err) = Main_Return (if launch_err = None then exit_err else launch_err)"
  by (auto simp: server_main_def split: option.splits)


end
