(* ===== verification/Server_System_Correct.thy ===== *)
theory Server_System_Correct
  imports Server_System
begin

text \<open>
  The invariants of the running server: each subscriber's history is one the broadcast channel
  allows, and what its task has sent is what \<open>subscribe\<close> makes of it; and a connected client
  can be served whatever the others do.
\<close>

section \<open>One subscriber\<close>

abbreviation converted :: "subscriber \<Rightarrow> ExExNotification \<Rightarrow> Notification" where
  "converted c n \<equiv> notification_to_proto n (subscribe_flags (request c))"

definition pending :: "subscriber \<Rightarrow> Notification list" where
  "pending c = (case sending c of None \<Rightarrow> [] | Some m \<Rightarrow> [m])"

text \<open>What the task's \<open>recv\<close> has returned, and whether each send succeeded: the last one failed if it ended.\<close>

definition task_results :: "subscriber \<Rightarrow> (broadcast_recv \<times> bool) list" where
  "task_results c =
    (let rs = results (events c) in if ended c then butlast rs @ [(fst (last rs), False)] else rs)"

definition last_got :: "subscriber \<Rightarrow> Notification \<Rightarrow> Notification list \<Rightarrow> bool" where
  "last_got c m ms \<longleftrightarrow>
    (\<exists>rs n. results (events c) = rs @ [(Got n, True)] \<and> m = converted c n \<and> ms = map (converted c) (got rs))"

definition client_ok :: "subscriber \<Rightarrow> bool" where
  "client_ok c \<longleftrightarrow>
    broadcast_channel BROADCAST_CHANNEL_CAPACITY [] (events c) \<and> open_channel (events c) \<and>
    fold unread_step (events c) [] = unread c \<and> connected (results (events c)) \<and>
    length (buffer c) \<le> PER_CLIENT_CHANNEL_CAPACITY \<and>
    (if gone c then prefix (delivered c) (accepted c) \<and> buffer c = [] else accepted c = delivered c @ buffer c) \<and>
    (if ended c then sending c = None \<and> gone c \<and> (\<exists>m. last_got c m (accepted c))
     else accepted c @ pending c = map (converted c) (got (results (events c))) \<and>
       (\<forall>m. sending c = Some m \<longrightarrow> last_got c m (accepted c)))"

lemma got_append [simp]: "got (rs @ qs) = got rs @ got qs"
  by (simp add: got_def List.map_filter_def)

lemma missed_append [simp]: "missed (rs @ qs) = missed rs + missed qs"
  by (simp add: missed_def)

lemma connected_append [simp]: "connected (rs @ qs) \<longleftrightarrow> connected rs \<and> connected qs"
  by (auto simp: connected_def)

lemma connected_simps [simp]: "connected []" "connected ((r, sent) # rs) \<longleftrightarrow> sent \<and> connected rs"
  by (auto simp: connected_def)

lemma client_ok_new: "client_ok (new_subscriber req before)"
  by (simp add: client_ok_def new_subscriber_def open_channel_def pending_def)

lemma client_ok_publish: "client_ok c \<Longrightarrow> client_ok (publish eff c)"
proof (cases eff)
  case (Broadcast n)
  moreover assume "client_ok c"
  ultimately show ?thesis
    by (auto simp: client_ok_def broadcast_channel_snoc last_got_def pending_def)
qed auto

lemma client_ok_step:
  assumes "client_step c c'" "client_ok c"
  shows "client_ok c'"
  using assms
proof cases
  case (client_got n ns)
  then have "pending c = []" by (simp add: pending_def)
  with client_got assms(2) show ?thesis
    by (auto simp: client_ok_def broadcast_channel_snoc last_got_def) (simp_all add: pending_def)
next
  case (client_lagged k)
  with assms(2) show ?thesis
    by (auto simp: client_ok_def broadcast_channel_snoc pending_def)
next
  case (client_send m)
  with assms(2) show ?thesis by (auto simp: client_ok_def pending_def split: if_splits)
next
  case (client_send_fails m)
  with assms(2) show ?thesis by (auto simp: client_ok_def last_got_def split: if_splits)
next
  case (client_reads m ms)
  with assms(2) show ?thesis by (auto simp: client_ok_def pending_def last_got_def split: if_splits)
next
  case client_hangs_up
  with assms(2) show ?thesis by (auto simp: client_ok_def pending_def last_got_def split: if_splits)
qed

text \<open>What the task has sent, or is sending, is what \<open>subscribe\<close> sends on these results.\<close>

lemma subscribe_append:
  "connected rs \<Longrightarrow> \<forall>sent. (Closed, sent) \<notin> set rs \<Longrightarrow>
   to_client (subscribe_loop flags (rs @ qs))
     = map (\<lambda>n. notification_to_proto n flags) (got rs) @ to_client (subscribe_loop flags qs)"
  by (induction flags rs rule: subscribe_loop.induct) auto

lemma results_open: "open_channel es \<Longrightarrow> (Closed, b) \<notin> set (results es)"
  by (induction es rule: results.induct) (auto simp: open_channel_def)

lemma client_sends_conversions:
  assumes "client_ok c"
  shows "to_client (subscribe (request c) (task_results c)) = accepted c @ pending c"
proof -
  have ok: "connected (results (events c))" "\<forall>b. (Closed, b) \<notin> set (results (events c))"
    using assms results_open [of "events c"] by (auto simp: client_ok_def)
  show ?thesis
  proof (cases "ended c")
    case True
    with assms obtain rs n where rs: "results (events c) = rs @ [(Got n, True)]"
        "accepted c = map (converted c) (got rs)" "pending c = []"
      by (auto simp: client_ok_def last_got_def pending_def)
    with True ok show ?thesis by (simp add: task_results_def subscribe_def subscribe_append)
  next
    case False
    with assms ok subscribe_append [of "results (events c)" _ "[]"] show ?thesis
      by (simp add: task_results_def subscribe_def client_ok_def)
  qed
qed

section \<open>The server\<close>

definition heard :: "subscriber \<Rightarrow> ExExNotification list \<Rightarrow> bool" where
  "heard c ns \<longleftrightarrow>
    joined c \<le> length ns \<and>
    (if ended c then prefix (published (events c)) (drop (joined c) ns) else published (events c) = drop (joined c) ns)"

definition server_ok :: "'h exex_effect list \<Rightarrow> 'h server \<Rightarrow> bool" where
  "server_ok effs s \<longleftrightarrow>
    exex_done s @ exex_todo s = effs \<and>
    (\<forall>c \<in> set (subscribers s). client_ok c \<and> heard c (broadcasts (exex_done s)))"

lemma broadcasts_append [simp]: "broadcasts (es @ fs) = broadcasts es @ broadcasts fs"
  by (simp add: broadcasts_def List.map_filter_def)

lemma publish_other: "broadcasts [eff] = [] \<Longrightarrow> publish eff c = c"
  by (cases eff) auto

lemma heard_publish: "heard c ns \<Longrightarrow> heard (publish eff c) (ns @ broadcasts [eff])"
proof (cases eff)
  case (Broadcast n)
  moreover assume "heard c ns"
  ultimately show ?thesis by (auto simp: heard_def prefix_append)
qed auto

lemma heard_step: "client_step c c' \<Longrightarrow> client_ok c \<Longrightarrow> heard c ns \<Longrightarrow> heard c' ns"
  by (cases rule: client_step.cases) (auto simp: heard_def split: if_splits)

lemma server_ok_start: "server_ok effs (server_start effs)"
  by (simp add: server_ok_def server_start_def)

lemma server_ok_step:
  assumes "server_step a s s'" "server_ok effs s"
  shows "server_ok effs s'"
  using assms
proof cases
  case (server_exex eff effs')
  with assms(2) heard_publish [of _ _ eff] show ?thesis
    by (auto simp: server_ok_def client_ok_publish)
next
  case (server_join req)
  with assms(2) show ?thesis
    by (auto simp: server_ok_def client_ok_new heard_def) (simp_all add: new_subscriber_def)
next
  case (server_client i c')
  then have "subscribers s ! i \<in> set (subscribers s)" by simp
  with server_client assms(2) have "client_ok c' \<and> heard c' (broadcasts (exex_done s))"
    by (auto simp: server_ok_def intro: client_ok_step heard_step)
  with server_client assms(2) show ?thesis
    by (auto simp: server_ok_def dest!: set_update_subset_insert [THEN subsetD])
qed

lemma server_ok_reachable: "some_step\<^sup>*\<^sup>* (server_start effs) s \<Longrightarrow> server_ok effs s"
  by (induction rule: rtranclp_induct) (auto simp: some_step_def server_ok_start intro: server_ok_step)

section \<open>A connected client can be served\<close>

text \<open>What a subscriber still has to do; every step of its task or client uses some of it up.\<close>

definition client_work :: "subscriber \<Rightarrow> nat" where
  "client_work c =
    3 * length (unread c) + 2 * length (pending c) + length (buffer c) + (if gone c then 0 else 1)"

lemma client_step_work: "client_step c c' \<Longrightarrow> client_work c' < client_work c"
  by (cases rule: client_step.cases) (auto simp: client_work_def pending_def)

text \<open>A connected client that has to do more than to leave can do it, and misses nothing if not behind.\<close>

definition keeps :: "subscriber \<Rightarrow> subscriber \<Rightarrow> bool" where
  "keeps c c' \<longleftrightarrow>
    request c' = request c \<and> joined c' = joined c \<and> gone c' = gone c \<and>
    (length (unread c) \<le> BROADCAST_CHANNEL_CAPACITY \<longrightarrow>
      missed (results (events c')) = missed (results (events c)) \<and> length (unread c') \<le> length (unread c))"

lemma keeps_refl: "keeps c c"
  by (simp add: keeps_def)

lemma keeps_trans: "keeps c d \<Longrightarrow> keeps d e \<Longrightarrow> keeps c e"
  by (auto simp: keeps_def)

lemma client_progress:
  assumes "client_ok c" "\<not> gone c" "1 < client_work c"
  shows "\<exists>c'. client_step c c' \<and> keeps c c'"
proof (cases "buffer c")
  case (Cons m ms)
  with assms(2) client_reads [of c m ms] show ?thesis by (fastforce simp: keeps_def)
next
  case b: Nil
  have e: "\<not> ended c" using assms(1,2) by (auto simp: client_ok_def)
  show ?thesis
  proof (cases "sending c")
    case (Some m)
    with b assms(2) client_send [of c m] show ?thesis
      by (fastforce simp: keeps_def PER_CLIENT_CHANNEL_CAPACITY_def)
  next
    case None
    with b assms(2,3) obtain n ns where u: "unread c = n # ns"
      by (cases "unread c") (auto simp: client_work_def pending_def)
    show ?thesis
    proof (cases "length (unread c) \<le> BROADCAST_CHANNEL_CAPACITY")
      case True
      with client_got [OF e None u True] u show ?thesis by (fastforce simp: keeps_def)
    next
      case False
      define k where "k = length (unread c) - BROADCAST_CHANNEL_CAPACITY"
      with False have "length (unread c) = BROADCAST_CHANNEL_CAPACITY + k" "0 < k" by simp_all
      with client_lagged [OF e None this] show ?thesis by (fastforce simp: keeps_def)
    qed
  qed
qed

lemma client_drains:
  "client_ok c \<Longrightarrow> \<not> gone c \<Longrightarrow> \<exists>c'. client_step\<^sup>*\<^sup>* c c' \<and> keeps c c' \<and> client_ok c' \<and> client_work c' = 1"
proof (induction c rule: measure_induct_rule [of client_work])
  case (less c)
  show ?case
  proof (cases "1 < client_work c")
    case True
    then obtain c' where c': "client_step c c'" "keeps c c'" using client_progress less.prems by blast
    have "client_ok c'" "\<not> gone c'" "client_work c' < client_work c"
      using c' less.prems client_ok_step client_step_work by (auto simp: keeps_def)
    with less.IH obtain c'' where "client_step\<^sup>*\<^sup>* c' c''" "keeps c' c''" "client_ok c''" "client_work c'' = 1" by blast
    with c' show ?thesis by (meson converse_rtranclp_into_rtranclp keeps_trans)
  next
    case False
    with less.prems have "client_work c = 1" by (simp add: client_work_def)
    with less.prems keeps_refl show ?thesis by blast
  qed
qed

text \<open>Steps of some of the actors.\<close>

definition step_of :: "actor set \<Rightarrow> 'h server \<Rightarrow> 'h server \<Rightarrow> bool" where
  "step_of A s s' \<longleftrightarrow> (\<exists>a \<in> A. server_step a s s')"

lemma step_of_some: "(step_of A)\<^sup>*\<^sup>* s s' \<Longrightarrow> some_step\<^sup>*\<^sup>* s s'"
  by (rule mono_rtranclp [rule_format]) (auto simp: step_of_def some_step_def)

lemma client_run:
  assumes "client_step\<^sup>*\<^sup>* (subscribers s ! i) c'" "i < length (subscribers s)"
  shows "(step_of {Exex, Client i})\<^sup>*\<^sup>* s (s\<lparr>subscribers := (subscribers s)[i := c']\<rparr>)"
  using assms(1)
proof (induction rule: rtranclp_induct)
  case base
  show ?case by simp
next
  case (step c c')
  let ?s = "s\<lparr>subscribers := (subscribers s)[i := c]\<rparr>"
  have "server_step (Client i) ?s (?s\<lparr>subscribers := (subscribers ?s)[i := c']\<rparr>)"
    using step(2) assms(2) by (intro server_client) simp_all
  then have "step_of {Exex, Client i} ?s (s\<lparr>subscribers := (subscribers s)[i := c']\<rparr>)"
    by (auto simp: step_of_def)
  with step.IH show ?case by (rule rtranclp.rtrancl_into_rtrancl)
qed

lemma server_ok_steps: "(step_of A)\<^sup>*\<^sup>* s s' \<Longrightarrow> server_ok effs s \<Longrightarrow> server_ok effs s'"
  by (induction rule: rtranclp_induct) (auto simp: step_of_def intro: server_ok_step)

lemma drains_at_server:
  assumes "server_ok effs s" "i < length (subscribers s)" "\<not> gone (subscribers s ! i)"
  obtains c' where "(step_of {Exex, Client i})\<^sup>*\<^sup>* s (s\<lparr>subscribers := (subscribers s)[i := c']\<rparr>)"
    "keeps (subscribers s ! i) c'" "client_work c' = 1" "\<not> gone c'"
proof -
  have "client_ok (subscribers s ! i)" using assms by (auto simp: server_ok_def)
  with client_drains assms(3) obtain c' where c': "client_step\<^sup>*\<^sup>* (subscribers s ! i) c'"
      "keeps (subscribers s ! i) c'" "client_work c' = 1" by blast
  moreover from c'(2) assms(3) have "\<not> gone c'" by (simp add: keeps_def)
  ultimately show ?thesis using client_run [OF c'(1) assms(2)] that by blast
qed

text \<open>A subscriber with nothing unread misses nothing by the next broadcast.\<close>

definition misses_nothing_new :: "subscriber \<Rightarrow> subscriber \<Rightarrow> bool" where
  "misses_nothing_new b d \<longleftrightarrow> request d = request b \<and> joined d = joined b \<and> gone d = gone b \<and>
    missed (results (events d)) = missed (results (events b))"

lemma keeps_publish:
  assumes "keeps b c" "unread c = []" "length (unread b) \<le> BROADCAST_CHANNEL_CAPACITY"
  shows "misses_nothing_new b (publish eff c)"
  using assms by (cases eff) (auto simp: keeps_def misses_nothing_new_def)

lemma client_served:
  assumes "server_ok effs s" "i < length (subscribers s)" "\<not> gone (subscribers s ! i)"
    "length (unread (subscribers s ! i)) \<le> BROADCAST_CHANNEL_CAPACITY"
  shows "\<exists>s'. (step_of {Exex, Client i})\<^sup>*\<^sup>* s s' \<and> exex_todo s' = [] \<and> i < length (subscribers s') \<and>
    misses_nothing_new (subscribers s ! i) (subscribers s' ! i) \<and> client_work (subscribers s' ! i) = 1"
  using assms
proof (induction "exex_todo s" arbitrary: s)
  case Nil
  obtain c' where "(step_of {Exex, Client i})\<^sup>*\<^sup>* s (s\<lparr>subscribers := (subscribers s)[i := c']\<rparr>)"
    "keeps (subscribers s ! i) c'" "client_work c' = 1"
    using Nil.prems drains_at_server by blast
  with Nil show ?case
    by (intro exI [of _ "s\<lparr>subscribers := (subscribers s)[i := c']\<rparr>"]) (simp add: keeps_def misses_nothing_new_def)
next
  case (Cons eff effs')
  let ?b = "subscribers s ! i"
  obtain c' where run: "(step_of {Exex, Client i})\<^sup>*\<^sup>* s (s\<lparr>subscribers := (subscribers s)[i := c']\<rparr>)"
    and c': "keeps ?b c'" "client_work c' = 1" "\<not> gone c'"
    using Cons.prems drains_at_server by blast
  let ?t = "s\<lparr>subscribers := (subscribers s)[i := c']\<rparr>"
  let ?u = "?t\<lparr>exex_todo := effs', exex_done := exex_done ?t @ [eff], subscribers := map (publish eff) (subscribers ?t)\<rparr>"
  have "server_step Exex ?t ?u" using Cons.hyps(2) by (intro server_exex) simp
  then have "step_of {Exex, Client i} ?t ?u" by (auto simp: step_of_def)
  with run have run2: "(step_of {Exex, Client i})\<^sup>*\<^sup>* s ?u" by (rule rtranclp.rtrancl_into_rtrancl)
  have un: "unread c' = []" using c'(2,3) by (auto simp: client_work_def)
  have at: "subscribers ?u ! i = publish eff c'" using Cons.prems(2) by simp
  have new: "misses_nothing_new ?b (publish eff c')"
    by (rule keeps_publish [OF c'(1) un Cons.prems(4)])
  have "length (unread (publish eff c')) \<le> BROADCAST_CHANNEL_CAPACITY"
    using un by (cases eff) (auto simp: BROADCAST_CHANNEL_CAPACITY_def)
  with Cons.hyps(1) [of ?u] server_ok_steps [OF run2] Cons.prems new at obtain s' where
    "(step_of {Exex, Client i})\<^sup>*\<^sup>* ?u s'" "exex_todo s' = []" "i < length (subscribers s')"
    "misses_nothing_new (publish eff c') (subscribers s' ! i)" "client_work (subscribers s' ! i) = 1"
    by (auto simp: misses_nothing_new_def)
  with run2 new show ?case by (intro exI [of _ s']) (auto simp: misses_nothing_new_def)
qed

text \<open>Served in full: exactly what was passed on since the client subscribed.\<close>

lemma broadcasts_remote_exex:
  "broadcasts (remote_exex num_hash from_canon items) = map from_canon (passed_on items)"
  by (simp add: remote_exex_def exex_loop_passes)

lemma server_ok_at:
  assumes "server_ok effs s" "c \<in> set (subscribers s)"
  shows "client_ok c" "heard c (broadcasts (exex_done s))"
  using assms by (simp_all add: server_ok_def)

lemma idle_delivered:
  "client_ok c \<Longrightarrow> \<not> gone c \<Longrightarrow> client_work c = 1 \<Longrightarrow>
   unread c = [] \<and> delivered c = map (converted c) (got (results (events c)))"
  by (cases "ended c") (auto simp: client_ok_def client_work_def)

lemma all_delivered:
  assumes "server_ok effs s" "c \<in> set (subscribers s)" "exex_todo s = []" "\<not> gone c" "client_work c = 1"
    "missed (results (events c)) = 0"
  shows "delivered c = map (converted c) (drop (joined c) (broadcasts effs))"
proof -
  note ok = server_ok_at [OF assms(1,2)]
  have "\<not> ended c" using ok(1) assms(4) by (auto simp: client_ok_def)
  then have p: "published (events c) = drop (joined c) (broadcasts effs)"
    using ok(2) assms(1,3) by (auto simp: heard_def server_ok_def)
  have "got (results (events c)) = published (events c)"
    using channel_split [of BROADCAST_CHANNEL_CAPACITY "[]" "events c"] ok(1) assms(6)
      idle_delivered [OF ok(1) assms(4,5)] by (auto simp: client_ok_def)
  with p idle_delivered [OF ok(1) assms(4,5)] show ?thesis by simp
qed

lemma client_served_in_full:
  assumes "some_step\<^sup>*\<^sup>* (server_start (remote_exex num_hash from_canon items)) s"
    "i < length (subscribers s)" "\<not> gone (subscribers s ! i)"
    "missed (results (events (subscribers s ! i))) = 0"
    "length (unread (subscribers s ! i)) \<le> BROADCAST_CHANNEL_CAPACITY"
  shows "\<exists>t. (step_of {Exex, Client i})\<^sup>*\<^sup>* s t \<and> exex_todo t = [] \<and>
    request (subscribers t ! i) = request (subscribers s ! i) \<and>
    delivered (subscribers t ! i) = map (converted (subscribers s ! i))
      (drop (joined (subscribers s ! i)) (map from_canon (passed_on items)))"
proof -
  note ok = server_ok_reachable [OF assms(1)]
  obtain t where t: "(step_of {Exex, Client i})\<^sup>*\<^sup>* s t" "exex_todo t = []" "i < length (subscribers t)"
    and same: "misses_nothing_new (subscribers s ! i) (subscribers t ! i)"
    and work: "client_work (subscribers t ! i) = 1"
    using client_served [OF ok assms(2,3,5)] by blast
  have "delivered (subscribers t ! i) = map (converted (subscribers t ! i))
      (drop (joined (subscribers t ! i)) (broadcasts (remote_exex num_hash from_canon items)))"
    using all_delivered [OF server_ok_steps [OF t(1) ok] _ t(2) _ work] t(3) same assms(3,4)
    by (simp add: misses_nothing_new_def)
  with t same show ?thesis by (auto simp: broadcasts_remote_exex misses_nothing_new_def)
qed

end
