(* ===== verification/Server_System_Properties.thy ===== *)
theory Server_System_Properties
  imports Server_System_Correct Server_Samples
begin

text \<open>
  The properties of the running server: what every client gets under every schedule, that the
  server comes to rest, and that no client depends on another.
\<close>

section \<open>What a subscriber receives\<close>

lemma heard_published:
  assumes "server_ok effs s" "c \<in> set (subscribers s)"
  shows "prefix (published (events c)) (drop (joined c) (broadcasts effs))"
proof -
  have "broadcasts effs = broadcasts (exex_done s) @ broadcasts (exex_todo s)"
    using assms(1) by (auto simp: server_ok_def broadcasts_append [symmetric])
  with server_ok_at(2) [OF assms] show ?thesis
    by (auto simp: heard_def prefix_append split: if_splits)
qed

lemma accepted_subseq:
  assumes "client_ok c"
  shows "subseq (accepted c) (map (converted c) (published (events c)))"
proof -
  have *: "subseq (got (results (events c))) (published (events c))"
    using assms channel_subseq [of BROADCAST_CHANNEL_CAPACITY "[]" "events c"] by (simp add: client_ok_def)
  have "prefix (accepted c) (map (converted c) (got (results (events c))))"
    using assms by (cases "ended c") (auto simp: client_ok_def last_got_def intro: prefixI [OF sym])
  with * show ?thesis by (meson prefix_imp_subseq subseq_map subseq_order.order_trans)
qed

lemma delivered_prefix: "client_ok c \<Longrightarrow> prefix (delivered c) (accepted c)"
  by (auto simp: client_ok_def split: if_splits)

section \<open>A concrete run\<close>

text \<open>Two clients subscribe, the second leaves, and the loop passes a commit on and returns.\<close>

definition sample_from_canon :: "CanonStateNotification \<Rightarrow> ExExNotification" where
  "sample_from_canon c =
    (case c of Commit new \<Rightarrow> ExEx_ChainCommitted new | Reorg old new \<Rightarrow> ExEx_ChainReorged old new)"

abbreviation sample_num_hash :: "reth_Chain \<Rightarrow> nat" where
  "sample_num_hash chain \<equiv> length (blocks_and_receipts chain)"

definition sample_items :: "canon_item list" where
  "sample_items = [Canon (Commit sample_chain) None, Canon_Ended]"

abbreviation sample_exex :: "nat exex_effect list" where
  "sample_exex \<equiv> remote_exex sample_num_hash sample_from_canon sample_items"

abbreviation sample_request :: SubscribeRequest where
  "sample_request \<equiv> (SubscribeRequest_Reset undefined)\<lparr>SubscribeRequest_IncludeCallTraces := True\<rparr>"

abbreviation sample_client :: subscriber where
  "sample_client \<equiv> new_subscriber sample_request 0"

definition sample_server :: "nat server" where
  "sample_server = \<lparr>exex_todo = [], exex_done = sample_exex,
     subscribers = map (fold publish sample_exex) [sample_client, sample_client\<lparr>gone := True\<rparr>]\<rparr>"

lemma sample_passed: "map sample_from_canon (passed_on sample_items) = [ExEx_ChainCommitted sample_chain]"
  by (simp add: sample_items_def passed_on_def sample_from_canon_def List.map_filter_simps)

lemma sample_publish:
  "fold publish sample_exex c = publish (Broadcast (ExEx_ChainCommitted sample_chain) :: nat exex_effect) c"
  by (simp add: remote_exex_def sample_items_def sample_from_canon_def)

text \<open>The loop waits for nobody: it can always run to its end.\<close>

lemma exex_runs:
  "(step_of {Exex})\<^sup>*\<^sup>* s (s\<lparr>exex_todo := [], exex_done := exex_done s @ exex_todo s,
     subscribers := map (fold publish (exex_todo s)) (subscribers s)\<rparr>)"
proof (induction "exex_todo s" arbitrary: s)
  case Nil
  then have "s\<lparr>exex_todo := [], exex_done := exex_done s @ exex_todo s,
     subscribers := map (fold publish (exex_todo s)) (subscribers s)\<rparr> = s" by simp
  then show ?case by simp
next
  case (Cons eff effs)
  let ?t = "s\<lparr>exex_todo := effs, exex_done := exex_done s @ [eff], subscribers := map (publish eff) (subscribers s)\<rparr>"
  have "step_of {Exex} s ?t" using Cons.hyps(2) server_exex [of s eff effs] by (auto simp: step_of_def)
  moreover have "fold publish (exex_todo s) = fold publish effs \<circ> publish eff"
    using Cons.hyps(2) [symmetric] by auto
  ultimately show ?case using Cons.hyps(1) [of ?t] Cons.hyps(2) [symmetric]
    by (simp add: converse_rtranclp_into_rtranclp)
qed

lemma sample_reachable: "some_step\<^sup>*\<^sup>* (server_start sample_exex) sample_server"
proof -
  let ?s = "\<lambda>cs. (server_start sample_exex)\<lparr>subscribers := cs\<rparr>"
  have join: "some_step (?s cs) (?s (cs @ [sample_client]))" for cs
    unfolding some_step_def using server_join [of "?s cs" sample_request]
    by (intro exI [of _ Join]) (simp add: server_start_def)
  have "server_step (Client 1) (?s [sample_client, sample_client])
      (?s [sample_client, sample_client\<lparr>gone := True\<rparr>])"
    using server_client [of 1 "?s [sample_client, sample_client]", OF _ client_hangs_up]
    by (simp add: new_subscriber_def)
  then have "some_step (?s [sample_client, sample_client]) (?s [sample_client, sample_client\<lparr>gone := True\<rparr>])"
    by (auto simp: some_step_def)
  moreover have "some_step\<^sup>*\<^sup>* (server_start sample_exex) (?s [sample_client, sample_client])"
    using join [of "[]"] join [of "[sample_client]"] by (simp add: server_start_def)
  moreover have "some_step\<^sup>*\<^sup>* (?s [sample_client, sample_client\<lparr>gone := True\<rparr>]) sample_server"
    using step_of_some [OF exex_runs [of "?s [sample_client, sample_client\<lparr>gone := True\<rparr>]"]]
    by (simp add: sample_server_def server_start_def)
  ultimately show ?thesis by (meson rtranclp.rtrancl_into_rtrancl rtranclp_trans)
qed

text \<open>
  C18. The running server implements the stream each client is promised. In every state the
  server can reach, with any number of clients that join, read, lag and leave at any time: what
  a subscriber has seen of the broadcast channel is a behaviour of a channel of
  \<open>BROADCAST_CHANNEL_CAPACITY\<close> on which the notifications passed on since it joined are
  published; what its task has sent or is sending is what \<open>subscribe\<close> makes of that; what the
  client has is the start of it, in order, a selection of the conversions of those
  notifications; and the buffer between them never exceeds its capacity.
\<close>

theorem server_serves_every_client:
  assumes "some_step\<^sup>*\<^sup>* (server_start (remote_exex num_hash from_canon items)) s" "c \<in> set (subscribers s)"
  shows "broadcast_channel BROADCAST_CHANNEL_CAPACITY [] (events c) \<and>
    prefix (published (events c)) (drop (joined c) (map from_canon (passed_on items))) \<and>
    to_client (subscribe (request c) (task_results c)) = accepted c @ pending c \<and>
    prefix (delivered c) (accepted c) \<and>
    subseq (delivered c) (map (converted c) (drop (joined c) (map from_canon (passed_on items)))) \<and>
    length (buffer c) \<le> PER_CLIENT_CHANNEL_CAPACITY"
proof -
  note ok = server_ok_reachable [OF assms(1)]
  have c: "client_ok c" using server_ok_at(1) [OF ok assms(2)] .
  have p: "prefix (published (events c)) (drop (joined c) (map from_canon (passed_on items)))"
    using heard_published [OF ok assms(2)] by (simp add: broadcasts_remote_exex)
  have "subseq (delivered c) (map (converted c) (drop (joined c) (map from_canon (passed_on items))))"
    using delivered_prefix [OF c] accepted_subseq [OF c] p
    by (meson prefix_imp_subseq subseq_map subseq_order.order_trans)
  with c p delivered_prefix [OF c] client_sends_conversions [OF c] show ?thesis by (simp add: client_ok_def)
qed

theorem server_serves_every_client_witness:
  "prefix (published (events (subscribers sample_server ! 0))) [ExEx_ChainCommitted sample_chain] \<and>
   unread (subscribers sample_server ! 0) = [ExEx_ChainCommitted sample_chain]"
  using server_serves_every_client [OF sample_reachable, of "subscribers sample_server ! 0"]
  by (simp add: sample_server_def sample_passed sample_publish new_subscriber_def)

section \<open>Coming to rest\<close>

text \<open>What the tasks and clients have left to do; an effect of the loop gives each at most three steps more.\<close>

definition clients_work :: "'h server \<Rightarrow> nat" where
  "clients_work s = sum_list (map client_work (subscribers s))"

text \<open>All that the tasks and clients can still do by themselves is that clients leave.\<close>

definition quiet :: "'h server \<Rightarrow> bool" where
  "quiet s \<longleftrightarrow> (\<forall>i t. server_step (Client i) s t \<longrightarrow> \<not> gone (subscribers s ! i) \<and> gone (subscribers t ! i))"

lemma client_work_publish: "client_work (publish eff c) \<le> client_work c + 3"
  by (cases eff) (auto simp: client_work_def pending_def)

lemma sum_list_publish:
  "sum_list (map client_work (map (publish eff) cs)) \<le> sum_list (map client_work cs) + 3 * length cs"
proof (induction cs)
  case (Cons c cs)
  with client_work_publish [of eff c] show ?case by simp
qed simp

lemma sum_list_update_less:
  "i < length cs \<Longrightarrow> f (c :: 'a) < (f (cs ! i) :: nat) \<Longrightarrow> sum_list (map f (cs[i := c])) < sum_list (map f cs)"
proof (induction cs arbitrary: i)
  case (Cons d cs)
  then show ?case by (cases i) auto
qed simp

lemma client_uses_work: "server_step (Client i) s t \<Longrightarrow> clients_work t < clients_work s"
  by (erule server_stepE) (auto simp: clients_work_def client_step_work intro: sum_list_update_less)

lemma server_step_work:
  assumes "server_step a s t" "a \<noteq> Join"
  shows "length (subscribers t) = length (subscribers s)"
    "length (exex_done t) = length (exex_done s) \<and> clients_work t < clients_work s \<or>
     length (exex_done t) = Suc (length (exex_done s)) \<and> clients_work t \<le> clients_work s + 3 * length (subscribers s)"
proof -
  show "length (subscribers t) = length (subscribers s)" using assms by (auto elim: server_stepE)
  show "length (exex_done t) = length (exex_done s) \<and> clients_work t < clients_work s \<or>
     length (exex_done t) = Suc (length (exex_done s)) \<and> clients_work t \<le> clients_work s + 3 * length (subscribers s)"
    using assms(1)
  proof cases
    case (server_exex eff effs)
    with sum_list_publish [of eff "subscribers s"] show ?thesis by (simp add: clients_work_def)
  next
    case (server_client i c')
    with client_uses_work assms(1) show ?thesis by fastforce
  qed (use assms(2) in simp)
qed

lemma server_run_bound:
  assumes "(step_of {a. a \<noteq> Join} ^^ n) s t"
  shows "length (subscribers t) = length (subscribers s) \<and> length (exex_done s) \<le> length (exex_done t) \<and>
    n + clients_work t
      \<le> (3 * length (subscribers s) + 1) * (length (exex_done t) - length (exex_done s)) + clients_work s"
  using assms
proof (induction n arbitrary: t)
  case (Suc n)
  then obtain u where "(step_of {a. a \<noteq> Join} ^^ n) s u" "step_of {a. a \<noteq> Join} u t" by auto
  then obtain a where u: "(step_of {a. a \<noteq> Join} ^^ n) s u" "server_step a u t" "a \<noteq> Join"
    unfolding step_of_def by blast
  note IH = Suc.IH [OF u(1)] and w = server_step_work [OF u(2,3)]
  from w(2) show ?case
  proof
    assume "length (exex_done t) = length (exex_done u) \<and> clients_work t < clients_work u"
    with IH w(1) show ?thesis by auto
  next
    assume d: "length (exex_done t) = Suc (length (exex_done u)) \<and>
      clients_work t \<le> clients_work u + 3 * length (subscribers u)"
    with IH have "length (exex_done t) - length (exex_done s) = Suc (length (exex_done u) - length (exex_done s))"
      by (simp add: Suc_diff_le)
    with IH w(1) d show ?thesis by auto
  qed
qed simp

lemma gets_quiet: "\<exists>n t. (step_of (range Client) ^^ n) s t \<and> quiet t"
proof (induction s rule: measure_induct_rule [of clients_work])
  case (less s)
  show ?case
  proof (cases "quiet s")
    case True
    then show ?thesis by (intro exI [of _ 0]) auto
  next
    case False
    then obtain i u where u: "server_step (Client i) s u" by (auto simp: quiet_def)
    from less.IH [OF client_uses_work [OF this]] obtain n t where
      "(step_of (range Client) ^^ n) u t" "quiet t" by blast
    moreover have "step_of (range Client) s u" using u by (auto simp: step_of_def)
    ultimately show ?thesis by (blast intro: relpowp_Suc_I2)
  qed
qed

lemma quiet_delivered:
  assumes "server_ok effs s" "quiet s" "c \<in> set (subscribers s)" "\<not> gone c"
  shows "unread c = [] \<and> delivered c = map (converted c) (got (results (events c)))"
proof -
  obtain i where i: "i < length (subscribers s)" "subscribers s ! i = c" using assms(3) by (auto simp: in_set_conv_nth)
  have ok: "client_ok c" using server_ok_at(1) [OF assms(1,3)] .
  have "\<not> 1 < client_work c"
  proof
    assume "1 < client_work c"
    with client_progress [OF ok assms(4)] obtain c' where c': "client_step c c'" "keeps c c'" by blast
    have "server_step (Client i) s (s\<lparr>subscribers := (subscribers s)[i := c']\<rparr>)"
      using i c'(1) by (intro server_client) simp_all
    with assms(2) have "gone ((subscribers s)[i := c'] ! i)" unfolding quiet_def by fastforce
    with i have "gone c'" by simp
    with c'(2) assms(4) show False by (simp add: keeps_def)
  qed
  moreover have "0 < client_work c" using assms(4) by (simp add: client_work_def)
  ultimately show ?thesis using idle_delivered [OF ok assms(4)] by simp
qed

text \<open>The loop returns when the stream has ended or a height could not be sent, and not before.\<close>

lemma exex_loop_returns:
  "exex_loop num_hash from_canon items \<noteq> [] \<and> (\<exists>r. last (exex_loop num_hash from_canon items) = Exex_Return r)
     \<longleftrightarrow> (\<exists>item \<in> set items. \<not> passes item)"
proof (induction items)
  case (Cons item items)
  then show ?case by (cases item) (auto split: CanonStateNotification.split option.split)
qed simp

lemma remote_exex_returns:
  "(\<exists>r. last (remote_exex num_hash from_canon items) = Exex_Return r) \<longleftrightarrow> (\<exists>item \<in> set items. \<not> passes item)"
  using exex_loop_returns [of num_hash from_canon items] by (auto simp: remote_exex_def)

text \<open>
  C20. The running server comes to rest whenever the node and new clients leave it alone. From
  every state it can reach, under every schedule in which nobody subscribes, it makes at most
  one step and three per subscriber for each effect of the ExEx loop, beyond the work its tasks
  and clients had at the start; from every state its tasks and clients can get quiet by
  themselves, so that all they can still do is that clients leave, and then every client still
  connected has been delivered all that its task got from the channel, which holds nothing more
  for it. When the loop has done all that the items of the canonical stream lead to, it has
  returned exactly when these contain the end of the stream or a height that could not be sent;
  otherwise it waits for the next item.
\<close>

theorem server_comes_to_rest:
  assumes "some_step\<^sup>*\<^sup>* (server_start (remote_exex num_hash from_canon items)) s" "(step_of {a. a \<noteq> Join} ^^ n) s t"
  shows "n \<le> (3 * length (subscribers s) + 1) * (length (exex_done t) - length (exex_done s)) + clients_work s \<and>
    (\<exists>m u. (step_of (range Client) ^^ m) t u \<and> quiet u) \<and>
    (quiet t \<longrightarrow> (\<forall>c \<in> set (subscribers t). \<not> gone c \<longrightarrow>
       unread c = [] \<and> delivered c = map (converted c) (got (results (events c))))) \<and>
    (exex_todo t = [] \<longrightarrow>
       exex_done t = remote_exex num_hash from_canon items \<and>
       ((\<exists>r. last (exex_done t) = Exex_Return r) \<longleftrightarrow> (\<exists>item \<in> set items. \<not> passes item)))"
proof -
  have "(step_of {a. a \<noteq> Join})\<^sup>*\<^sup>* s t" using assms(2) by (rule relpowp_imp_rtranclp)
  then have ok: "server_ok (remote_exex num_hash from_canon items) t"
    using server_ok_steps server_ok_reachable [OF assms(1)] by blast
  then have "exex_todo t = [] \<longrightarrow> exex_done t = remote_exex num_hash from_canon items" by (auto simp: server_ok_def)
  moreover have "n \<le> (3 * length (subscribers s) + 1) * (length (exex_done t) - length (exex_done s)) + clients_work s"
    using server_run_bound [OF assms(2)] by linarith
  ultimately show ?thesis
    using quiet_delivered [OF ok] gets_quiet [of t] remote_exex_returns [of num_hash from_canon items] by simp
qed

theorem server_comes_to_rest_witness:
  "\<exists>n t. (step_of {a. a \<noteq> Join} ^^ n) sample_server t \<and> quiet t \<and> n \<le> 7 * (length (exex_done t) - 5) + 7 \<and>
    (\<exists>r. last (exex_done sample_server) = Exex_Return r)"
proof -
  obtain n t where t: "(step_of (range Client) ^^ n) sample_server t" "quiet t" using gets_quiet by blast
  have run: "(step_of {a. a \<noteq> Join} ^^ n) sample_server t"
    using t(1) by (rule relpowp_mono [rotated]) (auto simp: step_of_def)
  have s: "clients_work sample_server = 7" "length (subscribers sample_server) = 2" "exex_todo sample_server = []"
    "length (exex_done sample_server) = 5" "\<exists>item \<in> set sample_items. \<not> passes item"
    by (simp_all add: clients_work_def sample_server_def sample_publish new_subscriber_def client_work_def pending_def)
      (simp_all add: remote_exex_def sample_items_def)
  have "\<exists>r. last (exex_done sample_server) = Exex_Return r"
    using server_comes_to_rest [OF sample_reachable relpowp_0_I] s(3,5) by blast
  moreover have "n \<le> 7 * (length (exex_done t) - 5) + 7"
    using server_comes_to_rest [OF sample_reachable run] by (simp add: s)
  ultimately show ?thesis using run t(2) by blast
qed

section \<open>No client depends on another\<close>

text \<open>
  C19. Whatever the other clients have done and do, a client can be served in full. From every
  state the server can reach, a connected client that has missed nothing and is not too far
  behind can be brought, by steps of the ExEx loop and of its own task and connection alone, to
  have exactly the conversions of all the notifications passed on since it subscribed, in
  order, with the loop at its end: nobody waits for another client that reads slowly, has
  stopped reading or has left.
\<close>

theorem client_served_despite_others:
  assumes "some_step\<^sup>*\<^sup>* (server_start (remote_exex num_hash from_canon items)) s"
    "i < length (subscribers s)" "\<not> gone (subscribers s ! i)"
    "missed (results (events (subscribers s ! i))) = 0"
    "length (unread (subscribers s ! i)) \<le> BROADCAST_CHANNEL_CAPACITY"
  shows "\<exists>t. (step_of {Exex, Client i})\<^sup>*\<^sup>* s t \<and> exex_todo t = [] \<and>
    delivered (subscribers t ! i) = map (converted (subscribers s ! i))
      (drop (joined (subscribers s ! i)) (map from_canon (passed_on items)))"
  using client_served_in_full [OF assms] by blast

theorem client_served_despite_others_witness:
  "\<exists>t. (step_of {Exex, Client 0})\<^sup>*\<^sup>* sample_server t \<and> exex_todo t = [] \<and>
    delivered (subscribers t ! 0) = [converted sample_client (ExEx_ChainCommitted sample_chain)]"
  using client_served_despite_others [OF sample_reachable, of 0]
  by (simp add: sample_server_def sample_passed sample_publish new_subscriber_def BROADCAST_CHANNEL_CAPACITY_def)

end
