(* ===== verification/Grpc_Stub.thy ===== *)
theory Grpc_Stub
  imports Exex_Pb
begin

text \<open>
  \<open>proto/gen/exex_grpc.pb.go\<close>, generated and identical in the six Go modules: the client's
  \<open>Subscribe\<close> over a connection, and the handler by which a Go server would receive it. The
  gRPC runtime is an argument: the error of each call on the connection, and what the stream
  delivers.
\<close>

section \<open>The client\<close>

definition RemoteExEx_Subscribe_FullMethodName :: string where
  "RemoteExEx_Subscribe_FullMethodName = ''/exex.RemoteExEx/Subscribe''"

text \<open>A connection: errors of \<open>NewStream\<close>, \<open>SendMsg\<close>, \<open>CloseSend\<close>, and the items of the stream.\<close>

record 'i grpc_conn =
  NewStream_err :: "string \<Rightarrow> string option"
  SendMsg_err :: "SubscribeRequest \<Rightarrow> string option"
  CloseSend_err :: "string option"
  stream_items :: "SubscribeRequest \<Rightarrow> 'i list"

definition remoteExExClient_Subscribe :: "'i grpc_conn \<Rightarrow> SubscribeRequest \<Rightarrow> string + 'i list" where
  "remoteExExClient_Subscribe conn req =
    (case NewStream_err conn RemoteExEx_Subscribe_FullMethodName of
       Some err \<Rightarrow> Inl err
     | None \<Rightarrow>
         (case SendMsg_err conn req of
            Some err \<Rightarrow> Inl err
          | None \<Rightarrow>
              (case CloseSend_err conn of
                 Some err \<Rightarrow> Inl err
               | None \<Rightarrow> Inr (stream_items conn req))))"

lemma remoteExExClient_Subscribe_Inr:
  "remoteExExClient_Subscribe conn req = Inr items \<longleftrightarrow>
     NewStream_err conn RemoteExEx_Subscribe_FullMethodName = None \<and> SendMsg_err conn req = None \<and>
     CloseSend_err conn = None \<and> items = stream_items conn req"
  by (auto simp: remoteExExClient_Subscribe_def split: option.split)

section \<open>The handler\<close>

text \<open>The error of a handler: a status of the runtime with its code, or the error of a call.\<close>

datatype rpc_error = Status_Unimplemented string | Call_Error string

definition UnimplementedRemoteExExServer_Subscribe :: "SubscribeRequest \<Rightarrow> rpc_error option" where
  "UnimplementedRemoteExExServer_Subscribe req = Some (Status_Unimplemented ''method Subscribe not implemented'')"

text \<open>\<open>received\<close> is the outcome of \<open>stream.RecvMsg\<close> on a new request, \<open>srv\<close> the server's \<open>Subscribe\<close>.\<close>

definition RemoteExEx_Subscribe_Handler ::
  "(SubscribeRequest \<Rightarrow> rpc_error option) \<Rightarrow> string + SubscribeRequest \<Rightarrow> rpc_error option" where
  "RemoteExEx_Subscribe_Handler srv received =
    (case received of
       Inl err \<Rightarrow> Some (Call_Error err)
     | Inr m \<Rightarrow> srv m)"

end
