(* ===== verification/Server_Verifier.thy ===== *)
theory Server_Verifier
  imports Server_Samples Grpc_Stub Verifier_Properties
begin

text \<open>
  The server and the trace verifier together: what the node's own JSON-RPC endpoint says of
  the traces the server streams, and the blocks the verifier takes from the stream.
\<close>

section \<open>The node's spelling of its traces\<close>

definition hex_text :: "bytes \<Rightarrow> string" where
  "hex_text b = ''0x'' @ hex_EncodeToString b"

definition node_log :: "alloy_CallLogFrame \<Rightarrow> rpcLogFrame" where
  "node_log l =
    \<lparr>rpcLogFrame_Address = or_empty (\<lambda>a. hex_text (addr_to_bytes a)) (LogFrame_address l),
     rpcLogFrame_Topics = or_empty (map (\<lambda>t. hex_text (b256_to_bytes t))) (LogFrame_topics l),
     rpcLogFrame_Data = or_empty hex_text (LogFrame_data l),
     rpcLogFrame_Position = LogFrame_position l,
     rpcLogFrame_Index = LogFrame_index l\<rparr>"

fun node_frame :: "alloy_CallFrame \<Rightarrow> rpcCallFrame" where
  "node_frame (Frame kind sender rcpt val gas gasUsed input out err reason calls logs) =
     rpcCallFrame kind (hex_text (addr_to_bytes sender)) (or_empty (\<lambda>a. hex_text (addr_to_bytes a)) rcpt)
       (or_empty (\<lambda>v. quantity (unat v)) val) (quantity (unat gas)) (quantity (unat gasUsed))
       (hex_text input) (or_empty hex_text out) (or_empty (\<lambda>s. s) err) (or_empty (\<lambda>s. s) reason)
       (map node_frame calls) (map node_log logs)"

text \<open>The trace of a transaction has the transaction's gas limit as its gas.\<close>

fun with_gas :: "string \<Rightarrow> rpcCallFrame \<Rightarrow> rpcCallFrame" where
  "with_gas g (rpcCallFrame kind sender rcpt val gas gasUsed input out err reason calls logs) =
     rpcCallFrame kind sender rcpt val g gasUsed input out err reason calls logs"

definition node_tx_frame :: "TransactionSigned \<times> alloy_CallFrame \<Rightarrow> rpcCallFrame" where
  "node_tx_frame = (\<lambda>(tx, frame). with_gas (quantity (unat (tx_gas_limit tx))) (node_frame frame))"

section \<open>The streamed traces agree with it\<close>

lemma agrees_bytes_hex_text: "agrees_bytes b (hex_text b)"
proof -
  have "strings_ToLower (take 2 (''0x'' @ s)) = ''0x''" for s
    by (simp add: strings_ToLower_def char_lower_def numeral_2_eq_2)
  moreover have "hex_EncodeToString b = [] \<longleftrightarrow> b = []" by (simp add: hex_EncodeToString_nibbles)
  ultimately show ?thesis by (simp add: agrees_bytes_def hex_text_def numeral_2_eq_2)
qed

lemma agrees_bytes_optional: "agrees_bytes (or_empty f x) (or_empty (\<lambda>a. hex_text (f a)) x)"
  by (cases x) (simp_all add: or_empty_def agrees_bytes_hex_text agrees_bytes_def [of "[]"])

lemma agrees_u256_quantity: "agrees_u256 (u256_to_bytes v) (quantity (unat v))"
  by (simp add: agrees_u256_def) (simp add: u256_to_bytes_def be_value_to_be_bytes)

lemma agrees_u256_optional: "agrees_u256 (or_empty u256_to_bytes x) (or_empty (\<lambda>v. quantity (unat v)) x)"
  by (cases x) (simp_all add: or_empty_def agrees_u256_quantity agrees_u256_def [of "[]"])

lemma log_agrees_node: "log_agrees (call_log_frame_to_proto l) (node_log l)"
proof -
  have "agrees_bytes (or_empty (\<lambda>b. b) x) (or_empty hex_text x)" for x
    using agrees_bytes_optional [of "\<lambda>b. b"] by simp
  moreover have "list_all2 agrees_bytes (or_empty (map b256_to_bytes) x) (or_empty (map (\<lambda>t. hex_text (b256_to_bytes t))) x)" for x
    by (cases x) (simp_all add: or_empty_def list_all2_map1 list_all2_map2 list_all2_refl_on agrees_bytes_hex_text)
  moreover have "agrees_optional (x \<noteq> None) (unwrap_or x 0) x" for x
    by (cases x) (simp_all add: agrees_optional_def unwrap_or_def)
  ultimately show ?thesis
    by (simp add: log_agrees_def call_log_frame_to_proto_def node_log_def agrees_bytes_optional del: not_None_eq)
qed

lemma frame_agrees_node: "frame_agrees (call_frame_to_proto f) (node_frame f)"
proof (induction f)
  case (Frame kind sender rcpt val gas gasUsed input out err reason calls logs)
  have "list_all2 log_agrees (map call_log_frame_to_proto logs) (map node_log logs)"
    by (simp add: list_all2_map1 list_all2_map2 list_all2_refl_on log_agrees_node)
  moreover have "list_all2 frame_agrees (map call_frame_to_proto calls) (map node_frame calls)"
    using Frame.IH by (simp add: list_all2_map1 list_all2_map2 list_all2_refl_on)
  ultimately show ?case
    using agrees_bytes_optional [of "\<lambda>b. b"]
    by (simp add: frame_agrees_iff scalars_agree_def agrees_bytes_hex_text agrees_bytes_optional
        agrees_u256_quantity agrees_u256_optional)
qed

lemma frame_agrees_gas:
  "frame_agrees g r \<Longrightarrow> agrees_u256 b s \<Longrightarrow> frame_agrees (set_gas b g) (with_gas s r)"
  by (cases g; cases r) (simp add: frame_agrees_iff scalars_agree_def)

lemma tx_frame_agrees: "frame_agrees (tx_frame_to_proto tf) (node_tx_frame tf)"
proof -
  obtain tx f where tf: "tf = (tx, f)" by (cases tf)
  have "unat (tx_gas_limit tx) < 2 ^ 64" using unsigned_less [of "tx_gas_limit tx"] by simp
  then have "unat (ucast (tx_gas_limit tx) :: U256) = unat (tx_gas_limit tx)"
    by (simp add: unsigned_ucast_eq take_bit_nat_eq_self)
  then have "agrees_u256 (u256_to_bytes (ucast (tx_gas_limit tx))) (quantity (unat (tx_gas_limit tx)))"
    using agrees_u256_quantity [of "ucast (tx_gas_limit tx)"] by simp
  then show ?thesis unfolding tf tx_frame_to_proto_def node_tx_frame_def
    by (simp add: frame_agrees_gas frame_agrees_node)
qed

section \<open>The blocks the verifier takes from the stream\<close>

text \<open>The traced blocks the broadcast notifications commit, as the verifier's work.\<close>

definition served_work :: "u64 \<times> (TransactionSigned \<times> alloy_CallFrame) list \<Rightarrow> blockWork" where
  "served_work = (\<lambda>(n, tfs). \<lparr>work_blockNumber = n, work_grpcFrames = map tx_frame_to_proto tfs\<rparr>)"

fun committed_traces :: "ExExNotification \<Rightarrow> (u64 \<times> (TransactionSigned \<times> alloy_CallFrame) list) list" where
  "committed_traces (ExEx_ChainCommitted c) = filter (\<lambda>(n, tfs). tfs \<noteq> []) (traced c)"
| "committed_traces _ = []"

lemma traced_blocks_served:
  assumes "include_call_traces flags"
  shows "traced_blocks (notification_to_proto n flags) = map served_work (committed_traces n)"
proof (cases n)
  case (ExEx_ChainCommitted c)
  have "map (\<lambda>bct. \<lparr>work_blockNumber = BlockCallTraces_BlockNumber bct, work_grpcFrames = BlockCallTraces_Txs bct\<rparr>)
      (filter (\<lambda>bct. BlockCallTraces_Txs bct \<noteq> [])
        (map (\<lambda>(m, tfs). \<lparr>BlockCallTraces_BlockNumber = m, BlockCallTraces_Txs = map tx_frame_to_proto tfs\<rparr>) ps))
    = map served_work (filter (\<lambda>(m, tfs). tfs \<noteq> []) ps)" for ps
    by (induction ps) (auto simp: served_work_def)
  with ExEx_ChainCommitted assms show ?thesis
    by (simp add: traced_blocks_def chain_to_proto_def call_traces_to_proto_traced)
qed (simp_all add: traced_blocks_def)

lemma messages_stream: "messages (map (\<lambda>n. Stream_Msg (f n)) ns @ (if b then [Stream_EOF] else [])) = map f ns"
  by (induction ns) simp_all

section \<open>The whole\<close>

text \<open>
  The connection of the verifier to the server: a subscriber's task sends its conversions,
  and the server closes the stream when the task ends. No other call fails.
\<close>

definition served_conn :: "channel_event list \<Rightarrow> stream_item grpc_conn" where
  "served_conn es =
    \<lparr>NewStream_err = (\<lambda>name. if name = RemoteExEx_Subscribe_FullMethodName then None else Some ''unimplemented''),
     SendMsg_err = (\<lambda>req. None), CloseSend_err = None,
     stream_items = (\<lambda>req. map Stream_Msg (to_client (subscribe req (results es))) @
       (if Task_Break \<in> set (subscribe req (results es)) then [Stream_EOF] else []))\<rparr>"

definition dial_server :: "channel_event list \<Rightarrow> stream_lib" where
  "dial_server es =
    \<lparr>connect_err = (\<lambda>size addr. None),
     subscribe_result = (\<lambda>addr req. remoteExExClient_Subscribe (served_conn es) req)\<rparr>"

text \<open>
  The node's endpoint answers a request for a traced block it has committed only with HTTP
  200 and the JSON text of the block's traces, under whatever transaction hashes.
\<close>

definition node_endpoint :: "(string \<Rightarrow> string \<Rightarrow> http_reply \<Rightarrow> bool) \<Rightarrow> string \<Rightarrow> ExExNotification list \<Rightarrow> bool" where
  "node_endpoint answers rpcURL ns \<longleftrightarrow>
    (\<forall>notif \<in> set ns. \<forall>(k, tfs) \<in> set (committed_traces notif). \<forall>r. answers rpcURL (rpc_request k) r \<longrightarrow>
       (\<exists>rs. map snd rs = map node_tx_frame tfs \<and> r = Reply 200 (Inr (json_Marshal (traces_json rs)))))"

definition evm_nesting :: "ExExNotification list \<Rightarrow> bool" where
  "evm_nesting ns \<longleftrightarrow>
    (\<forall>notif \<in> set ns. \<forall>(k, tfs) \<in> set (committed_traces notif). \<forall>(tx, frame) \<in> set tfs.
       calls_within evm_call_levels (call_frame_to_proto frame))"

lemma nested_within_node: "nested_within k (node_frame f) \<longleftrightarrow> calls_within k (call_frame_to_proto f)"
proof (induction f arbitrary: k)
  case (Frame kind sender rcpt val gas gasUsed input out err reason calls logs)
  then show ?case by (auto simp: list_all_iff)
qed

lemma nested_within_node_tx: "nested_within k (node_tx_frame (tx, f)) \<longleftrightarrow> calls_within k (call_frame_to_proto f)"
proof -
  have "nested_within k (with_gas g r) = nested_within k r" for g r by (cases r) simp
  then show ?thesis by (simp add: node_tx_frame_def nested_within_node)
qed

lemma served_works:
  assumes "broadcast_channel cap [] es" "connected (results es)"
  shows "fst (streamLoop (dial_server es) addr always k)
    = take k (map served_work (concat (map committed_traces (got (results es)))))"
proof -
  have "include_call_traces (subscribe_flags ((SubscribeRequest_Reset undefined)\<lparr>SubscribeRequest_IncludeCallTraces := True\<rparr>))"
    by (simp add: subscribe_flags_def)
  note t = traced_blocks_served [OF this]
  show ?thesis
    unfolding streamLoop_works
    by (simp add: dial_server_def served_conn_def remoteExExClient_Subscribe_def subscribe_def
        channel_to_client [OF assms] messages_stream map_concat comp_def t)
qed

lemma served_replies:
  assumes "node_endpoint answers rpcURL ns" "evm_nesting ns" "notif \<in> set ns" "(k, tfs) \<in> set (committed_traces notif)"
    "endpoint_replies answers rpcURL (served_work (k, tfs)) reply"
  shows "\<exists>frames. reply = Inr frames \<and> list_all2 frame_agrees (work_grpcFrames (served_work (k, tfs))) frames"
proof -
  have "\<forall>f \<in> set (map node_tx_frame tfs). nested_within evm_call_levels f"
    using assms(2-4) by (fastforce simp: evm_nesting_def nested_within_node_tx)
  moreover have "\<forall>r. answers rpcURL (rpc_request k) r \<longrightarrow>
      (\<exists>rs. map snd rs = map node_tx_frame tfs \<and> r = Reply 200 (Inr (json_Marshal (traces_json rs))))"
    using assms(1,3,4) unfolding node_endpoint_def by fast
  ultimately have "reply = Inr (map node_tx_frame tfs)"
    by (intro traces_reply [OF _ _ assms(5)]) (simp_all add: served_work_def)
  then show ?thesis
    by (simp add: served_work_def list_all2_map1 list_all2_map2 list_all2_refl_on tx_frame_agrees)
qed

text \<open>The verdict on the traces of some notifications, however the verifier came by their work.\<close>

lemma served_verdict:
  assumes "main_setup argv = Inr (cfg, n)"
    and "fst (streamLoop lib (flag_grpc cfg) always n) = take n (map served_work (concat (map committed_traces ns)))"
    and "set ns \<subseteq> set ms" "node_endpoint answers (flag_rpc cfg) ms" "evm_nesting ms"
    and "(pipe_step (endpoint_replies answers (flag_rpc cfg)))\<^sup>*\<^sup>* (main_start lib cfg n) s" "main_done s"
  shows "exit_code s = 0 \<and> totalMismatches (main_totals (collected s)) = 0 \<and>
    blocksVerified (main_totals (collected s)) = min n (length (concat (map committed_traces ns)))"
proof -
  let ?works = "take n (map served_work (concat (map committed_traces ns)))"
  have "exit_code s = 0 \<and> totalMismatches (main_totals (collected s)) = 0 \<and>
      blocksVerified (main_totals (collected s)) = length ?works"
  proof (rule pipe_all_agree [OF assms(6) [unfolded main_start_unfold assms(2)] assms(7)
        conjunct2 [OF main_setup_positive [OF assms(1)]]])
    fix w reply assume w: "w \<in> set ?works" "endpoint_replies answers (flag_rpc cfg) w reply"
    from w(1) obtain notif k tfs where j: "notif \<in> set ns" "(k, tfs) \<in> set (committed_traces notif)"
      "w = served_work (k, tfs)"
      by (auto dest!: in_set_takeD)
    from served_replies [OF assms(4,5) subsetD [OF assms(3) j(1)] j(2)] w(2) j(3)
    show "\<exists>frames. reply = Inr frames \<and> list_all2 frame_agrees (work_grpcFrames w) frames" by blast
  qed
  then show ?thesis by simp
qed

text \<open>
  C4. Server and verifier agree: when the ExEx broadcasts any notifications to a subscriber,
  lagging or not, and the node's endpoint spells the traces it committed, every finished run
  of the trace verifier on the converted stream, under every schedule, exits with 0 without a
  mismatch, having verified the first n traced blocks the subscriber got.
\<close>

theorem verifier_accepts_the_server:
  assumes "main_setup argv = Inr (cfg, n)"
    and "broadcast_channel BROADCAST_CHANNEL_CAPACITY [] es" "connected (results es)"
    and "node_endpoint answers (flag_rpc cfg) (published es)" "evm_nesting (published es)"
    and "(pipe_step (endpoint_replies answers (flag_rpc cfg)))\<^sup>*\<^sup>* (main_start (dial_server es) cfg n) s" "main_done s"
  shows "exit_code s = 0 \<and> totalMismatches (main_totals (collected s)) = 0 \<and>
    blocksVerified (main_totals (collected s)) = min n (length (concat (map committed_traces (got (results es)))))"
proof -
  have "set (got (results es)) \<subseteq> set (published es)"
    using list_emb_set [OF channel_subseq [OF assms(2)]] by auto
  with served_verdict [OF assms(1) served_works [OF assms(2,3)] _ assms(4-7)] show ?thesis by simp
qed


text \<open>The node's endpoint on the sample chain.\<close>

definition node_answers :: "string \<Rightarrow> string \<Rightarrow> http_reply \<Rightarrow> bool" where
  "node_answers url body r \<longleftrightarrow>
     r = Reply 200 (Inr (json_Marshal (traces_json [(''0x01'', node_tx_frame (sample_tx, sample_call))])))"

lemma sample_committed: "committed_traces (ExEx_ChainCommitted sample_chain) = [(7, [(sample_tx, sample_call)])]"
  by (simp add: sample_traced)

theorem verifier_accepts_the_server_witness:
  "\<exists>s. (pipe_step (endpoint_replies node_answers (flag_rpc verifier_defaults)))\<^sup>*\<^sup>*
       (main_start (dial_server served_events) verifier_defaults 1) s \<and> main_done s \<and> exit_code s = 0 \<and>
     blocksVerified (main_totals (collected s)) = 1"
proof -
  have ne: "node_endpoint node_answers url (published served_events)" for url
    unfolding sample_channel node_endpoint_def using sample_committed
    by (auto simp: node_answers_def intro!: exI [of _ "[(''0x01'', node_tx_frame (sample_tx, sample_call))]"])
  have ev: "evm_nesting (published served_events)"
    unfolding sample_channel evm_nesting_def using sample_committed
    by (auto simp: sample_call_def evm_call_levels_def)
  have "\<forall>w. \<exists>reply. endpoint_replies node_answers url w reply" for url
    by (intro allI endpoint_replies_total) (simp add: node_answers_def)
  moreover have "snd (snd (streamLoop (dial_server served_events) (flag_grpc verifier_defaults) always 1))"
    using recv_loop_take [of 1 0 "stream_items (served_conn served_events)
        ((SubscribeRequest_Reset undefined)\<lparr>SubscribeRequest_IncludeCallTraces := True\<rparr>)"]
    by (simp add: streamLoop_def dial_server_def remoteExExClient_Subscribe_def served_conn_def stream_ends_def
        subscribe_def served_events_def)
  ultimately obtain s where s: "(pipe_step (endpoint_replies node_answers (flag_rpc verifier_defaults)))\<^sup>*\<^sup>*
      (main_start (dial_server served_events) verifier_defaults 1) s" "main_done s"
    using main_completes by blast
  from verifier_accepts_the_server [OF sample_setup sample_channel(1,2) ne ev s] s show ?thesis
    by (auto simp: sample_channel sample_traced)
qed


end
