(* ===== verification/Server_System_Verifier.thy ===== *)
theory Server_System_Verifier
  imports Server_System_Properties Server_Verifier
begin

text \<open>The trace verifier as a client of the running server.\<close>

text \<open>
  The verifier's connection when the subscriber of the server is \<open>c\<close>: the dial succeeds and the
  stream yields what has been delivered to the client, and then stays open.
\<close>

definition running_conn :: "subscriber \<Rightarrow> stream_item grpc_conn" where
  "running_conn c =
    \<lparr>NewStream_err = (\<lambda>name. if name = RemoteExEx_Subscribe_FullMethodName then None else Some ''unimplemented''),
     SendMsg_err = (\<lambda>req. None), CloseSend_err = None,
     stream_items = (\<lambda>req. if req = request c then map Stream_Msg (delivered c) else [])\<rparr>"

definition dial_running :: "subscriber \<Rightarrow> stream_lib" where
  "dial_running c =
    \<lparr>connect_err = (\<lambda>size addr. None),
     subscribe_result = (\<lambda>addr req. remoteExExClient_Subscribe (running_conn c) req)\<rparr>"

abbreviation traces_request :: SubscribeRequest where
  "traces_request \<equiv> (SubscribeRequest_Reset undefined)\<lparr>SubscribeRequest_IncludeCallTraces := True\<rparr>"

text \<open>All traced blocks among some canonical notifications.\<close>

definition all_traced :: "ExExNotification list \<Rightarrow> (u64 \<times> (TransactionSigned \<times> alloy_CallFrame) list) list" where
  "all_traced ns = concat (map committed_traces ns)"

lemma running_messages:
  assumes "request c = traces_request" "delivered c = map (converted c) ns"
  shows "concat (map traced_blocks (delivered c)) = map served_work (all_traced ns)"
proof -
  have "include_call_traces (subscribe_flags (request c))" by (simp add: assms(1) subscribe_flags_def)
  then show ?thesis by (simp add: assms(2) all_traced_def traced_blocks_served map_concat comp_def)
qed

lemma running_works:
  assumes "request c = traces_request" "delivered c = map (converted c) ns"
  shows "fst (streamLoop (dial_running c) addr always k) = take k (map served_work (all_traced ns))"
    "k \<le> length (all_traced ns) \<Longrightarrow> snd (snd (streamLoop (dial_running c) addr always k))"
proof -
  have msgs: "messages (map Stream_Msg (delivered c)) = delivered c"
    using messages_stream [of "\<lambda>m. m" "delivered c" False] by simp
  note take = recv_loop_take [of k 0 "map Stream_Msg (delivered c)", unfolded msgs running_messages [OF assms]]
  have s: "streamLoop (dial_running c) addr always k = recv_loop always k 0 (map Stream_Msg (delivered c))"
    using assms(1) by (simp add: streamLoop_def dial_running_def running_conn_def remoteExExClient_Subscribe_def)
  show "fst (streamLoop (dial_running c) addr always k) = take k (map served_work (all_traced ns))"
    "k \<le> length (all_traced ns) \<Longrightarrow> snd (snd (streamLoop (dial_running c) addr always k))"
    unfolding s using take by simp_all
qed

text \<open>
  C5. The running server and the trace verifier, from the node to the exit code. From every
  reachable state of the server in which the verifier's subscription is connected, has missed
  nothing and is not too far behind, steps of the ExEx loop and of that subscription alone lead
  to a state in which, if n traced blocks have been passed on since it subscribed and the node's
  endpoint answers and spells its own traces, the verifier can run to its end on what it was
  delivered, and every run that ends, under every schedule of its goroutines, exits with 0
  without a mismatch, having verified the first n of them.
\<close>

theorem running_server_satisfies_verifier:
  assumes "main_setup argv = Inr (cfg, n)"
    and "some_step\<^sup>*\<^sup>* (server_start (remote_exex num_hash from_canon items)) s" "i < length (subscribers s)"
    and "subscribers s ! i = c" "request c = traces_request" "\<not> gone c"
    and "missed (results (events c)) = 0" "length (unread c) \<le> BROADCAST_CHANNEL_CAPACITY"
    and "drop (joined c) (map from_canon (passed_on items)) = ns" "n \<le> length (all_traced ns)"
    and "node_endpoint answers (flag_rpc cfg) ns" "evm_nesting ns" "\<forall>body. \<exists>r. answers (flag_rpc cfg) body r"
  shows "\<exists>t. (step_of {Exex, Client i})\<^sup>*\<^sup>* s t \<and>
    (\<exists>v. (pipe_step (endpoint_replies answers (flag_rpc cfg)))\<^sup>*\<^sup>* (main_start (dial_running (subscribers t ! i)) cfg n) v \<and>
       main_done v) \<and>
    (\<forall>v. (pipe_step (endpoint_replies answers (flag_rpc cfg)))\<^sup>*\<^sup>* (main_start (dial_running (subscribers t ! i)) cfg n) v \<longrightarrow>
       main_done v \<longrightarrow>
       exit_code v = 0 \<and> totalMismatches (main_totals (collected v)) = 0 \<and> blocksVerified (main_totals (collected v)) = n)"
proof -
  obtain t where t: "(step_of {Exex, Client i})\<^sup>*\<^sup>* s t" "request (subscribers t ! i) = traces_request"
    "delivered (subscribers t ! i) = map (converted (subscribers t ! i)) ns"
    using client_served_in_full [OF assms(2,3)] assms(4-9) by force
  let ?lib = "dial_running (subscribers t ! i)"
  note works = running_works [OF t(2,3)]
  have "\<exists>reply. endpoint_replies answers (flag_rpc cfg) w reply" for w
    using assms(13) by (intro endpoint_replies_total) blast
  then have "\<exists>v. (pipe_step (endpoint_replies answers (flag_rpc cfg)))\<^sup>*\<^sup>* (main_start ?lib cfg n) v \<and> main_done v"
    unfolding main_start_unfold using works(2) [OF assms(10)] main_setup_positive [OF assms(1)]
    by (intro pipe_completes [of "nat (sint (flag_workers cfg))"]) (simp_all add: pipe_safe_start)
  moreover note served_verdict [OF assms(1) works(1) [unfolded all_traced_def] subset_refl assms(11,12)]
  ultimately show ?thesis using t(1) assms(10) unfolding all_traced_def by (intro exI [of _ t]) (auto simp: min_def)
qed

theorem running_server_satisfies_verifier_witness:
  "\<exists>t v. (step_of {Exex, Client 0})\<^sup>*\<^sup>* sample_server t \<and>
    (pipe_step (endpoint_replies node_answers (flag_rpc verifier_defaults)))\<^sup>*\<^sup>*
      (main_start (dial_running (subscribers t ! 0)) verifier_defaults 1) v \<and>
    main_done v \<and> exit_code v = 0 \<and> blocksVerified (main_totals (collected v)) = 1"
proof -
  have c: "0 < length (subscribers sample_server)"
    "request (subscribers sample_server ! 0) = traces_request" "\<not> gone (subscribers sample_server ! 0)"
    "missed (results (events (subscribers sample_server ! 0))) = 0"
    "length (unread (subscribers sample_server ! 0)) \<le> BROADCAST_CHANNEL_CAPACITY"
    "drop (joined (subscribers sample_server ! 0)) (map sample_from_canon (passed_on sample_items))
       = [ExEx_ChainCommitted sample_chain]"
    by (simp_all add: sample_server_def sample_publish new_subscriber_def sample_passed BROADCAST_CHANNEL_CAPACITY_def)
  have ne: "node_endpoint node_answers (flag_rpc verifier_defaults) [ExEx_ChainCommitted sample_chain]"
    unfolding node_endpoint_def using sample_committed
    by (auto simp: node_answers_def intro!: exI [of _ "[(''0x01'', node_tx_frame (sample_tx, sample_call))]"])
  have ev: "evm_nesting [ExEx_ChainCommitted sample_chain]"
    unfolding evm_nesting_def using sample_committed by (auto simp: sample_call_def evm_call_levels_def)
  have n: "1 \<le> length (all_traced [ExEx_ChainCommitted sample_chain])"
    by (simp add: all_traced_def sample_traced)
  have tot: "\<forall>body. \<exists>r. node_answers (flag_rpc verifier_defaults) body r" by (simp add: node_answers_def)
  show ?thesis
    using running_server_satisfies_verifier [OF sample_setup sample_reachable c(1) refl c(2-6) n ne ev tot] by blast
qed

end
