(* ===== verification/Server_Feed.thy ===== *)
theory Server_Feed
  imports Server_Stream Bench_Env
begin

text \<open>
  The server and a benchmark's gRPC goroutine together: what the goroutine reports of the
  notifications the ExEx loop broadcasts. The contract between them is the locale
  \<open>served_client\<close>; each benchmark interprets it with its own subscription request.
\<close>

section \<open>The tip of a served chain\<close>

definition chain_tip :: "reth_Chain \<Rightarrow> alloy_Header" where
  "chain_tip c = Block_header (fst (last (blocks_and_receipts c)))"

text \<open>A notification reports a tip when it commits a chain with a block.\<close>

definition tip_report :: "(reth_Chain \<Rightarrow> i64 \<Rightarrow> 'a) \<Rightarrow> ExExNotification \<Rightarrow> i64 \<Rightarrow> 'a list" where
  "tip_report report n ms =
    (case n of
       ExEx_ChainCommitted c \<Rightarrow> if blocks_and_receipts c = [] then [] else [report c ms]
     | _ \<Rightarrow> [])"

lemma tip_of_served:
  assumes "include_headers flags"
  shows "tip_of (notification_to_proto n flags) =
    (case n of
       ExEx_ChainCommitted c \<Rightarrow>
         if blocks_and_receipts c = [] then None
         else Some (chain_to_proto c flags, header_to_proto (chain_tip c))
     | _ \<Rightarrow> None)"
proof (cases n)
  case (ExEx_ChainCommitted c)
  show ?thesis
  proof (cases "blocks_and_receipts c = []")
    case False
    then have "last (map (\<lambda>(block, receipts). block_with_receipts_to_proto block receipts flags) (blocks_and_receipts c))
        = (\<lambda>(block, receipts). block_with_receipts_to_proto block receipts flags) (last (blocks_and_receipts c))"
      by (rule last_map)
    with False assms ExEx_ChainCommitted show ?thesis
      by (simp add: tip_of_checks chain_to_proto_def chain_tip_def block_with_receipts_to_proto_def case_prod_beta)
  qed (simp add: ExEx_ChainCommitted tip_of_checks chain_to_proto_def)
qed (simp_all add: tip_of_checks)

text \<open>The tips of a sequence of notifications.\<close>

definition tip_numbers :: "ExExNotification list \<Rightarrow> u64 list" where
  "tip_numbers ns = concat (map (\<lambda>n. tip_report (\<lambda>c ms. Header_number (chain_tip c)) n 0) ns)"

lemma tip_numbers_reported:
  assumes "\<And>c ms. f (report c ms) = Header_number (chain_tip c)" "length ns \<le> length clock"
  shows "map f (concat (map2 (tip_report report) ns clock)) = tip_numbers ns"
  using assms(2)
proof (induction ns arbitrary: clock)
  case (Cons n ns)
  then obtain ms clock' where "clock = ms # clock'" by (cases clock) auto
  moreover have "map f (tip_report report n ms) = tip_report (\<lambda>c ms. Header_number (chain_tip c)) n 0" for ms
    by (cases n) (simp_all add: tip_report_def assms(1))
  ultimately show ?case using Cons by (simp add: tip_numbers_def)
qed (simp add: tip_numbers_def)

section \<open>The contract\<close>

definition arriving :: "Notification list \<Rightarrow> i64 list \<Rightarrow> grpc_item list" where
  "arriving ns clock = map2 (\<lambda>n ms. Recv_Ok n ms False) ns clock"

locale served_client = receive_loop loop body ends
  for loop :: "grpc_item list \<Rightarrow> 'a effect list" and body :: "grpc_item \<Rightarrow> 'a effect list" and ends :: "grpc_item \<Rightarrow> bool" +
  fixes request :: SubscribeRequest
    and report :: "reth_Chain \<Rightarrow> i64 \<Rightarrow> 'a"
  assumes served_goes_on: "\<not> ends (Recv_Ok (notification_to_proto n (subscribe_flags request)) ms False)"
    and served_body: "sends (body (Recv_Ok (notification_to_proto n (subscribe_flags request)) ms False)) = tip_report report n ms"
begin

lemma served_loop:
  "sends (loop (arriving (map (\<lambda>n. notification_to_proto n (subscribe_flags request)) ns) clock))
     = concat (map2 (tip_report report) ns clock)"
proof (induction ns arbitrary: clock)
  case (Cons n ns)
  then show ?case
    by (cases clock) (simp_all add: arriving_def loop_Nil loop_Cons served_goes_on served_body)
qed (simp add: arriving_def loop_Nil)

lemma served_no_errors:
  "errors (loop (arriving (map (\<lambda>n. notification_to_proto n (subscribe_flags request)) ns) clock)) = []"
proof (induction ns arbitrary: clock)
  case (Cons n ns)
  have "errors (body (Recv_Ok (notification_to_proto n (subscribe_flags request)) ms False)) = []" for ms
    using errors_body [of "Recv_Ok (notification_to_proto n (subscribe_flags request)) ms False"]
    by (simp add: served_goes_on)
  with Cons show ?case by (cases clock) (simp_all add: arriving_def loop_Nil loop_Cons served_goes_on)
qed (simp add: arriving_def loop_Nil)

text \<open>
  From the broadcast to the arrivals: a connected subscriber reports the tips of what it got,
  in order, and it got everything up to where it has read if it kept up.
\<close>

lemma served_subscriber:
  assumes "broadcast_channel cap [] es" "connected (results es)" "keeps_up cap 0 es"
  shows "sends (loop (arriving (to_client (subscribe request (results es))) clock))
      = concat (map2 (tip_report report) (got (results es)) clock) \<and>
    prefix (got (results es)) (published es)"
  using channel_prefix [OF assms(1)] keeps_up_misses_nothing [OF assms(1)] assms(3)
  unfolding subscribe_def channel_to_client [OF assms(1,2)] served_loop by simp

end

end
