(* ===== verification/Latency_Served.thy ===== *)
theory Latency_Served
  imports Latency_Sources Server_Feed Server_Samples
begin

text \<open>
  The gRPC goroutine of the latency benchmark on the stream the server sends
  for its request.
\<close>

text \<open>What the goroutine makes of a committed chain: the number of its tip.\<close>

definition served_arrival :: "reth_Chain \<Rightarrow> i64 \<Rightarrow> arrival" where
  "served_arrival c ms = \<lparr>blockNumber = Header_number (chain_tip c), arrivedAtMs = ms\<rparr>"

lemma latency_flags:
  "include_headers (subscribe_flags subscribe_request)"
  by (simp add: subscribe_flags_def subscribe_request_def)

interpretation latency_served: served_client grpc_loop grpc_body grpc_ends subscribe_request served_arrival
proof unfold_locales
  show "\<not> grpc_ends (Recv_Ok (notification_to_proto n (subscribe_flags subscribe_request)) ms False)" for n ms
    by simp
  show "sends (grpc_body (Recv_Ok (notification_to_proto n (subscribe_flags subscribe_request)) ms False))
      = tip_report served_arrival n ms" for n ms
    unfolding grpc_body.simps tip_of_served [OF latency_flags]
    by (cases n) (simp_all add: tip_report_def served_arrival_def header_to_proto_def)
qed

text \<open>
  The server and this benchmark together: a subscriber that keeps up with the broadcast
  and stays connected reports exactly the tips of the committed chains, in their order.
\<close>

theorem latency_reports_served_tips:
  assumes "NewClient_err lib grpcMaxRecvMsgSize addr = None"
    and "Subscribe_result lib addr subscribe_request = Inr (arriving (to_client (subscribe subscribe_request (results es))) clock)"
    and "broadcast_channel BROADCAST_CHANNEL_CAPACITY [] es" "connected (results es)"
    and "keeps_up BROADCAST_CHANNEL_CAPACITY 0 es"
  shows "sends (SubscribeGRPC lib addr) = concat (map2 (tip_report served_arrival) (got (results es)) clock) \<and>
    prefix (got (results es)) (published es)"
  using latency_served.served_subscriber [OF assms(3-5)] by (simp add: SubscribeGRPC_def assms(1,2))

definition served_lib :: grpc_lib where
  "served_lib = \<lparr>NewClient_err = (\<lambda>size addr. None),
     Subscribe_result = (\<lambda>addr req. Inr (arriving (to_client (subscribe req (results served_events))) [1234]))\<rparr>"

theorem latency_reports_served_tips_witness:
  "sends (SubscribeGRPC served_lib ''127.0.0.1:10000'') = [\<lparr>blockNumber = 7, arrivedAtMs = 1234\<rparr>]"
  using latency_reports_served_tips [OF _ _ sample_channel(1-3), of served_lib "''127.0.0.1:10000''" "[1234]"]
  by (simp add: served_lib_def sample_channel tip_report_def served_arrival_def chain_tip_def sample_chain_blocks)

end
