(* ===== verification/Receipts_Served.thy ===== *)
theory Receipts_Served
  imports Receipts_Properties Server_Feed Server_Samples
begin

text \<open>
  The gRPC goroutine of the receipts benchmark on the stream the server sends
  for its request.
\<close>

text \<open>What the goroutine makes of a committed chain: the number of its tip.\<close>

definition served_arrival :: "reth_Chain \<Rightarrow> i64 \<Rightarrow> arrival" where
  "served_arrival c ms = \<lparr>blockNumber = Header_number (chain_tip c), arrivedAtMs = ms\<rparr>"

lemma receipts_flags:
  "include_headers (subscribe_flags subscribe_request)"
  by (simp add: subscribe_flags_def subscribe_request_def)

interpretation receipts_served: served_client grpc_loop grpc_body grpc_ends subscribe_request served_arrival
proof unfold_locales
  show "\<not> grpc_ends (Recv_Ok (notification_to_proto n (subscribe_flags subscribe_request)) ms False)" for n ms
    by simp
  show "sends (grpc_body (Recv_Ok (notification_to_proto n (subscribe_flags subscribe_request)) ms False))
      = tip_report served_arrival n ms" for n ms
    unfolding grpc_body.simps tip_of_served [OF receipts_flags]
    by (cases n) (simp_all add: tip_report_def served_arrival_def header_to_proto_def)
qed

text \<open>
  The server and this benchmark together: a subscriber that keeps up with the broadcast
  and stays connected reports exactly the tips of the committed chains, in their order.
\<close>

theorem receipts_reports_served_tips:
  assumes "NewClient_err lib grpcMaxRecvMsgSizeBytes addr = None"
    and "Subscribe_result lib addr subscribe_request = Inr (arriving (to_client (subscribe subscribe_request (results es))) clock)"
    and "broadcast_channel BROADCAST_CHANNEL_CAPACITY [] es" "connected (results es)"
    and "keeps_up BROADCAST_CHANNEL_CAPACITY 0 es"
  shows "sends (SubscribeGRPC lib addr) = concat (map2 (tip_report served_arrival) (got (results es)) clock) \<and>
    prefix (got (results es)) (published es)"
  using receipts_served.served_subscriber [OF assms(3-5)] by (simp add: SubscribeGRPC_def assms(1,2))

definition served_lib :: grpc_lib where
  "served_lib = \<lparr>NewClient_err = (\<lambda>size addr. None),
     Subscribe_result = (\<lambda>addr req. Inr (arriving (to_client (subscribe req (results served_events))) [1234]))\<rparr>"

theorem receipts_reports_served_tips_witness:
  "sends (SubscribeGRPC served_lib ''127.0.0.1:10000'') = [\<lparr>blockNumber = 7, arrivedAtMs = 1234\<rparr>]"
  using receipts_reports_served_tips [OF _ _ sample_channel(1-3), of served_lib "''127.0.0.1:10000''" "[1234]"]
  by (simp add: served_lib_def sample_channel tip_report_def served_arrival_def chain_tip_def sample_chain_blocks)

section \<open>The whole benchmark on the served stream\<close>

text \<open>
  C8. The server and the whole receipts benchmark: when the subscriber keeps up and stays
  connected, no chain tip is committed twice, and the WebSocket goroutine reports without
  error and without repetition at least --blocks of the tips, then in every reachable state in
  which nothing timed out and nobody interrupted, the benchmark has exited with code 0 or some
  step brings it closer to that.
\<close>

theorem receipts_completes_on_served_stream:
  assumes "launch lib wlib argv = Inr (target, s0)" "(system_step target)\<^sup>*\<^sup>* s0 s" "stamped (todo s0)"
    and "\<forall>addr. NewClient_err lib grpcMaxRecvMsgSizeBytes addr = None \<and>
      Subscribe_result lib addr subscribe_request = Inr (arriving (to_client (subscribe subscribe_request (results es))) clock)"
    and "broadcast_channel BROADCAST_CHANNEL_CAPACITY [] es" "connected (results es)"
    and "length (got (results es)) \<le> length clock" "distinct (tip_numbers (got (results es)))"
    and "errors (todo s0 Peer) = []" "distinct (block_numbers (todo s0 Peer))"
    and "sint target \<le> int (card (set (tip_numbers (got (results es))) \<inter> set (block_numbers (todo s0 Peer))))"
    and "Ready_Done \<notin> set (history s)" "unmatched (loop_state s) = 0" "length (history s) < 2 ^ 64"
  shows "exited (loop_state s) = Some 0 \<or> exited (loop_state s) = None \<and> (\<exists>s'. system_step target s s' \<and> work s' < work s)"
proof -
  obtain cfg where "s0 = sys_start (goroutines lib wlib cfg) bench_start"
    using receipts_launch [OF assms(1)] by metis
  then have g: "todo s0 Grpc = SubscribeGRPC lib (flag_grpc cfg)" by (simp add: sys_start_def)
  have l: "SubscribeGRPC lib (flag_grpc cfg) = Print (''grpc connected: '' @ flag_grpc cfg)
      # grpc_loop (arriving (map (\<lambda>n. notification_to_proto n (subscribe_flags subscribe_request)) (got (results es))) clock)"
    using assms(4) by (simp add: SubscribeGRPC_def subscribe_def channel_to_client [OF assms(5,6)])
  have "block_numbers (todo s0 Grpc) = tip_numbers (got (results es))"
    unfolding g l block_numbers_def using assms(7)
    by (simp add: receipts_served.served_loop tip_numbers_reported served_arrival_def)
  moreover have "errors (todo s0 Grpc) = []" unfolding g l by (simp add: receipts_served.served_no_errors)
  ultimately show ?thesis
    using assms by (intro conjunct1 [OF receipts_healthy_completes [OF assms(1-3)]]) (auto simp: all_sides)
qed


text \<open>The server commits block 7 and then block 8; the WebSocket announces both.\<close>

definition next_chain :: reth_Chain where
  "next_chain = sample_chain\<lparr>blocks_and_receipts :=
     [(\<lparr>Block_header = sample_header\<lparr>Header_number := 8\<rparr>, Block_transactions = [], Block_withdrawals = None,
        Block_senders = []\<rparr>, [])]\<rparr>"

definition two_events :: "channel_event list" where
  "two_events = [Publish (ExEx_ChainCommitted sample_chain), Receive (Got (ExEx_ChainCommitted sample_chain)) True,
     Publish (ExEx_ChainCommitted next_chain), Receive (Got (ExEx_ChainCommitted next_chain)) True]"

definition two_lib :: grpc_lib where
  "two_lib = \<lparr>NewClient_err = (\<lambda>size addr. None),
     Subscribe_result = (\<lambda>addr req. Inr (arriving (to_client (subscribe req (results two_events))) [1000, 2000]))\<rparr>"

lemma two_tips: "Header_number (chain_tip sample_chain) = 7" "Header_number (chain_tip next_chain) = 8"
  "blocks_and_receipts next_chain \<noteq> []"
  by (simp_all add: chain_tip_def sample_chain_blocks next_chain_def)

lemma two_channel:
  "broadcast_channel BROADCAST_CHANNEL_CAPACITY [] two_events" "connected (results two_events)"
  "keeps_up BROADCAST_CHANNEL_CAPACITY 0 two_events"
  "got (results two_events) = [ExEx_ChainCommitted sample_chain, ExEx_ChainCommitted next_chain]"
  "tip_numbers (got (results two_events)) = [7, 8]"
  by (simp_all add: two_events_def connected_def BROADCAST_CHANNEL_CAPACITY_def tip_numbers_def tip_report_def
      two_tips sample_chain_blocks)

lemma two_sends:
  "sends (SubscribeGRPC two_lib addr) = [\<lparr>blockNumber = 7, arrivedAtMs = 1000\<rparr>, \<lparr>blockNumber = 8, arrivedAtMs = 2000\<rparr>]"
  using receipts_served.served_subscriber [OF two_channel(1-3), of "[1000, 2000]"]
  by (simp add: SubscribeGRPC_def two_lib_def two_channel(4) tip_report_def served_arrival_def two_tips sample_chain_blocks)

theorem receipts_completes_on_served_stream_witness:
  "\<exists>s'. system_step 2 (sys_start (goroutines two_lib sample_ws sample_cfg) bench_start) s' \<and>
     work s' < work (sys_start (goroutines two_lib sample_ws sample_cfg) bench_start)"
proof -
  let ?s = "sys_start (goroutines two_lib sample_ws sample_cfg) bench_start"
  have todo: "todo ?s Grpc = SubscribeGRPC two_lib (flag_grpc sample_cfg)"
    "todo ?s Peer = SubscribeWS sample_ws (flag_ws sample_cfg) (flag_rpc sample_cfg)"
    by (simp_all add: sys_start_def)
  have l: "launch two_lib sample_ws sample_argv = Inr (2, ?s)"
    by (simp add: launch_def receipts_sample_flags sample_cfg_def)
  have st: "stamped (todo ?s)" by (simp add: stamped_def all_sides todo two_sends receipts_sample_sends)
  have lib: "\<forall>addr. NewClient_err two_lib grpcMaxRecvMsgSizeBytes addr = None \<and>
      Subscribe_result two_lib addr subscribe_request
        = Inr (arriving (to_client (subscribe subscribe_request (results two_events))) [1000, 2000])"
    by (simp add: two_lib_def)
  have peer: "errors (todo ?s Peer) = []" "block_numbers (todo ?s Peer) = [7, 8]"
    by (simp_all add: todo receipts_sample_sends block_numbers_def)
  have "card ({7, 8} :: u64 set) = 2" by simp
  then have c: "sint (2 :: i64) \<le> int (card (set (tip_numbers (got (results two_events))) \<inter> set (block_numbers (todo ?s Peer))))"
    by (simp add: peer two_channel(5))
  have r: "exited (loop_state ?s) = None" "Ready_Done \<notin> set (history ?s)" "unmatched (loop_state ?s) = 0"
    "length (history ?s) < 2 ^ 64" "length (got (results two_events)) \<le> length [1000, 2000 :: i64]"
    by (simp_all add: sys_start_def bench_start_def two_channel(4))
  have d: "distinct (tip_numbers (got (results two_events)))" "distinct (block_numbers (todo ?s Peer))"
    unfolding two_channel(5) peer by simp_all
  from receipts_completes_on_served_stream [OF l rtranclp.rtrancl_refl st lib two_channel(1,2) r(5) d(1) peer(1) d(2) c r(2-4)] r(1)
  show ?thesis by simp
qed


end
