(* ===== verification/Internal_Txs_Served.thy ===== *)
theory Internal_Txs_Served
  imports Internal_Txs_Sources Server_Feed Server_Samples
begin

text \<open>
  The gRPC goroutine of the internal-transactions benchmark on the stream the server sends
  for its request.
\<close>

text \<open>
  What the goroutine makes of a committed chain: the number and the gas of its tip, and the
  number of transactions of the tip that carry a trace.
\<close>

definition tip_traces :: "reth_Chain \<Rightarrow> u64" where
  "tip_traces c =
    (case map_of (traced c) (Header_number (chain_tip c)) of
       None \<Rightarrow> 0
     | Some tfs \<Rightarrow> of_nat (length tfs))"

definition served_arrival :: "reth_Chain \<Rightarrow> i64 \<Rightarrow> arrival" where
  "served_arrival c ms =
    \<lparr>blockNumber = Header_number (chain_tip c), arrivedAtMs = ms, arrival_txCount = tip_traces c,
     arrival_gasUsed = Header_gas_used (chain_tip c)\<rparr>"

lemma traced_txs_served:
  "traced_txs n (call_traces_to_proto c) = (case map_of (traced c) n of None \<Rightarrow> 0 | Some tfs \<Rightarrow> of_nat (length tfs))"
proof -
  have "traced_txs n (map (\<lambda>(m, tfs). \<lparr>BlockCallTraces_BlockNumber = m, BlockCallTraces_Txs = map tx_frame_to_proto tfs\<rparr>) ps)
      = (case map_of ps n of None \<Rightarrow> 0 | Some tfs \<Rightarrow> of_nat (length tfs))" for ps
    by (induction ps) auto
  then show ?thesis by (simp add: call_traces_to_proto_traced)
qed

lemma internal_txs_flags:
  "include_headers (subscribe_flags subscribe_request)" "include_call_traces (subscribe_flags subscribe_request)"
  by (simp_all add: subscribe_flags_def subscribe_request_def)

interpretation internal_txs_served: served_client grpc_loop grpc_body grpc_ends subscribe_request served_arrival
proof unfold_locales
  show "\<not> grpc_ends (Recv_Ok (notification_to_proto n (subscribe_flags subscribe_request)) ms False)" for n ms
    by simp
  show "sends (grpc_body (Recv_Ok (notification_to_proto n (subscribe_flags subscribe_request)) ms False))
      = tip_report served_arrival n ms" for n ms
    unfolding grpc_body.simps tip_of_served [OF internal_txs_flags(1)]
    by (cases n) (simp_all add: tip_report_def served_arrival_def tip_traces_def chain_to_proto_def
        internal_txs_flags header_to_proto_def traced_txs_served)
qed

text \<open>
  C11. The server and this benchmark together: a subscriber that keeps up with the broadcast
  and stays connected reports exactly the tips of the committed chains, in their order, each
  with the number and the gas of the tip block and the number of its traced transactions.
\<close>

theorem internal_txs_reports_served_tips:
  assumes "NewClient_err lib grpcMaxRecvMsgSizeBytes addr = None"
    and "Subscribe_result lib addr subscribe_request = Inr (arriving (to_client (subscribe subscribe_request (results es))) clock)"
    and "broadcast_channel BROADCAST_CHANNEL_CAPACITY [] es" "connected (results es)"
    and "keeps_up BROADCAST_CHANNEL_CAPACITY 0 es"
  shows "sends (SubscribeGRPC lib addr) = concat (map2 (tip_report served_arrival) (got (results es)) clock) \<and>
    prefix (got (results es)) (published es)"
  using internal_txs_served.served_subscriber [OF assms(3-5)] by (simp add: SubscribeGRPC_def assms(1,2))

definition served_lib :: grpc_lib where
  "served_lib = \<lparr>NewClient_err = (\<lambda>size addr. None),
     Subscribe_result = (\<lambda>addr req. Inr (arriving (to_client (subscribe req (results served_events))) [1234]))\<rparr>"

theorem internal_txs_reports_served_tips_witness:
  "sends (SubscribeGRPC served_lib ''127.0.0.1:10000'') = [\<lparr>blockNumber = 7, arrivedAtMs = 1234, arrival_txCount = 1, arrival_gasUsed = 21000\<rparr>]"
  using internal_txs_reports_served_tips [OF _ _ sample_channel(1-3), of served_lib "''127.0.0.1:10000''" "[1234]"]
  by (simp add: served_lib_def sample_channel tip_report_def served_arrival_def chain_tip_def sample_chain_blocks tip_traces_def sample_traced)

end
