(* ===== verification/State_Diff_Served.thy ===== *)
theory State_Diff_Served
  imports State_Diff_Sources Server_Feed Server_Samples
begin

text \<open>
  The gRPC goroutine of the state-diff benchmark on the stream the server sends
  for its request.
\<close>

text \<open>
  What the goroutine makes of a committed chain: the number of its tip, and how many accounts
  the chain's state has changed.
\<close>

definition served_arrival :: "reth_Chain \<Rightarrow> i64 \<Rightarrow> arrival" where
  "served_arrival c ms =
    \<lparr>blockNumber = Header_number (chain_tip c), arrivedAtMs = ms,
     arrival_accounts = of_nat (length (Bundle_state (execution_outcome_bundle c)))\<rparr>"

lemma state_diff_flags:
  "include_headers (subscribe_flags subscribe_request)" "include_state_diff (subscribe_flags subscribe_request)"
  by (simp_all add: subscribe_flags_def subscribe_request_def)

interpretation state_diff_served: served_client grpc_loop grpc_body grpc_ends subscribe_request served_arrival
proof unfold_locales
  show "\<not> grpc_ends (Recv_Ok (notification_to_proto n (subscribe_flags subscribe_request)) ms False)" for n ms
    by simp
  show "sends (grpc_body (Recv_Ok (notification_to_proto n (subscribe_flags subscribe_request)) ms False))
      = tip_report served_arrival n ms" for n ms
    unfolding grpc_body.simps tip_of_served [OF state_diff_flags(1)]
    by (cases n) (simp_all add: tip_report_def served_arrival_def chain_to_proto_def state_diff_flags
        header_to_proto_def changed_accounts_def state_diff_to_proto_def Let_def)
qed

text \<open>
  The server and this benchmark together: a subscriber that keeps up with the broadcast
  and stays connected reports exactly the tips of the committed chains, in their order, each
  with the number of accounts the chain's execution has changed.
\<close>

theorem state_diff_reports_served_tips:
  assumes "NewClient_err lib grpcMaxRecvMsgSizeBytes addr = None"
    and "Subscribe_result lib addr subscribe_request = Inr (arriving (to_client (subscribe subscribe_request (results es))) clock)"
    and "broadcast_channel BROADCAST_CHANNEL_CAPACITY [] es" "connected (results es)"
    and "keeps_up BROADCAST_CHANNEL_CAPACITY 0 es"
  shows "sends (SubscribeGRPC lib addr) = concat (map2 (tip_report served_arrival) (got (results es)) clock) \<and>
    prefix (got (results es)) (published es)"
  using state_diff_served.served_subscriber [OF assms(3-5)] by (simp add: SubscribeGRPC_def assms(1,2))

definition served_lib :: grpc_lib where
  "served_lib = \<lparr>NewClient_err = (\<lambda>size addr. None),
     Subscribe_result = (\<lambda>addr req. Inr (arriving (to_client (subscribe req (results served_events))) [1234]))\<rparr>"

theorem state_diff_reports_served_tips_witness:
  "sends (SubscribeGRPC served_lib ''127.0.0.1:10000'') = [\<lparr>blockNumber = 7, arrivedAtMs = 1234, arrival_accounts = 1\<rparr>]"
  using state_diff_reports_served_tips [OF _ _ sample_channel(1-3), of served_lib "''127.0.0.1:10000''" "[1234]"]
  by (simp add: served_lib_def sample_channel tip_report_def served_arrival_def chain_tip_def sample_chain_blocks sample_chain_bundle)

end
