(* ===== verification/Unit_Tests.thy ===== *)
theory Unit_Tests
  imports Trace_Compare "HOL-Library.Sublist"
begin

text \<open>
  The unit tests of \<open>src/examples/go-trace-verifier/compare_test.go\<close>, as theorems about the
  model: each lemma is the assertions of the tests it names, on their inputs.
\<close>

section \<open>The inputs of the tests\<close>

text \<open>\<open>gas\<close> of the tests: 32 bytes ending in a small number; \<open>zeros n\<close> is \<open>make([]byte, n)\<close>.\<close>

definition zeros :: "nat \<Rightarrow> bytes" where
  "zeros n = replicate n 0"

definition test_gas :: "byte \<Rightarrow> byte \<Rightarrow> bytes" where
  "test_gas hi lo = zeros 30 @ [hi, lo]"

definition grpc_frame :: "string \<Rightarrow> CallFrame" where
  "grpc_frame kind = CallFrame kind [] [] [] [] [] [] [] '''' '''' [] []"

definition rpc_frame :: "string \<Rightarrow> rpcCallFrame" where
  "rpc_frame kind = rpcCallFrame kind '''' '''' '''' '''' '''' '''' '''' '''' '''' [] []"

definition grpc_log :: "bytes list \<Rightarrow> u64 option \<Rightarrow> CallLogFrame" where
  "grpc_log topics position =
    \<lparr>CallLogFrame_Address = [], CallLogFrame_Topics = topics, CallLogFrame_Data = [],
     CallLogFrame_HasPosition = (position \<noteq> None), CallLogFrame_Position = (case position of None \<Rightarrow> 0 | Some p \<Rightarrow> p),
     CallLogFrame_HasIndex = False, CallLogFrame_Index = 0\<rparr>"

definition rpc_log :: "string list \<Rightarrow> u64 option \<Rightarrow> u64 option \<Rightarrow> rpcLogFrame" where
  "rpc_log topics position index =
    \<lparr>rpcLogFrame_Address = '''', rpcLogFrame_Topics = topics, rpcLogFrame_Data = '''',
     rpcLogFrame_Position = position, rpcLogFrame_Index = index\<rparr>"

text \<open>A mismatch line that mentions a field.\<close>

definition mentions :: "string \<Rightarrow> string list \<Rightarrow> bool" where
  "mentions field lines = (\<exists>line \<in> set lines. sublist field line)"

section \<open>The tests\<close>

lemma TestNormalizeU256grpc:
  "normalizeU256grpc [] = ''''" "normalizeU256grpc (zeros 32) = ''0x0''"
  "normalizeU256grpc (zeros 31 @ [1]) = ''0x1''"
  by code_simp+

lemma TestNormalizeU256rpc:
  "normalizeU256rpc '''' = ''''" "normalizeU256rpc ''0x0'' = ''0x0''" "normalizeU256rpc ''0x000001'' = ''0x1''"
  by code_simp+

lemma TestNormalizeAddress:
  "normalizeAddress [] = ''''"
  "normalizeAddress (0xab # zeros 18 @ [0xcd]) = ''0xab'' @ replicate 36 CHR ''0'' @ ''cd''"
  by code_simp+

lemma TestNormalizeBytes:
  "normalizeBytes [] = ''''" "normalizeBytes [0xde, 0xad] = ''0xdead''"
  by code_simp+

lemma TestNormalizeHexStr:
  "normalizeHexStr '''' = ''''" "normalizeHexStr ''0xDEAD'' = ''0xdead''" "normalizeHexStr ''0x'' = ''''"
  by code_simp+

lemma TestCompareFrame_pass:
  "fst (compareFrame ''tx[0]''
     (CallFrame ''CALL'' (0xaa # zeros 19) [] [] (test_gas 0x52 0x08) (test_gas 0x52 0x08) [] [] '''' '''' [] [])
     (rpcCallFrame ''CALL'' (normalizeAddress (0xaa # zeros 19)) '''' '''' ''0x5208'' ''0x5208'' '''' '''' '''' '''' [] [])) = []"
  by code_simp

lemma TestCompareFrame_typ_mismatch:
  "length (fst (compareFrame ''tx[0]'' (grpc_frame ''CALL'') (rpc_frame ''STATICCALL''))) = 1"
  "mentions ''.typ:'' (fst (compareFrame ''tx[0]'' (grpc_frame ''CALL'') (rpc_frame ''STATICCALL'')))"
  by code_simp+

lemma TestCompareFrame_gasUsed_mismatch:
  "(let mm = fst (compareFrame ''tx[0]'' (CallFrame '''' [] [] [] [] (test_gas 0x52 0x08) [] [] '''' '''' [] [])
       (rpcCallFrame '''' '''' '''' '''' '''' ''0x5209'' '''' '''' '''' '''' [] []))
    in length mm = 1 \<and> mentions ''gasUsed'' mm)"
  by code_simp

lemma TestCompareFrame_to_absent_both:
  "\<not> mentions ''.to:'' (fst (compareFrame ''tx[0]'' (grpc_frame ''CREATE'') (rpc_frame ''CREATE'')))"
  by code_simp

lemma TestCompareFrame_value_zero_vs_nil:
  "mentions ''.value:'' (fst (compareFrame ''tx[0]'' (CallFrame '''' [] [] (zeros 32) [] [] [] [] '''' '''' [] []) (rpc_frame '''')))"
  by code_simp

lemma TestCompareFrame_value_nil_nil:
  "\<not> mentions ''.value:'' (fst (compareFrame ''tx[0]'' (grpc_frame '''') (rpc_frame '''')))"
  by code_simp

lemma TestCompareFrame_calls_count_mismatch:
  "mentions ''.calls:'' (fst (compareFrame ''tx[0]''
     (CallFrame '''' [] [] [] [] [] [] [] '''' '''' [grpc_frame ''CALL'', grpc_frame ''CALL''] [])
     (rpcCallFrame '''' '''' '''' '''' '''' '''' '''' '''' '''' '''' [rpc_frame ''CALL''] [])))"
  by code_simp

lemma TestCompareFrame_recursive:
  "fst (compareFrame ''tx[0]'' (CallFrame '''' [] [] [] [] [] [] [] '''' '''' [grpc_frame ''CALL''] [])
     (rpcCallFrame '''' '''' '''' '''' '''' '''' '''' '''' '''' '''' [rpc_frame ''CALL''] [])) = []"
  "mentions ''.calls[0].typ'' (fst (compareFrame ''tx[0]''
     (CallFrame '''' [] [] [] [] [] [] [] '''' '''' [grpc_frame ''CALL''] [])
     (rpcCallFrame '''' '''' '''' '''' '''' '''' '''' '''' '''' '''' [rpc_frame ''DELEGATECALL''] [])))"
  by code_simp+

lemma TestCompareLog_pass:
  "compareLog ''tx[0].logs[0]''
     \<lparr>CallLogFrame_Address = 0x11 # zeros 19, CallLogFrame_Topics = [0xaa # zeros 31], CallLogFrame_Data = [1],
      CallLogFrame_HasPosition = True, CallLogFrame_Position = 3, CallLogFrame_HasIndex = False, CallLogFrame_Index = 0\<rparr>
     \<lparr>rpcLogFrame_Address = normalizeAddress (0x11 # zeros 19), rpcLogFrame_Topics = [normalizeBytes (0xaa # zeros 31)],
      rpcLogFrame_Data = normalizeBytes [1], rpcLogFrame_Position = Some 3, rpcLogFrame_Index = None\<rparr> = []"
  by code_simp

lemma TestCompareLog_topic_mismatch:
  "mentions ''.topics[0]'' (compareLog ''tx[0].logs[0]'' (grpc_log [0xaa # zeros 31] None)
     (rpc_log [''0x'' @ replicate 64 CHR 0x00] None None))"
  by code_simp

lemma TestCompareLog_position:
  "mentions ''.position:'' (compareLog ''tx[0].logs[0]'' (grpc_log [] (Some 3)) (rpc_log [] None None))"
  "\<not> mentions ''.position:'' (compareLog ''tx[0].logs[0]'' (grpc_log [] (Some 3)) (rpc_log [] (Some 3) None))"
  by code_simp+

lemma TestCompareLog_index_rpc_present_grpc_absent:
  "mentions ''.index:'' (compareLog ''tx[0].logs[0]'' (grpc_log [] None) (rpc_log [] None (Some 0)))"
  by code_simp

lemma TestCompareBlock_tx_count_mismatch:
  "(let mm = fst (compareBlock 100 (replicate 3 (grpc_frame ''CALL'')) (replicate 2 (rpc_frame ''CALL'')))
    in length mm = 1 \<and> mentions ''tx count:'' mm)"
  by code_simp

lemma TestCompareBlock_all_pass:
  "compareBlock 100
     (map (\<lambda>hi. CallFrame ''CALL'' (0xbb # zeros 19) [] [] [] (test_gas hi 0) [] [] '''' '''' [] []) [1, 2])
     (map (\<lambda>g. rpcCallFrame ''CALL'' (normalizeAddress (0xbb # zeros 19)) '''' '''' '''' g '''' '''' '''' '''' [] [])
        [''0x100'', ''0x200'']) = ([], 2, 0)"
  by code_simp

lemma TestCompareBlock_empty: "compareBlock 100 [] [] = ([], 0, 0)"
  by code_simp


end
