(* ===== verification/Bench_Unit_Tests.thy ===== *)
theory Bench_Unit_Tests
  imports Receipts_Bench Internal_Txs_Bench State_Diff_Bench
begin

text \<open>
  The unit tests \<open>main_test.go\<close> of the receipts, internal-transactions and state-diff
  benchmarks, as theorems about their models. \<open>emit\<close> is applied to what the tests give it,
  the line it prints left aside; of \<open>getOrCreate\<close> the tests use the entry and the map.
\<close>

section \<open>The receipts benchmark\<close>

lemma receipts_TestSignPrefix:
  "Receipts_Bench.signPrefix (- 1) = ''''" "Receipts_Bench.signPrefix 0 = ''+''" "Receipts_Bench.signPrefix 1 = ''+''"
  by (simp_all add: Receipts_Bench.signPrefix_def)

lemma receipts_TestEmit:
  "snd (Receipts_Bench.emit 100 1000 1020 0 0 []) = (1, 0, [- 20])"
  "snd (Receipts_Bench.emit 100 1020 1000 0 0 []) = (1, 0, [20])"
  "snd (Receipts_Bench.emit 100 1000 1000 5 2 []) = (6, 2, [0])"
  "snd (Receipts_Bench.emit 2 200 190 1 0 (snd (snd (snd (Receipts_Bench.emit 1 100 110 0 0 []))))) = (2, 0, [- 10, 10])"
  by (simp_all add: Receipts_Bench.emit_def Let_def)

lemma receipts_TestGetOrCreate:
  "Receipts_Bench.partialArrival.grpcMs (fst (Receipts_Bench.getOrCreate Map.empty now 42)) = 0"
  "Receipts_Bench.partialArrival.rpcMs (fst (Receipts_Bench.getOrCreate Map.empty now 42)) = 0"
  "Receipts_Bench.partialArrival.since (fst (Receipts_Bench.getOrCreate Map.empty now 42)) = now"
  "42 \<in> dom (snd (Receipts_Bench.getOrCreate Map.empty now 42))"
  "Receipts_Bench.getOrCreate [99 \<mapsto> p] later 99 = (p, [99 \<mapsto> p])"
  "snd (Receipts_Bench.getOrCreate (snd (Receipts_Bench.getOrCreate Map.empty now 1)) later 2) 1 = Some (fst (Receipts_Bench.getOrCreate Map.empty now 1))"
  by (simp_all add: Receipts_Bench.getOrCreate_def Let_def)

section \<open>The internal-transactions benchmark\<close>

lemma internal_txs_TestSignPrefix:
  "Internal_Txs_Bench.signPrefix (- 1) = ''''" "Internal_Txs_Bench.signPrefix 0 = ''+''" "Internal_Txs_Bench.signPrefix 1 = ''+''"
  by (simp_all add: Internal_Txs_Bench.signPrefix_def)

lemma internal_txs_TestEmit:
  "snd (Internal_Txs_Bench.emit 100 0 0 1000 1020 0 0 []) = (1, 0, [- 20])"
  "snd (Internal_Txs_Bench.emit 100 0 0 1020 1000 0 0 []) = (1, 0, [20])"
  "snd (Internal_Txs_Bench.emit 100 0 0 1000 1000 5 2 []) = (6, 2, [0])"
  "snd (Internal_Txs_Bench.emit 2 0 0 200 190 1 0 (snd (snd (snd (Internal_Txs_Bench.emit 1 0 0 100 110 0 0 []))))) = (2, 0, [- 10, 10])"
  by (simp_all add: Internal_Txs_Bench.emit_def Let_def)

lemma internal_txs_TestGetOrCreate:
  "Internal_Txs_Bench.partialArrival.grpcMs (fst (Internal_Txs_Bench.getOrCreate Map.empty now 42)) = 0"
  "Internal_Txs_Bench.partialArrival.rpcMs (fst (Internal_Txs_Bench.getOrCreate Map.empty now 42)) = 0"
  "Internal_Txs_Bench.partialArrival.since (fst (Internal_Txs_Bench.getOrCreate Map.empty now 42)) = now"
  "42 \<in> dom (snd (Internal_Txs_Bench.getOrCreate Map.empty now 42))"
  "Internal_Txs_Bench.getOrCreate [99 \<mapsto> p] later 99 = (p, [99 \<mapsto> p])"
  "snd (Internal_Txs_Bench.getOrCreate (snd (Internal_Txs_Bench.getOrCreate Map.empty now 1)) later 2) 1 = Some (fst (Internal_Txs_Bench.getOrCreate Map.empty now 1))"
  by (simp_all add: Internal_Txs_Bench.getOrCreate_def Let_def)

section \<open>The state-diff benchmark\<close>

lemma state_diff_TestSignPrefix:
  "State_Diff_Bench.signPrefix (- 1) = ''''" "State_Diff_Bench.signPrefix 0 = ''+''" "State_Diff_Bench.signPrefix 1 = ''+''"
  by (simp_all add: State_Diff_Bench.signPrefix_def)

lemma state_diff_TestEmit:
  "snd (State_Diff_Bench.emit 100 0 1000 1020 0 0 []) = (1, 0, [- 20])"
  "snd (State_Diff_Bench.emit 100 0 1020 1000 0 0 []) = (1, 0, [20])"
  "snd (State_Diff_Bench.emit 100 0 1000 1000 5 2 []) = (6, 2, [0])"
  "snd (State_Diff_Bench.emit 2 0 200 190 1 0 (snd (snd (snd (State_Diff_Bench.emit 1 0 100 110 0 0 []))))) = (2, 0, [- 10, 10])"
  by (simp_all add: State_Diff_Bench.emit_def Let_def)

lemma state_diff_TestGetOrCreate:
  "State_Diff_Bench.partialArrival.grpcMs (fst (State_Diff_Bench.getOrCreate Map.empty now 42)) = 0"
  "State_Diff_Bench.partialArrival.rpcMs (fst (State_Diff_Bench.getOrCreate Map.empty now 42)) = 0"
  "State_Diff_Bench.partialArrival.since (fst (State_Diff_Bench.getOrCreate Map.empty now 42)) = now"
  "42 \<in> dom (snd (State_Diff_Bench.getOrCreate Map.empty now 42))"
  "State_Diff_Bench.getOrCreate [99 \<mapsto> p] later 99 = (p, [99 \<mapsto> p])"
  "snd (State_Diff_Bench.getOrCreate (snd (State_Diff_Bench.getOrCreate Map.empty now 1)) later 2) 1 = Some (fst (State_Diff_Bench.getOrCreate Map.empty now 1))"
  by (simp_all add: State_Diff_Bench.getOrCreate_def Let_def)

end
