(* ===== verification/Spec2Isabelle.thy ===== *)
theory Spec2Isabelle
  imports Verifier_Properties Latency_Properties Receipts_Properties Internal_Txs_Properties
    State_Diff_Properties Consumer_Properties Server_Properties
    Server_System_Properties Server_System_Verifier
    Latency_Served Receipts_Served Internal_Txs_Served State_Diff_Served Unit_Tests Bench_Unit_Tests
begin

text \<open>
  A verification library for \<open>reth-remote-exex\<close>, a reth execution extension that streams
  committed chain segments over gRPC (\<open>src/convert.rs\<close>, \<open>src/exex.rs\<close>), and its Go clients: the
  trace verifier (\<open>examples/go-trace-verifier\<close>), the four latency benchmarks
  (\<open>examples/go-*-bench\<close>) and the demonstration client (\<open>examples/go-consumer\<close>). All of them
  consume the messages of \<open>proto/exex.proto\<close> through the generated Go types. Paths are relative to \<open>src/\<close>.

  \<^bold>\<open>How the parts interact.\<close> The server broadcasts the node's notifications to a task per
  subscriber, which converts them, by the flags of the subscription, to the \<open>Notification\<close>s
  it sends its client. The trace verifier turns their
  call traces into work for a pool of goroutines that fetch the same traces by JSON-RPC and
  compare them; its exit code is the verdict. A benchmark runs two goroutines, one that reports
  the tip of every committed chain and one that reports the heads announced over WebSocket
  (after fetching data by JSON-RPC, except in the latency benchmark); its main loop pairs the
  two reports of a block and records the difference of their times. The client prints.

  \<^bold>\<open>Theories.\<close>
  \<^item> \<open>Go_Prelude\<close>, \<open>Go_Strings\<close>, \<open>Go_Hex\<close>, \<open>Go_Strconv\<close>, \<open>Go_Json_Text\<close>, \<open>Go_Json\<close>, \<open>Go_Flag\<close>: the parts of
    Go and its standard library the programs use. 64-bit integers are words read by \<open>sint\<close>
    or \<open>unat\<close>, instants are integers in nanoseconds, strings are character lists. Number
    formatting and parsing come with their round trips. JSON is modelled from its texts
    on: \<open>json_parse\<close> is the grammar of \<open>encoding/json\<close> with its nesting limit, \<open>json_Marshal\<close>
    writes values, parsing a written value gives it back (\<open>json_parse_Marshal\<close>), and the
    decoders into structs are definitions.
  \<^item> \<open>Exex_Pb\<close>: the generated message types with their resets and nil-safe getters.
  \<^item> \<open>Trace_Compare\<close>, \<open>Trace_Compare_Correct\<close>, \<open>Trace_Properties\<close>: \<open>compare.go\<close>. The relation
    \<open>frame_agrees\<close> says when a streamed trace and a fetched one denote the same data (byte
    strings up to case and the two spellings of empty, quantities by value); the locale
    \<open>field_normaliser\<close>, interpreted for the four kinds of field, is the contract under which
    comparing normal forms decides it. The lemmas show that no mismatch is reported exactly
    when the traces agree, that lines name the disagreeing transactions, and what is counted.
  \<^item> \<open>Trace_Rpc\<close>: \<open>rpc.go\<close>, with the decoders of the struct tags and their round trip.
    \<open>Trace_Reference\<close>: how an endpoint that traced the same execution spells a streamed trace;
    the locale \<open>rendered_field\<close> extends \<open>field_normaliser\<close>, and agreement with a rendering is
    equality of renderings.
  \<^item> \<open>Trace_Pipeline\<close>, \<open>Trace_Pipeline_Correct\<close>, \<open>Trace_Main\<close>, \<open>Pipeline_Properties\<close>:
    \<open>main.go\<close> of the verifier. The goroutines are the rules of the step relation \<open>pipe_step\<close>
    over the two bounded channels; a channel operation that panics in Go sets \<open>panicked\<close>.
    The invariants \<open>pipe_safe\<close> and \<open>accounts_for\<close> give safety and conservation, \<open>work_left\<close>
    decreases with every step, and \<open>pipe_progress\<close> excludes deadlock
    unless the endpoint leaves a request unanswered. Five steps per block,
    one per worker and three more bound every run. \<open>Verifier_Properties\<close> puts the parts
    together: against an endpoint that traced the same blocks, no run raises a false alarm.
  \<^item> \<open>Bench_Spec\<close>: the abstract matcher, what it promises, what of its result is
    independent of the interleaving, and how long a block waits (\<open>waiting_age\<close>). \<open>Bench_Loop\<close>: the locale \<open>two_sided_bench\<close>, which
    says that a main loop simulates the matcher, and its consequences for runs; the locale
    \<open>stats_reporter\<close> for the summary loop. \<open>Bench_Env\<close>: effects of the source goroutines and
    the locale \<open>receive_loop\<close>. \<open>Bench_System\<close>: goroutines, bounded channels and \<open>select\<close> loop
    under any schedule (\<open>sys_step\<close>), what they conserve, the work that every step but a tick
    or an interrupt uses up, and the locale \<open>bench_system\<close>, which extends \<open>two_sided_bench\<close>.
    \<open>Bench_Samples\<close>: concrete inputs.
  \<^item> \<open>Latency_\<close>, \<open>Receipts_\<close>, \<open>Internal_Txs_\<close>, \<open>State_Diff_\<close> with suffix \<open>Bench\<close> (\<open>main.go\<close>),
    \<open>Sources\<close> (\<open>grpc.go\<close>, \<open>ws.go\<close>), \<open>System\<close> (what \<open>main\<close> starts: \<open>launch\<close>, \<open>goroutines\<close>,
    \<open>system_step\<close>) and \<open>Properties\<close>: the four programs, each interpreting
    the locales on its own definitions. The definitions keep the Go names, so each program
    has its own \<open>emit\<close>, \<open>getOrCreate\<close>, \<open>printStats\<close>, \<open>main\<close>. One \<open>event\<close> is one ready case of
    the \<open>select\<close>; \<open>event_fair\<close> states what the runtime guarantees: a map is iterated over
    once, and no arrival is stamped with millisecond 0, the programs' mark for "not seen".
  \<^item> \<open>Go_Consumer\<close>, \<open>Consumer_Shown\<close>, \<open>Consumer_Properties\<close>: the demonstration client.
    \<open>Consumer_Shown\<close> gives what it shows of a notification as data (\<open>items\<close>) and the line of each
    item (\<open>show_item\<close>); the program prints exactly these lines, and no two items share one.
  \<^item> \<open>Reth_Types\<close>, \<open>Server_Convert\<close>, \<open>Server_Convert_Correct\<close>, \<open>Server_Read\<close>, \<open>Server_Stream\<close>,
    \<open>Server_Properties\<close>, \<open>Server_Samples\<close>: the server. The conversions of \<open>convert.rs\<close>, what
    the subscription flags select, and readers of the messages by the comments of
    \<open>exex.proto\<close> (\<open>read_notification\<close>), which give back the content of every notification; the ExEx loop
    (\<open>remote_exex\<close>) and the task of a subscriber (\<open>subscribe\<close>) of \<open>exex.rs\<close> over what the
    broadcast channel yields, whose documented behaviour is the predicate
    \<open>broadcast_channel\<close>. \<open>Grpc_Stub\<close>: the generated client stub.
  \<^item> \<open>Server_System\<close>, \<open>Server_System_Correct\<close>, \<open>Server_System_Properties\<close>: the running server of
    \<open>exex.rs\<close>. A state is what the ExEx loop has done and has to do and a list of subscribers,
    each with its view of the broadcast channel, the message its task is sending, the bounded
    channel to its connection and what its client has read; \<open>server_step\<close> interleaves the loop,
    new subscriptions and the \<open>client_step\<close>s of each subscriber. The invariant \<open>server_ok\<close> says
    that each subscriber's history is one \<open>broadcast_channel\<close> allows and that what it is sent
    is \<open>subscribe\<close> of it; \<open>clients_work\<close> bounds the steps between effects of the loop and subscriptions, and
    \<open>client_served\<close> shows that a client can be served without a step of another.
  \<^item> Server and clients together. \<open>Server_Verifier\<close>: the trace verifier passes on what the
    server streams, against the node's own spelling of its traces; \<open>Server_System_Verifier\<close>: as a
    client of the running server, from the node's notifications to the exit code. \<open>Server_Feed\<close>: the locale
    \<open>served_client\<close>, which extends \<open>receive_loop\<close> by what a gRPC goroutine makes of a converted
    notification; the four benchmarks interpret it with their own requests in
    \<open>Latency_Served\<close>, \<open>Receipts_Served\<close> (which also follows the whole benchmark on a served
    stream to its end), \<open>Internal_Txs_Served\<close> and \<open>State_Diff_Served\<close>.
  \<^item> \<open>Unit_Tests\<close>, \<open>Bench_Unit_Tests\<close>: the assertions of the repository's Go unit tests,
    proved of the models by evaluation.

  \<^bold>\<open>Arguments of the models.\<close> The gRPC, WebSocket and HTTP clients, the node and tokio's
  channels are not part of the repository (the two kinds of tokio channel appear in
  \<open>Server_System\<close> with their documented behaviour: \<open>recv\<close> of a receiver too far behind skips to
  the oldest value kept, \<open>send\<close> waits for room and fails once the receiver is dropped). Their results are arguments: connection outcomes,
  lists of received items, and functions or relations from requests to responses. The types
  of reth, revm and alloy are records and datatypes of what the server reads of them. The
  clock, the scheduler, and the order of map iteration are inputs of the events and steps. A
  goroutine that sees its context cancelled does so by a flag of the item it handles; the
  flags may be set whether or not the run contains an interrupt, so the systems allow more
  behaviours than the programs.

  \<^bold>\<open>Bounds.\<close> The JSON parser carries fuel, and the length of the text is enough of it
  (\<open>parse_value_fuel\<close>); all other recursions are structural or have a measure. Counters that
  Go keeps in \<open>int\<close> are words in the benchmarks, where theorems that read them as numbers
  assume fewer than 2 ^ 64 (or 2 ^ 63) events, and naturals in the verifier, where they count
  objects held in memory.

  \<^bold>\<open>Not modelled.\<close> The reflection boilerplate and descriptors of the generated files and the
  registration tables of the gRPC stub, which only call the runtime; the wire encoding
  between the Rust and the Go message types, which the protobuf runtimes do; the texts of
  third-party error values, which are arguments, and of the errors of \<open>encoding/json\<close> (the
  messages \<open>decode response\<close> of the verifier and \<open>ack parse failed\<close> of the benchmarks end before
  them); fields of reth's types the server does not read; the failure of \<open>make(chan ...)\<close> for a
  buffer too large for memory and of \<open>fmt\<close> for a width above a million; log lines of the verifier's workers and the
  connection messages of the benchmarks' goroutines relative to the main loop's output (each is
  modelled as an effect of its goroutine), and likewise of the server's tasks in
  \<open>Server_System\<close>; and non-ASCII case folding of JSON keys.
\<close>

end
